(* ===== verification/Prelude.thy ===== *)
theory Prelude
  imports
    "HOL-Library.Word"
    "HOL-Library.FSet"
    "HOL-Library.Finite_Map"
    "HOL-Library.List_Lexorder"
    "HOL-Library.Char_ord"
    "HOL-Library.Sublist"
begin

text \<open>
  What every component theory shares: fallible results and the two ways the source sequences
  them, checked machine arithmetic and durations. The standard-library functions on byte strings
  are in \<open>Rust_Text\<close>; ordered maps, first-match updates of vectors and the external functions that
  the model takes as parameters are in \<open>Rust_Collections\<close>.

  \<^item> \<open>Result<T, E>\<close> is the sum \<open>'e + 'a\<close>; \<open>r?\<close> is \<open>and_then\<close>.
  \<^item> A method on \<open>&mut self\<close> that can fail after it has written a field returns the pair of its
    result and the receiver as it is left behind; \<open>r?\<close> inside such a method is \<open>attempt\<close>, and
    \<open>self.f(..)?\<close> with a mutating \<open>f\<close> is \<open>then_with\<close>.
  \<^item> \<open>u64\<close>, \<open>u32\<close>, \<open>u16\<close> are words; \<open>i64\<close> values are integers with the range written out.
  \<^item> \<open>String\<close> is a list of bytes (its UTF-8 encoding), so \<open>len\<close> is \<open>length\<close>.
  \<^item> \<open>BTreeMap\<close> and \<open>BTreeSet\<close> are finite maps and finite sets over linearly ordered keys; their
    iteration order is the sorted list of their entries.
  \<^item> \<open>DateTime<Utc>\<close> is the number of nanoseconds since the epoch, an integer; a chrono
    \<open>Duration\<close> is an integer number of nanoseconds.
\<close>

section \<open>Machine types\<close>

type_synonym u64 = "64 word"
type_synonym u32 = "32 word"
type_synonym u16 = "16 word"
type_synonym i64 = int
type_synonym time = int
type_synonym duration = int

named_theorems result_simps \<open>evaluation of the result combinators\<close>

section \<open>Results\<close>

abbreviation Err :: "'e \<Rightarrow> 'e + 'a" where
  "Err \<equiv> Inl"

abbreviation Ok :: "'a \<Rightarrow> 'e + 'a" where
  "Ok \<equiv> Inr"

definition is_ok :: "'e + 'a \<Rightarrow> bool" where
  "is_ok r = (case r of Inl _ \<Rightarrow> False | Inr _ \<Rightarrow> True)"

abbreviation is_err :: "'e + 'a \<Rightarrow> bool" where
  "is_err r \<equiv> \<not> is_ok r"

definition and_then :: "'e + 'a \<Rightarrow> ('a \<Rightarrow> 'e + 'b) \<Rightarrow> 'e + 'b" where
  "and_then r k = (case r of Inl e \<Rightarrow> Inl e | Inr a \<Rightarrow> k a)"

definition map_err :: "('e \<Rightarrow> 'f) \<Rightarrow> 'e + 'a \<Rightarrow> 'f + 'a" where
  "map_err f r = (case r of Inl e \<Rightarrow> Inl (f e) | Inr a \<Rightarrow> Inr a)"

definition ok_or :: "'e \<Rightarrow> 'a option \<Rightarrow> 'e + 'a" where
  "ok_or e x = (case x of None \<Rightarrow> Inl e | Some a \<Rightarrow> Inr a)"

definition attempt :: "'e + 'b \<Rightarrow> 's \<Rightarrow> ('b \<Rightarrow> ('e + 'a) \<times> 's) \<Rightarrow> ('e + 'a) \<times> 's" where
  "attempt r s k = (case r of Inl e \<Rightarrow> (Inl e, s) | Inr b \<Rightarrow> k b)"

definition then_with :: "('e + 'a) \<times> 's \<Rightarrow> ('a \<Rightarrow> 's \<Rightarrow> ('e + 'b) \<times> 's) \<Rightarrow> ('e + 'b) \<times> 's" where
  "then_with rs k = (case fst rs of Inl e \<Rightarrow> (Inl e, snd rs) | Inr a \<Rightarrow> k a (snd rs))"

definition is_some_and :: "('a \<Rightarrow> bool) \<Rightarrow> 'a option \<Rightarrow> bool" where
  "is_some_and P x = (case x of None \<Rightarrow> False | Some a \<Rightarrow> P a)"

definition is_none_or :: "('a \<Rightarrow> bool) \<Rightarrow> 'a option \<Rightarrow> bool" where
  "is_none_or P x = (case x of None \<Rightarrow> True | Some a \<Rightarrow> P a)"

lemma is_ok_simps [simp]: "\<not> is_ok (Err e)" "is_ok (Ok a)"
  by (simp_all add: is_ok_def)

lemma is_ok_iff: "is_ok r \<longleftrightarrow> (\<exists>a. r = Ok a)"
  by (cases r) simp_all

lemma and_then_simps [simp]: "and_then (Err e) k = Err e" "and_then (Ok a) k = k a"
  by (simp_all add: and_then_def)

lemma and_then_eq_Ok [simp]: "and_then r k = Ok b \<longleftrightarrow> (\<exists>a. r = Ok a \<and> k a = Ok b)"
  by (cases r) simp_all

lemma ok_or_simps [simp]: "ok_or e None = Err e" "ok_or e (Some a) = Ok a"
  by (simp_all add: ok_or_def)

lemma ok_or_eq_Ok [simp]: "ok_or e x = Ok a \<longleftrightarrow> x = Some a"
  by (cases x) simp_all

lemma map_err_simps [simp]: "map_err f (Err e) = Err (f e)" "map_err f (Ok a) = Ok a"
  by (simp_all add: map_err_def)

lemma map_err_eq_Ok [simp]: "map_err f r = Ok a \<longleftrightarrow> r = Ok a"
  by (cases r) simp_all

lemma attempt_simps [simp]: "attempt (Err e) s k = (Err e, s)" "attempt (Ok b) s k = k b"
  by (simp_all add: attempt_def)

lemma attempt_eq_Ok [simp]:
  "attempt r s k = (Ok a, s') \<longleftrightarrow> (\<exists>b. r = Ok b \<and> k b = (Ok a, s'))"
  by (cases r) simp_all

lemma then_with_simps [simp]:
  "then_with (Err e, s) k = (Err e, s)" "then_with (Ok a, s) k = k a s"
  by (simp_all add: then_with_def)

lemma then_with_eq_Ok [simp]:
  "then_with rs k = (Ok b, s') \<longleftrightarrow> (\<exists>a s. rs = (Ok a, s) \<and> k a s = (Ok b, s'))"
  by (cases rs; cases "fst rs") (auto simp: then_with_def)

lemma attempt_eq_Err [result_simps]:
  "attempt r s k = (Err e, s') \<longleftrightarrow> (r = Err e \<and> s' = s) \<or> (\<exists>b. r = Ok b \<and> k b = (Err e, s'))"
  by (cases r) auto

lemma then_with_eq_Err [result_simps]:
  "then_with rs k = (Err e, s') \<longleftrightarrow>
     rs = (Err e, s') \<or> (\<exists>a s. rs = (Ok a, s) \<and> k a s = (Err e, s'))"
  by (cases rs; cases "fst rs") (auto simp: then_with_def)

lemma ok_or_eq_Err [result_simps]: "ok_or e x = Err e' \<longleftrightarrow> x = None \<and> e' = e"
  by (cases x) auto

lemma and_then_eq_Err [result_simps]:
  "and_then r k = Err e \<longleftrightarrow> r = Err e \<or> (\<exists>a. r = Ok a \<and> k a = Err e)"
  by (cases r) simp_all

lemma is_some_and_simps [simp]: "\<not> is_some_and P None" "is_some_and P (Some a) = P a"
  by (simp_all add: is_some_and_def)

lemma is_none_or_simps [simp]: "is_none_or P None" "is_none_or P (Some a) = P a"
  by (simp_all add: is_none_or_def)

lemma is_some_and_iff: "is_some_and P x \<longleftrightarrow> (\<exists>a. x = Some a \<and> P a)"
  by (cases x) simp_all

lemma is_none_or_iff: "is_none_or P x \<longleftrightarrow> (\<forall>a. x = Some a \<longrightarrow> P a)"
  by (cases x) simp_all

text \<open>An early return \<open>if c { return Err(e) }\<close> is an \<open>if\<close> whose first branch is the error.\<close>

lemma if_Err_eq_Ok [simp]: "(if c then Err e else r) = Ok a \<longleftrightarrow> \<not> c \<and> r = Ok a"
  by simp

lemma if_Err_state_eq_Ok [simp]:
  "(if c then (Err e, s) else r) = (Ok a, s') \<longleftrightarrow> \<not> c \<and> r = (Ok a, s')"
  by simp

text \<open>A \<open>for\<close> loop whose body may return early with an error.\<close>

fun for_each :: "('a \<Rightarrow> 'e + unit) \<Rightarrow> 'a list \<Rightarrow> 'e + unit" where
  "for_each f [] = Ok ()"
| "for_each f (x # xs) = and_then (f x) (\<lambda>_. for_each f xs)"

lemma for_each_Ok [simp]: "for_each f xs = Ok () \<longleftrightarrow> (\<forall>x \<in> set xs. f x = Ok ())"
  by (induction xs) auto

section \<open>Checked arithmetic\<close>

definition checked_add :: "'l::len word \<Rightarrow> 'l word \<Rightarrow> 'l word option" where
  "checked_add a b = (if unat a + unat b < 2 ^ LENGTH('l) then Some (a + b) else None)"

definition saturating_add :: "'l::len word \<Rightarrow> 'l word \<Rightarrow> 'l word" where
  "saturating_add a b = (if unat a + unat b < 2 ^ LENGTH('l) then a + b else - 1)"

definition saturating_sub :: "'l::len word \<Rightarrow> 'l word \<Rightarrow> 'l word" where
  "saturating_sub a b = (if b \<le> a then a - b else 0)"

definition in_i64 :: "int \<Rightarrow> bool" where
  "in_i64 x \<longleftrightarrow> - (2 ^ 63) \<le> x \<and> x < 2 ^ 63"

definition checked_i64 :: "int \<Rightarrow> i64 option" where
  "checked_i64 x = (if in_i64 x then Some x else None)"

definition u64_to_i64 :: "u64 \<Rightarrow> i64 option" where
  "u64_to_i64 n = checked_i64 (uint n)"

definition usize_to_u64 :: "nat \<Rightarrow> u64 option" where
  "usize_to_u64 n = (if n < 2 ^ 64 then Some (of_nat n) else None)"

definition usize_to_u32 :: "nat \<Rightarrow> u32 option" where
  "usize_to_u32 n = (if n < 2 ^ 32 then Some (of_nat n) else None)"

lemma unat_less_64: "unat (w :: u64) < 2 ^ 64"
  using unsigned_less [of w] by simp

lemma checked_add_SomeD:
  fixes a b c :: "'l::len word"
  assumes "checked_add a b = Some c"
  shows "unat c = unat a + unat b" and "c = a + b"
  using assms by (auto simp: checked_add_def unat_word_ariths split: if_splits)

lemma checked_add_one_Some:
  fixes a c :: u64
  assumes "checked_add a 1 = Some c"
  shows "unat c = Suc (unat a)" and "c = a + 1" and "c \<noteq> 0" and "a < c"
proof -
  show u: "unat c = Suc (unat a)"
    using checked_add_SomeD(1) [OF assms] by simp
  show "c = a + 1"
    using checked_add_SomeD(2) [OF assms] .
  show "c \<noteq> 0"
    using u by (metis nat.simps(3) unat_0)
  show "a < c"
    using u by (simp add: word_less_nat_alt)
qed

lemma saturating_sub_unat:
  fixes a b :: "'l::len word"
  shows "unat (saturating_sub a b) = unat a - unat b"
  by (auto simp: saturating_sub_def unat_sub word_le_nat_alt)

lemma checked_i64_eq_Some [simp]: "checked_i64 x = Some y \<longleftrightarrow> in_i64 x \<and> y = x"
  by (auto simp: checked_i64_def)

lemma usize_to_u64_SomeD:
  assumes "usize_to_u64 n = Some w"
  shows "unat w = n"
  using assms by (auto simp: usize_to_u64_def unat_of_nat split: if_splits)

lemma usize_to_u32_SomeD:
  assumes "usize_to_u32 n = Some w"
  shows "unat w = n"
  using assms by (auto simp: usize_to_u32_def unat_of_nat split: if_splits)

text \<open>\<open>Duration::num_seconds\<close>: whole seconds, truncated towards zero.\<close>

definition nanos_per_second :: int where
  "nanos_per_second = 1000000000"

definition seconds :: "int \<Rightarrow> duration" where
  "seconds n = n * nanos_per_second"

definition num_seconds :: "duration \<Rightarrow> int" where
  "num_seconds d = (if 0 \<le> d then d div nanos_per_second else - ((- d) div nanos_per_second))"

lemma seconds_le [simp]: "seconds a \<le> seconds b \<longleftrightarrow> a \<le> b" "seconds a < seconds b \<longleftrightarrow> a < b"
  by (simp_all add: seconds_def nanos_per_second_def)

lemma seconds_add [simp]: "seconds a + seconds b = seconds (a + b)"
  by (simp add: seconds_def nanos_per_second_def)

lemma seconds_nonneg [simp]: "0 \<le> seconds a \<longleftrightarrow> 0 \<le> a"
  by (simp add: seconds_def nanos_per_second_def zero_le_mult_iff)

lemma num_seconds_nonneg: "0 \<le> d \<Longrightarrow> num_seconds d = d div nanos_per_second"
  by (simp add: num_seconds_def)

lemma num_seconds_seconds [simp]: "num_seconds (seconds n) = n"
  by (auto simp: num_seconds_def seconds_def nanos_per_second_def)

lemma find_append: "find P (xs @ ys) = (case find P xs of None \<Rightarrow> find P ys | Some x \<Rightarrow> Some x)"
  by (induction xs) simp_all

end
