(* ===== verification/Rust_Text.thy ===== *)
theory Rust_Text
  imports Prelude
begin

text \<open>
  Byte strings: the standard-library text functions the domain kernel calls (\<open>str::trim\<close> with
  Unicode white space, ASCII classes, \<open>split\<close>, \<open>char::is_control\<close>, decimal printing) and the
  length-prefixed hash framing of \<open>mission.rs\<close> (\<open>hash_field\<close>, \<open>hash_optional\<close>), with the lemmas
  that the framing can be read back in only one way.
\<close>

section \<open>White space and trimming\<close>

definition byte :: "char \<Rightarrow> nat" where
  "byte c = of_char c"

text \<open>
  The UTF-8 encodings of the code points with the property \<open>White_Space\<close>: U+0009 to U+000D and
  U+0020 in one byte, U+0085 and U+00A0 in two, U+1680, U+2000 to U+200A, U+2028, U+2029, U+202F,
  U+205F and U+3000 in three.
\<close>

definition ws1 :: "char \<Rightarrow> bool" where
  "ws1 a \<longleftrightarrow> (9 \<le> byte a \<and> byte a \<le> 13) \<or> byte a = 32"

definition ws2 :: "char \<Rightarrow> char \<Rightarrow> bool" where
  "ws2 a b \<longleftrightarrow> byte a = 194 \<and> (byte b = 133 \<or> byte b = 160)"

definition ws3 :: "char \<Rightarrow> char \<Rightarrow> char \<Rightarrow> bool" where
  "ws3 a b c \<longleftrightarrow>
     (byte a = 225 \<and> byte b = 154 \<and> byte c = 128) \<or>
     (byte a = 226 \<and> byte b = 128 \<and>
        ((128 \<le> byte c \<and> byte c \<le> 138) \<or> byte c = 168 \<or> byte c = 169 \<or> byte c = 175)) \<or>
     (byte a = 226 \<and> byte b = 129 \<and> byte c = 159) \<or>
     (byte a = 227 \<and> byte b = 128 \<and> byte c = 128)"

fun trim_start :: "string \<Rightarrow> string" where
  "trim_start [] = []"
| "trim_start (a # s) =
     (if ws1 a then trim_start s
      else case s of
        [] \<Rightarrow> [a]
      | b # s' \<Rightarrow>
          if ws2 a b then trim_start s'
          else (case s' of
              [] \<Rightarrow> [a, b]
            | c # s'' \<Rightarrow> if ws3 a b c then trim_start s'' else a # b # c # s''))"

text \<open>The same from the other end, over the reversed bytes.\<close>

fun trim_rev :: "string \<Rightarrow> string" where
  "trim_rev [] = []"
| "trim_rev (a # s) =
     (if ws1 a then trim_rev s
      else case s of
        [] \<Rightarrow> [a]
      | b # s' \<Rightarrow>
          if ws2 b a then trim_rev s'
          else (case s' of
              [] \<Rightarrow> [a, b]
            | c # s'' \<Rightarrow> if ws3 c b a then trim_rev s'' else a # b # c # s''))"

definition trim :: "string \<Rightarrow> string" where
  "trim s = rev (trim_rev (rev (trim_start s)))"

text \<open>\<open>s.trim().is_empty()\<close>.\<close>

definition blank :: "string \<Rightarrow> bool" where
  "blank s \<longleftrightarrow> trim s = []"

lemma blank_Nil [simp]: "blank []"
  by (simp add: blank_def trim_def)

section \<open>Character classes\<close>

definition is_ascii_uppercase :: "char \<Rightarrow> bool" where
  "is_ascii_uppercase c \<longleftrightarrow> 65 \<le> byte c \<and> byte c \<le> 90"

definition is_ascii_digit :: "char \<Rightarrow> bool" where
  "is_ascii_digit c \<longleftrightarrow> 48 \<le> byte c \<and> byte c \<le> 57"

definition is_ascii_alphanumeric :: "char \<Rightarrow> bool" where
  "is_ascii_alphanumeric c \<longleftrightarrow>
     is_ascii_digit c \<or> is_ascii_uppercase c \<or> (97 \<le> byte c \<and> byte c \<le> 122)"

definition is_ascii_hexdigit :: "char \<Rightarrow> bool" where
  "is_ascii_hexdigit c \<longleftrightarrow>
     is_ascii_digit c \<or> (65 \<le> byte c \<and> byte c \<le> 70) \<or> (97 \<le> byte c \<and> byte c \<le> 102)"

lemmas char_class_defs =
  byte_def ws1_def ws2_def ws3_def is_ascii_uppercase_def is_ascii_digit_def
  is_ascii_alphanumeric_def is_ascii_hexdigit_def

definition is_sha256 :: "string \<Rightarrow> bool" where
  "is_sha256 value \<longleftrightarrow> length value = 64 \<and> list_all is_ascii_hexdigit value"

text \<open>\<open>s.chars().any(char::is_control)\<close>: U+0000 to U+001F, U+007F, and U+0080 to U+009F in two bytes.\<close>

fun has_control :: "string \<Rightarrow> bool" where
  "has_control [] = False"
| "has_control (a # s) =
     (byte a < 32 \<or> byte a = 127 \<or>
      (byte a = 194 \<and> (case s of [] \<Rightarrow> False | b # _ \<Rightarrow> 128 \<le> byte b \<and> byte b \<le> 159)) \<or>
      has_control s)"

text \<open>\<open>s.split(c)\<close>: the pieces between the separators, the empty ones included.\<close>

fun split_on :: "char \<Rightarrow> string \<Rightarrow> string list" where
  "split_on c [] = [[]]"
| "split_on c (a # s) =
     (if a = c then [] # split_on c s
      else case split_on c s of [] \<Rightarrow> [[a]] | p # ps \<Rightarrow> (a # p) # ps)"

lemma split_on_not_Nil [simp]: "split_on c s \<noteq> []"
  by (induction s) (auto split: list.splits)

section \<open>Decimal printing\<close>

definition digit :: "nat \<Rightarrow> char" where
  "digit d = char_of (48 + d)"

fun dec :: "nat \<Rightarrow> string" where
  "dec n = (if n < 10 then [digit n] else dec (n div 10) @ [digit (n mod 10)])"

declare dec.simps [simp del]

definition dec_u64 :: "u64 \<Rightarrow> string" where
  "dec_u64 n = dec (unat n)"

definition dec_u32 :: "u32 \<Rightarrow> string" where
  "dec_u32 n = dec (unat n)"

definition dec_i64 :: "i64 \<Rightarrow> string" where
  "dec_i64 z = (if z < 0 then CHR ''-'' # dec (nat (- z)) else dec (nat z))"

definition undigit :: "char \<Rightarrow> nat" where
  "undigit c = byte c - 48"

definition undec :: "string \<Rightarrow> nat" where
  "undec s = foldl (\<lambda>n c. 10 * n + undigit c) 0 s"

lemma undigit_digit: "d < 10 \<Longrightarrow> undigit (digit d) = d"
  by (simp add: undigit_def digit_def byte_def of_char_of)

lemma undec_dec: "undec (dec n) = n"
proof (induction n rule: dec.induct)
  case (1 n)
  show ?case
  proof (cases "n < 10")
    case True
    then show ?thesis
      by (simp add: dec.simps [of n] undec_def undigit_digit)
  next
    case False
    then have "undec (dec (n div 10)) = n div 10"
      by (rule "1.IH")
    with False show ?thesis
      by (simp add: dec.simps [of n] undec_def undigit_digit)
  qed
qed

lemma dec_inject [simp]: "dec m = dec n \<longleftrightarrow> m = n"
  using undec_dec by metis

lemma dec_u64_inject [simp]: "dec_u64 m = dec_u64 n \<longleftrightarrow> m = n"
  by (simp add: dec_u64_def word_unat_eq_iff)

lemma digit_not_minus: "d < 10 \<Longrightarrow> digit d \<noteq> CHR ''-''"
proof -
  assume "d < 10"
  then have "byte (digit d) = 48 + d"
    by (simp add: digit_def byte_def of_char_of)
  then show ?thesis
    by (auto simp: byte_def)
qed

lemma dec_chars: "c \<in> set (dec n) \<Longrightarrow> \<exists>d<10. c = digit d"
proof (induction n rule: dec.induct)
  case (1 n)
  moreover have "\<exists>d<10. digit (n mod 10) = digit d"
    by (rule exI [of _ "n mod 10"]) simp
  ultimately show ?case
    by (cases "n < 10") (auto simp: dec.simps [of n])
qed

lemma dec_not_minus: "dec n \<noteq> CHR ''-'' # s"
proof
  assume "dec n = CHR ''-'' # s"
  then have "CHR ''-'' \<in> set (dec n)"
    by simp
  then obtain d where "d < 10" and "CHR ''-'' = digit d"
    using dec_chars by blast
  then show False
    using digit_not_minus by metis
qed

lemma dec_i64_inject [simp]: "dec_i64 x = dec_i64 y \<longleftrightarrow> x = y"
proof -
  have "dec (nat x) \<noteq> CHR ''-'' # s" for x :: int and s
    by (rule dec_not_minus)
  then show ?thesis
    by (auto simp: dec_i64_def) (metis dec_not_minus)
qed

section \<open>Length-prefixed hash framing\<close>

fun be_bytes :: "nat \<Rightarrow> nat \<Rightarrow> string" where
  "be_bytes 0 n = []"
| "be_bytes (Suc k) n = be_bytes k (n div 256) @ [char_of (n mod 256)]"

text \<open>\<open>usize::to_be_bytes\<close> on a 64-bit target.\<close>

definition hash_field :: "string \<Rightarrow> string" where
  "hash_field value = be_bytes 8 (length value) @ value"

text \<open>\<open>hash_optional\<close> hashes one or two fields; it is kept as the list of the fields.\<close>

definition hash_optional :: "string option \<Rightarrow> string list" where
  "hash_optional value =
     (case value of Some v \<Rightarrow> [''some'', v] | None \<Rightarrow> [''none''])"

definition hash_stream :: "string list \<Rightarrow> string" where
  "hash_stream fields = concat (map hash_field fields)"

lemma length_be_bytes [simp]: "length (be_bytes k n) = k"
  by (induction k arbitrary: n) simp_all

lemma hash_field_nonempty: "hash_field v \<noteq> []"
  using length_be_bytes [of 8 "length v"] by (auto simp: hash_field_def simp del: length_be_bytes)

lemma be_bytes_inject:
  assumes "be_bytes k m = be_bytes k n" and "m < 256 ^ k" and "n < 256 ^ k"
  shows "m = n"
  using assms
proof (induction k arbitrary: m n)
  case 0
  then show ?case by simp
next
  case (Suc k)
  from Suc.prems(1) have front: "be_bytes k (m div 256) = be_bytes k (n div 256)"
    and low: "char_of (m mod 256) = (char_of (n mod 256) :: char)"
    by simp_all
  from Suc.prems(2,3) have "m div 256 < 256 ^ k" and "n div 256 < 256 ^ k"
    by (simp_all add: less_mult_imp_div_less mult.commute)
  with front have "m div 256 = n div 256"
    by (rule Suc.IH)
  moreover have "m mod 256 = n mod 256"
    using arg_cong [OF low, of "of_char :: char \<Rightarrow> nat"] by (simp add: of_char_of)
  ultimately show ?case
    by (metis div_mult_mod_eq)
qed

lemma hash_field_append_inject:
  assumes "hash_field v @ s = hash_field w @ t"
    and "length v < 2 ^ 64" and "length w < 2 ^ 64"
  shows "v = w \<and> s = t"
proof -
  have "be_bytes 8 (length v) = be_bytes 8 (length w)" and rest: "v @ s = w @ t"
    using assms(1) by (simp_all add: hash_field_def)
  then have "length v = length w"
    using assms(2,3) by (intro be_bytes_inject [of 8]) simp_all
  with rest show ?thesis
    by simp
qed

text \<open>The framing of a list of fields is injective: the hashed bytes determine every field.\<close>

lemma hash_stream_inject:
  assumes "hash_stream xs = hash_stream ys"
    and "\<forall>v \<in> set xs. length v < 2 ^ 64" and "\<forall>v \<in> set ys. length v < 2 ^ 64"
  shows "xs = ys"
  using assms
proof (induction xs arbitrary: ys)
  case Nil
  then show ?case
    by (cases ys) (auto simp: hash_stream_def hash_field_nonempty)
next
  case (Cons x xs)
  show ?case
  proof (cases ys)
    case Nil
    with Cons.prems show ?thesis
      by (simp add: hash_stream_def hash_field_nonempty)
  next
    case (Cons y zs)
    with Cons.prems have "hash_field x @ hash_stream xs = hash_field y @ hash_stream zs"
      by (simp add: hash_stream_def)
    with Cons Cons.prems have "x = y \<and> hash_stream xs = hash_stream zs"
      by (intro hash_field_append_inject) simp_all
    with Cons Cons.prems Cons.IH [of zs] show ?thesis
      by simp
  qed
qed

end
