(* ===== verification/Rust_Collections.thy ===== *)
theory Rust_Collections
  imports Rust_Text
begin

text \<open>
  Vectors updated through the first match of an iterator, and the ordered iteration of
  \<open>BTreeMap\<close>. The counting lemmas turn \<open>values().filter(p).count()\<close> into the cardinality of a set
  of keys, which is what the invariants of the components talk about.
\<close>

section \<open>First-match updates of vectors\<close>

text \<open>\<open>xs.iter_mut().find(p)\<close> followed by a write through the reference.\<close>

fun update_first :: "('a \<Rightarrow> bool) \<Rightarrow> ('a \<Rightarrow> 'a) \<Rightarrow> 'a list \<Rightarrow> 'a list" where
  "update_first p f [] = []"
| "update_first p f (x # xs) = (if p x then f x # xs else x # update_first p f xs)"

lemma length_update_first [simp]: "length (update_first p f xs) = length xs"
  by (induction xs) simp_all

lemma update_first_eq_Nil [simp]: "update_first p f xs = [] \<longleftrightarrow> xs = []"
  by (cases xs) simp_all

lemma update_first_none: "find p xs = None \<Longrightarrow> update_first p f xs = xs"
  by (induction xs) (auto split: if_splits)

lemma update_first_split:
  assumes "find p xs = Some x"
  obtains ys zs where "xs = ys @ x # zs" and "\<forall>y \<in> set ys. \<not> p y" and "p x"
    and "update_first p f xs = ys @ f x # zs"
  using assms
proof (induction xs arbitrary: thesis)
  case Nil
  then show ?case by simp
next
  case (Cons a xs)
  show ?case
  proof (cases "p a")
    case True
    with Cons.prems(2) have "x = a" by simp
    with True show ?thesis
      using Cons.prems(1) [of "[]" xs] by simp
  next
    case False
    with Cons.prems(2) have "find p xs = Some x" by simp
    then obtain ys zs where "xs = ys @ x # zs" "\<forall>y \<in> set ys. \<not> p y" "p x"
      "update_first p f xs = ys @ f x # zs"
      using Cons.IH by blast
    with False show ?thesis
      using Cons.prems(1) [of "a # ys" zs] by simp
  qed
qed

lemma set_update_first:
  "find p xs = Some x \<Longrightarrow> set (update_first p f xs) \<subseteq> insert (f x) (set xs)"
  by (erule update_first_split [where f = f]) auto

lemma find_update_first:
  assumes "find p xs = Some x" and "p (f x)"
  shows "find p (update_first p f xs) = Some (f x)"
  using assms by (induction xs) (auto split: if_splits)

lemma map_update_first:
  assumes "\<And>x. p x \<Longrightarrow> x \<in> set xs \<Longrightarrow> h (f x) = h x"
  shows "map h (update_first p f xs) = map h xs"
  using assms by (induction xs) auto

lemma find_SomeD: "find p xs = Some x \<Longrightarrow> x \<in> set xs \<and> p x"
  by (induction xs) (auto split: if_splits)

lemma find_eq_None_iff: "find p xs = None \<longleftrightarrow> (\<forall>x \<in> set xs. \<not> p x)"
  by (induction xs) auto

lemma find_distinct_key:
  assumes "distinct (map h xs)" and "x \<in> set xs"
  shows "find (\<lambda>y. h y = h x) xs = Some x"
  using assms by (induction xs) (auto simp: image_iff)

section \<open>Ordered iteration of maps\<close>

definition bt_values :: "('k::linorder, 'v) fmap \<Rightarrow> 'v list" where
  "bt_values m = map snd (sorted_list_of_fmap m)"

definition bt_keys :: "('k::linorder, 'v) fmap \<Rightarrow> 'k list" where
  "bt_keys m = sorted_list_of_fset (fmdom m)"

definition bt_len :: "('k, 'v) fmap \<Rightarrow> nat" where
  "bt_len m = fcard (fmdom m)"

definition contains_key :: "('k, 'v) fmap \<Rightarrow> 'k \<Rightarrow> bool" where
  "contains_key m k \<longleftrightarrow> fmlookup m k \<noteq> None"

definition key_set :: "('v \<Rightarrow> bool) \<Rightarrow> ('k, 'v) fmap \<Rightarrow> 'k set" where
  "key_set P m = {k. \<exists>v. fmlookup m k = Some v \<and> P v}"

lemma bt_values_alt: "bt_values m = map (\<lambda>k. the (fmlookup m k)) (sorted_list_of_fset (fmdom m))"
  by (simp add: bt_values_def sorted_list_of_fmap_def)

lemma set_bt_keys [simp]: "set (bt_keys m) = fset (fmdom m)"
  by (simp add: bt_keys_def)

lemma set_bt_values: "set (bt_values m) = {v. \<exists>k. fmlookup m k = Some v}"
proof -
  have "set (bt_values m) = {the (fmlookup m k) |k. k |\<in>| fmdom m}"
    by (auto simp: bt_values_alt)
  also have "\<dots> = {v. \<exists>k. fmlookup m k = Some v}"
    by (auto simp: fmlookup_dom_iff) (metis option.sel)
  finally show ?thesis .
qed

lemma bt_values_ball [simp]:
  "(\<forall>v \<in> set (bt_values m). P v) \<longleftrightarrow> (\<forall>k v. fmlookup m k = Some v \<longrightarrow> P v)"
  by (auto simp: set_bt_values)

lemma bt_values_bex [simp]:
  "(\<exists>v \<in> set (bt_values m). P v) \<longleftrightarrow> (\<exists>k v. fmlookup m k = Some v \<and> P v)"
  by (auto simp: set_bt_values)

lemma list_ex_bt_values [simp]:
  "list_ex P (bt_values m) \<longleftrightarrow> (\<exists>k v. fmlookup m k = Some v \<and> P v)"
  by (simp add: list_ex_iff)

lemma contains_key_fmupd [simp]: "contains_key (fmupd k v m) k' \<longleftrightarrow> k' = k \<or> contains_key m k'"
  by (auto simp: contains_key_def)

lemma contains_keyI: "fmlookup m k = Some v \<Longrightarrow> contains_key m k"
  by (simp add: contains_key_def)

lemma finite_key_set [simp]: "finite (key_set P m)"
proof -
  have "key_set P m \<subseteq> fset (fmdom m)"
    by (auto simp: key_set_def fmlookup_dom_iff)
  then show ?thesis
    by (rule finite_subset) simp
qed

lemma length_filter_bt_values: "length (filter P (bt_values m)) = card (key_set P m)"
proof -
  let ?ks = "sorted_list_of_fset (fmdom m)"
  have "length (filter P (bt_values m)) = length (filter (\<lambda>k. P (the (fmlookup m k))) ?ks)"
    by (simp add: bt_values_alt filter_map comp_def)
  also have "\<dots> = card (set (filter (\<lambda>k. P (the (fmlookup m k))) ?ks))"
    by (rule distinct_card [symmetric]) (simp add: sorted_list_of_fset.rep_eq)
  also have "set (filter (\<lambda>k. P (the (fmlookup m k))) ?ks) = key_set P m"
    by (auto simp: key_set_def fmlookup_dom_iff)
  finally show ?thesis .
qed

lemma key_set_fmupd:
  "key_set P (fmupd k v m) = (if P v then insert k (key_set P m) else key_set P m - {k})"
  by (auto simp: key_set_def split: if_splits)

lemma key_set_mono: "(\<And>v. P v \<Longrightarrow> Q v) \<Longrightarrow> key_set P m \<subseteq> key_set Q m"
  by (auto simp: key_set_def)

lemma key_set_iff [simp]: "k \<in> key_set P m \<longleftrightarrow> (\<exists>v. fmlookup m k = Some v \<and> P v)"
  by (simp add: key_set_def)

lemma bt_len_card: "bt_len m = card (fmdom' m)"
  by (simp add: bt_len_def fcard.rep_eq fmdom'_alt_def)

lemma bt_len_fmupd: "bt_len (fmupd k v m) = (if contains_key m k then bt_len m else Suc (bt_len m))"
  by (auto simp: bt_len_card contains_key_def fmlookup_dom'_iff card_insert_if)

lemma card_key_set_le_len: "card (key_set P m) \<le> bt_len m"
proof -
  have "key_set P m \<subseteq> fmdom' m"
    by (auto simp: fmlookup_dom'_iff)
  then show ?thesis
    by (simp add: bt_len_card card_mono)
qed

section \<open>External functions\<close>

text \<open>
  Code outside the repository that the domain kernel calls. \<open>sha256\<close> is the lower-case hexadecimal
  SHA-256 digest of a byte string, \<open>rfc3339\<close> is \<open>DateTime::to_rfc3339\<close>, \<open>add_signed\<close> is
  \<open>DateTime::checked_add_signed\<close>, and \<open>dur_seconds\<close> is \<open>Duration::seconds\<close>, which panics on a
  number of seconds it cannot represent: there the model has \<open>None\<close>.
\<close>

record ext =
  sha256 :: "string \<Rightarrow> string"
  rfc3339 :: "time \<Rightarrow> string"
  add_signed :: "time \<Rightarrow> duration \<Rightarrow> time option"
  dur_seconds :: "int \<Rightarrow> duration option"

text \<open>
  chrono documents \<open>checked_add_signed\<close> as the exact sum, \<open>None\<close> where it is out of range, and
  \<open>Duration::seconds\<close> as the exact number of seconds, with a panic beyond \<open>i64::MAX / 1000\<close>.
\<close>

definition chrono_exact :: "('a ext_scheme) \<Rightarrow> bool" where
  "chrono_exact X \<longleftrightarrow>
     (\<forall>t d u. add_signed X t d = Some u \<longrightarrow> u = t + d) \<and>
     (\<forall>n d. dur_seconds X n = Some d \<longrightarrow> d = seconds n)"

lemma chrono_exactD:
  assumes "chrono_exact X"
  shows "add_signed X t d = Some u \<Longrightarrow> u = t + d"
    and "dur_seconds X n = Some d \<Longrightarrow> d = seconds n"
  using assms by (simp_all add: chrono_exact_def)

definition chrono_total :: "('a ext_scheme) \<Rightarrow> bool" where
  "chrono_total X \<longleftrightarrow> (\<forall>n. \<bar>n\<bar> \<le> (2 ^ 63 - 1) div 1000 \<longrightarrow> dur_seconds X n \<noteq> None)"

lemma chrono_totalD: "chrono_total X \<Longrightarrow> \<bar>n\<bar> \<le> (2 ^ 63 - 1) div 1000 \<Longrightarrow> \<exists>d. dur_seconds X n = Some d"
  by (simp add: chrono_total_def)

text \<open>A SHA-256 digest printed in hexadecimal has 64 digits.\<close>

definition sha256_hex :: "('a ext_scheme) \<Rightarrow> bool" where
  "sha256_hex X \<longleftrightarrow> (\<forall>m. is_sha256 (sha256 X m))"

text \<open>A concrete instance, on which the hypotheses of the properties are shown to hold together.\<close>

definition sample_ext :: ext where
  "sample_ext =
     \<lparr>sha256 = (\<lambda>_. replicate 64 (CHR ''0'')), rfc3339 = dec_i64, add_signed = (\<lambda>t d. Some (t + d)),
      dur_seconds = (\<lambda>n. if \<bar>n\<bar> \<le> (2 ^ 63 - 1) div 1000 then Some (seconds n) else None)\<rparr>"

lemma sample_ext_chrono: "chrono_exact sample_ext" "chrono_total sample_ext"
  by (simp_all add: sample_ext_def chrono_exact_def chrono_total_def)

lemma sample_ext_sha256: "sha256_hex sample_ext"
proof -
  have "is_sha256 (replicate 64 (CHR ''0''))"
    by code_simp
  then show ?thesis
    by (simp add: sample_ext_def sha256_hex_def)
qed

end
