(* ===== verification/Interfaces.thy ===== *)
theory Interfaces
  imports Prelude
begin

text \<open>
  Contracts that several aggregates of the domain kernel share, stated as locales. Every aggregate
  carries a \<open>revision\<close> that its mutating commands advance, and the stores accept a write only when
  the caller's expected revision is the stored one. \<open>versioned\<close> and \<open>revisioned\<close> state what an
  aggregate promises about its revision and derive what the stores rely on: a matching revision
  means an unchanged state.
\<close>

locale versioned =
  fixes rev_of :: "'s \<Rightarrow> u64"
    and step :: "'s \<Rightarrow> 's \<Rightarrow> bool"
  assumes step_version: "step s t \<Longrightarrow> t = s \<or> rev_of s < rev_of t"
begin

lemma run_version: "step\<^sup>*\<^sup>* s t \<Longrightarrow> t = s \<or> rev_of s < rev_of t"
  by (induction rule: rtranclp_induct) (auto dest!: step_version)

lemma run_mono: "step\<^sup>*\<^sup>* s t \<Longrightarrow> rev_of s \<le> rev_of t"
  by (auto dest: run_version)

lemma compare_and_swap: "step\<^sup>*\<^sup>* s t \<Longrightarrow> rev_of s = rev_of t \<Longrightarrow> s = t"
  by (auto dest: run_version)

end

text \<open>An aggregate whose every command advances the revision by exactly one.\<close>

locale revisioned =
  fixes rev_of :: "'s \<Rightarrow> u64"
    and step :: "'s \<Rightarrow> 's \<Rightarrow> bool"
  assumes step_bumps: "step s t \<Longrightarrow> checked_add (rev_of s) 1 = Some (rev_of t)"
begin

lemma step_unat: "step s t \<Longrightarrow> unat (rev_of t) = Suc (unat (rev_of s))"
  using step_bumps checked_add_one_Some(1) by blast

lemma run_counts: "(step ^^ n) s t \<Longrightarrow> unat (rev_of t) = unat (rev_of s) + n"
proof (induction n arbitrary: t)
  case 0
  then show ?case by simp
next
  case (Suc n)
  then obtain u where "(step ^^ n) s u" and "step u t"
    by auto
  then show ?case
    using Suc.IH [of u] step_unat [of u t] by simp
qed

lemma run_bounded: "(step ^^ n) s t \<Longrightarrow> n < 2 ^ 64"
  using run_counts [of n s t] unat_less_64 [of "rev_of t"] by simp

lemma run_strict: "step\<^sup>+\<^sup>+ s t \<Longrightarrow> rev_of s < rev_of t"
  by (auto simp: word_less_nat_alt tranclp_power dest: run_counts)

end

sublocale revisioned \<subseteq> versioned
  by unfold_locales (auto dest: step_unat simp: word_less_nat_alt)

text \<open>An aggregate whose commands also refuse to move the clock backwards.\<close>

locale revisioned_clock = revisioned +
  fixes clock :: "'s \<Rightarrow> time"
  assumes step_clock: "step s t \<Longrightarrow> clock s \<le> clock t"
begin

lemma run_clock: "step\<^sup>*\<^sup>* s t \<Longrightarrow> clock s \<le> clock t"
  by (induction rule: rtranclp_induct) (auto dest: step_clock)

end

text \<open>
  A predicate every step preserves holds along every run: the form in which the components use
  their one-step preservation lemmas.
\<close>

locale stable =
  fixes step :: "'s \<Rightarrow> 's \<Rightarrow> bool"
    and keeps :: "'s \<Rightarrow> bool"
  assumes step_keeps: "step s t \<Longrightarrow> keeps s \<Longrightarrow> keeps t"
begin

lemma run_keeps: "step\<^sup>*\<^sup>* s t \<Longrightarrow> keeps s \<Longrightarrow> keeps t"
  by (induction rule: rtranclp_induct) (auto dest: step_keeps)

end

end
