(* ===== verification/Project.thy ===== *)
theory Project
  imports Rust_Text Rust_Collections Interfaces
begin

text \<open>
  \<open>domain-kernel/src/project.rs\<close>: the local project aggregate, its data Cell, its metadata and
  the lexical workspace boundary. Paths follow \<open>std::path\<close> on Unix: a path is compared by its
  components, where repeated separators and inner \<open>.\<close> components vanish and \<open>..\<close> stays.
\<close>

section \<open>Paths\<close>

datatype path_component = RootDir | CurDir | ParentDir | NormalComp string

definition component_of :: "string \<Rightarrow> path_component" where
  "component_of s = (if s = ''..'' then ParentDir else NormalComp s)"

definition is_absolute :: "string \<Rightarrow> bool" where
  "is_absolute p \<longleftrightarrow> p \<noteq> [] \<and> hd p = CHR ''/''"

definition path_components :: "string \<Rightarrow> path_component list" where
  "path_components p =
     (let parts = split_on (CHR ''/'') p;
          front = (if is_absolute p then [RootDir]
                   else if hd parts = ''.'' then [CurDir] else [])
      in front @ map component_of (filter (\<lambda>s. s \<noteq> [] \<and> s \<noteq> ''.'') parts))"

definition path_starts_with :: "string \<Rightarrow> string \<Rightarrow> bool" where
  "path_starts_with p base = prefix (path_components base) (path_components p)"

section \<open>The aggregate\<close>

datatype storage_mode = LocalExisting | LocalNew | LocalEncryptedSync | Cloud

datatype project_data_cell = Us | Eu

record project =
  pj_tenant_id :: string
  pj_id :: string
  pj_name :: string
  pj_description :: string
  pj_storage_mode :: storage_mode
  pj_data_cell :: "project_data_cell option"
  pj_workspace_roots :: "string list"
  pj_revision :: u64

datatype project_error =
    EmptyName
  | WorkspaceRootNotAbsolute string
  | CloudModeForLocalProject
  | DataCellRequiresEncryptedSync
  | DataCellIsImmutable
  | ProjectRevisionOverflow

definition create_local ::
  "string \<Rightarrow> string \<Rightarrow> string \<Rightarrow> string \<Rightarrow> string \<Rightarrow> storage_mode \<Rightarrow> project_error + project" where
  "create_local tenant_id project_id name description root mode =
     (if mode = Cloud then Err CloudModeForLocalProject
      else let name = trim name in
        if name = [] then Err EmptyName
        else if \<not> is_absolute root then Err (WorkspaceRootNotAbsolute root)
        else Ok \<lparr>pj_tenant_id = tenant_id, pj_id = project_id, pj_name = name,
                 pj_description = description, pj_storage_mode = mode, pj_data_cell = None,
                 pj_workspace_roots = [root], pj_revision = 1\<rparr>)"

definition contains_path :: "project \<Rightarrow> string \<Rightarrow> bool" where
  "contains_path p path \<longleftrightarrow> list_ex (path_starts_with path) (pj_workspace_roots p)"

text \<open>
  The cell is written before the revision is advanced, so the receiver is part of the result on
  the overflow path too.
\<close>

definition select_data_cell ::
  "project \<Rightarrow> project_data_cell \<Rightarrow> (project_error + unit) \<times> project" where
  "select_data_cell p cell =
     (if pj_storage_mode p \<noteq> LocalEncryptedSync then (Err DataCellRequiresEncryptedSync, p)
      else case pj_data_cell p of
        Some current \<Rightarrow>
          if current = cell then (Ok (), p) else (Err DataCellIsImmutable, p)
      | None \<Rightarrow>
          let p = p\<lparr>pj_data_cell := Some cell\<rparr> in
          attempt (ok_or ProjectRevisionOverflow (checked_add (pj_revision p) 1)) p (\<lambda>revision.
            (Ok (), p\<lparr>pj_revision := revision\<rparr>)))"

definition update_metadata ::
  "project \<Rightarrow> string \<Rightarrow> string \<Rightarrow> (project_error + bool) \<times> project" where
  "update_metadata p name description =
     (let name = trim name in
      if name = [] then (Err EmptyName, p)
      else if pj_name p = name \<and> pj_description p = description then (Ok False, p)
      else attempt (ok_or ProjectRevisionOverflow (checked_add (pj_revision p) 1)) p
        (\<lambda>next_revision.
          (Ok True, p\<lparr>pj_name := name, pj_description := description,
                     pj_revision := next_revision\<rparr>)))"

text \<open>One persisted change of a project: a command that succeeded and changed it.\<close>

inductive project_step :: "project \<Rightarrow> project \<Rightarrow> bool" where
  select: "select_data_cell p cell = (Ok (), q) \<Longrightarrow> pj_data_cell p = None \<Longrightarrow> project_step p q"
| update: "update_metadata p name description = (Ok True, q) \<Longrightarrow> project_step p q"

section \<open>Behaviour\<close>

lemma select_data_cell_Ok:
  "select_data_cell p cell = (Ok (), q) \<longleftrightarrow>
     pj_storage_mode p = LocalEncryptedSync \<and>
     (case pj_data_cell p of
        Some current \<Rightarrow> current = cell \<and> q = p
      | None \<Rightarrow> \<exists>r. checked_add (pj_revision p) 1 = Some r \<and>
                   q = p\<lparr>pj_data_cell := Some cell, pj_revision := r\<rparr>)"
  by (auto simp: select_data_cell_def Let_def split: option.splits)

lemma update_metadata_Ok:
  "update_metadata p name description = (Ok b, q) \<longleftrightarrow>
     trim name \<noteq> [] \<and>
     (if pj_name p = trim name \<and> pj_description p = description then \<not> b \<and> q = p
      else b \<and> (\<exists>r. checked_add (pj_revision p) 1 = Some r \<and>
             q = p\<lparr>pj_name := trim name, pj_description := description, pj_revision := r\<rparr>))"
  by (auto simp: update_metadata_def Let_def)

lemma project_step_revision:
  "project_step p q \<Longrightarrow> checked_add (pj_revision p) 1 = Some (pj_revision q)"
  by (induction rule: project_step.induct)
     (auto simp: select_data_cell_Ok update_metadata_Ok split: if_splits)

lemma project_step_cell:
  "project_step p q \<Longrightarrow> pj_data_cell p = Some c \<Longrightarrow> pj_data_cell q = Some c"
  by (induction rule: project_step.induct)
     (auto simp: select_data_cell_Ok update_metadata_Ok split: if_splits)

lemma project_step_frame:
  "project_step p q \<Longrightarrow>
     pj_tenant_id q = pj_tenant_id p \<and> pj_id q = pj_id p \<and>
     pj_storage_mode q = pj_storage_mode p \<and> pj_workspace_roots q = pj_workspace_roots p"
  by (induction rule: project_step.induct)
     (auto simp: select_data_cell_Ok update_metadata_Ok split: if_splits)

interpretation project_rev: revisioned pj_revision project_step
  by unfold_locales (rule project_step_revision)

interpretation project_cell: stable project_step "\<lambda>p. pj_data_cell p = Some c" for c
  by unfold_locales (rule project_step_cell)

section \<open>Properties\<close>

text \<open>
  C35: The data cell of a project is chosen once: after any number of later changes the project is
  still in the cell chosen first, on the same storage and the same workspace roots, the choice of
  another cell is refused without a trace, and the same choice again changes nothing.
\<close>

theorem data_cell_immutable:
  assumes "select_data_cell p cell = (Ok (), q)" and "project_step\<^sup>*\<^sup>* q r" and "other \<noteq> cell"
  shows "pj_data_cell r = Some cell \<and> pj_workspace_roots r = pj_workspace_roots p \<and>
    select_data_cell r other = (Err DataCellIsImmutable, r) \<and> select_data_cell r cell = (Ok (), r)"
proof -
  have q: "pj_data_cell q = Some cell" "pj_storage_mode q = LocalEncryptedSync"
    "pj_workspace_roots q = pj_workspace_roots p"
    using assms(1) by (auto simp: select_data_cell_Ok split: option.splits)
  have "pj_data_cell r = Some cell"
    using project_cell.run_keeps [OF assms(2)] q(1) by blast
  moreover have "pj_storage_mode r = LocalEncryptedSync \<and> pj_workspace_roots r = pj_workspace_roots p"
    using assms(2) q(2,3) by (induction rule: rtranclp_induct) (auto dest: project_step_frame)
  ultimately show ?thesis
    using assms(3) by (auto simp: select_data_cell_def)
qed

definition sample_project :: project where
  "sample_project = \<lparr>pj_tenant_id = ''t'', pj_id = ''p'', pj_name = ''n'', pj_description = [],
     pj_storage_mode = LocalEncryptedSync, pj_data_cell = None, pj_workspace_roots = [''/ws''],
     pj_revision = 1\<rparr>"

theorem data_cell_immutable_witness:
  "select_data_cell sample_project Eu = (Ok (), sample_project\<lparr>pj_data_cell := Some Eu, pj_revision := 2\<rparr>) \<and>
   select_data_cell (sample_project\<lparr>pj_data_cell := Some Eu, pj_revision := 2\<rparr>) Us =
     (Err DataCellIsImmutable, sample_project\<lparr>pj_data_cell := Some Eu, pj_revision := 2\<rparr>)"
proof -
  have "select_data_cell sample_project Eu = (Ok (), sample_project\<lparr>pj_data_cell := Some Eu, pj_revision := 2\<rparr>)"
    by (simp add: select_data_cell_def sample_project_def checked_add_def)
  from data_cell_immutable [OF this rtranclp.rtrancl_refl, of Us] this show ?thesis
    by simp
qed

text \<open>On the last revision the choice of a cell fails after it has been written to the receiver.\<close>

lemma select_data_cell_overflow_writes:
  assumes "pj_storage_mode p = LocalEncryptedSync" and "pj_data_cell p = None" and "checked_add (pj_revision p) 1 = None"
  shows "select_data_cell p cell = (Err ProjectRevisionOverflow, p\<lparr>pj_data_cell := Some cell\<rparr>)"
  using assms by (simp add: select_data_cell_def)

end
