(* ===== verification/Money.thy ===== *)
theory Money
  imports Rust_Text Rust_Collections
begin

text \<open>
  \<open>domain-kernel/src/money.rs\<close>: ISO currency codes, exact minor-unit amounts in \<open>i64\<close>, and FX
  quotes. \<open>rust_decimal::Decimal\<close> values are rationals; the only operation the code performs on
  one here is the comparison with zero.
\<close>

type_synonym currency_code = string

datatype money_error =
    InvalidCurrency string
  | CurrencyMismatch currency_code currency_code
  | MoneyOverflow
  | InvalidFxRate
  | MissingFxSource

definition parse_currency :: "string \<Rightarrow> money_error + currency_code" where
  "parse_currency value =
     (if length value \<noteq> 3 \<or> \<not> list_all is_ascii_uppercase value
      then Err (InvalidCurrency value) else Ok value)"

record money =
  amount_minor :: i64
  currency :: currency_code

definition money_zero :: "currency_code \<Rightarrow> money" where
  "money_zero c = \<lparr>amount_minor = 0, currency = c\<rparr>"

definition require_same_currency :: "money \<Rightarrow> money \<Rightarrow> money_error + unit" where
  "require_same_currency a b =
     (if currency a = currency b then Ok ()
      else Err (CurrencyMismatch (currency a) (currency b)))"

definition money_checked_add :: "money \<Rightarrow> money \<Rightarrow> money_error + money" where
  "money_checked_add a b =
     and_then (require_same_currency a b) (\<lambda>_.
     and_then (ok_or MoneyOverflow (checked_i64 (amount_minor a + amount_minor b))) (\<lambda>n.
       Ok \<lparr>amount_minor = n, currency = currency a\<rparr>))"

definition money_checked_sub :: "money \<Rightarrow> money \<Rightarrow> money_error + money" where
  "money_checked_sub a b =
     and_then (require_same_currency a b) (\<lambda>_.
     and_then (ok_or MoneyOverflow (checked_i64 (amount_minor a - amount_minor b))) (\<lambda>n.
       Ok \<lparr>amount_minor = n, currency = currency a\<rparr>))"

definition is_positive :: "money \<Rightarrow> bool" where
  "is_positive m \<longleftrightarrow> 0 < amount_minor m"

record fx_quote =
  fx_base :: currency_code
  fx_quote_currency :: currency_code
  fx_rate :: rat
  fx_source :: string
  fx_observed_at :: time

definition fx_quote_new ::
  "currency_code \<Rightarrow> currency_code \<Rightarrow> rat \<Rightarrow> string \<Rightarrow> time \<Rightarrow> money_error + fx_quote" where
  "fx_quote_new base quote rate source observed_at =
     (if rate \<le> 0 then Err InvalidFxRate
      else if blank source then Err MissingFxSource
      else Ok \<lparr>fx_base = base, fx_quote_currency = quote, fx_rate = rate,
               fx_source = source, fx_observed_at = observed_at\<rparr>)"

text \<open>The amount of a \<open>Money\<close> value is an \<open>i64\<close>.\<close>

definition money_wf :: "money \<Rightarrow> bool" where
  "money_wf m \<longleftrightarrow> in_i64 (amount_minor m)"

lemmas money_defs =
  money_checked_add_def money_checked_sub_def require_same_currency_def money_wf_def

lemma money_checked_add_Ok:
  "money_checked_add a b = Ok c \<longleftrightarrow>
     currency a = currency b \<and> in_i64 (amount_minor a + amount_minor b) \<and>
     c = \<lparr>amount_minor = amount_minor a + amount_minor b, currency = currency a\<rparr>"
  by (auto simp: money_defs)

lemma money_checked_sub_Ok:
  "money_checked_sub a b = Ok c \<longleftrightarrow>
     currency a = currency b \<and> in_i64 (amount_minor a - amount_minor b) \<and>
     c = \<lparr>amount_minor = amount_minor a - amount_minor b, currency = currency a\<rparr>"
  by (auto simp: money_defs)

text \<open>
  C40: Money arithmetic is exact or refused: an addition that succeeds gives the exact sum within
  64 bits, which subtraction takes apart again; one that fails names the two different currencies
  or an overflow that really happens.
\<close>

theorem money_add_exact:
  assumes "money_wf a"
  shows "case money_checked_add a b of
      Inr c \<Rightarrow> amount_minor c = amount_minor a + amount_minor b \<and> money_wf c \<and> money_checked_sub c b = Ok a
    | Inl e \<Rightarrow> (currency a \<noteq> currency b \<and> e = CurrencyMismatch (currency a) (currency b)) \<or>
        (currency a = currency b \<and> \<not> in_i64 (amount_minor a + amount_minor b) \<and> e = MoneyOverflow)"
  using assms by (cases a) (auto simp: money_defs checked_i64_def)

theorem money_add_exact_witness:
  "money_checked_add \<lparr>amount_minor = 2 ^ 63 - 5, currency = ''EUR''\<rparr> \<lparr>amount_minor = 4, currency = ''EUR''\<rparr>
     = Ok \<lparr>amount_minor = 2 ^ 63 - 1, currency = ''EUR''\<rparr> \<and>
   money_checked_sub \<lparr>amount_minor = 2 ^ 63 - 1, currency = ''EUR''\<rparr> \<lparr>amount_minor = 4, currency = ''EUR''\<rparr>
     = Ok \<lparr>amount_minor = 2 ^ 63 - 5, currency = ''EUR''\<rparr>"
proof -
  have "money_wf \<lparr>amount_minor = 2 ^ 63 - 5, currency = ''EUR''\<rparr>"
    by (simp add: money_wf_def in_i64_def)
  moreover have "money_checked_add \<lparr>amount_minor = 2 ^ 63 - 5, currency = ''EUR''\<rparr>
      \<lparr>amount_minor = 4, currency = ''EUR''\<rparr> = Ok \<lparr>amount_minor = 2 ^ 63 - 1, currency = ''EUR''\<rparr>"
    by (simp add: money_defs checked_i64_def in_i64_def)
  ultimately show ?thesis
    using money_add_exact [of "\<lparr>amount_minor = 2 ^ 63 - 5, currency = ''EUR''\<rparr>"
        "\<lparr>amount_minor = 4, currency = ''EUR''\<rparr>"]
    by simp
qed

end
