(* ===== verification/Contract.thy ===== *)
theory Contract
  imports Money
begin

text \<open>
  \<open>domain-kernel/src/mission.rs\<close>, the operating contract: cadences and their anchored ticks, the
  contract record, its bootstrap and its validation. Panics of \<open>chrono::Duration::seconds\<close> are
  values of the result (\<open>Err Panic\<close>), so that a caller cannot hide one.
\<close>

datatype panic = Panic

section \<open>Data\<close>

datatype effect_class = Read | LocalWrite | ExternalWrite | Outreach | Spend | Payment

datatype constraint =
    RequireApproval "effect_class list"
  | Budget i64 string
  | Market string
  | StopCondition string
  | UserInstruction string

datatype operating_mode =
  BuildOnce | ContinuousOperator | Campaign | ContinuousRelationship | OneOffDecision

datatype autonomy_level = Disabled | DraftOnly | ApprovalRequired | AutonomousLowRisk

datatype cadence_trigger_kind = Interval | EventDriven | IntervalOrEvent

record cadence =
  cd_interval_seconds :: u64
  cd_anchor_at :: time
  cd_trigger :: cadence_trigger_kind
  cd_event_topics :: "string fset"

datatype kpi_direction = AtLeast | AtMost

record kpi_contract =
  kpi_baseline :: "rat option"
  kpi_target :: rat
  kpi_unit :: string
  kpi_direction :: kpi_direction

record approval_policy =
  required_effect_classes :: "effect_class fset"
  validity_seconds :: u64
  exact_scope_required :: bool

record operating_contract =
  oc_version :: u64
  oc_mode :: operating_mode
  oc_parent_mission_id :: "string option"
  oc_goal :: string
  oc_non_goals :: "string list"
  oc_market :: string
  oc_language :: string
  oc_audience :: string
  oc_kpis :: "(string, kpi_contract) fmap"
  oc_budget :: money
  oc_timezone :: string
  oc_cadence :: "cadence option"
  oc_autonomy_by_capability :: "(string, autonomy_level) fmap"
  oc_consent_requirements :: "string fset"
  oc_approval_policy :: approval_policy
  oc_stop_conditions :: "string list"
  oc_completion_conditions :: "string list"
  oc_valid_from :: time
  oc_valid_until :: time
  oc_constraints :: "constraint list"
  oc_enabled_capabilities :: "string fset"
  oc_forbidden_capabilities :: "string fset"

datatype operating_contract_error =
    Incomplete
  | InvalidValidity
  | NegativeBudget
  | UnsafeApprovalPolicy
  | MissingCadence
  | InvalidCadence
  | InvalidKpi
  | CapabilityConflict
  | AutonomyMismatch

section \<open>Operations\<close>

definition next_interval_due_at :: "'x ext_scheme \<Rightarrow> cadence \<Rightarrow> time \<Rightarrow> panic + time option" where
  "next_interval_due_at X cadence after =
     (if cd_trigger cadence = EventDriven then Ok None
      else case u64_to_i64 (cd_interval_seconds cadence) of
        None \<Rightarrow> Ok None
      | Some interval \<Rightarrow>
          if \<not> 0 < interval then Ok None
          else if after < cd_anchor_at cadence then Ok (Some (cd_anchor_at cadence))
          else let elapsed = num_seconds (after - cd_anchor_at cadence) in
            (case checked_i64 (elapsed div interval + 1) of
               None \<Rightarrow> Ok None
             | Some steps \<Rightarrow>
                 (case checked_i64 (interval * steps) of
                    None \<Rightarrow> Ok None
                  | Some secs \<Rightarrow>
                      (case dur_seconds X secs of
                         None \<Rightarrow> Err Panic
                       | Some d \<Rightarrow> Ok (add_signed X (cd_anchor_at cadence) d)))))"

text \<open>\<open>OperatingContract::bootstrap\<close>; \<open>now + Duration::days(30)\<close> panics where the sum is out of range.\<close>

definition contract_bootstrap ::
  "'x ext_scheme \<Rightarrow> string \<Rightarrow> string fset \<Rightarrow> time \<Rightarrow> panic + operating_contract" where
  "contract_bootstrap X goal enabled now =
     (case add_signed X now (seconds (30 * 86400)) of
        None \<Rightarrow> Err Panic
      | Some valid_until \<Rightarrow> Ok
          \<lparr>oc_version = 1, oc_mode = BuildOnce, oc_parent_mission_id = None, oc_goal = goal,
           oc_non_goals = [], oc_market = ''unspecified'', oc_language = ''und'',
           oc_audience = ''unspecified'', oc_kpis = fmempty, oc_budget = money_zero ''USD'',
           oc_timezone = ''UTC'', oc_cadence = None,
           oc_autonomy_by_capability =
             fmap_of_list (map (\<lambda>c. (c, ApprovalRequired)) (sorted_list_of_fset enabled)),
           oc_consent_requirements = {||},
           oc_approval_policy =
             \<lparr>required_effect_classes = {|ExternalWrite, Outreach, Spend, Payment|},
              validity_seconds = 3600, exact_scope_required = True\<rparr>,
           oc_stop_conditions = [''user_cancelled''],
           oc_completion_conditions = [''mission_oracle_satisfied''],
           oc_valid_from = now, oc_valid_until = valid_until, oc_constraints = [],
           oc_enabled_capabilities = enabled, oc_forbidden_capabilities = {||}\<rparr>)"

definition cadence_shape_invalid :: "cadence \<Rightarrow> bool" where
  "cadence_shape_invalid c \<longleftrightarrow>
     (\<exists>topic |\<in>| cd_event_topics c. blank topic) \<or>
     (case cd_trigger c of
        Interval \<Rightarrow> cd_interval_seconds c = 0 \<or> cd_event_topics c \<noteq> {||}
      | EventDriven \<Rightarrow> cd_interval_seconds c \<noteq> 0 \<or> cd_event_topics c = {||}
      | IntervalOrEvent \<Rightarrow> cd_interval_seconds c = 0 \<or> cd_event_topics c = {||})"

definition contract_validate ::
  "operating_contract \<Rightarrow> time \<Rightarrow> operating_contract_error + unit" where
  "contract_validate c now =
     (if oc_version c = 0
         \<or> is_some_and blank (oc_parent_mission_id c)
         \<or> blank (oc_goal c) \<or> blank (oc_market c) \<or> blank (oc_language c)
         \<or> blank (oc_audience c) \<or> blank (oc_timezone c)
         \<or> list_all blank (oc_stop_conditions c)
         \<or> list_all blank (oc_completion_conditions c)
      then Err Incomplete
      else if now < oc_valid_from c \<or> oc_valid_until c \<le> now \<or> oc_valid_until c \<le> oc_valid_from c
      then Err InvalidValidity
      else if amount_minor (oc_budget c) < 0 then Err NegativeBudget
      else if validity_seconds (oc_approval_policy c) = 0
              \<or> \<not> exact_scope_required (oc_approval_policy c)
      then Err UnsafeApprovalPolicy
      else if oc_mode c \<in> {ContinuousOperator, ContinuousRelationship} \<and> oc_cadence c = None
      then Err MissingCadence
      else if is_some_and cadence_shape_invalid (oc_cadence c) then Err InvalidCadence
      else if \<not> fmpred (\<lambda>name kpi. \<not> blank name \<and> \<not> blank (kpi_unit kpi)) (oc_kpis c)
      then Err InvalidKpi
      else if (\<exists>cap |\<in>| oc_enabled_capabilities c. blank cap)
              \<or> oc_enabled_capabilities c |\<inter>| oc_forbidden_capabilities c \<noteq> {||}
      then Err CapabilityConflict
      else if ffilter (\<lambda>cap. fmlookup (oc_autonomy_by_capability c) cap \<noteq> Some Disabled)
                (fmdom (oc_autonomy_by_capability c)) \<noteq> oc_enabled_capabilities c
              \<or> (\<exists>cap |\<in>| oc_forbidden_capabilities c.
                   is_some_and (\<lambda>level. level \<noteq> Disabled)
                     (fmlookup (oc_autonomy_by_capability c) cap))
      then Err AutonomyMismatch
      else Ok ())"

section \<open>Anchored ticks\<close>

text \<open>A tick of a cadence: the anchor, or the anchor plus a whole number of intervals.\<close>

definition cadence_tick :: "cadence \<Rightarrow> nat \<Rightarrow> time" where
  "cadence_tick c k = cd_anchor_at c + int k * seconds (uint (cd_interval_seconds c))"

lemma floor_tick_bounds:
  fixes e i :: int
  assumes "0 \<le> e" and "0 < i"
  shows "(num_seconds e div i) * seconds i \<le> e" and "e < (num_seconds e div i + 1) * seconds i"
proof -
  define s where "s = num_seconds e"
  have s: "s = e div nanos_per_second"
    using assms(1) by (simp add: s_def num_seconds_nonneg)
  have e1: "s * nanos_per_second \<le> e" and e2: "e < (s + 1) * nanos_per_second"
    unfolding s nanos_per_second_def by presburger+
  have q1: "(s div i) * i \<le> s"
    using assms(2) div_mod_decomp_int [of s i] pos_mod_sign [of i s] by linarith
  have "s mod i < i"
    using assms(2) by simp
  then have q2: "s + 1 \<le> (s div i + 1) * i"
    using div_mod_decomp_int [of s i] unfolding distrib_right by linarith
  have n: "0 < nanos_per_second"
    by (simp add: nanos_per_second_def)
  have "(s div i) * i * nanos_per_second \<le> s * nanos_per_second"
    using q1 n by (simp add: mult_right_mono)
  with e1 show "(num_seconds e div i) * seconds i \<le> e"
    by (simp add: s_def [symmetric] seconds_def mult.assoc)
  have "(s + 1) * nanos_per_second \<le> (s div i + 1) * i * nanos_per_second"
    using q2 n by (simp add: mult_right_mono)
  with e2 show "e < (num_seconds e div i + 1) * seconds i"
    by (simp add: s_def [symmetric] seconds_def mult.assoc)
qed

text \<open>Which branch of \<open>next_interval_due_at\<close> returned a time, and what the time is.\<close>

lemma next_interval_due_at_cases:
  assumes "next_interval_due_at X c after = Ok (Some due)"
  shows "cd_trigger c \<noteq> EventDriven" and "0 < uint (cd_interval_seconds c)"
    and "\<not> after < cd_anchor_at c \<Longrightarrow>
      \<exists>d. dur_seconds X (uint (cd_interval_seconds c) *
             (num_seconds (after - cd_anchor_at c) div uint (cd_interval_seconds c) + 1)) = Some d
         \<and> add_signed X (cd_anchor_at c) d = Some due"
    and "after < cd_anchor_at c \<Longrightarrow> due = cd_anchor_at c"
  using assms unfolding next_interval_due_at_def u64_to_i64_def checked_i64_def Let_def
  by (simp_all only: option.simps sum.inject sum.distinct simp_thms
      split: if_split_asm option.split_asm)

lemma next_interval_due_at_Some:
  assumes "chrono_exact X" and "next_interval_due_at X c after = Ok (Some due)"
  shows "cd_trigger c \<noteq> EventDriven" and "0 < cd_interval_seconds c"
    and "due = (if after < cd_anchor_at c then cd_anchor_at c
                else cadence_tick c (nat (num_seconds (after - cd_anchor_at c)
                                      div uint (cd_interval_seconds c) + 1)))"
proof -
  note cases = next_interval_due_at_cases [OF assms(2)]
  show "cd_trigger c \<noteq> EventDriven" and "0 < cd_interval_seconds c"
    using cases(1,2) by (simp_all add: word_less_def)
  define q where "q = num_seconds (after - cd_anchor_at c) div uint (cd_interval_seconds c)"
  show "due = (if after < cd_anchor_at c then cd_anchor_at c
                else cadence_tick c (nat (num_seconds (after - cd_anchor_at c)
                                      div uint (cd_interval_seconds c) + 1)))"
  proof (cases "after < cd_anchor_at c")
    case False
    then have "0 \<le> q"
      using cases(2) unfolding q_def
      by (simp add: num_seconds_nonneg nanos_per_second_def pos_imp_zdiv_nonneg_iff)
    then have "cadence_tick c (nat (q + 1)) =
        cd_anchor_at c + seconds (uint (cd_interval_seconds c) * (q + 1))"
      by (simp add: cadence_tick_def seconds_def)
    moreover have "due = cd_anchor_at c + seconds (uint (cd_interval_seconds c) * (q + 1))"
      using cases(3) [OF False] chrono_exactD [OF assms(1)] unfolding q_def by metis
    ultimately show ?thesis
      using False by (simp add: q_def)
  qed (simp add: cases(4))
qed

lemma cadence_tick_mono:
  "0 < cd_interval_seconds c \<Longrightarrow> j < k \<Longrightarrow> cadence_tick c j < cadence_tick c k"
  by (simp add: cadence_tick_def seconds_def nanos_per_second_def word_less_def)

text \<open>The due time is the first tick strictly after the given instant.\<close>

lemma next_interval_due_at_tick:
  assumes "chrono_exact X" and "next_interval_due_at X c after = Ok (Some due)"
  obtains k where "due = cadence_tick c k" and "after < due"
    and "k \<noteq> 0 \<Longrightarrow> cadence_tick c (k - 1) \<le> after"
proof (cases "after < cd_anchor_at c")
  case True
  then show ?thesis
    using that [of 0] next_interval_due_at_Some [OF assms] by (simp add: cadence_tick_def)
next
  case False
  let ?i = "uint (cd_interval_seconds c)"
  let ?q = "num_seconds (after - cd_anchor_at c) div ?i"
  have pos: "0 < ?i"
    using next_interval_due_at_Some(2) [OF assms] by (simp add: word_less_def)
  have q: "0 \<le> ?q"
    using False pos by (simp add: num_seconds_nonneg nanos_per_second_def pos_imp_zdiv_nonneg_iff)
  have "?q * seconds ?i \<le> after - cd_anchor_at c" "after - cd_anchor_at c < (?q + 1) * seconds ?i"
    using floor_tick_bounds [of "after - cd_anchor_at c" ?i] False pos by simp_all
  with q False show ?thesis
    using that [of "nat (?q + 1)"] next_interval_due_at_Some(3) [OF assms]
    by (simp add: cadence_tick_def nat_add_distrib add.commute [of 1])
qed

lemma next_interval_due_at_least:
  assumes "chrono_exact X" and "next_interval_due_at X c after = Ok (Some due)"
    and "after < cadence_tick c j"
  shows "due \<le> cadence_tick c j"
proof -
  obtain k where k: "due = cadence_tick c k" "k \<noteq> 0 \<Longrightarrow> cadence_tick c (k - 1) \<le> after"
    using next_interval_due_at_tick [OF assms(1,2)] by metis
  have mono: "\<And>a b. a < b \<Longrightarrow> cadence_tick c a < cadence_tick c b"
    using cadence_tick_mono [OF next_interval_due_at_Some(2) [OF assms(1,2)]] .
  have "k \<le> j"
  proof (rule ccontr)
    assume "\<not> k \<le> j"
    then have "k \<noteq> 0" and "j = k - 1 \<or> j < k - 1"
      by linarith+
    then have "cadence_tick c j \<le> cadence_tick c (k - 1)"
      using mono [of j "k - 1"] less_imp_le by blast
    with k(2) [OF \<open>k \<noteq> 0\<close>] assms(3) show False
      by linarith
  qed
  then have "cadence_tick c k \<le> cadence_tick c j"
    using mono [of k j] by (cases "k = j") (simp, linarith)
  then show ?thesis
    unfolding k(1) .
qed

section \<open>Validation\<close>

lemma contract_validate_window:
  "contract_validate c now = Ok () \<Longrightarrow> oc_valid_from c \<le> now \<and> now < oc_valid_until c"
  by (simp add: contract_validate_def split: if_splits)

lemma contract_validate_later:
  assumes "contract_validate c now = Ok ()" and "oc_valid_from c \<le> t" and "t < oc_valid_until c"
  shows "contract_validate c t = Ok ()"
  using assms by (simp add: contract_validate_def split: if_splits)

lemma bootstrap_autonomy:
  fixes S :: "string fset"
  defines "m \<equiv> fmap_of_list (map (\<lambda>c. (c, ApprovalRequired)) (sorted_list_of_fset S))"
  shows "fmlookup m c = (if c |\<in>| S then Some ApprovalRequired else None)" and "fmdom m = S"
proof -
  have "map_of (map (\<lambda>c. (c, ApprovalRequired)) xs) c = (if c \<in> set xs then Some ApprovalRequired else None)"
    for xs :: "string list" and c
    by (induction xs) auto
  then have "fmlookup m c = (if c |\<in>| S then Some ApprovalRequired else None)" for c
    by (simp add: m_def fmlookup_of_list)
  then show "fmlookup m c = (if c |\<in>| S then Some ApprovalRequired else None)" and "fmdom m = S"
    by (auto simp: fset_eq_iff fmlookup_dom_iff split: if_splits)
qed

lemma next_interval_due_at_no_panic:
  assumes "chrono_total X"
    and "uint (cd_interval_seconds c) * (num_seconds (after - cd_anchor_at c)
           div uint (cd_interval_seconds c) + 1) \<le> (2 ^ 63 - 1) div 1000"
  shows "is_ok (next_interval_due_at X c after)"
proof (cases "is_ok (next_interval_due_at X c after)")
  case False
  define q where "q = num_seconds (after - cd_anchor_at c) div uint (cd_interval_seconds c)"
  from False have "0 < uint (cd_interval_seconds c)" and "cd_anchor_at c \<le> after"
    and none: "dur_seconds X (uint (cd_interval_seconds c) * (q + 1)) = None"
    unfolding next_interval_due_at_def u64_to_i64_def checked_i64_def Let_def q_def
    by (simp_all only: option.simps is_ok_simps simp_thms not_less
        split: if_split_asm option.split_asm)
  moreover from calculation have "0 \<le> uint (cd_interval_seconds c) * (q + 1)"
    unfolding q_def
    by (simp add: num_seconds_nonneg nanos_per_second_def pos_imp_zdiv_nonneg_iff)
  ultimately show ?thesis
    using chrono_totalD [OF assms(1), of "uint (cd_interval_seconds c) * (q + 1)"] assms(2)
    unfolding q_def by simp
qed

section \<open>Properties\<close>

text \<open>
  C29: A cadence's next due time is the first anchored tick strictly after the given instant: it is
  the anchor plus a whole number of intervals, it lies strictly in the future, and no earlier tick
  does.
\<close>

theorem next_due_is_first_tick:
  assumes "chrono_exact X" and "next_interval_due_at X c after = Ok (Some due)"
  shows "after < due \<and> (\<exists>k. due = cadence_tick c k) \<and>
    (\<forall>j. after < cadence_tick c j \<longrightarrow> due \<le> cadence_tick c j)"
  using next_interval_due_at_tick [OF assms] next_interval_due_at_least [OF assms] by metis

definition sample_cadence :: cadence where
  "sample_cadence = \<lparr>cd_interval_seconds = 3600, cd_anchor_at = seconds 100,
     cd_trigger = Interval, cd_event_topics = {||}\<rparr>"

theorem next_due_is_first_tick_witness:
  "next_interval_due_at sample_ext sample_cadence (seconds 4000) = Ok (Some (seconds 7300))
   \<and> seconds 4000 < seconds 7300
   \<and> (\<exists>k. seconds 7300 = cadence_tick sample_cadence k)
   \<and> seconds 7300 \<le> cadence_tick sample_cadence 3"
proof -
  have run: "next_interval_due_at sample_ext sample_cadence (seconds 4000) = Ok (Some (seconds 7300))"
    by (simp add: next_interval_due_at_def sample_ext_def sample_cadence_def u64_to_i64_def
        checked_i64_def in_i64_def num_seconds_def seconds_def nanos_per_second_def)
  have "seconds 4000 < cadence_tick sample_cadence 3"
    by (simp add: cadence_tick_def sample_cadence_def seconds_def nanos_per_second_def)
  then show ?thesis
    using next_due_is_first_tick [OF sample_ext_chrono(1) run] run by blast
qed

text \<open>
  A bootstrapped contract is valid at every instant of the thirty days from its creation,
  whatever its goal and capabilities are, as long as they are not blank.
\<close>

lemma bootstrap_validates:
  assumes "chrono_exact X" and "contract_bootstrap X goal enabled now = Ok c"
    and "\<not> blank goal" and "\<forall>cap. cap |\<in>| enabled \<longrightarrow> \<not> blank cap"
    and "now \<le> t" and "t < now + seconds (30 * 86400)"
  shows "contract_validate c t = Ok ()"
proof -
  from assms(1,2) obtain autonomy where c: "c = \<lparr>oc_version = 1, oc_mode = BuildOnce,
      oc_parent_mission_id = None, oc_goal = goal,
      oc_non_goals = [], oc_market = ''unspecified'', oc_language = ''und'',
      oc_audience = ''unspecified'', oc_kpis = fmempty, oc_budget = money_zero ''USD'',
      oc_timezone = ''UTC'', oc_cadence = None, oc_autonomy_by_capability = autonomy,
      oc_consent_requirements = {||},
      oc_approval_policy =
        \<lparr>required_effect_classes = {|ExternalWrite, Outreach, Spend, Payment|},
         validity_seconds = 3600, exact_scope_required = True\<rparr>,
      oc_stop_conditions = [''user_cancelled''],
      oc_completion_conditions = [''mission_oracle_satisfied''],
      oc_valid_from = now, oc_valid_until = now + seconds (30 * 86400), oc_constraints = [],
      oc_enabled_capabilities = enabled, oc_forbidden_capabilities = {||}\<rparr>"
    and autonomy: "\<And>k. fmlookup autonomy k = (if k |\<in>| enabled then Some ApprovalRequired else None)"
      "fmdom autonomy = enabled"
    using bootstrap_autonomy [of enabled]
    by (auto simp: contract_bootstrap_def dest!: chrono_exactD(1) [OF assms(1)]
        split: option.splits)
  have names: "\<not> blank ''unspecified''" "\<not> blank ''und''" "\<not> blank ''UTC''"
    "\<not> blank ''user_cancelled''" "\<not> blank ''mission_oracle_satisfied''"
    by code_simp+
  show ?thesis
    using assms(3-6) names
    by (auto simp: c autonomy contract_validate_def money_zero_def split: if_splits)
qed

end
