(* ===== verification/Mission_Types.thy ===== *)
theory Mission_Types
  imports Contract "HOL-Library.Product_Lexorder"
begin

text \<open>
  The data of \<open>domain-kernel/src/mission.rs\<close>: stages, tasks, evidence, work products, effects with
  their approvals, receipts and verifications, outcomes, the catalog definition with its
  checkpoints, the mission aggregate and its error type, and the consent types of \<open>identity.rs\<close>
  that an effect carries. Constructor and field names keep the source's names behind a prefix for
  the enum or struct they belong to. \<open>MissionPanic\<close> stands for a panic of the called code.
\<close>

section \<open>Stages, tasks, evidence, work products\<close>

datatype mission_stage =
    StageDraft | StageReady | StageRunning | StageBlocked | StageWaitingUser | StageWaitingApproval
  | StageVerifying | StageCycleReviewed | StageScheduled | StageCompleted | StagePartial
  | StageExpectedRefusal | StageFailed | StageCancelled

definition stage_is_terminal :: "mission_stage \<Rightarrow> bool" where
  "stage_is_terminal s \<longleftrightarrow>
     s \<in> {StageCompleted, StagePartial, StageExpectedRefusal, StageFailed, StageCancelled}"

datatype mission_terminal_disposition =
  TermCompleted | TermPartial | TermExpectedRefusal | TermFailed | TermCancelled

record mission_block =
  mb_code :: string
  mb_detail :: string
  mb_recoverable :: bool
  mb_observed_at :: time

datatype task_status = TaskReady | TaskRunning | TaskBlocked | TaskCompleted | TaskCancelled

record task =
  tk_id :: string
  tk_title :: string
  tk_status :: task_status
  tk_capability :: string

datatype evidence_status = EvCandidate | EvConfirmed | EvConflicted | EvInvalidated

text \<open>The confidence is an \<open>f32\<close>, kept as its bits: the code never computes with it here.\<close>

record evidence =
  ev_id :: string
  ev_title :: string
  ev_source_uri :: string
  ev_observed_at :: time
  ev_confidence :: u32
  ev_status :: evidence_status
  ev_content_digest :: string

datatype work_product_status = WpDraft | WpReadyForReview | WpAccepted | WpSuperseded

record work_product =
  wp_id :: string
  wp_title :: string
  wp_body :: string
  wp_evidence_ids :: "string fset"
  wp_revision :: u64
  wp_status :: work_product_status
  wp_content_digest :: string

section \<open>Effects\<close>

datatype effect_risk = RiskLow | RiskMedium | RiskHigh | RiskCritical

datatype consent_state = ConsentNotRequired | ConsentConfirmed | ConsentMissing | ConsentWithdrawn

datatype effect_status =
    EffProposed | EffApproved | EffRejected | EffCancelled | EffExecuting | EffReceiptRecorded
  | EffVerificationRequired | EffVerified | EffReconciled | EffDeadLetter | EffFailed | EffExpired

datatype durable_provider_state =
  DurRejected | DurUncertain | DurReconciledNotExecuted | DurDeadLetter

record conversation_effect_guard =
  cg_conversation_id :: string
  cg_control_generation :: u64
  cg_scope_digest :: string

record creator_contact_effect_guard =
  gg_hiring_id :: string
  gg_creator_id :: string
  gg_partner_id :: string
  gg_scope_digest :: string
  gg_permission_evidence_digest :: string

datatype consent_purpose =
  EmailMarketing | DirectOutreach | AutomatedReply | PartnerContact | DataSync | Attribution

datatype contact_channel = Email | Phone | SocialDirectMessage | Chat

record consent_requirement =
  cr_person_id :: string
  cr_purpose :: consent_purpose
  cr_channel :: contact_channel
  cr_market :: string

definition consent_requirement_validate :: "consent_requirement \<Rightarrow> bool" where
  "consent_requirement_validate r \<longleftrightarrow> \<not> blank (cr_person_id r) \<and> \<not> blank (cr_market r)"

record effect_spec =
  es_id :: string
  es_actor_id :: string
  es_capability :: string
  es_provider :: string
  es_connection_id :: "string option"
  es_account_id :: "string option"
  es_required_scopes :: "string fset"
  es_effect_class :: effect_class
  es_description :: string
  es_target_resource :: string
  es_audience_digest :: "string option"
  es_payload_digest :: string
  es_asset_digests :: "string fset"
  es_scheduled_for :: "time option"
  es_timezone :: string
  es_consent :: consent_state
  es_consent_record_id :: "string option"
  es_consent_requirement :: "consent_requirement option"
  es_conversation_guard :: "conversation_effect_guard option"
  es_creator_contact_guard :: "creator_contact_effect_guard option"
  es_policy_version :: string
  es_risk :: effect_risk
  es_idempotency_key :: string
  es_amount :: money
  es_expires_at :: time

datatype approval_decision = DecApproved | DecRejected

record approval =
  ap_id :: string
  ap_decision :: approval_decision
  ap_decided_by :: string
  ap_decided_at :: time
  ap_valid_until :: time
  ap_scope_digest :: string
  ap_permission_digest :: string

record receipt =
  rc_id :: string
  rc_provider :: string
  rc_external_id :: string
  rc_accepted_at :: time
  rc_request_digest :: string
  rc_response_digest :: string

datatype verification_status = VerConfirmed | VerRejected | VerInconclusive

record verification =
  vf_id :: string
  vf_status :: verification_status
  vf_verifier :: string
  vf_independent :: bool
  vf_observed_at :: time
  vf_evidence_digest :: string
  vf_receipt_id :: string

text \<open>
  \<open>Effect\<close> repeats every field of \<open>EffectSpec\<close>; the record extends the specification's, so that
  the shared fields have one selector.
\<close>

record effect = effect_spec +
  ef_tenant_id :: string
  ef_project_id :: string
  ef_mission_id :: string
  ef_status :: effect_status
  ef_approval :: "approval option"
  ef_receipt :: "receipt option"
  ef_verification :: "verification option"

section \<open>Outcomes\<close>

datatype outcome_decision = OutContinue | OutStop | OutScale | OutTest

datatype metric_value = MetricCount i64 | MetricMoney money | MetricDecimal rat string

record outcome =
  ou_summary :: string
  ou_decision :: outcome_decision
  ou_metrics :: "(string, metric_value) fmap"
  ou_observed_at :: time

section \<open>Checkpoints\<close>

datatype mission_checkpoint_status =
    CpPending | CpReady | CpRunning | CpBlocked | CpWaitingUser | CpWaitingApproval
  | CpVerifying | CpCompleted | CpSkipped

datatype mission_checkpoint_executor = ExApplication | ExRuntime | ExEffectBroker | ExHuman

datatype mission_checkpoint_completion_policy =
    DeterministicEvidence | WorkProductPolicy | VerifiedEffect | EffectReadbackV2 | HumanConfirmation

record mission_checkpoint_route =
  rt_capability_id :: string
  rt_executor :: mission_checkpoint_executor
  rt_oracle_ids :: "string fset"
  rt_completion_policy :: "mission_checkpoint_completion_policy option"

datatype mission_checkpoint_oracle_source =
  OracleSource
    (os_source_kind: string)
    (os_source_id: string)
    (os_source_revision: u64)
    (os_projection_digest: string)
    (os_oracle_ids: "string fset")

record mission_checkpoint_application_evidence =
  ae_schema_version :: u32
  ae_handler_id :: string
  ae_tenant_id :: string
  ae_project_id :: string
  ae_mission_id :: string
  ae_manifest_id :: string
  ae_manifest_version :: u32
  ae_catalog_digest :: string
  ae_cycle :: u64
  ae_checkpoint_id :: string
  ae_dispatch_mission_revision :: u64
  ae_dispatch_checkpoint_revision :: u64
  ae_verification_mission_revision :: u64
  ae_verification_checkpoint_revision :: u64
  ae_capability_id :: string
  ae_executor :: mission_checkpoint_executor
  ae_completion_policy :: mission_checkpoint_completion_policy
  ae_sources :: "mission_checkpoint_oracle_source fset"
  ae_observed_at :: time

record mission_checkpoint_completion =
  cc_oracle_ids :: "string fset"
  cc_work_product_ids :: "string fset"
  cc_effect_ids :: "string fset"
  cc_application_evidence :: "mission_checkpoint_application_evidence option"
  cc_evidence_digest :: string
  cc_verified_at :: time

record mission_checkpoint =
  cp_id :: string
  cp_depends_on :: "string fset"
  cp_route :: "mission_checkpoint_route option"
  cp_status :: mission_checkpoint_status
  cp_revision :: u64
  cp_attempt :: u32
  cp_started_at :: "time option"
  cp_block :: "mission_block option"
  cp_completion :: "mission_checkpoint_completion option"

record mission_definition =
  md_manifest_id :: string
  md_manifest_version :: u32
  md_catalog_digest :: string
  md_operating_mode :: operating_mode
  md_capability_ids :: "string fset"
  md_required_artifact_types :: "string fset"
  md_oracle_ids :: "string fset"
  md_checkpoints :: "mission_checkpoint list"
  md_cycle :: u64

section \<open>The mission\<close>

record mission =
  ms_tenant_id :: string
  ms_id :: string
  ms_project_id :: string
  ms_title :: string
  ms_contract :: operating_contract
  ms_definition :: "mission_definition option"
  ms_stage :: mission_stage
  ms_tasks :: "task list"
  ms_evidence :: "evidence list"
  ms_work_products :: "work_product list"
  ms_effects :: "effect list"
  ms_outcome_history :: "outcome list"
  ms_outcome :: "outcome option"
  ms_block :: "mission_block option"
  ms_created_at :: time
  ms_updated_at :: time
  ms_revision :: u64

datatype (plugins only: code) mission_error =
    OperatingContract operating_contract_error
  | EmptyMission
  | InvalidMissionDefinition
  | MissionDefinitionContractMismatch
  | InvalidMissionCycle u64 u64
  | MissionCycleCheckpointIncomplete
  | MissionDefinitionRequired
  | MissionCheckpointNotFound string
  | InvalidCheckpointTransition string mission_checkpoint_status mission_checkpoint_status
  | CheckpointDependencyIncomplete string
  | InvalidCheckpointCompletion string
  | MissionCheckpointTaskMismatch string string
  | InvalidMissionStage mission_stage "mission_stage list"
  | DuplicateEvidence string
  | UnknownEvidence string
  | InvalidWorkProduct string
  | DuplicateWorkProduct string
  | UnknownWorkProduct string
  | InvalidWorkProductTransition string
  | UnknownEffect string
  | EmptyIdempotencyKey
  | DuplicateIdempotencyKey string
  | CapabilityNotEnabled string
  | NegativeCostLimit
  | PaymentAmountNotPositive
  | InvalidEffectScope
  | ConsentRecordMismatch
  | InvalidEffectTransition effect_status effect_status
  | ApprovalScopeChanged
  | InvalidApproval
  | MissingApproval
  | EffectExpired
  | ApprovalExpired
  | ReceiptScopeMismatch
  | DurableReceiptRecoveryMismatch
  | DurableProviderRecoveryMismatch
  | VerificationReceiptMismatch
  | InvalidOutcome
  | JourneyContinuationNotReady
  | InvalidBlock
  | BlockNotRecoverable
  | AlreadyTerminal
  | Vm04ValidTerminalResolutionRequired
  | Vm07ReplanOrTerminalResolutionRequired
  | Vm11ValidTerminalResolutionRequired
  | Vm11NextContractResolutionRequired
  | Vm11CandidateLearningTerminalResolutionRequired
  | MissionRevisionOverflow
  | MissionPanic

section \<open>Order of the oracle sources\<close>

text \<open>
  \<open>MissionCheckpointOracleSource\<close> derives \<open>Ord\<close>: the lexicographic order of its fields, in which a
  \<open>BTreeSet\<close> compares as the sequence of its elements. The evidence digest iterates a \<open>BTreeSet\<close>
  of sources in this order.
\<close>

definition source_key ::
  "mission_checkpoint_oracle_source \<Rightarrow> string \<times> string \<times> nat \<times> string \<times> string list" where
  "source_key s =
     (os_source_kind s, os_source_id s, unat (os_source_revision s), os_projection_digest s,
      sorted_list_of_fset (os_oracle_ids s))"

lemma sorted_list_of_fset_inject:
  "sorted_list_of_fset A = sorted_list_of_fset B \<longleftrightarrow> A = B" for A B :: "'a::linorder fset"
  by (metis fset_inject sorted_list_of_fset_simps(1))

lemma source_key_inject: "source_key s = source_key t \<longleftrightarrow> s = t"
  by (cases s; cases t) (auto simp: source_key_def sorted_list_of_fset_inject word_unat_eq_iff)

instantiation mission_checkpoint_oracle_source :: linorder
begin

definition less_mission_checkpoint_oracle_source ::
  "mission_checkpoint_oracle_source \<Rightarrow> mission_checkpoint_oracle_source \<Rightarrow> bool" where
  "less_mission_checkpoint_oracle_source s t \<longleftrightarrow> source_key s < source_key t"

definition less_eq_mission_checkpoint_oracle_source ::
  "mission_checkpoint_oracle_source \<Rightarrow> mission_checkpoint_oracle_source \<Rightarrow> bool" where
  "less_eq_mission_checkpoint_oracle_source s t \<longleftrightarrow> s = t \<or> source_key s < source_key t"

instance
proof
  fix s t u :: mission_checkpoint_oracle_source
  show "s < t \<longleftrightarrow> s \<le> t \<and> \<not> t \<le> s"
    unfolding less_mission_checkpoint_oracle_source_def less_eq_mission_checkpoint_oracle_source_def
    by (metis order.asym order.irrefl)
  show "s \<le> s"
    by (simp add: less_eq_mission_checkpoint_oracle_source_def)
  show "s \<le> t \<Longrightarrow> t \<le> u \<Longrightarrow> s \<le> u"
    unfolding less_eq_mission_checkpoint_oracle_source_def by (metis order.strict_trans)
  show "s \<le> t \<Longrightarrow> t \<le> s \<Longrightarrow> s = t"
    unfolding less_eq_mission_checkpoint_oracle_source_def by (metis order.asym)
  show "s \<le> t \<or> t \<le> s"
    unfolding less_eq_mission_checkpoint_oracle_source_def by (metis source_key_inject linorder_neqE)
qed

end

section \<open>A sample mission\<close>

text \<open>A scheduled mission with one reviewed outcome, on which the properties are instantiated.\<close>

definition sample_contract :: operating_contract where
  "sample_contract =
     \<lparr>oc_version = 1, oc_mode = ContinuousOperator, oc_parent_mission_id = None, oc_goal = ''g'',
      oc_non_goals = [], oc_market = ''m'', oc_language = ''und'', oc_audience = ''a'',
      oc_kpis = fmempty, oc_budget = money_zero ''USD'', oc_timezone = ''UTC'',
      oc_cadence = Some sample_cadence,
      oc_autonomy_by_capability = fmap_of_list [(''c'', ApprovalRequired)],
      oc_consent_requirements = {||},
      oc_approval_policy =
        \<lparr>required_effect_classes = {|Payment|}, validity_seconds = 3600, exact_scope_required = True\<rparr>,
      oc_stop_conditions = [''s''], oc_completion_conditions = [''d''],
      oc_valid_from = 0, oc_valid_until = seconds 2592000, oc_constraints = [],
      oc_enabled_capabilities = {|''c''|}, oc_forbidden_capabilities = {||}\<rparr>"

definition sample_outcome :: outcome where
  "sample_outcome = \<lparr>ou_summary = ''o'', ou_decision = OutContinue, ou_metrics = fmempty,
     ou_observed_at = seconds 3000\<rparr>"

definition sample_mission :: mission where
  "sample_mission =
     \<lparr>ms_tenant_id = ''t'', ms_id = ''m1'', ms_project_id = ''p'', ms_title = ''T'',
      ms_contract = sample_contract, ms_definition = None, ms_stage = StageScheduled,
      ms_tasks = [], ms_evidence = [], ms_work_products = [], ms_effects = [],
      ms_outcome_history = [sample_outcome], ms_outcome = Some sample_outcome, ms_block = None,
      ms_created_at = 0, ms_updated_at = seconds 3000, ms_revision = 7\<rparr>"

definition sample_digest :: string where
  "sample_digest = replicate 64 (CHR ''a'')"

lemma sample_names:
  "\<not> blank ''g''" "\<not> blank ''m''" "\<not> blank ''und''" "\<not> blank ''a''" "\<not> blank ''UTC''" "\<not> blank ''s''"
  "\<not> blank ''d''" "\<not> blank ''c''" "\<not> blank ''t''" "\<not> blank ''p''" "\<not> blank ''m1''" "\<not> blank ''T''"
  "\<not> blank ''mission-schedule:m1:cycle:2''"
  by code_simp+

lemma sample_digest_hex: "is_sha256 sample_digest" "is_sha256 (replicate 64 (CHR ''0''))"
  unfolding sample_digest_def by code_simp+

lemma sample_contract_valid:
  "0 \<le> t \<Longrightarrow> t < seconds 2592000 \<Longrightarrow> contract_validate sample_contract t = Ok ()"
  by (simp add: contract_validate_def sample_contract_def sample_names sample_cadence_def
      cadence_shape_invalid_def money_zero_def seconds_def nanos_per_second_def fset_eq_iff)

lemma sample_selectors:
  "oc_cadence sample_contract = Some sample_cadence" "oc_valid_until sample_contract = seconds 2592000"
  "oc_version sample_contract = 1" "cd_trigger sample_cadence = Interval"
  "cd_interval_seconds sample_cadence = 3600" "cd_anchor_at sample_cadence = seconds 100"
  "cd_event_topics sample_cadence = {||}" "ou_observed_at sample_outcome = seconds 3000"
  by (simp_all add: sample_contract_def sample_cadence_def sample_outcome_def)

end
