(* ===== verification/Work_Product.thy ===== *)
theory Work_Product
  imports Mission_Types Interfaces
begin

text \<open>
  \<open>domain-kernel/src/mission.rs\<close>, \<open>impl WorkProduct\<close>: drafting, validation, the successor relation
  \<open>follows\<close> that every stored change must satisfy, and the transitions derived from it.
\<close>

section \<open>Operations\<close>

definition wp_content_digest_of :: "'x ext_scheme \<Rightarrow> string \<Rightarrow> string \<Rightarrow> string" where
  "wp_content_digest_of X title body = sha256 X (title @ [CHR 0x0A] @ body)"

definition wp_draft ::
  "'x ext_scheme \<Rightarrow> string \<Rightarrow> string \<Rightarrow> string \<Rightarrow> string fset \<Rightarrow> work_product" where
  "wp_draft X wid title body evidence_ids =
     \<lparr>wp_id = wid, wp_title = title, wp_body = body, wp_evidence_ids = evidence_ids,
      wp_revision = 1, wp_status = WpDraft,
      wp_content_digest = wp_content_digest_of X title body\<rparr>"

definition wp_validate :: "'x ext_scheme \<Rightarrow> work_product \<Rightarrow> mission_error + unit" where
  "wp_validate X w =
     (if blank (wp_id w) \<or> blank (wp_title w) \<or> blank (wp_body w) \<or> wp_revision w = 0
         \<or> (\<exists>e |\<in>| wp_evidence_ids w. blank e)
         \<or> wp_content_digest w \<noteq> wp_content_digest_of X (wp_title w) (wp_body w)
      then Err (InvalidWorkProduct (wp_id w)) else Ok ())"

fun wp_transition_allowed :: "work_product_status \<Rightarrow> work_product_status \<Rightarrow> bool" where
  "wp_transition_allowed WpDraft to = (to = WpDraft \<or> to = WpReadyForReview)"
| "wp_transition_allowed WpReadyForReview to =
     (to = WpReadyForReview \<or> to = WpAccepted \<or> to = WpSuperseded)"
| "wp_transition_allowed WpAccepted to = (to = WpSuperseded)"
| "wp_transition_allowed WpSuperseded to = False"

definition wp_follows :: "'x ext_scheme \<Rightarrow> work_product \<Rightarrow> work_product \<Rightarrow> mission_error + bool" where
  "wp_follows X w previous =
     and_then (wp_validate X w) (\<lambda>_.
     and_then (wp_validate X previous) (\<lambda>_.
       Ok (wp_id w = wp_id previous
           \<and> checked_add (wp_revision previous) 1 = Some (wp_revision w)
           \<and> wp_transition_allowed (wp_status previous) (wp_status w))))"

definition wp_revise_content ::
  "'x ext_scheme \<Rightarrow> work_product \<Rightarrow> string \<Rightarrow> string \<Rightarrow> string fset \<Rightarrow> mission_error + work_product" where
  "wp_revise_content X w title body evidence_ids =
     and_then (wp_validate X w) (\<lambda>_.
       if wp_status w \<noteq> WpReadyForReview then Err (InvalidWorkProductTransition (wp_id w))
       else and_then (ok_or MissionRevisionOverflow (checked_add (wp_revision w) 1)) (\<lambda>revision.
         let revised =
           \<lparr>wp_id = wp_id w, wp_title = title, wp_body = body, wp_evidence_ids = evidence_ids,
            wp_revision = revision, wp_status = WpReadyForReview,
            wp_content_digest = wp_content_digest_of X title body\<rparr>
         in and_then (wp_follows X revised w) (\<lambda>ok.
           if \<not> ok then Err (InvalidWorkProductTransition (wp_id w)) else Ok revised)))"

definition wp_transition_to ::
  "'x ext_scheme \<Rightarrow> work_product \<Rightarrow> work_product_status \<Rightarrow> mission_error + work_product" where
  "wp_transition_to X w status =
     and_then (ok_or MissionRevisionOverflow (checked_add (wp_revision w) 1)) (\<lambda>revision.
       let transitioned = w\<lparr>wp_revision := revision, wp_status := status\<rparr>
       in and_then (wp_follows X transitioned w) (\<lambda>ok.
         if \<not> ok then Err (InvalidWorkProductTransition (wp_id w)) else Ok transitioned))"

definition wp_accept :: "'x ext_scheme \<Rightarrow> work_product \<Rightarrow> mission_error + work_product" where
  "wp_accept X w = wp_transition_to X w WpAccepted"

definition wp_supersede :: "'x ext_scheme \<Rightarrow> work_product \<Rightarrow> mission_error + work_product" where
  "wp_supersede X w = wp_transition_to X w WpSuperseded"

section \<open>The successor relation\<close>

text \<open>A stored revision is replaced only by one that \<open>follows\<close> accepts.\<close>

definition wp_step :: "'x ext_scheme \<Rightarrow> work_product \<Rightarrow> work_product \<Rightarrow> bool" where
  "wp_step X p w \<longleftrightarrow> wp_follows X w p = Ok True"

lemma wp_follows_True:
  "wp_follows X w p = Ok True \<longleftrightarrow>
     wp_validate X w = Ok () \<and> wp_validate X p = Ok () \<and> wp_id w = wp_id p \<and>
     checked_add (wp_revision p) 1 = Some (wp_revision w) \<and>
     wp_transition_allowed (wp_status p) (wp_status w)"
  by (auto simp: wp_follows_def)

lemmas wp_op_defs =
  wp_revise_content_def wp_transition_to_def wp_accept_def wp_supersede_def

lemma wp_revise_content_step: "wp_revise_content X w t b es = Ok w' \<Longrightarrow> wp_step X w w'"
  by (auto simp: wp_revise_content_def wp_step_def Let_def)

lemma wp_transition_to_step: "wp_transition_to X w st = Ok w' \<Longrightarrow> wp_step X w w'"
  by (auto simp: wp_transition_to_def wp_step_def Let_def)

interpretation wp_rev: revisioned wp_revision "wp_step X" for X :: "'x ext_scheme"
  by unfold_locales (simp add: wp_step_def wp_follows_True)

interpretation wp_superseded: stable "wp_step X" "\<lambda>w. wp_status w \<in> {WpAccepted, WpSuperseded}"
  for X :: "'x ext_scheme"
  by unfold_locales (auto simp: wp_step_def wp_follows_True)

lemma wp_superseded_final: "wp_step X p w \<Longrightarrow> wp_status p \<noteq> WpSuperseded"
  by (auto simp: wp_step_def wp_follows_True)

text \<open>The two operations on content refuse an accepted or retired version.\<close>

lemma wp_ops_accepted:
  assumes "wp_status w \<in> {WpAccepted, WpSuperseded}"
  shows "is_err (wp_revise_content X w t b es)" and "is_err (wp_accept X w)"
proof -
  show "is_err (wp_revise_content X w t b es)"
    using assms by (auto simp: is_ok_iff wp_revise_content_def)
  show "is_err (wp_accept X w)"
    using assms by (auto simp: is_ok_iff wp_accept_def wp_transition_to_def Let_def wp_follows_def)
qed

section \<open>Histories\<close>

fun wp_rank :: "work_product_status \<Rightarrow> nat" where
  "wp_rank WpDraft = 0"
| "wp_rank WpReadyForReview = 1"
| "wp_rank WpAccepted = 2"
| "wp_rank WpSuperseded = 3"

lemma wp_transition_rank: "wp_transition_allowed a b \<Longrightarrow> wp_rank a \<le> wp_rank b"
  by (cases a; cases b) simp_all

lemma wp_step_rank:
  "wp_step X p w \<Longrightarrow> wp_rank (wp_status p) \<le> wp_rank (wp_status w) \<and> wp_id w = wp_id p \<and>
     wp_validate X w = Ok ()"
  by (auto simp: wp_step_def wp_follows_True dest: wp_transition_rank)

lemma wp_accepted_steps:
  assumes "(wp_step X ^^ n) w w'"
  shows "wp_status w = WpSuperseded \<Longrightarrow> n = 0"
    and "wp_status w = WpAccepted \<Longrightarrow> n = 0 \<or> n = 1 \<and> wp_status w' = WpSuperseded"
proof -
  have last: "n = 0" if "wp_status w = WpSuperseded" "(wp_step X ^^ n) w w'" for n w w'
    using that wp_superseded_final by (cases n) (auto dest: relpowp_Suc_D2 simp del: relpowp.simps)
  then show "wp_status w = WpSuperseded \<Longrightarrow> n = 0"
    using assms by blast
  show "n = 0 \<or> n = 1 \<and> wp_status w' = WpSuperseded" if "wp_status w = WpAccepted"
  proof (cases n)
    case (Suc k)
    with assms obtain v where v: "wp_step X w v" "(wp_step X ^^ k) v w'"
      by (auto dest: relpowp_Suc_D2 simp del: relpowp.simps)
    then have "wp_status v = WpSuperseded"
      using that by (simp add: wp_step_def wp_follows_True)
    moreover from this have "k = 0"
      using last v(2) by blast
    ultimately show ?thesis
      using v(2) Suc by simp
  qed simp
qed

lemma wp_transition_keeps:
  assumes "wp_transition_to X w status = Ok v"
  shows "v = w\<lparr>wp_revision := wp_revision v, wp_status := status\<rparr>"
  using assms by (auto simp: wp_transition_to_def Let_def split: if_splits)

text \<open>
  C33: The history of a work product is linear and moves forwards only: after n accepted successor
  versions the revision has grown by n, the id is the same, the review state has not gone
  back, and the content digest is that of the content. An accepted version has at most one
  successor, which retires it, and a retired version has none. Revising and accepting
  fail on every accepted or retired version, and the operations that accept and retire a version
  change nothing but its revision and its state.
\<close>

theorem work_product_history:
  assumes "(wp_step X ^^ n) w w'" and "wp_validate X w = Ok ()"
  shows "unat (wp_revision w') = unat (wp_revision w) + n \<and> wp_id w' = wp_id w \<and>
    wp_rank (wp_status w) \<le> wp_rank (wp_status w') \<and>
    wp_content_digest w' = sha256 X (wp_title w' @ [CHR 0x0A] @ wp_body w') \<and>
    (wp_status w = WpAccepted \<longrightarrow> n = 0 \<or> n = 1 \<and> wp_status w' = WpSuperseded) \<and>
    (wp_status w = WpSuperseded \<longrightarrow> n = 0) \<and>
    (wp_status w' \<in> {WpAccepted, WpSuperseded} \<longrightarrow>
       is_err (wp_revise_content X w' title body evidence) \<and> is_err (wp_accept X w')) \<and>
    (\<forall>v. wp_accept X w' = Ok v \<longrightarrow> v = w'\<lparr>wp_revision := wp_revision v, wp_status := WpAccepted\<rparr>) \<and>
    (\<forall>v. wp_supersede X w' = Ok v \<longrightarrow> v = w'\<lparr>wp_revision := wp_revision v, wp_status := WpSuperseded\<rparr>)"
proof -
  have run: "(wp_step X)\<^sup>*\<^sup>* w w'"
    using assms(1) by (simp add: relpowp_imp_rtranclp)
  have kept: "wp_rank (wp_status w) \<le> wp_rank (wp_status w') \<and> wp_id w' = wp_id w \<and> wp_validate X w' = Ok ()"
    using run assms(2) by (induction rule: rtranclp_induct) (auto dest: wp_step_rank)
  then have "wp_content_digest w' = sha256 X (wp_title w' @ [CHR 0x0A] @ wp_body w')"
    by (simp add: wp_validate_def wp_content_digest_of_def)
  moreover have "\<forall>v. wp_accept X w' = Ok v \<longrightarrow> v = w'\<lparr>wp_revision := wp_revision v, wp_status := WpAccepted\<rparr>"
    "\<forall>v. wp_supersede X w' = Ok v \<longrightarrow> v = w'\<lparr>wp_revision := wp_revision v, wp_status := WpSuperseded\<rparr>"
    using wp_transition_keeps unfolding wp_accept_def wp_supersede_def by blast+
  ultimately show ?thesis
    using kept wp_rev.run_counts [OF assms(1)] wp_ops_accepted wp_accepted_steps [OF assms(1)] by blast
qed

theorem work_product_history_witness:
  "let w = (wp_draft sample_ext ''w'' ''t'' ''b'' {||})\<lparr>wp_status := WpAccepted\<rparr>;
       v = w\<lparr>wp_revision := 2, wp_status := WpSuperseded\<rparr> in
   wp_supersede sample_ext w = Ok v \<and> unat (wp_revision v) = 2 \<and> wp_status v = WpSuperseded \<and>
   is_err (wp_revise_content sample_ext v ''u'' ''b'' {||}) \<and> is_err (wp_accept sample_ext v)"
proof -
  let ?w = "(wp_draft sample_ext ''w'' ''t'' ''b'' {||})\<lparr>wp_status := WpAccepted\<rparr>"
  let ?v = "?w\<lparr>wp_revision := 2, wp_status := WpSuperseded\<rparr>"
  have "\<not> blank ''w''" "\<not> blank ''t''" "\<not> blank ''b''"
    by code_simp+
  then have valid: "wp_validate sample_ext ?w = Ok ()" and retired: "wp_supersede sample_ext ?w = Ok ?v"
    by (simp_all add: wp_validate_def wp_draft_def wp_supersede_def wp_transition_to_def wp_follows_def
        checked_add_def Let_def)
  then have "wp_step sample_ext ?w ?v"
    using wp_transition_to_step [of sample_ext ?w WpSuperseded ?v] unfolding wp_supersede_def by blast
  then have "(wp_step sample_ext ^^ 1) ?w ?v"
    by auto
  moreover have "unat (wp_revision ?w) = 1" "wp_status ?w = WpAccepted"
    by (simp_all add: wp_draft_def)
  ultimately show ?thesis
    unfolding Let_def using work_product_history [of 1 sample_ext ?w ?v "''u''" "''b''" "{||}"] valid retired by auto
qed

text \<open>
  The successor check does not compare content: a retiring version that a caller supplies may carry
  another text than the accepted one.
\<close>

lemma retiring_version_may_differ:
  "let w = (wp_draft sample_ext ''w'' ''t'' ''b'' {||})\<lparr>wp_status := WpAccepted\<rparr>;
       v = (wp_draft sample_ext ''w'' ''u'' ''b'' {||})\<lparr>wp_revision := 2, wp_status := WpSuperseded\<rparr> in
   wp_step sample_ext w v \<and> wp_title v \<noteq> wp_title w"
proof -
  have "\<not> blank ''w''" "\<not> blank ''t''" "\<not> blank ''b''" "\<not> blank ''u''"
    by code_simp+
  then show ?thesis
    by (simp add: Let_def wp_step_def wp_follows_True wp_validate_def wp_draft_def checked_add_def)
qed

end
