(* ===== verification/Schedule.thy ===== *)
theory Schedule
  imports Mission_Types Interfaces
begin

text \<open>
  \<open>domain-kernel/src/mission_schedule.rs\<close>: the durable authority for exactly one future mission
  cycle. A schedule waits for its due time or its first event, is claimed under a lease fenced by
  a generation, and ends triggered, cancelled, expired or dead-lettered. Each mutating method is a
  function to its result and the record it leaves behind, on the error paths too.
\<close>

section \<open>Data\<close>

definition max_failures :: nat where
  "max_failures = 5"

definition max_lease_seconds :: int where
  "max_lease_seconds = 15 * 60"

datatype mission_schedule_status =
  SchedPending | SchedLeased | SchedTriggered | SchedCancelled | SchedExpired | SchedDeadLetter

datatype mission_schedule_failure_class =
  LeaseExpired | CoordinatorRestart | RuntimeUnavailable | MissionConflict | InvalidTrigger

record mission_schedule_signal =
  sg_topic :: string
  sg_event_id_digest :: string
  sg_payload_digest :: string
  sg_observed_at :: time

record mission_schedule_lease =
  sl_owner_digest :: string
  sl_token_digest :: string
  sl_generation :: u64
  sl_claimed_at :: time
  sl_heartbeat_at :: time
  sl_expires_at :: time

record mission_schedule_failure =
  sf_sequence :: u32
  sf_class :: mission_schedule_failure_class
  sf_evidence_digest :: string
  sf_retryable :: bool
  sf_observed_at :: time

record mission_schedule =
  sc_id :: string
  sc_tenant_id :: string
  sc_project_id :: string
  sc_mission_id :: string
  sc_cycle :: u64
  sc_scheduled_from_mission_revision :: u64
  sc_contract_version :: u64
  sc_definition_cycle :: "u64 option"
  sc_trigger :: cadence_trigger_kind
  sc_interval_seconds :: u64
  sc_anchor_at :: time
  sc_event_topics :: "string fset"
  sc_due_at :: "time option"
  sc_retry_not_before :: "time option"
  sc_contract_valid_until :: time
  sc_signal :: "mission_schedule_signal option"
  sc_status :: mission_schedule_status
  sc_lease_generation :: u64
  sc_lease :: "mission_schedule_lease option"
  sc_failures :: "mission_schedule_failure list"
  sc_revision :: u64
  sc_created_at :: time
  sc_updated_at :: time

datatype (plugins only: code) mission_schedule_error =
    ScheduleContract operating_contract_error
  | MissionNotScheduled
  | CadenceMissing
  | CadenceInvalid
  | OutcomeMissing
  | OutsideContractWindow
  | CycleOverflow
  | CycleMismatch
  | InvalidRecord
  | NotSignalable
  | InvalidSignal
  | SignalAlreadyBound
  | NotDue
  | InvalidLease
  | LeaseActive
  | LeaseLost
  | InvalidFailure
  | FailureLimitReached
  | NotCancellable
  | NotExpirable
  | ScheduleRevisionOverflow
  | SchedulePanic

section \<open>Validation\<close>

definition trigger_shape_is_valid :: "mission_schedule \<Rightarrow> bool" where
  "trigger_shape_is_valid s =
     (case sc_trigger s of
        Interval \<Rightarrow>
          0 < sc_interval_seconds s \<and> sc_event_topics s = {||} \<and> sc_due_at s \<noteq> None
          \<and> sc_signal s = None
      | EventDriven \<Rightarrow>
          sc_interval_seconds s = 0 \<and> sc_event_topics s \<noteq> {||} \<and> sc_due_at s = None
      | IntervalOrEvent \<Rightarrow>
          0 < sc_interval_seconds s \<and> sc_event_topics s \<noteq> {||} \<and> sc_due_at s \<noteq> None)"

definition schedule_validate :: "mission_schedule \<Rightarrow> mission_schedule_error + unit" where
  "schedule_validate s =
     (if blank (sc_id s) \<or> blank (sc_tenant_id s) \<or> blank (sc_project_id s)
         \<or> blank (sc_mission_id s)
         \<or> sc_cycle s < 2
         \<or> sc_scheduled_from_mission_revision s = 0
         \<or> sc_contract_version s = 0
         \<or> is_some_and (\<lambda>cycle. checked_add cycle 1 \<noteq> Some (sc_cycle s)) (sc_definition_cycle s)
         \<or> sc_contract_valid_until s \<le> sc_created_at s
         \<or> sc_updated_at s < sc_created_at s
         \<or> sc_revision s = 0
         \<or> (\<exists>topic |\<in>| sc_event_topics s. blank topic)
         \<or> \<not> trigger_shape_is_valid s
         \<or> is_some_and (\<lambda>value. sc_contract_valid_until s \<le> value) (sc_retry_not_before s)
         \<or> is_some_and (\<lambda>signal.
               sg_topic signal |\<notin>| sc_event_topics s
               \<or> \<not> is_sha256 (sg_event_id_digest signal)
               \<or> \<not> is_sha256 (sg_payload_digest signal)
               \<or> sg_observed_at signal < sc_created_at s
               \<or> sc_contract_valid_until s \<le> sg_observed_at signal) (sc_signal s)
         \<or> max_failures < length (sc_failures s)
         \<or> list_ex (\<lambda>(index, failure).
               unat (sf_sequence failure) \<noteq> index + 1
               \<or> \<not> is_sha256 (sf_evidence_digest failure)
               \<or> sf_observed_at failure < sc_created_at s) (enumerate 0 (sc_failures s))
      then Err InvalidRecord
      else if sc_status s \<in> {SchedPending, SchedCancelled, SchedExpired, SchedDeadLetter}
      then (if sc_lease s \<noteq> None then Err InvalidRecord else Ok ())
      else case sc_lease s of
        None \<Rightarrow> Err InvalidRecord
      | Some lease \<Rightarrow>
          if sl_generation lease \<noteq> sc_lease_generation s
             \<or> sl_generation lease = 0
             \<or> \<not> is_sha256 (sl_owner_digest lease)
             \<or> \<not> is_sha256 (sl_token_digest lease)
             \<or> sl_claimed_at lease < sc_created_at s
             \<or> sl_heartbeat_at lease < sl_claimed_at lease
             \<or> sl_expires_at lease \<le> sl_heartbeat_at lease
          then Err InvalidRecord else Ok ())"

section \<open>Preparing a schedule\<close>

definition prepare ::
  "'x ext_scheme \<Rightarrow> mission \<Rightarrow> time \<Rightarrow> mission_schedule_error + mission_schedule" where
  "prepare X mission now =
     (if ms_stage mission \<noteq> StageScheduled then Err MissionNotScheduled
      else
        and_then (map_err ScheduleContract (contract_validate (ms_contract mission) now)) (\<lambda>_.
        and_then (ok_or CadenceMissing (oc_cadence (ms_contract mission))) (\<lambda>cadence.
        and_then (if ms_outcome_history mission = [] then Err OutcomeMissing
                  else Ok (last (ms_outcome_history mission))) (\<lambda>outcome.
        if now < ou_observed_at outcome \<or> oc_valid_until (ms_contract mission) \<le> now
        then Err OutsideContractWindow
        else
          and_then (ok_or CycleOverflow
            (Option.bind (usize_to_u64 (length (ms_outcome_history mission)))
               (\<lambda>value. checked_add value 1))) (\<lambda>cycle.
          if cycle < 2
             \<or> is_some_and (\<lambda>definition. checked_add (md_cycle definition) 1 \<noteq> Some cycle)
                 (ms_definition mission)
          then Err CycleMismatch
          else
            and_then (if cd_trigger cadence = EventDriven then Ok None
                      else case next_interval_due_at X cadence now of
                          Inl _ \<Rightarrow> Err SchedulePanic
                        | Inr due \<Rightarrow> and_then (ok_or CycleOverflow due) (\<lambda>due. Ok (Some due)))
              (\<lambda>due_at.
            if cd_trigger cadence = Interval
               \<and> is_some_and (\<lambda>due. oc_valid_until (ms_contract mission) \<le> due) due_at
            then Err OutsideContractWindow
            else
              let schedule =
                \<lparr>sc_id = ''mission-schedule:'' @ ms_id mission @ '':cycle:'' @ dec_u64 cycle,
                 sc_tenant_id = ms_tenant_id mission, sc_project_id = ms_project_id mission,
                 sc_mission_id = ms_id mission, sc_cycle = cycle,
                 sc_scheduled_from_mission_revision = ms_revision mission,
                 sc_contract_version = oc_version (ms_contract mission),
                 sc_definition_cycle = map_option md_cycle (ms_definition mission),
                 sc_trigger = cd_trigger cadence,
                 sc_interval_seconds = cd_interval_seconds cadence,
                 sc_anchor_at = cd_anchor_at cadence,
                 sc_event_topics = cd_event_topics cadence, sc_due_at = due_at,
                 sc_retry_not_before = None,
                 sc_contract_valid_until = oc_valid_until (ms_contract mission),
                 sc_signal = None, sc_status = SchedPending, sc_lease_generation = 0,
                 sc_lease = None, sc_failures = [], sc_revision = 1, sc_created_at = now,
                 sc_updated_at = now\<rparr>
              in and_then (schedule_validate schedule) (\<lambda>_. Ok schedule)))))))"

section \<open>Commands\<close>

definition is_due :: "mission_schedule \<Rightarrow> time \<Rightarrow> bool" where
  "is_due s now \<longleftrightarrow>
     sc_status s = SchedPending
     \<and> now < sc_contract_valid_until s
     \<and> is_none_or (\<lambda>retry_at. retry_at \<le> now) (sc_retry_not_before s)
     \<and> (sc_signal s \<noteq> None \<or> is_some_and (\<lambda>due_at. due_at \<le> now) (sc_due_at s))"

definition sched_ensure_touchable :: "mission_schedule \<Rightarrow> mission_schedule_error + unit" where
  "sched_ensure_touchable s =
     ok_or ScheduleRevisionOverflow (map_option (\<lambda>_. ()) (checked_add (sc_revision s) 1))"

definition sched_touch :: "time \<Rightarrow> mission_schedule \<Rightarrow> mission_schedule" where
  "sched_touch now s = s\<lparr>sc_revision := sc_revision s + 1, sc_updated_at := now\<rparr>"

definition verify_lease ::
  "mission_schedule \<Rightarrow> string \<Rightarrow> string \<Rightarrow> u64 \<Rightarrow> time \<Rightarrow> mission_schedule_error + unit" where
  "verify_lease s owner_digest token_digest generation now =
     and_then (ok_or LeaseLost (sc_lease s)) (\<lambda>lease.
       if sc_status s \<noteq> SchedLeased
          \<or> sl_owner_digest lease \<noteq> owner_digest
          \<or> sl_token_digest lease \<noteq> token_digest
          \<or> sl_generation lease \<noteq> generation
          \<or> sl_expires_at lease \<le> now
       then Err LeaseLost else Ok ())"

definition signal_event ::
  "string \<Rightarrow> string \<Rightarrow> string \<Rightarrow> time \<Rightarrow> mission_schedule
     \<Rightarrow> (mission_schedule_error + bool) \<times> mission_schedule" where
  "signal_event topic event_id_digest payload_digest observed_at s =
     attempt (schedule_validate s) s (\<lambda>_.
       if sc_status s \<noteq> SchedPending then (Err NotSignalable, s)
       else let candidate =
         \<lparr>sg_topic = topic, sg_event_id_digest = event_id_digest,
          sg_payload_digest = payload_digest, sg_observed_at = observed_at\<rparr>
       in if sg_topic candidate |\<notin>| sc_event_topics s
             \<or> \<not> is_sha256 (sg_event_id_digest candidate)
             \<or> \<not> is_sha256 (sg_payload_digest candidate)
             \<or> observed_at < sc_created_at s
             \<or> sc_contract_valid_until s \<le> observed_at
       then (Err InvalidSignal, s)
       else if sc_signal s = Some candidate then (Ok False, s)
       else if sc_signal s \<noteq> None then (Err SignalAlreadyBound, s)
       else attempt (sched_ensure_touchable s) s (\<lambda>_.
         let s = sched_touch observed_at (s\<lparr>sc_signal := Some candidate\<rparr>) in
         attempt (schedule_validate s) s (\<lambda>_. (Ok True, s))))"

text \<open>The part of \<open>claim\<close> that takes over an expired lease: the expiry is recorded as a failure.\<close>

definition claim_takeover ::
  "'x ext_scheme \<Rightarrow> time \<Rightarrow> mission_schedule
     \<Rightarrow> (mission_schedule_error + unit) \<times> mission_schedule" where
  "claim_takeover X now s =
     attempt (ok_or InvalidRecord (sc_lease s)) s (\<lambda>previous.
       if now < sl_expires_at previous then (Err LeaseActive, s)
       else attempt (ok_or FailureLimitReached (usize_to_u32 (length (sc_failures s) + 1))) s
         (\<lambda>sequence.
           let failure =
             \<lparr>sf_sequence = sequence, sf_class = LeaseExpired,
              sf_evidence_digest =
                sha256 X (sl_owner_digest previous @ '':'' @ sl_token_digest previous @ '':''
                          @ dec_u64 (sl_generation previous)),
              sf_retryable = True, sf_observed_at = now\<rparr>;
             s = s\<lparr>sc_failures := sc_failures s @ [failure]\<rparr>
           in if max_failures \<le> length (sc_failures s)
              then attempt (sched_ensure_touchable s) s (\<lambda>_.
                (Err FailureLimitReached,
                 sched_touch now (s\<lparr>sc_status := SchedDeadLetter, sc_lease := None\<rparr>)))
              else (Ok (), s)))"

definition claim ::
  "'x ext_scheme \<Rightarrow> string \<Rightarrow> string \<Rightarrow> duration \<Rightarrow> time \<Rightarrow> mission_schedule
     \<Rightarrow> (mission_schedule_error + mission_schedule_lease) \<times> mission_schedule" where
  "claim X owner_digest token_digest lease_duration now s =
     attempt (schedule_validate s) s (\<lambda>_.
       let lease_seconds = num_seconds lease_duration in
       if \<not> is_sha256 owner_digest \<or> \<not> is_sha256 token_digest
          \<or> \<not> (1 \<le> lease_seconds \<and> lease_seconds \<le> max_lease_seconds)
          \<or> sc_contract_valid_until s \<le> now
       then (Err InvalidLease, s)
       else then_with
         (if sc_status s = SchedLeased then claim_takeover X now s
          else if \<not> is_due s now then (Err NotDue, s) else (Ok (), s))
         (\<lambda>_ s.
           attempt (ok_or ScheduleRevisionOverflow (checked_add (sc_lease_generation s) 1)) s
             (\<lambda>generation.
           attempt (ok_or InvalidLease (add_signed X now lease_duration)) s (\<lambda>expires_at.
             if sc_contract_valid_until s \<le> expires_at then (Err InvalidLease, s)
             else attempt (sched_ensure_touchable s) s (\<lambda>_.
               let lease =
                 \<lparr>sl_owner_digest = owner_digest, sl_token_digest = token_digest,
                  sl_generation = generation, sl_claimed_at = now, sl_heartbeat_at = now,
                  sl_expires_at = expires_at\<rparr>;
                 s = sched_touch now (s\<lparr>sc_status := SchedLeased, sc_lease_generation := generation,
                       sc_lease := Some lease, sc_retry_not_before := None\<rparr>)
               in attempt (schedule_validate s) s (\<lambda>_. (Ok lease, s)))))))"

definition heartbeat ::
  "'x ext_scheme \<Rightarrow> string \<Rightarrow> string \<Rightarrow> u64 \<Rightarrow> duration \<Rightarrow> time \<Rightarrow> mission_schedule
     \<Rightarrow> (mission_schedule_error + unit) \<times> mission_schedule" where
  "heartbeat X owner_digest token_digest generation lease_duration now s =
     attempt (schedule_validate s) s (\<lambda>_.
     attempt (verify_lease s owner_digest token_digest generation now) s (\<lambda>_.
       let lease_seconds = num_seconds lease_duration in
       if \<not> (1 \<le> lease_seconds \<and> lease_seconds \<le> max_lease_seconds) then (Err InvalidLease, s)
       else attempt (ok_or InvalidLease (add_signed X now lease_duration)) s (\<lambda>expires_at.
         if sc_contract_valid_until s \<le> expires_at then (Err InvalidLease, s)
         else attempt (sched_ensure_touchable s) s (\<lambda>_.
           attempt (ok_or InvalidRecord (sc_lease s)) s (\<lambda>lease.
             let s = sched_touch now
               (s\<lparr>sc_lease := Some (lease\<lparr>sl_heartbeat_at := now, sl_expires_at := expires_at\<rparr>)\<rparr>)
             in (schedule_validate s, s))))))"

definition mark_triggered ::
  "string \<Rightarrow> string \<Rightarrow> u64 \<Rightarrow> mission \<Rightarrow> time \<Rightarrow> mission_schedule
     \<Rightarrow> (mission_schedule_error + unit) \<times> mission_schedule" where
  "mark_triggered owner_digest token_digest generation mission now s =
     attempt (schedule_validate s) s (\<lambda>_.
     attempt (verify_lease s owner_digest token_digest generation now) s (\<lambda>_.
       if ms_tenant_id mission \<noteq> sc_tenant_id s
          \<or> ms_project_id mission \<noteq> sc_project_id s
          \<or> ms_id mission \<noteq> sc_mission_id s
          \<or> ms_stage mission \<noteq> StageRunning
          \<or> Option.bind (usize_to_u64 (length (ms_outcome_history mission)))
               (\<lambda>value. checked_add value 1) \<noteq> Some (sc_cycle s)
          \<or> is_some_and (\<lambda>definition. md_cycle definition \<noteq> sc_cycle s) (ms_definition mission)
       then (Err CycleMismatch, s)
       else attempt (sched_ensure_touchable s) s (\<lambda>_.
         let s = sched_touch now (s\<lparr>sc_status := SchedTriggered\<rparr>) in (schedule_validate s, s))))"

definition record_failure ::
  "string \<Rightarrow> string \<Rightarrow> u64 \<Rightarrow> mission_schedule_failure_class \<Rightarrow> string \<Rightarrow> bool \<Rightarrow> time option
     \<Rightarrow> time \<Rightarrow> mission_schedule \<Rightarrow> (mission_schedule_error + unit) \<times> mission_schedule" where
  "record_failure owner_digest token_digest generation failure_class evidence_digest retryable retry_at now s =
     attempt (schedule_validate s) s (\<lambda>_.
     attempt (verify_lease s owner_digest token_digest generation now) s (\<lambda>_.
       if \<not> is_sha256 evidence_digest
          \<or> retryable \<noteq> is_some_and (\<lambda>r. now < r \<and> r < sc_contract_valid_until s) retry_at
       then (Err InvalidFailure, s)
       else if max_failures \<le> length (sc_failures s) then (Err FailureLimitReached, s)
       else attempt (sched_ensure_touchable s) s (\<lambda>_.
         attempt (ok_or FailureLimitReached (usize_to_u32 (length (sc_failures s) + 1))) s
           (\<lambda>sequence.
             let failure =
               \<lparr>sf_sequence = sequence, sf_class = failure_class, sf_evidence_digest = evidence_digest,
                sf_retryable = retryable, sf_observed_at = now\<rparr>;
               s = s\<lparr>sc_failures := sc_failures s @ [failure]\<rparr>;
               s = (if retryable \<and> length (sc_failures s) < max_failures
                    then s\<lparr>sc_status := SchedPending, sc_retry_not_before := retry_at\<rparr>
                    else s\<lparr>sc_status := SchedDeadLetter, sc_retry_not_before := None\<rparr>);
               s = sched_touch now (s\<lparr>sc_lease := None\<rparr>)
             in (schedule_validate s, s)))))"

definition sched_cancel ::
  "string \<Rightarrow> time \<Rightarrow> mission_schedule \<Rightarrow> (mission_schedule_error + unit) \<times> mission_schedule" where
  "sched_cancel evidence_digest now s =
     attempt (schedule_validate s) s (\<lambda>_.
       if sc_status s \<notin> {SchedPending, SchedLeased} \<or> \<not> is_sha256 evidence_digest
       then (Err NotCancellable, s)
       else attempt (sched_ensure_touchable s) s (\<lambda>_.
         let s = sched_touch now (s\<lparr>sc_status := SchedCancelled, sc_lease := None,
                                    sc_retry_not_before := None\<rparr>)
         in (schedule_validate s, s)))"

definition sched_expire ::
  "time \<Rightarrow> mission_schedule \<Rightarrow> (mission_schedule_error + unit) \<times> mission_schedule" where
  "sched_expire now s =
     attempt (schedule_validate s) s (\<lambda>_.
       if sc_status s \<notin> {SchedPending, SchedLeased} \<or> now < sc_contract_valid_until s
       then (Err NotExpirable, s)
       else attempt (sched_ensure_touchable s) s (\<lambda>_.
         let s = sched_touch now (s\<lparr>sc_status := SchedExpired, sc_lease := None,
                                    sc_retry_not_before := None\<rparr>)
         in (schedule_validate s, s)))"

end
