(* ===== verification/Schedule_Inv.thy ===== *)
theory Schedule_Inv
  imports Schedule
begin

text \<open>
  Correctness of the schedule: what each successful command does to the record, the invariant of
  every reachable record, fencing of stale leases, the bound on claims, and absorption of the
  terminal states.
\<close>

section \<open>Successful commands\<close>

lemma schedule_validate_Ok:
  "schedule_validate s = Ok () \<longleftrightarrow>
     \<not> blank (sc_id s) \<and> \<not> blank (sc_tenant_id s) \<and> \<not> blank (sc_project_id s) \<and>
     \<not> blank (sc_mission_id s) \<and> 2 \<le> sc_cycle s \<and> sc_scheduled_from_mission_revision s \<noteq> 0 \<and>
     sc_contract_version s \<noteq> 0 \<and>
     is_none_or (\<lambda>cycle. checked_add cycle 1 = Some (sc_cycle s)) (sc_definition_cycle s) \<and>
     sc_created_at s < sc_contract_valid_until s \<and> sc_created_at s \<le> sc_updated_at s \<and>
     sc_revision s \<noteq> 0 \<and> (\<forall>topic. topic |\<in>| sc_event_topics s \<longrightarrow> \<not> blank topic) \<and>
     trigger_shape_is_valid s \<and>
     is_none_or (\<lambda>value. value < sc_contract_valid_until s) (sc_retry_not_before s) \<and>
     is_none_or (\<lambda>signal. sg_topic signal |\<in>| sc_event_topics s \<and>
        is_sha256 (sg_event_id_digest signal) \<and> is_sha256 (sg_payload_digest signal) \<and>
        sc_created_at s \<le> sg_observed_at signal \<and>
        sg_observed_at signal < sc_contract_valid_until s) (sc_signal s) \<and>
     length (sc_failures s) \<le> max_failures \<and>
     (\<forall>(index, failure) \<in> set (enumerate 0 (sc_failures s)).
        unat (sf_sequence failure) = index + 1 \<and> is_sha256 (sf_evidence_digest failure) \<and>
        sc_created_at s \<le> sf_observed_at failure) \<and>
     (if sc_status s \<in> {SchedPending, SchedCancelled, SchedExpired, SchedDeadLetter}
      then sc_lease s = None
      else is_some_and (\<lambda>lease. sl_generation lease = sc_lease_generation s \<and>
        sl_generation lease \<noteq> 0 \<and> is_sha256 (sl_owner_digest lease) \<and>
        is_sha256 (sl_token_digest lease) \<and> sc_created_at s \<le> sl_claimed_at lease \<and>
        sl_claimed_at lease \<le> sl_heartbeat_at lease \<and>
        sl_heartbeat_at lease < sl_expires_at lease) (sc_lease s))"
  unfolding schedule_validate_def
  by (simp add: is_some_and_def is_none_or_def list_ex_iff Ball_def split: option.splits prod.splits)
     (auto simp: not_less not_le)

lemma schedule_validate_Err: "schedule_validate s = Err e \<Longrightarrow> e = InvalidRecord"
  by (auto simp: schedule_validate_def split: if_splits option.splits)

lemmas sched_touch_defs = sched_touch_def sched_ensure_touchable_def

lemma verify_lease_Ok:
  "verify_lease s owner token generation now = Ok () \<longleftrightarrow>
     sc_status s = SchedLeased \<and>
     (\<exists>lease. sc_lease s = Some lease \<and> sl_owner_digest lease = owner \<and>
        sl_token_digest lease = token \<and> sl_generation lease = generation \<and>
        now < sl_expires_at lease)"
  by (auto simp: verify_lease_def)

lemma signal_event_Ok:
  assumes "signal_event topic event_id payload now s = (Ok True, s')"
  shows "schedule_validate s = Ok ()" "schedule_validate s' = Ok ()" "sc_status s = SchedPending"
    "sc_signal s = None" "checked_add (sc_revision s) 1 = Some (sc_revision s + 1)"
    "\<exists>signal. s' = sched_touch now (s\<lparr>sc_signal := Some signal\<rparr>)"
  using assms checked_add_SomeD(2)
  by (auto simp: signal_event_def Let_def sched_touch_defs split: if_splits)

lemma claim_takeover_Ok:
  assumes "claim_takeover X now s = (Ok (), s')"
  obtains previous failure where "sc_lease s = Some previous" "sl_expires_at previous \<le> now"
    "s' = s\<lparr>sc_failures := sc_failures s @ [failure]\<rparr>"
    "Suc (length (sc_failures s)) < max_failures"
  using assms by (auto simp: claim_takeover_def Let_def not_less split: if_splits)

lemma claim_takeover_exhausted:
  assumes "claim_takeover X now s = (Err FailureLimitReached, s')" and "sc_status s' = SchedDeadLetter"
    and "sc_status s = SchedLeased"
  shows "\<exists>previous failure. sc_lease s = Some previous \<and> sl_expires_at previous \<le> now \<and>
    s' = sched_touch now (s\<lparr>sc_failures := sc_failures s @ [failure],
            sc_status := SchedDeadLetter, sc_lease := None\<rparr>) \<and>
    usize_to_u32 (length (sc_failures s) + 1) = Some (sf_sequence failure) \<and>
    (\<exists>m. sf_evidence_digest failure = sha256 X m) \<and> sf_observed_at failure = now \<and>
    max_failures \<le> Suc (length (sc_failures s)) \<and>
    checked_add (sc_revision s) 1 = Some (sc_revision s + 1)"
proof -
  obtain previous where p: "sc_lease s = Some previous" "\<not> now < sl_expires_at previous"
    using assms(1) by (cases "sc_lease s") (auto simp: claim_takeover_def split: if_splits)
  obtain sequence where q: "usize_to_u32 (length (sc_failures s) + 1) = Some sequence"
    using assms p by (cases "usize_to_u32 (length (sc_failures s) + 1)")
      (auto simp: claim_takeover_def)
  define failure where "failure =
    \<lparr>sf_sequence = sequence, sf_class = LeaseExpired,
     sf_evidence_digest = sha256 X (sl_owner_digest previous @ '':'' @ sl_token_digest previous
        @ '':'' @ dec_u64 (sl_generation previous)),
     sf_retryable = True, sf_observed_at = now\<rparr>"
  have run: "(if max_failures \<le> Suc (length (sc_failures s))
      then attempt (sched_ensure_touchable (s\<lparr>sc_failures := sc_failures s @ [failure]\<rparr>))
        (s\<lparr>sc_failures := sc_failures s @ [failure]\<rparr>) (\<lambda>_. (Err FailureLimitReached,
          sched_touch now (s\<lparr>sc_failures := sc_failures s @ [failure],
            sc_status := SchedDeadLetter, sc_lease := None\<rparr>)))
      else (Ok (), s\<lparr>sc_failures := sc_failures s @ [failure]\<rparr>)) = (Err FailureLimitReached, s')"
    using assms(1) p q unfolding claim_takeover_def failure_def by (simp add: Let_def cong: if_cong)
  then have "max_failures \<le> Suc (length (sc_failures s))" "checked_add (sc_revision s) 1 \<noteq> None"
    "s' = sched_touch now (s\<lparr>sc_failures := sc_failures s @ [failure],
            sc_status := SchedDeadLetter, sc_lease := None\<rparr>)"
    using assms(2,3) by (auto simp: sched_ensure_touchable_def result_simps split: if_splits)
  moreover from this(2) have "checked_add (sc_revision s) 1 = Some (sc_revision s + 1)"
    using checked_add_SomeD(2) by auto
  ultimately show ?thesis
    using p q by (intro exI [of _ previous] exI [of _ failure])
      (auto simp: failure_def)
qed

lemma claim_Ok:
  assumes "claim X owner token d now s = (Ok lease, s')"
  obtains failures generation where
    "schedule_validate s = Ok ()" "schedule_validate s' = Ok ()"
    "s' = sched_touch now (s\<lparr>sc_failures := failures, sc_status := SchedLeased,
            sc_lease_generation := generation, sc_lease := Some lease, sc_retry_not_before := None\<rparr>)"
    "checked_add (sc_lease_generation s) 1 = Some generation"
    "checked_add (sc_revision s) 1 = Some (sc_revision s + 1)"
    "sl_owner_digest lease = owner" "sl_token_digest lease = token"
    "sl_generation lease = generation" "sl_claimed_at lease = now" "sl_heartbeat_at lease = now"
    "add_signed X now d = Some (sl_expires_at lease)" "num_seconds d \<le> max_lease_seconds"
    "sl_expires_at lease < sc_contract_valid_until s"
    "(sc_status s = SchedPending \<and> is_due s now \<and> failures = sc_failures s) \<or>
     (sc_status s = SchedLeased \<and> (\<exists>previous failure. sc_lease s = Some previous \<and>
        sl_expires_at previous \<le> now \<and> failures = sc_failures s @ [failure] \<and>
        Suc (length (sc_failures s)) < max_failures))"
proof (cases "sc_status s = SchedLeased")
  case True
  with assms obtain s1 where "claim_takeover X now s = (Ok (), s1)"
    by (auto simp: claim_def Let_def split: if_splits)
  then obtain previous failure where t: "sc_lease s = Some previous" "sl_expires_at previous \<le> now"
    "s1 = s\<lparr>sc_failures := sc_failures s @ [failure]\<rparr>"
    "Suc (length (sc_failures s)) < max_failures" and "claim_takeover X now s = (Ok (), s1)"
    by (metis claim_takeover_Ok)
  with True assms show ?thesis
    using checked_add_SomeD(2) [of "sc_revision s" 1]
    by (intro that [of "sl_generation lease" "sc_failures s @ [failure]"])
       (auto simp: claim_def Let_def sched_touch_defs not_le split: if_splits)
next
  case False
  with assms show ?thesis
    using checked_add_SomeD(2) [of "sc_revision s" 1]
    by (intro that [of "sl_generation lease" "sc_failures s"])
       (auto simp: claim_def Let_def sched_touch_defs not_le is_due_def split: if_splits)
qed

text \<open>What a takeover writes down about the lease it replaces.\<close>

definition expiry_recorded ::
  "'x ext_scheme \<Rightarrow> mission_schedule_lease \<Rightarrow> time \<Rightarrow> nat \<Rightarrow> mission_schedule_failure \<Rightarrow> bool" where
  "expiry_recorded X previous now n failure \<longleftrightarrow>
     sf_class failure = LeaseExpired \<and> sf_retryable failure \<and> sf_observed_at failure = now \<and>
     unat (sf_sequence failure) = n \<and>
     sf_evidence_digest failure = sha256 X (sl_owner_digest previous @ '':'' @ sl_token_digest previous @ '':''
       @ dec_u64 (sl_generation previous))"

lemma claim_leased_records:
  assumes "claim X owner token d now s = (Ok lease, s')" and "sc_status s = SchedLeased"
  shows "\<exists>previous failure. sc_lease s = Some previous \<and> sl_expires_at previous \<le> now \<and>
    sc_failures s' = sc_failures s @ [failure] \<and>
    expiry_recorded X previous now (length (sc_failures s')) failure"
proof -
  obtain s1 where s1: "claim_takeover X now s = (Ok (), s1)" "sc_failures s' = sc_failures s1"
    using assms by (auto simp: claim_def Let_def sched_touch_defs split: if_splits)
  from s1(1) show ?thesis
    unfolding s1(2)
    by (auto simp: claim_takeover_def Let_def not_less expiry_recorded_def split: if_splits
        dest: usize_to_u32_SomeD)
qed

lemma claim_exhausted:
  assumes "claim X owner token d now s = (Err FailureLimitReached, s')"
    and "sc_status s' = SchedDeadLetter"
  shows "schedule_validate s = Ok ()" "sc_status s = SchedLeased"
    "claim_takeover X now s = (Err FailureLimitReached, s')"
proof -
  have "schedule_validate s \<noteq> Err FailureLimitReached" for s
    using schedule_validate_Err [of s FailureLimitReached] by auto
  then show "schedule_validate s = Ok ()" "sc_status s = SchedLeased"
    "claim_takeover X now s = (Err FailureLimitReached, s')"
    using assms(1)
    by (auto simp: claim_def result_simps Let_def sched_ensure_touchable_def split: if_splits)
qed

lemma sched_touchable_Ok:
  "sched_ensure_touchable s = Ok () \<longleftrightarrow> checked_add (sc_revision s) 1 = Some (sc_revision s + 1)"
  using checked_add_SomeD(2) [of "sc_revision s" 1] by (auto simp: sched_ensure_touchable_def)

lemma heartbeat_Ok:
  assumes "heartbeat X owner token generation d now s = (Ok (), s')"
  shows "\<exists>lease expires_at. schedule_validate s = Ok () \<and> schedule_validate s' = Ok () \<and>
    verify_lease s owner token generation now = Ok () \<and> sc_lease s = Some lease \<and>
    s' = sched_touch now (s\<lparr>sc_lease := Some (lease\<lparr>sl_heartbeat_at := now, sl_expires_at := expires_at\<rparr>)\<rparr>) \<and>
    add_signed X now d = Some expires_at \<and> expires_at < sc_contract_valid_until s \<and>
    num_seconds d \<le> max_lease_seconds \<and> checked_add (sc_revision s) 1 = Some (sc_revision s + 1)"
  using assms by (auto simp: heartbeat_def Let_def sched_touchable_Ok not_le)

lemma mark_triggered_Ok:
  assumes "mark_triggered owner token generation mission now s = (Ok (), s')"
  shows "schedule_validate s = Ok () \<and> schedule_validate s' = Ok () \<and>
    verify_lease s owner token generation now = Ok () \<and>
    s' = sched_touch now (s\<lparr>sc_status := SchedTriggered\<rparr>) \<and>
    checked_add (sc_revision s) 1 = Some (sc_revision s + 1) \<and>
    ms_stage mission = StageRunning \<and> ms_id mission = sc_mission_id s"
  using assms by (auto simp: mark_triggered_def Let_def sched_touchable_Ok)

lemma record_failure_Ok:
  assumes "record_failure owner token generation cls evidence retryable retry_at now s = (Ok (), s')"
  shows "\<exists>failure status retry. schedule_validate s = Ok () \<and> schedule_validate s' = Ok () \<and>
    verify_lease s owner token generation now = Ok () \<and>
    length (sc_failures s) < max_failures \<and>
    s' = sched_touch now (s\<lparr>sc_failures := sc_failures s @ [failure], sc_status := status,
            sc_retry_not_before := retry, sc_lease := None\<rparr>) \<and>
    (if retryable \<and> Suc (length (sc_failures s)) < max_failures
     then status = SchedPending else status = SchedDeadLetter) \<and>
    checked_add (sc_revision s) 1 = Some (sc_revision s + 1)"
proof -
  let ?more = "retryable \<and> Suc (length (sc_failures s)) < max_failures"
  obtain sequence where q: "usize_to_u32 (length (sc_failures s) + 1) = Some sequence"
    using assms by (auto simp: record_failure_def Let_def)
  show ?thesis
    using assms q
    by (intro exI [of _ "\<lparr>sf_sequence = sequence, sf_class = cls, sf_evidence_digest = evidence,
            sf_retryable = retryable, sf_observed_at = now\<rparr>"]
          exI [of _ "if ?more then SchedPending else SchedDeadLetter"]
          exI [of _ "if ?more then retry_at else None"])
       (cases "?more"; auto simp: record_failure_def Let_def sched_touchable_Ok not_le split: if_splits)
qed

lemma sched_cancel_Ok:
  assumes "sched_cancel evidence now s = (Ok (), s')"
  shows "schedule_validate s = Ok () \<and> schedule_validate s' = Ok () \<and>
    sc_status s \<in> {SchedPending, SchedLeased} \<and>
    s' = sched_touch now (s\<lparr>sc_status := SchedCancelled, sc_lease := None, sc_retry_not_before := None\<rparr>) \<and>
    checked_add (sc_revision s) 1 = Some (sc_revision s + 1)"
  using assms by (auto simp: sched_cancel_def Let_def sched_touchable_Ok)

lemma sched_expire_Ok:
  assumes "sched_expire now s = (Ok (), s')"
  shows "schedule_validate s = Ok () \<and> schedule_validate s' = Ok () \<and>
    sc_status s \<in> {SchedPending, SchedLeased} \<and> sc_contract_valid_until s \<le> now \<and>
    s' = sched_touch now (s\<lparr>sc_status := SchedExpired, sc_lease := None, sc_retry_not_before := None\<rparr>) \<and>
    checked_add (sc_revision s) 1 = Some (sc_revision s + 1)"
  using assms by (auto simp: sched_expire_def Let_def sched_touchable_Ok not_less)

section \<open>Reachable schedules\<close>

text \<open>
  One persisted change of a schedule at an instant: a command that succeeded and changed the
  record, or the claim that exhausted the failure budget, which the store commits as well.
\<close>

inductive sched_step :: "'x ext_scheme \<Rightarrow> time \<Rightarrow> mission_schedule \<Rightarrow> mission_schedule \<Rightarrow> bool"
  for X :: "'x ext_scheme" where
  signalled: "signal_event topic event_id payload now s = (Ok True, s') \<Longrightarrow> sched_step X now s s'"
| claimed: "claim X owner token d now s = (Ok lease, s') \<Longrightarrow> sched_step X now s s'"
| exhausted: "claim X owner token d now s = (Err FailureLimitReached, s') \<Longrightarrow>
    sc_status s' = SchedDeadLetter \<Longrightarrow> sched_step X now s s'"
| renewed: "heartbeat X owner token generation d now s = (Ok (), s') \<Longrightarrow> sched_step X now s s'"
| triggered: "mark_triggered owner token generation mission now s = (Ok (), s') \<Longrightarrow>
    sched_step X now s s'"
| failed: "record_failure owner token generation cls evidence retryable retry_at now s = (Ok (), s') \<Longrightarrow>
    sched_step X now s s'"
| cancelled: "sched_cancel evidence now s = (Ok (), s') \<Longrightarrow> sched_step X now s s'"
| expired: "sched_expire now s = (Ok (), s') \<Longrightarrow> sched_step X now s s'"

text \<open>The same step, with the instant left open.\<close>

definition sched_next :: "'x ext_scheme \<Rightarrow> mission_schedule \<Rightarrow> mission_schedule \<Rightarrow> bool" where
  "sched_next X s s' \<longleftrightarrow> (\<exists>now. sched_step X now s s')"

text \<open>
  Every claim leaves a lease or a failure behind, so that the generation of the lease counts the
  failures; and a schedule that can still be claimed has failures to spare.
\<close>

definition sched_inv :: "mission_schedule \<Rightarrow> bool" where
  "sched_inv s \<longleftrightarrow>
     schedule_validate s = Ok () \<and>
     (sc_status s \<in> {SchedPending, SchedLeased} \<longrightarrow> length (sc_failures s) < max_failures) \<and>
     (case sc_status s of
        SchedPending \<Rightarrow> unat (sc_lease_generation s) = length (sc_failures s)
      | SchedDeadLetter \<Rightarrow> unat (sc_lease_generation s) = length (sc_failures s)
      | SchedLeased \<Rightarrow> unat (sc_lease_generation s) = Suc (length (sc_failures s))
      | _ \<Rightarrow> unat (sc_lease_generation s) \<le> Suc (length (sc_failures s)) \<and>
             length (sc_failures s) < max_failures) \<and>
     is_none_or (\<lambda>lease. sl_expires_at lease < sc_contract_valid_until s) (sc_lease s)"

lemma sched_step_source: "sched_step X now s s' \<Longrightarrow> schedule_validate s = Ok ()"
  by (induction rule: sched_step.induct)
     (auto dest: signal_event_Ok claim_exhausted heartbeat_Ok mark_triggered_Ok record_failure_Ok
       sched_cancel_Ok sched_expire_Ok elim: claim_Ok)

lemma sched_step_open: "sched_step X now s s' \<Longrightarrow> sc_status s \<in> {SchedPending, SchedLeased}"
  by (induction rule: sched_step.induct)
     (auto simp: verify_lease_Ok dest: signal_event_Ok claim_exhausted heartbeat_Ok mark_triggered_Ok
       record_failure_Ok sched_cancel_Ok sched_expire_Ok elim: claim_Ok)

lemma sched_exhausted_valid:
  assumes "sha256_hex X" and "sched_inv s" and "sc_status s = SchedLeased"
    and "claim_takeover X now s = (Err FailureLimitReached, s')" and "sc_status s' = SchedDeadLetter"
  shows "sched_inv s'"
proof -
  obtain previous failure where f: "sc_lease s = Some previous" "sl_expires_at previous \<le> now"
    "s' = sched_touch now (s\<lparr>sc_failures := sc_failures s @ [failure],
            sc_status := SchedDeadLetter, sc_lease := None\<rparr>)"
    "usize_to_u32 (length (sc_failures s) + 1) = Some (sf_sequence failure)"
    "is_sha256 (sf_evidence_digest failure)" "sf_observed_at failure = now"
    "checked_add (sc_revision s) 1 = Some (sc_revision s + 1)"
    using claim_takeover_exhausted [OF assms(4,5,3)] assms(1) unfolding sha256_hex_def by metis
  have v: "schedule_validate s = Ok ()" and len: "Suc (length (sc_failures s)) \<le> max_failures"
    and gen: "unat (sc_lease_generation s) = Suc (length (sc_failures s))"
    using assms(2,3) by (auto simp: sched_inv_def)
  have "sc_created_at s \<le> now"
    using v f(1,2) assms(3) by (auto simp: schedule_validate_Ok)
  moreover have "unat (sf_sequence failure) = Suc (length (sc_failures s))"
    using usize_to_u32_SomeD [OF f(4)] by simp
  moreover have "trigger_shape_is_valid s' = trigger_shape_is_valid s"
    by (simp add: f(3) trigger_shape_is_valid_def sched_touch_def split: cadence_trigger_kind.splits)
  ultimately have "schedule_validate s' = Ok ()"
    using v f(5,6) len checked_add_one_Some(3) [OF f(7)] unfolding schedule_validate_Ok
    by (simp add: f(3) sched_touch_def enumerate_append_eq)
  with gen show ?thesis
    by (simp add: sched_inv_def f(3) sched_touch_def)
qed

lemma claim_inv:
  assumes "claim X owner token d now s = (Ok lease, s')" and "sched_inv s"
  shows "sched_inv s'"
  using assms(1)
proof (rule claim_Ok)
  fix failures generation
  assume *: "schedule_validate s' = Ok ()"
    "s' = sched_touch now (s\<lparr>sc_failures := failures, sc_status := SchedLeased,
            sc_lease_generation := generation, sc_lease := Some lease, sc_retry_not_before := None\<rparr>)"
    "checked_add (sc_lease_generation s) 1 = Some generation"
    "sl_expires_at lease < sc_contract_valid_until s"
    "(sc_status s = SchedPending \<and> is_due s now \<and> failures = sc_failures s) \<or>
     (sc_status s = SchedLeased \<and> (\<exists>previous failure. sc_lease s = Some previous \<and>
        sl_expires_at previous \<le> now \<and> failures = sc_failures s @ [failure] \<and>
        Suc (length (sc_failures s)) < max_failures))"
  show ?thesis
    using * assms(2) checked_add_one_Some(1) [OF *(3)]
    by (auto simp: sched_inv_def sched_touch_def)
qed

lemma sched_step_inv:
  assumes "sched_step X now s s'" and "sha256_hex X" and "sched_inv s"
  shows "sched_inv s'"
  using assms
proof (induction rule: sched_step.induct)
  case (signalled topic event_id payload now s s')
  then show ?case
    using signal_event_Ok [OF signalled(1)] by (auto simp: sched_inv_def sched_touch_def)
next
  case (claimed owner token d now s lease s')
  then show ?case by (blast intro: claim_inv)
next
  case (exhausted owner token d now s s')
  then show ?case
    using claim_exhausted [OF exhausted(1,2)] sched_exhausted_valid by blast
next
  case (renewed owner token generation d now s s')
  then show ?case
    using heartbeat_Ok [OF renewed(1)] by (auto simp: sched_inv_def sched_touch_def verify_lease_Ok)
next
  case (triggered owner token generation mission now s s')
  then show ?case
    using mark_triggered_Ok [OF triggered(1)]
    by (auto simp: sched_inv_def sched_touch_def verify_lease_Ok)
next
  case (failed owner token generation cls evidence retryable retry_at now s s')
  then show ?case
    using record_failure_Ok [OF failed(1)]
    by (auto simp: sched_inv_def sched_touch_def verify_lease_Ok split: if_splits)
next
  case (cancelled evidence now s s')
  then show ?case
    using sched_cancel_Ok [OF cancelled(1)] by (auto simp: sched_inv_def sched_touch_def)
next
  case (expired now s s')
  then show ?case
    using sched_expire_Ok [OF expired(1)] by (auto simp: sched_inv_def sched_touch_def)
qed

text \<open>What a step keeps, and how it moves the counters.\<close>

definition sched_frame :: "mission_schedule \<Rightarrow> mission_schedule \<Rightarrow> bool" where
  "sched_frame s s' \<longleftrightarrow>
     checked_add (sc_revision s) 1 = Some (sc_revision s') \<and>
     sc_id s' = sc_id s \<and> sc_tenant_id s' = sc_tenant_id s \<and> sc_project_id s' = sc_project_id s \<and>
     sc_mission_id s' = sc_mission_id s \<and> sc_cycle s' = sc_cycle s \<and>
     sc_scheduled_from_mission_revision s' = sc_scheduled_from_mission_revision s \<and>
     sc_contract_version s' = sc_contract_version s \<and>
     sc_definition_cycle s' = sc_definition_cycle s \<and> sc_trigger s' = sc_trigger s \<and>
     sc_interval_seconds s' = sc_interval_seconds s \<and> sc_anchor_at s' = sc_anchor_at s \<and>
     sc_event_topics s' = sc_event_topics s \<and> sc_due_at s' = sc_due_at s \<and>
     sc_contract_valid_until s' = sc_contract_valid_until s \<and>
     sc_created_at s' = sc_created_at s \<and> prefix (sc_failures s) (sc_failures s') \<and>
     is_none_or (\<lambda>signal. sc_signal s' = Some signal) (sc_signal s) \<and>
     (sc_lease_generation s' = sc_lease_generation s \<or>
      checked_add (sc_lease_generation s) 1 = Some (sc_lease_generation s'))"

lemma sched_step_frame: "sched_step X now s s' \<Longrightarrow> sched_frame s s' \<and> sc_updated_at s' = now"
proof (induction rule: sched_step.induct)
  case (signalled topic event_id payload now s s')
  then show ?case
    using signal_event_Ok [OF signalled] by (auto simp: sched_frame_def sched_touch_def)
next
  case (claimed owner token d now s lease s')
  then show ?case
    by (rule claim_Ok) (auto simp: sched_frame_def sched_touch_def is_none_or_def split: option.splits)
next
  case (exhausted owner token d now s s')
  then show ?case
    using claim_takeover_exhausted [OF claim_exhausted(3) [OF exhausted] exhausted(2)
        claim_exhausted(2) [OF exhausted]]
    by (auto simp: sched_frame_def sched_touch_def is_none_or_def split: option.splits)
next
  case (renewed owner token generation d now s s')
  then show ?case
    using heartbeat_Ok [OF renewed]
    by (auto simp: sched_frame_def sched_touch_def is_none_or_def split: option.splits)
next
  case (triggered owner token generation mission now s s')
  then show ?case
    using mark_triggered_Ok [OF triggered]
    by (auto simp: sched_frame_def sched_touch_def is_none_or_def split: option.splits)
next
  case (failed owner token generation cls evidence retryable retry_at now s s')
  then show ?case
    using record_failure_Ok [OF failed]
    by (auto simp: sched_frame_def sched_touch_def is_none_or_def split: option.splits)
next
  case (cancelled evidence now s s')
  then show ?case
    using sched_cancel_Ok [OF cancelled]
    by (auto simp: sched_frame_def sched_touch_def is_none_or_def split: option.splits)
next
  case (expired now s s')
  then show ?case
    using sched_expire_Ok [OF expired]
    by (auto simp: sched_frame_def sched_touch_def is_none_or_def split: option.splits)
qed

interpretation sched_rev: revisioned sc_revision "sched_next X" for X :: "'x ext_scheme"
  by unfold_locales (auto simp: sched_next_def sched_frame_def dest: sched_step_frame)

interpretation sched_generation: stable "sched_next X" "\<lambda>s. g \<le> sc_lease_generation s"
  for X :: "'x ext_scheme" and g
proof unfold_locales
  fix s t
  assume "sched_next X s t" and "g \<le> sc_lease_generation s"
  then show "g \<le> sc_lease_generation t"
    using checked_add_one_Some(4) [of "sc_lease_generation s" "sc_lease_generation t"]
    by (auto simp: sched_next_def sched_frame_def dest!: sched_step_frame)
qed

interpretation sched_invariant: stable "\<lambda>s t. sha256_hex X \<and> sched_next X s t" sched_inv
  for X :: "'x ext_scheme"
  by unfold_locales (auto simp: sched_next_def intro: sched_step_inv)

lemma sched_run_inv:
  assumes "sha256_hex X" and "(sched_next X)\<^sup>*\<^sup>* s t" and "sched_inv s"
  shows "sched_inv t"
proof -
  have "(\<lambda>s t. sha256_hex X \<and> sched_next X s t)\<^sup>*\<^sup>* s t"
    using assms(1,2) by simp
  then show ?thesis
    using sched_invariant.run_keeps assms(3) by blast
qed

lemma sched_inv_generation:
  assumes "sched_inv s"
  shows "unat (sc_lease_generation s) \<le> max_failures"
  using assms by (auto simp: sched_inv_def schedule_validate_Ok split: mission_schedule_status.splits)

lemma prepare_Ok:
  assumes "prepare X mission now = Ok s"
  shows "schedule_validate s = Ok () \<and> sc_status s = SchedPending \<and> sc_lease s = None \<and>
    sc_lease_generation s = 0 \<and> sc_failures s = [] \<and> sc_revision s = 1 \<and>
    sc_created_at s = now \<and> sc_signal s = None \<and>
    sc_mission_id s = ms_id mission \<and> sc_scheduled_from_mission_revision s = ms_revision mission \<and>
    unat (sc_cycle s) = Suc (length (ms_outcome_history mission)) \<and>
    sc_contract_valid_until s = oc_valid_until (ms_contract mission) \<and>
    (\<exists>cadence. oc_cadence (ms_contract mission) = Some cadence \<and>
       sc_trigger s = cd_trigger cadence \<and>
       (if cd_trigger cadence = EventDriven then sc_due_at s = None
        else \<exists>due. sc_due_at s = Some due \<and> next_interval_due_at X cadence now = Ok (Some due) \<and>
               (cd_trigger cadence = Interval \<longrightarrow> due < oc_valid_until (ms_contract mission))))"
proof -
  obtain cycle cadence where c: "Option.bind (usize_to_u64 (length (ms_outcome_history mission)))
      (\<lambda>value. checked_add value 1) = Some cycle" "oc_cadence (ms_contract mission) = Some cadence"
    using assms by (auto simp: prepare_def split: if_splits)
  then have "unat cycle = Suc (length (ms_outcome_history mission))"
    by (auto simp: bind_eq_Some_conv dest!: usize_to_u64_SomeD checked_add_one_Some(1))
  with c assms show ?thesis
    by (auto simp: prepare_def Let_def not_le split: if_splits sum.splits)
qed

lemma prepare_inv: "prepare X mission now = Ok s \<Longrightarrow> sched_inv s"
  by (drule prepare_Ok) (simp add: sched_inv_def max_failures_def)

text \<open>The commands that present a lease refuse every generation but the current one.\<close>

lemma stale_generation_refused:
  assumes "schedule_validate s = Ok ()" and "generation \<noteq> sc_lease_generation s"
  shows "heartbeat X owner token generation d now s = (Err LeaseLost, s)"
    and "mark_triggered owner token generation mission now s = (Err LeaseLost, s)"
    and "record_failure owner token generation cls evidence retryable retry_at now s = (Err LeaseLost, s)"
proof -
  have "verify_lease s owner token generation now = Err LeaseLost"
    using assms by (cases "sc_lease s") (auto simp: verify_lease_def schedule_validate_Ok)
  then show "heartbeat X owner token generation d now s = (Err LeaseLost, s)"
    and "mark_triggered owner token generation mission now s = (Err LeaseLost, s)"
    and "record_failure owner token generation cls evidence retryable retry_at now s = (Err LeaseLost, s)"
    using assms(1) by (simp_all add: heartbeat_def mark_triggered_def record_failure_def)
qed

lemma claim_generation:
  assumes "claim X owner token d now s = (Ok lease, s')"
  shows "sc_lease_generation s < sl_generation lease" "sc_lease_generation s' = sl_generation lease"
  by (rule claim_Ok [OF assms]; simp add: sched_touch_def checked_add_one_Some(4))+

section \<open>When a claim succeeds\<close>

lemma claim_pending_result:
  assumes "schedule_validate s = Ok ()" and "is_due s now" and "is_sha256 owner" and "is_sha256 token"
    and "1 \<le> num_seconds d" "num_seconds d \<le> max_lease_seconds"
    and "add_signed X now d = Some expires_at" "expires_at < sc_contract_valid_until s"
    and "checked_add (sc_lease_generation s) 1 = Some generation"
    and "checked_add (sc_revision s) 1 = Some revision"
    and "sc_created_at s \<le> now" "now < expires_at"
  shows "\<exists>lease s'. claim X owner token d now s = (Ok lease, s') \<and>
    sl_generation lease = generation \<and> sl_expires_at lease = expires_at"
proof -
  have pending: "sc_status s = SchedPending" and window: "\<not> sc_contract_valid_until s \<le> now"
    using assms(2) by (simp_all add: is_due_def)
  define lease where "lease = \<lparr>sl_owner_digest = owner, sl_token_digest = token,
    sl_generation = generation, sl_claimed_at = now, sl_heartbeat_at = now, sl_expires_at = expires_at\<rparr>"
  define s' where "s' = sched_touch now (s\<lparr>sc_status := SchedLeased, sc_lease_generation := generation,
    sc_lease := Some lease, sc_retry_not_before := None\<rparr>)"
  have shape: "trigger_shape_is_valid s' = trigger_shape_is_valid s"
    by (simp add: s'_def trigger_shape_is_valid_def sched_touch_def split: cadence_trigger_kind.splits)
  have "revision = sc_revision s + 1" "revision \<noteq> 0" "generation \<noteq> 0"
    using assms(9,10) checked_add_one_Some by blast+
  then have "schedule_validate s' = Ok ()"
    using assms(1,3,4,11,12) shape pending unfolding schedule_validate_Ok
    by (simp add: s'_def sched_touch_def lease_def)
  then have "claim X owner token d now s = (Ok lease, s')"
    using assms pending window
    by (simp add: claim_def Let_def sched_ensure_touchable_def s'_def lease_def)
  then show ?thesis
    by (auto simp: lease_def)
qed

section \<open>A sample run\<close>

text \<open>A schedule prepared from the sample mission, claimed, and taken over after the lease expired.\<close>

definition sample_schedule :: mission_schedule where
  "sample_schedule =
     \<lparr>sc_id = ''mission-schedule:m1:cycle:2'', sc_tenant_id = ''t'', sc_project_id = ''p'',
      sc_mission_id = ''m1'', sc_cycle = 2, sc_scheduled_from_mission_revision = 7,
      sc_contract_version = 1, sc_definition_cycle = None, sc_trigger = Interval,
      sc_interval_seconds = 3600, sc_anchor_at = seconds 100, sc_event_topics = {||},
      sc_due_at = Some (seconds 7300), sc_retry_not_before = None,
      sc_contract_valid_until = seconds 2592000, sc_signal = None, sc_status = SchedPending,
      sc_lease_generation = 0, sc_lease = None, sc_failures = [], sc_revision = 1,
      sc_created_at = seconds 4000, sc_updated_at = seconds 4000\<rparr>"

definition sample_lease :: mission_schedule_lease where
  "sample_lease =
     \<lparr>sl_owner_digest = sample_digest, sl_token_digest = sample_digest, sl_generation = 1,
      sl_claimed_at = seconds 7300, sl_heartbeat_at = seconds 7300, sl_expires_at = seconds 7360\<rparr>"

definition sample_leased :: mission_schedule where
  "sample_leased = sample_schedule\<lparr>sc_status := SchedLeased, sc_lease_generation := 1,
     sc_lease := Some sample_lease, sc_revision := 2, sc_updated_at := seconds 7300\<rparr>"

definition sample_lease_2 :: mission_schedule_lease where
  "sample_lease_2 = sample_lease\<lparr>sl_generation := 2, sl_claimed_at := seconds 7400,
     sl_heartbeat_at := seconds 7400, sl_expires_at := seconds 7460\<rparr>"

definition sample_taken :: mission_schedule where
  "sample_taken = sample_leased\<lparr>sc_lease_generation := 2, sc_lease := Some sample_lease_2,
     sc_failures := [\<lparr>sf_sequence = 1, sf_class = LeaseExpired,
       sf_evidence_digest = replicate 64 (CHR ''0''), sf_retryable = True,
       sf_observed_at = seconds 7400\<rparr>], sc_revision := 3, sc_updated_at := seconds 7400\<rparr>"

lemma sample_dec: "dec_u64 2 = ''2''"
  by code_simp

lemma sample_due_at:
  "next_interval_due_at sample_ext sample_cadence (seconds 4000) = Ok (Some (seconds 7300))"
  by (simp add: next_interval_due_at_def sample_ext_def sample_cadence_def u64_to_i64_def
      checked_i64_def in_i64_def num_seconds_def seconds_def nanos_per_second_def)

lemma sample_schedule_valid: "schedule_validate sample_schedule = Ok ()"
  by (simp add: schedule_validate_def sample_schedule_def sample_names trigger_shape_is_valid_def
      max_failures_def)

lemma sample_prepare: "prepare sample_ext sample_mission (seconds 4000) = Ok sample_schedule"
  unfolding prepare_def sample_mission_def
  using sample_schedule_valid sample_contract_valid [of "seconds 4000"]
  by (simp add: sample_selectors sample_due_at sample_dec sample_schedule_def usize_to_u64_def
      checked_add_def Let_def)

lemma sample_leased_valid: "schedule_validate sample_leased = Ok ()"
  by (simp add: schedule_validate_def sample_leased_def sample_schedule_def sample_lease_def
      sample_names sample_digest_hex trigger_shape_is_valid_def max_failures_def)

lemma sample_taken_valid: "schedule_validate sample_taken = Ok ()"
  by (simp add: schedule_validate_def sample_taken_def sample_leased_def sample_schedule_def
      sample_lease_def sample_lease_2_def sample_names sample_digest_hex trigger_shape_is_valid_def
      max_failures_def)

lemma sample_add_signed: "add_signed sample_ext t d = Some (t + d)"
  "sha256 sample_ext m = replicate 64 (CHR ''0'')"
  by (simp_all add: sample_ext_def)

lemma sample_claim:
  "claim sample_ext sample_digest sample_digest (seconds 60) (seconds 7300) sample_schedule
     = (Ok sample_lease, sample_leased)"
  using sample_leased_valid sample_schedule_valid
  by (simp add: claim_def sample_digest_hex max_lease_seconds_def
      sample_schedule_def is_due_def sample_add_signed checked_add_def sched_touch_defs
      sample_leased_def sample_lease_def Let_def)

lemma sample_takeover:
  "claim sample_ext sample_digest sample_digest (seconds 60) (seconds 7400) sample_leased
     = (Ok sample_lease_2, sample_taken)"
  using sample_taken_valid sample_leased_valid
  by (simp add: claim_def sample_digest_hex max_lease_seconds_def
      sample_schedule_def claim_takeover_def sample_add_signed checked_add_def sched_touch_defs
      sample_leased_def sample_lease_def sample_taken_def sample_lease_2_def max_failures_def
      usize_to_u32_def Let_def)

section \<open>Properties\<close>

text \<open>
  C18: Every schedule reached from a prepared one by committed commands is a valid record, has been
  claimed at most five times, holds at most five failures, and holds a lease only inside the
  contract window.
\<close>

theorem schedule_reachable_bounded:
  assumes "sha256_hex X" and "prepare X mission now = Ok s" and "(sched_next X)\<^sup>*\<^sup>* s t"
  shows "schedule_validate t = Ok () \<and> unat (sc_lease_generation t) \<le> max_failures \<and>
    length (sc_failures t) \<le> max_failures \<and>
    (\<forall>lease. sc_lease t = Some lease \<longrightarrow> sl_expires_at lease < sc_contract_valid_until t)"
proof -
  have "sched_inv t"
    using sched_run_inv [OF assms(1,3)] prepare_inv [OF assms(2)] by blast
  then show ?thesis
    using sched_inv_generation [of t]
    by (auto simp: sched_inv_def schedule_validate_Ok is_none_or_iff)
qed

theorem schedule_reachable_bounded_witness:
  "unat (sc_lease_generation sample_taken) \<le> max_failures \<and> sc_lease_generation sample_taken = 2"
proof -
  have "sched_next sample_ext sample_schedule sample_leased" "sched_next sample_ext sample_leased sample_taken"
    unfolding sched_next_def using sched_step.claimed sample_claim sample_takeover by blast+
  then have "(sched_next sample_ext)\<^sup>*\<^sup>* sample_schedule sample_taken"
    by simp
  from schedule_reachable_bounded [OF sample_ext_sha256 sample_prepare this] show ?thesis
    by (simp add: sample_taken_def)
qed

text \<open>
  C6: A lease that has been superseded is fenced for ever: once a later claim has succeeded, the
  owner of the earlier lease can neither renew it, nor trigger the cycle, nor record a failure, in
  any later state, and the attempt leaves the record unchanged.
\<close>

theorem superseded_lease_fenced:
  assumes "claim X owner token d now s = (Ok lease, s1)" and "(sched_next X)\<^sup>*\<^sup>* s1 s2"
    and "claim X owner' token' d' now' s2 = (Ok lease', s3)" and "(sched_next X)\<^sup>*\<^sup>* s3 t"
    and "sha256_hex X" and "sched_inv s"
  shows "heartbeat X owner token (sl_generation lease) d2 now2 t = (Err LeaseLost, t) \<and>
    mark_triggered owner token (sl_generation lease) mission now2 t = (Err LeaseLost, t) \<and>
    record_failure owner token (sl_generation lease) cls evidence retryable retry_at now2 t =
      (Err LeaseLost, t)"
proof -
  have "sl_generation lease \<le> sc_lease_generation s2"
    using sched_generation.run_keeps [OF assms(2), of "sl_generation lease"]
      claim_generation(2) [OF assms(1)] by simp
  also have "\<dots> < sl_generation lease'"
    by (rule claim_generation(1) [OF assms(3)])
  also have "\<dots> \<le> sc_lease_generation t"
    using sched_generation.run_keeps [OF assms(4), of "sl_generation lease'"]
      claim_generation(2) [OF assms(3)] by simp
  finally have "sl_generation lease \<noteq> sc_lease_generation t"
    by simp
  moreover have "sched_inv t"
    using claim_inv [OF assms(1,6)] sched_run_inv [OF assms(5)] claim_inv [OF assms(3)] assms(2,4)
    by blast
  ultimately show ?thesis
    using stale_generation_refused [of t] by (simp add: sched_inv_def)
qed

theorem superseded_lease_fenced_witness:
  "heartbeat sample_ext sample_digest sample_digest 1 (seconds 60) (seconds 7410) sample_taken
     = (Err LeaseLost, sample_taken)"
  using superseded_lease_fenced [OF sample_claim rtranclp.rtrancl_refl sample_takeover
      rtranclp.rtrancl_refl sample_ext_sha256 prepare_inv [OF sample_prepare],
      of "seconds 60" "seconds 7410"]
  by (simp add: sample_lease_def)

text \<open>
  C14: A lease is never taken from a worker before it ends: a claim on a leased schedule succeeds
  only at or after the expiry of the lease it replaces, and writes the replaced lease into the
  failure history as expired, observed now, with the next sequence number and the digest of its
  owner, token and generation. A new lease lasts at least one second and less than fifteen minutes
  and one second (the limit is compared in whole seconds) and ends before the contract does.
\<close>

theorem leases_do_not_overlap:
  assumes "chrono_exact X" and "claim X owner token d now s = (Ok lease, s')"
  shows "(\<forall>previous. sc_lease s = Some previous \<longrightarrow>
      sl_expires_at previous \<le> sl_claimed_at lease \<and>
      (\<exists>failure. sc_failures s' = sc_failures s @ [failure] \<and>
         expiry_recorded X previous (sl_claimed_at lease) (length (sc_failures s')) failure)) \<and>
    sl_claimed_at lease + seconds 1 \<le> sl_expires_at lease \<and>
    sl_expires_at lease < sl_claimed_at lease + seconds (15 * 60 + 1) \<and>
    sl_expires_at lease < sc_contract_valid_until s'"
proof -
  have claimed: "schedule_validate s = Ok ()" "sl_claimed_at lease = now"
    "add_signed X now d = Some (sl_expires_at lease)" "num_seconds d \<le> max_lease_seconds"
    "sl_expires_at lease < sc_contract_valid_until s'"
    by (rule claim_Ok [OF assms(2)]; simp add: sched_touch_def)+
  have "1 \<le> num_seconds d"
    using assms(2) by (auto simp: claim_def Let_def split: if_splits)
  then have "seconds 1 \<le> d" "d < seconds (15 * 60 + 1)"
    using claimed(4) by (auto simp: num_seconds_def max_lease_seconds_def seconds_def nanos_per_second_def
        split: if_splits)
  moreover have "sl_expires_at lease = now + d"
    using chrono_exactD(1) [OF assms(1) claimed(3)] .
  moreover have "sc_status s = SchedPending \<or> sc_status s = SchedLeased"
    by (rule claim_Ok [OF assms(2)]) blast
  moreover from this have "sc_status s = SchedLeased" if "sc_lease s \<noteq> None"
    using claimed(1) that by (auto simp: schedule_validate_Ok)
  ultimately show ?thesis
    using claim_leased_records [OF assms(2)] claimed(2,5) by auto
qed

theorem leases_do_not_overlap_witness:
  "sl_expires_at sample_lease \<le> sl_claimed_at sample_lease_2 \<and>
   sl_expires_at sample_lease_2 < seconds 2592000 \<and>
   (\<exists>failure. sc_failures sample_taken = [failure] \<and>
      expiry_recorded sample_ext sample_lease (seconds 7400) 1 failure)"
  using leases_do_not_overlap [OF sample_ext_chrono(1) sample_takeover]
  by (simp add: sample_leased_def sample_taken_def sample_schedule_def sample_lease_2_def)

text \<open>The limit is compared in whole seconds: nine tenths of a second over it are accepted.\<close>

lemma lease_limit_rounds_down:
  "\<exists>lease s'. claim sample_ext sample_digest sample_digest (seconds 900 + 900000000) (seconds 7300) sample_schedule =
     (Ok lease, s') \<and> seconds (7300 + 900) < sl_expires_at lease"
proof -
  have "\<exists>lease s'. claim sample_ext sample_digest sample_digest (seconds 900 + 900000000) (seconds 7300) sample_schedule =
      (Ok lease, s') \<and> sl_generation lease = 1 \<and> sl_expires_at lease = seconds 7300 + (seconds 900 + 900000000)"
    by (rule claim_pending_result [OF sample_schedule_valid])
      (simp_all add: is_due_def sample_schedule_def sample_digest_hex sample_add_signed checked_add_def
        max_lease_seconds_def num_seconds_def seconds_def nanos_per_second_def)
  then show ?thesis
    by (fastforce simp: seconds_def nanos_per_second_def)
qed

text \<open>
  C24: Triggered, cancelled, expired and dead-lettered schedules are final: every command on one is
  refused and leaves the record as it is, so a cycle is triggered at most once.
\<close>

theorem terminal_schedule_absorbs:
  assumes "sc_status s \<in> {SchedTriggered, SchedCancelled, SchedExpired, SchedDeadLetter}"
  shows "is_err (fst (signal_event topic event_id payload now s)) \<and>
      snd (signal_event topic event_id payload now s) = s \<and>
    is_err (fst (claim X owner token d now s)) \<and> snd (claim X owner token d now s) = s \<and>
    is_err (fst (heartbeat X owner token generation d now s)) \<and>
      snd (heartbeat X owner token generation d now s) = s \<and>
    is_err (fst (mark_triggered owner token generation mission now s)) \<and>
      snd (mark_triggered owner token generation mission now s) = s \<and>
    is_err (fst (record_failure owner token generation cls evidence retryable retry_at now s)) \<and>
      snd (record_failure owner token generation cls evidence retryable retry_at now s) = s \<and>
    is_err (fst (sched_cancel evidence now s)) \<and> snd (sched_cancel evidence now s) = s \<and>
    is_err (fst (sched_expire now s)) \<and> snd (sched_expire now s) = s"
proof -
  have v: "verify_lease s owner token generation now = Err LeaseLost"
    using assms by (cases "sc_lease s") (auto simp: verify_lease_def)
  have n: "sc_status s \<noteq> SchedPending" "sc_status s \<noteq> SchedLeased" "\<not> is_due s now"
    using assms by (auto simp: is_due_def)
  show ?thesis
    by (cases "schedule_validate s")
       (simp_all add: signal_event_def claim_def heartbeat_def mark_triggered_def
         record_failure_def sched_cancel_def sched_expire_def v n Let_def)
qed

theorem terminal_schedule_absorbs_witness:
  "let s = sample_schedule\<lparr>sc_status := SchedExpired\<rparr> in
   schedule_validate s = Ok () \<and>
   snd (claim sample_ext sample_digest sample_digest (seconds 60) (seconds 7300) s) = s"
proof -
  have "sc_status (sample_schedule\<lparr>sc_status := SchedExpired\<rparr>)
      \<in> {SchedTriggered, SchedCancelled, SchedExpired, SchedDeadLetter}"
    by simp
  then have "snd (claim sample_ext sample_digest sample_digest (seconds 60) (seconds 7300)
        (sample_schedule\<lparr>sc_status := SchedExpired\<rparr>)) = sample_schedule\<lparr>sc_status := SchedExpired\<rparr>"
    using terminal_schedule_absorbs by blast
  moreover have "schedule_validate (sample_schedule\<lparr>sc_status := SchedExpired\<rparr>) = Ok ()"
    by (simp add: schedule_validate_def sample_schedule_def sample_names trigger_shape_is_valid_def
        max_failures_def)
  ultimately show ?thesis
    by (simp add: Let_def)
qed

text \<open>
  C26: A due schedule can be claimed: with valid digests, a lease of one second to fifteen minutes
  that ends inside the contract window, a clock that is not before the creation of the schedule, and
  room in the revision counter, the claim of a reachable schedule returns a lease of the next
  generation that lasts as long as was asked for.
\<close>

theorem due_schedule_claimable:
  assumes "chrono_exact X" and "sched_inv s" and "is_due s now" and "sc_created_at s \<le> now"
    and "is_sha256 owner" "is_sha256 token" "1 \<le> num_seconds d" "num_seconds d \<le> 15 * 60"
    and "add_signed X now d = Some expires_at" "expires_at < sc_contract_valid_until s"
    and "checked_add (sc_revision s) 1 = Some revision"
  shows "\<exists>lease s'. claim X owner token d now s = (Ok lease, s') \<and>
    unat (sl_generation lease) = Suc (unat (sc_lease_generation s)) \<and>
    sl_expires_at lease = now + d"
proof -
  have "unat (sc_lease_generation s) \<le> 5"
    using sched_inv_generation [OF assms(2)] by (simp add: max_failures_def)
  then obtain generation where g: "checked_add (sc_lease_generation s) 1 = Some generation"
    by (simp add: checked_add_def)
  have e: "expires_at = now + d"
    using chrono_exactD(1) [OF assms(1,9)] .
  have "0 < d"
    using assms(7) by (auto simp: num_seconds_def nanos_per_second_def split: if_splits)
  with claim_pending_result [OF _ assms(3,5,6,7) _ assms(9,10) g assms(11,4)] assms(2,8) e
  show ?thesis
    using checked_add_one_Some(1) [OF g]
    by (auto simp: sched_inv_def max_lease_seconds_def)
qed

theorem due_schedule_claimable_witness:
  "\<exists>lease s'. claim sample_ext sample_digest sample_digest (seconds 60) (seconds 7300) sample_schedule
      = (Ok lease, s') \<and> unat (sl_generation lease) = 1"
proof -
  have "is_due sample_schedule (seconds 7300)" "sc_created_at sample_schedule \<le> seconds 7300"
    "seconds 7360 < sc_contract_valid_until sample_schedule" "sc_lease_generation sample_schedule = 0"
    "checked_add (sc_revision sample_schedule) 1 = Some 2"
    by (simp_all add: is_due_def sample_schedule_def checked_add_def)
  moreover have "add_signed sample_ext (seconds 7300) (seconds 60) = Some (seconds 7360)"
    by (simp add: sample_add_signed)
  ultimately show ?thesis
    using due_schedule_claimable [OF sample_ext_chrono(1) prepare_inv [OF sample_prepare],
        of "seconds 7300" sample_digest sample_digest "seconds 60" "seconds 7360" 2]
    by (auto simp: sample_digest_hex)
qed

text \<open>A schedule read earlier and carrying the revision of the stored one is the stored one.\<close>

lemma schedule_compare_and_swap:
  assumes "(sched_next X)\<^sup>*\<^sup>* s t" and "sc_revision s = sc_revision t"
  shows "s = t"
  using sched_rev.compare_and_swap assms by blast

end
