(* ===== verification/Schedule_Store.thy ===== *)
theory Schedule_Store
  imports Schedule_Inv
begin

text \<open>
  \<open>storage/src/mission_schedule_store.rs\<close>: the schedule rows behind SQLite. A row is the schedule
  itself, keyed by project and schedule id; the projection columns repeat its fields and the JSON
  column is the record, so that a row is modelled by the record, and the comparison of the columns
  with the record comes down to the key. Timestamps are compared as
  instants: the columns hold RFC 3339 text in UTC, whose text order is the order of the instants.
  The theory models the transition check that every update passes, the compare-and-swap of the
  row, the update command and the WHERE clause that selects a schedule to claim; the transactions
  that touch other tables too are in \<open>Mission_Store\<close>.
\<close>

section \<open>Operations\<close>

datatype storage_error =
    StScheduleError mission_schedule_error
  | StMissionError mission_error
  | StEmptyAtomicEventSet
  | StEmptyEventType
  | StTenantScopeMismatch
  | StProjectNotFound
  | StMissionNotFound
  | StUnexpectedNewerRevision u64 u64
  | StSqlite
  | StDomainDecode
  | StScopedRecordNotFound
  | StImmutableRecordMismatch string
  | StOptimisticConflict string u64
  | StRevisionOverflow u64

type_synonym schedule_rows = "(string \<times> string, mission_schedule) fmap"

definition validate_schedule :: "mission_schedule \<Rightarrow> storage_error + unit" where
  "validate_schedule s = map_err StScheduleError (schedule_validate s)"

definition validate_schedule_transition ::
  "mission_schedule \<Rightarrow> mission_schedule \<Rightarrow> u64 \<Rightarrow> storage_error + unit" where
  "validate_schedule_transition previous next expected_revision =
     and_then (validate_schedule previous) (\<lambda>_.
     and_then (validate_schedule next) (\<lambda>_.
       if sc_revision previous \<noteq> expected_revision
          \<or> checked_add (sc_revision previous) 1 \<noteq> Some (sc_revision next)
          \<or> sc_id previous \<noteq> sc_id next
          \<or> sc_tenant_id previous \<noteq> sc_tenant_id next
          \<or> sc_project_id previous \<noteq> sc_project_id next
          \<or> sc_mission_id previous \<noteq> sc_mission_id next
          \<or> sc_cycle previous \<noteq> sc_cycle next
          \<or> sc_scheduled_from_mission_revision previous \<noteq> sc_scheduled_from_mission_revision next
          \<or> sc_contract_version previous \<noteq> sc_contract_version next
          \<or> sc_definition_cycle previous \<noteq> sc_definition_cycle next
          \<or> sc_trigger previous \<noteq> sc_trigger next
          \<or> sc_interval_seconds previous \<noteq> sc_interval_seconds next
          \<or> sc_anchor_at previous \<noteq> sc_anchor_at next
          \<or> sc_event_topics previous \<noteq> sc_event_topics next
          \<or> sc_due_at previous \<noteq> sc_due_at next
          \<or> sc_contract_valid_until previous \<noteq> sc_contract_valid_until next
          \<or> sc_created_at previous \<noteq> sc_created_at next
          \<or> sc_updated_at next < sc_updated_at previous
          \<or> \<not> prefix (sc_failures previous) (sc_failures next)
          \<or> is_some_and (\<lambda>signal. sc_signal next \<noteq> Some signal) (sc_signal previous)
          \<or> sc_lease_generation next < sc_lease_generation previous
          \<or> saturating_add (sc_lease_generation previous) 1 < sc_lease_generation next
          \<or> sc_status previous \<in> {SchedTriggered, SchedCancelled, SchedExpired, SchedDeadLetter}
       then Err (StImmutableRecordMismatch (sc_id next))
       else Ok ()))"

definition to_sql_u64 :: "u64 \<Rightarrow> storage_error + i64" where
  "to_sql_u64 value = ok_or (StRevisionOverflow value) (u64_to_i64 value)"

text \<open>The conversions of \<open>schedule_values\<close>, in column order; the other columns cannot fail.\<close>

definition schedule_values :: "mission_schedule \<Rightarrow> storage_error + unit" where
  "schedule_values s =
     and_then (to_sql_u64 (sc_cycle s)) (\<lambda>_.
     and_then (to_sql_u64 (sc_scheduled_from_mission_revision s)) (\<lambda>_.
     and_then (to_sql_u64 (sc_contract_version s)) (\<lambda>_.
     and_then (case sc_definition_cycle s of None \<Rightarrow> Ok 0 | Some c \<Rightarrow> to_sql_u64 c) (\<lambda>_.
     and_then (to_sql_u64 (sc_interval_seconds s)) (\<lambda>_.
     and_then (to_sql_u64 (sc_lease_generation s)) (\<lambda>_.
     and_then (ok_or StDomainDecode (checked_i64 (int (length (sc_failures s))))) (\<lambda>_.
     and_then (to_sql_u64 (sc_revision s)) (\<lambda>_. Ok ()))))))))"

definition load_schedule ::
  "schedule_rows \<Rightarrow> string \<Rightarrow> string \<Rightarrow> storage_error + mission_schedule" where
  "load_schedule rows project_id schedule_id =
     and_then (ok_or StScopedRecordNotFound (fmlookup rows (project_id, schedule_id))) (\<lambda>s.
     and_then (validate_schedule s) (\<lambda>_.
       if sc_project_id s \<noteq> project_id \<or> sc_id s \<noteq> schedule_id then Err StDomainDecode else Ok s))"

definition update_schedule_row ::
  "schedule_rows \<Rightarrow> mission_schedule \<Rightarrow> u64 \<Rightarrow> storage_error + schedule_rows" where
  "update_schedule_row rows s expected_revision =
     and_then (schedule_values s) (\<lambda>_.
     and_then (to_sql_u64 expected_revision) (\<lambda>_.
       if is_some_and (\<lambda>row. sc_revision row = expected_revision)
            (fmlookup rows (sc_project_id s, sc_id s))
       then Ok (fmupd (sc_project_id s, sc_id s) s rows)
       else Err (StOptimisticConflict (''mission_schedule:'' @ sc_id s) expected_revision)))"

text \<open>
  \<open>update_mission_schedule_atomic\<close>: a failed transaction rolls back, so that only a successful one
  has new rows. \<open>events\<close> is the number of events to append.
\<close>

definition update_mission_schedule_atomic ::
  "schedule_rows \<Rightarrow> mission_schedule \<Rightarrow> u64 \<Rightarrow> nat \<Rightarrow> storage_error + schedule_rows" where
  "update_mission_schedule_atomic rows s expected_revision events =
     and_then (validate_schedule s) (\<lambda>_.
       if events = 0 then Err StEmptyAtomicEventSet
       else and_then (load_schedule rows (sc_project_id s) (sc_id s)) (\<lambda>previous.
         and_then (validate_schedule_transition previous s expected_revision) (\<lambda>_.
           update_schedule_row rows s expected_revision)))"

text \<open>The WHERE clause of \<open>claim_due_mission_schedule\<close>; a comparison with NULL is not true.\<close>

definition claim_candidate :: "mission_schedule \<Rightarrow> time \<Rightarrow> bool" where
  "claim_candidate s now \<longleftrightarrow>
     now < sc_contract_valid_until s \<and>
     ((sc_status s = SchedPending
        \<and> (sc_retry_not_before s = None \<or> is_some_and (\<lambda>r. r \<le> now) (sc_retry_not_before s))
        \<and> (sc_signal s \<noteq> None \<or> is_some_and (\<lambda>due. due \<le> now) (sc_due_at s)))
      \<or> (sc_status s = SchedLeased
        \<and> is_some_and (\<lambda>lease. sl_expires_at lease \<le> now) (sc_lease s)))"

section \<open>The store accepts what the domain does\<close>

lemma saturating_add_one:
  assumes "checked_add g 1 = Some g'"
  shows "saturating_add g 1 = (g' :: u64)"
  using assms by (auto simp: checked_add_def saturating_add_def split: if_splits)

lemma saturating_add_one_ge: "g \<le> saturating_add g (1 :: u64)"
proof (cases "checked_add g 1")
  case None
  then show ?thesis
    by (simp add: checked_add_def saturating_add_def split: if_splits)
next
  case (Some g')
  then show ?thesis
    using checked_add_one_Some(4) [OF Some] saturating_add_one [OF Some] by simp
qed

lemma sched_frame_transition:
  assumes "sched_frame s s'" and "schedule_validate s = Ok ()" and "schedule_validate s' = Ok ()"
    and "sc_updated_at s \<le> sc_updated_at s'" and "sc_status s \<in> {SchedPending, SchedLeased}"
  shows "validate_schedule_transition s s' (sc_revision s) = Ok ()"
proof -
  have "\<not> sc_lease_generation s' < sc_lease_generation s \<and>
      \<not> saturating_add (sc_lease_generation s) 1 < sc_lease_generation s'"
    using assms(1) saturating_add_one_ge [of "sc_lease_generation s"]
      saturating_add_one [of "sc_lease_generation s" "sc_lease_generation s'"]
      checked_add_one_Some(4) [of "sc_lease_generation s" "sc_lease_generation s'"]
    by (auto simp: sched_frame_def)
  with assms show ?thesis
    unfolding validate_schedule_transition_def validate_schedule_def sched_frame_def
    by (auto simp: is_none_or_def is_some_and_def split: option.splits)
qed

lemma claim_candidate_iff:
  "claim_candidate s now \<longleftrightarrow>
     is_due s now \<or>
     (sc_status s = SchedLeased \<and> now < sc_contract_valid_until s \<and>
      is_some_and (\<lambda>lease. sl_expires_at lease \<le> now) (sc_lease s))"
  by (auto simp: claim_candidate_def is_due_def is_none_or_def is_some_and_def split: option.splits)

lemma load_schedule_Ok:
  "load_schedule rows project_id schedule_id = Ok s \<longleftrightarrow>
     fmlookup rows (project_id, schedule_id) = Some s \<and> schedule_validate s = Ok () \<and>
     sc_project_id s = project_id \<and> sc_id s = schedule_id"
  by (auto simp: load_schedule_def validate_schedule_def)

lemma update_schedule_row_Ok:
  assumes "update_schedule_row rows s expected = Ok rows'"
  shows "rows' = fmupd (sc_project_id s, sc_id s) s rows"
    and "\<exists>row. fmlookup rows (sc_project_id s, sc_id s) = Some row \<and> sc_revision row = expected"
  using assms by (auto simp: update_schedule_row_def is_some_and_iff split: if_splits)

section \<open>Properties\<close>

text \<open>
  C19: The transition check of the store accepts every change a domain command makes to a reachable
  schedule, provided the clock has not gone back since the last change: the two layers agree on
  what a legal transition is.
\<close>

theorem store_accepts_domain_steps:
  assumes "sha256_hex X" and "sched_inv s" and "sched_step X now s s'" and "sc_updated_at s \<le> now"
  shows "validate_schedule_transition s s' (sc_revision s) = Ok ()"
proof (rule sched_frame_transition)
  show "sched_frame s s'" "sc_updated_at s \<le> sc_updated_at s'"
    using sched_step_frame [OF assms(3)] assms(4) by simp_all
  show "schedule_validate s = Ok ()" "sc_status s \<in> {SchedPending, SchedLeased}"
    using sched_step_source [OF assms(3)] sched_step_open [OF assms(3)] by simp_all
  show "schedule_validate s' = Ok ()"
    using sched_step_inv [OF assms(3,1,2)] by (simp add: sched_inv_def)
qed

theorem store_accepts_domain_steps_witness:
  "validate_schedule_transition sample_schedule sample_leased 1 = Ok ()"
proof -
  have step: "sched_step sample_ext (seconds 7300) sample_schedule sample_leased"
    using sample_claim by (rule sched_step.claimed)
  have "sc_updated_at sample_schedule \<le> seconds 7300" "sc_revision sample_schedule = 1"
    by (simp_all add: sample_schedule_def)
  then show ?thesis
    using store_accepts_domain_steps [OF sample_ext_sha256 prepare_inv [OF sample_prepare] step]
    by simp
qed

text \<open>
  C27: The query that selects a schedule to claim and the domain command agree: a claim of a selected
  schedule is never refused as not due or still leased.
\<close>

theorem selected_schedule_claimable:
  assumes "claim_candidate s now"
  shows "fst (claim X owner token d now s) \<noteq> Err NotDue \<and>
    fst (claim X owner token d now s) \<noteq> Err LeaseActive"
proof -
  have validate: "schedule_validate s' \<noteq> Err NotDue" "schedule_validate s' \<noteq> Err LeaseActive" for s'
    using schedule_validate_Err [of s'] by auto
  have takeover: "claim_takeover X now s \<noteq> (Err NotDue, s')"
    "sc_status s = SchedLeased \<Longrightarrow> claim_takeover X now s \<noteq> (Err LeaseActive, s')" for s'
    using assms
    by (auto simp: claim_takeover_def claim_candidate_iff result_simps Let_def
        sched_ensure_touchable_def is_due_def is_some_and_iff split: if_splits)
  have "claim X owner token d now s \<noteq> (Err e, s')" if "e = NotDue \<or> e = LeaseActive" for e s'
    using that assms validate takeover
    by (auto simp: claim_def result_simps Let_def sched_ensure_touchable_def claim_candidate_iff
        split: if_splits)
  then show ?thesis
    by (metis prod.collapse)
qed

theorem selected_schedule_claimable_witness:
  "claim_candidate sample_leased (seconds 7400) \<and>
   fst (claim sample_ext sample_digest sample_digest (seconds 60) (seconds 7400) sample_leased)
     \<noteq> Err LeaseActive"
proof -
  have "claim_candidate sample_leased (seconds 7400)"
    by (simp add: claim_candidate_def sample_leased_def sample_schedule_def sample_lease_def)
  then show ?thesis
    using selected_schedule_claimable by blast
qed

text \<open>
  A committed update replaced exactly the row it was computed from: the stored row carried the
  expected revision, the new row its successor, and every other row is unchanged; so of two
  writers that read the same revision at most one commits.
\<close>

lemma schedule_update_is_compare_and_swap:
  assumes "update_mission_schedule_atomic rows s expected events = Ok rows'"
  shows "(\<exists>previous. fmlookup rows (sc_project_id s, sc_id s) = Some previous \<and>
      sc_revision previous = expected \<and> checked_add expected 1 = Some (sc_revision s)) \<and>
    fmlookup rows' (sc_project_id s, sc_id s) = Some s \<and>
    (\<forall>key. key \<noteq> (sc_project_id s, sc_id s) \<longrightarrow> fmlookup rows' key = fmlookup rows key) \<and>
    (\<forall>other n. sc_project_id other = sc_project_id s \<and> sc_id other = sc_id s \<longrightarrow>
       is_err (update_mission_schedule_atomic rows' other expected n))"
proof -
  obtain previous where p: "load_schedule rows (sc_project_id s) (sc_id s) = Ok previous"
    "validate_schedule_transition previous s expected = Ok ()"
    "update_schedule_row rows s expected = Ok rows'"
    using assms by (auto simp: update_mission_schedule_atomic_def)
  then have prev: "fmlookup rows (sc_project_id s, sc_id s) = Some previous"
    by (auto simp: load_schedule_Ok)
  have rev: "sc_revision previous = expected" "checked_add expected 1 = Some (sc_revision s)"
    using p(2) by (auto simp: validate_schedule_transition_def)
  have rows': "rows' = fmupd (sc_project_id s, sc_id s) s rows"
    using update_schedule_row_Ok(1) [OF p(3)] .
  have "sc_revision s \<noteq> expected"
    using checked_add_one_Some(4) [OF rev(2)] by auto
  then have "is_err (update_mission_schedule_atomic rows' other expected n)"
    if "sc_project_id other = sc_project_id s" "sc_id other = sc_id s" for other n
    using that
    by (auto simp: update_mission_schedule_atomic_def is_ok_iff rows' load_schedule_def
        validate_schedule_transition_def)
  with prev rev show ?thesis
    by (auto simp: rows')
qed

end
