(* ===== verification/Schedule_Retry.thy ===== *)
theory Schedule_Retry
  imports Schedule_Inv
begin

text \<open>
  The retry loop of a schedule ends. A worker that keeps failing, a worker that keeps dying and a
  chain of takeovers all draw on one budget, which every change of a schedule spends except the
  renewal of a lease; the budget of a prepared schedule is ten changes and the signal.
\<close>

definition renewal :: "'x ext_scheme \<Rightarrow> mission_schedule \<Rightarrow> mission_schedule \<Rightarrow> bool" where
  "renewal X s t \<longleftrightarrow>
     (\<exists>owner token generation d now. heartbeat X owner token generation d now s = (Ok (), t))"

text \<open>The committed changes of a run, renewals not counted.\<close>

inductive sched_work :: "'x ext_scheme \<Rightarrow> nat \<Rightarrow> mission_schedule \<Rightarrow> mission_schedule \<Rightarrow> bool"
  for X :: "'x ext_scheme" where
  start: "sched_work X 0 s s"
| renew: "sched_work X n s t \<Longrightarrow> renewal X t u \<Longrightarrow> sched_work X n s u"
| change: "sched_work X n s t \<Longrightarrow> sched_next X t u \<Longrightarrow> \<not> renewal X t u \<Longrightarrow> sched_work X (Suc n) s u"

definition budget :: "mission_schedule \<Rightarrow> nat" where
  "budget s = (if sc_signal s = None then 1 else 0) +
     (case sc_status s of
        SchedPending \<Rightarrow> 2 * (max_failures - length (sc_failures s))
      | SchedLeased \<Rightarrow> 2 * (max_failures - length (sc_failures s)) - 1
      | _ \<Rightarrow> 0)"

lemma verify_lease_leased: "verify_lease s owner token generation now = Ok () \<Longrightarrow> sc_status s = SchedLeased"
  by (simp add: verify_lease_Ok)

lemma renewal_budget:
  assumes "renewal X s t"
  shows "budget t = budget s"
proof -
  have "sc_status s = SchedLeased" "sc_status t = SchedLeased" "sc_failures t = sc_failures s" "sc_signal t = sc_signal s"
    using assms by (auto simp: renewal_def sched_touch_def verify_lease_Ok dest!: heartbeat_Ok)
  then show ?thesis
    by (simp add: budget_def)
qed

lemma renewal_next: "renewal X s t \<Longrightarrow> sched_next X s t"
  unfolding renewal_def sched_next_def using sched_step.renewed by blast

lemma signal_event_budget:
  assumes "signal_event topic event_id payload now s = (Ok True, t)"
  shows "budget t < budget s"
  using signal_event_Ok [OF assms] by (auto simp: budget_def sched_touch_def)

lemma claim_budget:
  assumes "claim X owner token d now s = (Ok lease, t)" and "sched_inv s"
  shows "budget t < budget s"
  using assms(1)
proof (rule claim_Ok)
  fix failures generation
  assume "t = sched_touch now (s\<lparr>sc_failures := failures, sc_status := SchedLeased,
            sc_lease_generation := generation, sc_lease := Some lease, sc_retry_not_before := None\<rparr>)"
    and "(sc_status s = SchedPending \<and> is_due s now \<and> failures = sc_failures s) \<or>
     (sc_status s = SchedLeased \<and> (\<exists>previous failure. sc_lease s = Some previous \<and>
        sl_expires_at previous \<le> now \<and> failures = sc_failures s @ [failure] \<and>
        Suc (length (sc_failures s)) < max_failures))"
  then show ?thesis
    using assms(2) by (auto simp: budget_def sched_touch_def sched_inv_def)
qed

lemma closed_budget:
  assumes "sched_inv s" and "sc_status s \<in> {SchedPending, SchedLeased}"
    and "sc_status t \<notin> {SchedPending, SchedLeased}" and "sc_signal t = sc_signal s"
  shows "budget t < budget s"
  using assms by (auto simp: budget_def sched_inv_def split: mission_schedule_status.splits)

lemma record_failure_budget:
  assumes "record_failure owner token generation cls evidence retryable retry_at now s = (Ok (), t)"
    and "sched_inv s"
  shows "budget t < budget s"
  using record_failure_Ok [OF assms(1)] assms(2)
  by (auto simp: budget_def sched_touch_def sched_inv_def dest: verify_lease_leased split: if_splits)

lemma sched_step_budget:
  assumes "sched_step X now s t" and "sched_inv s"
  shows "renewal X s t \<or> budget t < budget s"
  using assms(1)
proof cases
  case (exhausted owner token d)
  then show ?thesis
    using assms(2) claim_exhausted(2) [OF exhausted]
      claim_takeover_exhausted [OF claim_exhausted(3) [OF exhausted] exhausted(2) claim_exhausted(2) [OF exhausted]]
    by (intro disjI2 closed_budget) (auto simp: sched_touch_def)
next
  case (renewed owner token generation d)
  then show ?thesis unfolding renewal_def by blast
next
  case (triggered owner token generation mission)
  then show ?thesis
    using assms(2) mark_triggered_Ok [OF triggered] verify_lease_leased
    by (intro disjI2 closed_budget) (auto simp: sched_touch_def)
next
  case (cancelled evidence)
  then show ?thesis
    using assms(2) sched_cancel_Ok [OF cancelled] by (intro disjI2 closed_budget) (auto simp: sched_touch_def)
next
  case expired
  then show ?thesis
    using assms(2) sched_expire_Ok [OF expired] by (intro disjI2 closed_budget) (auto simp: sched_touch_def)
next
  case (failed owner token generation cls evidence retryable retry_at)
  then show ?thesis
    using record_failure_budget [OF failed] assms(2) by blast
qed (use assms(2) signal_event_budget claim_budget in blast)+

lemma sched_work_run: "sched_work X n s t \<Longrightarrow> (sched_next X)\<^sup>*\<^sup>* s t"
  by (induction rule: sched_work.induct) (auto dest: renewal_next intro: rtranclp.rtrancl_into_rtrancl)

lemma sched_work_budget:
  assumes "sched_work X n s t" and "sha256_hex X" and "sched_inv s"
  shows "n + budget t \<le> budget s"
  using assms
proof (induction rule: sched_work.induct)
  case (renew n s t u)
  then show ?case by (simp add: renewal_budget)
next
  case (change n s t u)
  then have "sched_inv t"
    using sched_work_run sched_run_inv by blast
  then have "budget u < budget t"
    using change sched_step_budget by (fastforce simp: sched_next_def)
  then show ?case
    using change by simp
qed simp

text \<open>A schedule that is neither pending nor leased does not change any more.\<close>

lemma closed_no_step:
  assumes "sched_step X now s t"
  shows "sc_status s \<in> {SchedPending, SchedLeased}"
  using assms
proof cases
  case (claimed owner token d lease)
  then show ?thesis
    by (auto elim: claim_Ok)
qed (auto dest: signal_event_Ok(3) claim_exhausted(2) heartbeat_Ok mark_triggered_Ok record_failure_Ok
    sched_cancel_Ok sched_expire_Ok verify_lease_leased)

text \<open>
  C39: The retries of a schedule come to an end: whatever the workers do, a prepared schedule goes
  through at most ten changes apart from lease renewals and the one signal an event schedule may
  receive. Once these are spent, which is after ten changes for a schedule without a signal and
  after eleven for one with a signal, the schedule is closed and no command changes it any more.
\<close>
theorem schedule_retries_end:
  assumes "sha256_hex X" and "prepare X mission now = Ok s" and "sched_work X n s t"
  shows "n \<le> 2 * max_failures + (if sc_signal t = None then 0 else 1) \<and>
    (n = 2 * max_failures + (if sc_signal t = None then 0 else 1) \<longrightarrow>
       sc_status t \<in> {SchedTriggered, SchedCancelled, SchedExpired, SchedDeadLetter} \<and>
       \<not> (\<exists>u. sched_next X t u))"
proof -
  have "sched_inv s" and "budget s = 2 * max_failures + 1"
    using prepare_inv [OF assms(2)] prepare_Ok [OF assms(2)] by (simp_all add: budget_def)
  then have spent: "n + budget t \<le> 2 * max_failures + 1" and inv: "sched_inv t"
    using sched_work_budget [OF assms(3,1)] sched_run_inv [OF assms(1) sched_work_run [OF assms(3)]] by simp_all
  have closed: "sc_status t \<notin> {SchedPending, SchedLeased}"
    if "n = 2 * max_failures + (if sc_signal t = None then 0 else 1)"
    using spent inv that by (cases "sc_status t") (auto simp: budget_def sched_inv_def split: if_splits)
  have "n \<le> 2 * max_failures + (if sc_signal t = None then 0 else 1)"
    using spent by (auto simp: budget_def split: if_splits)
  moreover have "sc_status t \<in> {SchedTriggered, SchedCancelled, SchedExpired, SchedDeadLetter}"
    if "sc_status t \<notin> {SchedPending, SchedLeased}"
    using that by (cases "sc_status t") auto
  ultimately show ?thesis
    using closed closed_no_step unfolding sched_next_def by blast
qed

section \<open>A schedule that fails five times\<close>

definition sample_failure :: "nat \<Rightarrow> mission_schedule_failure" where
  "sample_failure i = \<lparr>sf_sequence = of_nat (Suc i), sf_class = RuntimeUnavailable,
     sf_evidence_digest = sample_digest, sf_retryable = True, sf_observed_at = seconds (7310 + 100 * int i)\<rparr>"

definition sample_try :: "nat \<Rightarrow> mission_schedule" where
  "sample_try i = sample_schedule\<lparr>sc_failures := map sample_failure [0 ..< i], sc_lease_generation := of_nat i,
     sc_revision := of_nat (Suc (2 * i)),
     sc_retry_not_before := (if i = 0 then None else Some (seconds (7300 + 100 * int i))),
     sc_updated_at := (if i = 0 then seconds 4000 else seconds (7210 + 100 * int i))\<rparr>"

definition sample_held :: "nat \<Rightarrow> mission_schedule" where
  "sample_held i = (sample_try i)\<lparr>sc_status := SchedLeased, sc_lease_generation := of_nat (Suc i),
     sc_lease := Some \<lparr>sl_owner_digest = sample_digest, sl_token_digest = sample_digest,
       sl_generation = of_nat (Suc i), sl_claimed_at = seconds (7300 + 100 * int i),
       sl_heartbeat_at = seconds (7300 + 100 * int i), sl_expires_at = seconds (7360 + 100 * int i)\<rparr>,
     sc_retry_not_before := None, sc_revision := of_nat (2 + 2 * i),
     sc_updated_at := seconds (7300 + 100 * int i)\<rparr>"

definition sample_dead :: mission_schedule where
  "sample_dead = (sample_try 5)\<lparr>sc_status := SchedDeadLetter, sc_retry_not_before := None\<rparr>"

lemmas sample_tries = sample_try_def sample_held_def sample_failure_def sample_dead_def sample_schedule_def

lemma below_five: "i < 5 \<Longrightarrow> i \<in> {0, 1, 2, 3, 4 :: nat}"
  by auto

lemma sample_tries_valid:
  assumes "i < 5"
  shows "schedule_validate (sample_try i) = Ok ()" "schedule_validate (sample_held i) = Ok ()"
    "schedule_validate sample_dead = Ok ()"
  using below_five [OF assms]
  by (auto simp: schedule_validate_def sample_tries sample_names sample_digest_hex trigger_shape_is_valid_def
      max_failures_def upt_rec seconds_def nanos_per_second_def)

lemma sample_claims:
  assumes "i < 5"
  shows "\<exists>lease. claim sample_ext sample_digest sample_digest (seconds 60) (seconds (7300 + 100 * int i))
    (sample_try i) = (Ok lease, sample_held i)"
  using sample_tries_valid [OF assms] below_five [OF assms]
  by (auto simp: claim_def sample_digest_hex max_lease_seconds_def is_due_def sample_add_signed checked_add_def
      sched_touch_defs sample_tries upt_rec Let_def seconds_def nanos_per_second_def num_seconds_def)

lemma sample_failed_state:
  assumes "i < 5"
  shows "sched_touch (seconds (7310 + 100 * int i)) ((sample_held i)\<lparr>sc_failures := sc_failures (sample_held i) @ [sample_failure i],
      sc_status := SchedPending, sc_retry_not_before := Some (seconds (7400 + 100 * int i)), sc_lease := None\<rparr>) = sample_try (Suc i)"
    "sched_touch (seconds 7710) ((sample_held 4)\<lparr>sc_failures := sc_failures (sample_held 4) @ [sample_failure 4],
      sc_status := SchedDeadLetter, sc_retry_not_before := None, sc_lease := None\<rparr>) = sample_dead"
  by (simp_all add: sched_touch_def sample_try_def sample_held_def sample_dead_def sample_schedule_def
      eval_nat_numeral algebra_simps)

lemma sample_failures:
  assumes "i < 5"
  shows "record_failure sample_digest sample_digest (of_nat (Suc i)) RuntimeUnavailable sample_digest True
    (Some (seconds (7400 + 100 * int i))) (seconds (7310 + 100 * int i)) (sample_held i) =
      (Ok (), if i = 4 then sample_dead else sample_try (Suc i))"
proof -
  have next_valid: "i \<noteq> 4 \<Longrightarrow> schedule_validate (sample_try (Suc i)) = Ok ()"
    using assms by (intro sample_tries_valid) simp
  have "verify_lease (sample_held i) sample_digest sample_digest (of_nat (Suc i)) (seconds (7310 + 100 * int i)) = Ok ()"
    by (simp add: verify_lease_def sample_held_def)
  moreover have "seconds (7310 + 100 * int i) < seconds (7400 + 100 * int i)"
    "seconds (7400 + 100 * int i) < sc_contract_valid_until (sample_held i)"
    using assms by (simp_all add: sample_tries)
  moreover have "length (sc_failures (sample_held i)) = i" "sched_ensure_touchable (sample_held i) = Ok ()"
    using below_five [OF assms] by (auto simp: sample_held_def sample_try_def sched_ensure_touchable_def checked_add_def)
  moreover have "usize_to_u32 (Suc i) = Some (of_nat (Suc i))"
    using assms by (simp add: usize_to_u32_def)
  ultimately show ?thesis
    using assms next_valid sample_tries_valid(2,3) [OF assms] sample_failed_state [OF assms]
    by (cases "i = 4") (simp_all add: record_failure_def sample_digest_hex Let_def max_failures_def sample_failure_def)
qed

lemma sample_change:
  assumes "sched_work sample_ext n s t" and "sched_next sample_ext t u" and "sc_status u \<noteq> sc_status t"
  shows "sched_work sample_ext (Suc n) s u"
proof -
  have "\<not> renewal sample_ext t u"
    using assms(3) by (auto simp: renewal_def sched_touch_def verify_lease_Ok dest!: heartbeat_Ok)
  then show ?thesis
    using sched_work.change assms(1,2) by blast
qed

lemma sample_rounds:
  assumes "i < 5"
  shows "sched_work sample_ext (Suc (2 * i)) sample_schedule (sample_held i)"
  using assms
proof (induction i)
  case 0
  have "sched_next sample_ext sample_schedule (sample_held 0)"
    using sample_claims [of 0] sched_step.claimed unfolding sched_next_def
    by (fastforce simp: sample_try_def sample_schedule_def)
  from sample_change [OF sched_work.start this] show ?case
    by (simp add: sample_held_def sample_try_def sample_schedule_def)
next
  case (Suc i)
  have "sched_next sample_ext (sample_held i) (sample_try (Suc i))"
    using sample_failures [of i] Suc.prems sched_step.failed unfolding sched_next_def by fastforce
  from sample_change [OF Suc.IH this] have tried: "sched_work sample_ext (Suc (Suc (2 * i))) sample_schedule (sample_try (Suc i))"
    using Suc.prems by (simp add: sample_tries)
  have "sched_next sample_ext (sample_try (Suc i)) (sample_held (Suc i))"
    using sample_claims [OF Suc.prems] sched_step.claimed unfolding sched_next_def by fast
  from sample_change [OF tried this] show ?case
    by (simp add: sample_tries)
qed

theorem schedule_retries_end_witness:
  "sched_work sample_ext 10 sample_schedule sample_dead \<and> sc_signal sample_dead = None \<and>
   sc_status sample_dead = SchedDeadLetter \<and> \<not> (\<exists>u. sched_next sample_ext sample_dead u)"
proof -
  have "sched_next sample_ext (sample_held 4) sample_dead"
    using sample_failures [of 4] sched_step.failed unfolding sched_next_def by fastforce
  from sample_change [OF sample_rounds [of 4] this]
  have work: "sched_work sample_ext 10 sample_schedule sample_dead"
    by (simp add: sample_tries)
  have "sc_signal sample_dead = None" "sc_status sample_dead = SchedDeadLetter"
    by (simp_all add: sample_dead_def sample_try_def sample_schedule_def)
  with schedule_retries_end [OF sample_ext_sha256 sample_prepare work] work show ?thesis
    by (simp add: max_failures_def)
qed

end
