(* ===== verification/Checkpoint.thy ===== *)
theory Checkpoint
  imports Mission_Types
begin

text \<open>
  \<open>domain-kernel/src/mission.rs\<close>, \<open>impl MissionDefinition\<close> and its parts: checkpoint routes, the
  checkpoint graph of a catalog mission, its validation, the evidence digest of an application
  checkpoint, and the operations on the graph that the mission commands call. The operations on
  \<open>&mut self\<close> give back the receiver on the error paths too.
\<close>

section \<open>Routes and states\<close>

fun executor_policy_ok ::
  "mission_checkpoint_executor \<Rightarrow> mission_checkpoint_completion_policy \<Rightarrow> bool" where
  "executor_policy_ok ExApplication DeterministicEvidence = True"
| "executor_policy_ok ExRuntime WorkProductPolicy = True"
| "executor_policy_ok ExEffectBroker VerifiedEffect = True"
| "executor_policy_ok ExEffectBroker EffectReadbackV2 = True"
| "executor_policy_ok ExHuman HumanConfirmation = True"
| "executor_policy_ok _ _ = False"

definition route_validate :: "mission_checkpoint_route \<Rightarrow> mission_error + unit" where
  "route_validate r =
     (if blank (rt_capability_id r)
         \<or> (\<exists>oracle |\<in>| rt_oracle_ids r. blank oracle)
         \<or> (rt_oracle_ids r = {||}) \<noteq> (rt_completion_policy r = None)
         \<or> is_some_and (\<lambda>policy. \<not> executor_policy_ok (rt_executor r) policy) (rt_completion_policy r)
      then Err InvalidMissionDefinition else Ok ())"

definition is_contracted :: "mission_checkpoint_route \<Rightarrow> bool" where
  "is_contracted r \<longleftrightarrow> rt_oracle_ids r \<noteq> {||} \<and> rt_completion_policy r \<noteq> None"

definition route_new :: "string \<Rightarrow> mission_checkpoint_executor \<Rightarrow> mission_error + mission_checkpoint_route" where
  "route_new capability_id executor =
     (let route = \<lparr>rt_capability_id = capability_id, rt_executor = executor, rt_oracle_ids = {||},
                   rt_completion_policy = None\<rparr>
      in and_then (route_validate route) (\<lambda>_. Ok route))"

definition route_contracted ::
  "string \<Rightarrow> mission_checkpoint_executor \<Rightarrow> string list \<Rightarrow> mission_checkpoint_completion_policy
     \<Rightarrow> mission_error + mission_checkpoint_route" where
  "route_contracted capability_id executor oracle_ids policy =
     (let route = \<lparr>rt_capability_id = capability_id, rt_executor = executor,
                   rt_oracle_ids = fset_of_list oracle_ids, rt_completion_policy = Some policy\<rparr>
      in and_then (route_validate route) (\<lambda>_. Ok route))"

definition cp_is_active :: "mission_checkpoint_status \<Rightarrow> bool" where
  "cp_is_active s \<longleftrightarrow> s \<in> {CpRunning, CpBlocked, CpWaitingUser, CpWaitingApproval, CpVerifying}"

definition cp_is_terminal :: "mission_checkpoint_status \<Rightarrow> bool" where
  "cp_is_terminal s \<longleftrightarrow> s \<in> {CpCompleted, CpSkipped}"

section \<open>Application evidence\<close>

fun checkpoint_executor_name :: "mission_checkpoint_executor \<Rightarrow> string" where
  "checkpoint_executor_name ExApplication = ''application''"
| "checkpoint_executor_name ExRuntime = ''runtime''"
| "checkpoint_executor_name ExEffectBroker = ''effect_broker''"
| "checkpoint_executor_name ExHuman = ''human''"

fun checkpoint_completion_policy_name :: "mission_checkpoint_completion_policy \<Rightarrow> string" where
  "checkpoint_completion_policy_name DeterministicEvidence = ''deterministic_evidence''"
| "checkpoint_completion_policy_name WorkProductPolicy = ''work_product''"
| "checkpoint_completion_policy_name VerifiedEffect = ''verified_effect''"
| "checkpoint_completion_policy_name EffectReadbackV2 = ''effect_readback_v2''"
| "checkpoint_completion_policy_name HumanConfirmation = ''human_confirmation''"

definition executor_try_from :: "string \<Rightarrow> mission_error + mission_checkpoint_executor" where
  "executor_try_from v =
     (if v = ''application'' then Ok ExApplication
      else if v = ''runtime'' then Ok ExRuntime
      else if v = ''effect_broker'' then Ok ExEffectBroker
      else if v = ''human'' then Ok ExHuman
      else Err InvalidMissionDefinition)"

definition completion_policy_try_from ::
  "string \<Rightarrow> mission_error + mission_checkpoint_completion_policy" where
  "completion_policy_try_from v =
     (if v = ''deterministic_evidence'' then Ok DeterministicEvidence
      else if v = ''work_product'' then Ok WorkProductPolicy
      else if v = ''verified_effect'' then Ok VerifiedEffect
      else if v = ''effect_readback_v2'' then Ok EffectReadbackV2
      else if v = ''human_confirmation'' then Ok HumanConfirmation
      else Err InvalidMissionDefinition)"

definition source_fields :: "mission_checkpoint_oracle_source \<Rightarrow> string list" where
  "source_fields s =
     [os_source_kind s, os_source_id s, dec_u64 (os_source_revision s), os_projection_digest s,
      dec (fcard (os_oracle_ids s))] @ sorted_list_of_fset (os_oracle_ids s)"

definition evidence_fields ::
  "'x ext_scheme \<Rightarrow> mission_checkpoint_application_evidence \<Rightarrow> string list" where
  "evidence_fields X e =
     [''hartevo-application-checkpoint-evidence/v1'', dec_u32 (ae_schema_version e), ae_handler_id e,
      ae_tenant_id e, ae_project_id e, ae_mission_id e, ae_manifest_id e, dec_u32 (ae_manifest_version e),
      ae_catalog_digest e, dec_u64 (ae_cycle e), ae_checkpoint_id e,
      dec_u64 (ae_dispatch_mission_revision e), dec_u64 (ae_dispatch_checkpoint_revision e),
      dec_u64 (ae_verification_mission_revision e), dec_u64 (ae_verification_checkpoint_revision e),
      ae_capability_id e, checkpoint_executor_name (ae_executor e),
      checkpoint_completion_policy_name (ae_completion_policy e), dec (fcard (ae_sources e))]
     @ concat (map source_fields (sorted_list_of_fset (ae_sources e)))
     @ [rfc3339 X (ae_observed_at e)]"

definition evidence_digest :: "'x ext_scheme \<Rightarrow> mission_checkpoint_application_evidence \<Rightarrow> string" where
  "evidence_digest X e = sha256 X (hash_stream (evidence_fields X e))"

text \<open>The part of the evidence check that concerns the sources of the evidence.\<close>

definition evidence_sources_ok ::
  "mission_checkpoint_route \<Rightarrow> mission_checkpoint_application_evidence \<Rightarrow> bool" where
  "evidence_sources_ok route e \<longleftrightarrow>
     ae_sources e \<noteq> {||}
     \<and> (\<forall>s |\<in>| ae_sources e.
          \<not> blank (os_source_kind s) \<and> \<not> blank (os_source_id s) \<and> 0 < os_source_revision s
          \<and> is_sha256 (os_projection_digest s) \<and> os_oracle_ids s \<noteq> {||}
          \<and> os_oracle_ids s |\<subseteq>| rt_oracle_ids route)
     \<and> ffUnion (os_oracle_ids |`| ae_sources e) = rt_oracle_ids route"

text \<open>
  Both callers test \<open>is_contracted\<close> first, so that the \<open>expect\<close> on the completion policy never
  fails: a missing policy is rejected here as well.
\<close>

definition valid_persisted_application_checkpoint_evidence ::
  "'x ext_scheme \<Rightarrow> mission_definition \<Rightarrow> mission_checkpoint \<Rightarrow> mission_checkpoint_route
     \<Rightarrow> mission_checkpoint_completion \<Rightarrow> bool" where
  "valid_persisted_application_checkpoint_evidence X d c route completion =
     (if rt_executor route \<noteq> ExApplication then cc_application_evidence completion = None
      else case cc_application_evidence completion of
        None \<Rightarrow> False
      | Some e \<Rightarrow>
          ae_schema_version e = 1
          \<and> \<not> blank (ae_handler_id e)
          \<and> \<not> blank (ae_tenant_id e) \<and> \<not> blank (ae_project_id e) \<and> \<not> blank (ae_mission_id e)
          \<and> ae_manifest_id e = md_manifest_id d
          \<and> ae_manifest_version e = md_manifest_version d
          \<and> ae_catalog_digest e = md_catalog_digest d
          \<and> ae_cycle e = md_cycle d
          \<and> ae_checkpoint_id e = cp_id c
          \<and> 0 < ae_dispatch_mission_revision e
          \<and> ae_dispatch_mission_revision e \<le> ae_verification_mission_revision e
          \<and> 0 < ae_dispatch_checkpoint_revision e
          \<and> ae_dispatch_checkpoint_revision e \<le> ae_verification_checkpoint_revision e
          \<and> checked_add (ae_verification_checkpoint_revision e) 1 = Some (cp_revision c)
          \<and> ae_capability_id e = rt_capability_id route
          \<and> ae_executor e = rt_executor route
          \<and> Some (ae_completion_policy e) = rt_completion_policy route
          \<and> ae_observed_at e = cc_verified_at completion
          \<and> evidence_sources_ok route e
          \<and> evidence_digest X e = cc_evidence_digest completion)"

definition valid_application_checkpoint_evidence ::
  "'x ext_scheme \<Rightarrow> mission \<Rightarrow> mission_definition \<Rightarrow> mission_checkpoint \<Rightarrow> mission_checkpoint_route
     \<Rightarrow> mission_checkpoint_completion \<Rightarrow> bool" where
  "valid_application_checkpoint_evidence X m d c route completion =
     (if rt_executor route \<noteq> ExApplication then cc_application_evidence completion = None
      else case cc_application_evidence completion of
        None \<Rightarrow> False
      | Some e \<Rightarrow>
          ae_schema_version e = 1
          \<and> \<not> blank (ae_handler_id e)
          \<and> ae_tenant_id e = ms_tenant_id m
          \<and> ae_project_id e = ms_project_id m
          \<and> ae_mission_id e = ms_id m
          \<and> ae_manifest_id e = md_manifest_id d
          \<and> ae_manifest_version e = md_manifest_version d
          \<and> ae_catalog_digest e = md_catalog_digest d
          \<and> ae_cycle e = md_cycle d
          \<and> ae_checkpoint_id e = cp_id c
          \<and> 0 < ae_dispatch_mission_revision e
          \<and> ae_dispatch_mission_revision e \<le> ae_verification_mission_revision e
          \<and> 0 < ae_dispatch_checkpoint_revision e
          \<and> ae_dispatch_checkpoint_revision e \<le> ae_verification_checkpoint_revision e
          \<and> ae_verification_mission_revision e = ms_revision m
          \<and> ae_verification_checkpoint_revision e = cp_revision c
          \<and> ae_capability_id e = rt_capability_id route
          \<and> ae_executor e = rt_executor route
          \<and> Some (ae_completion_policy e) = rt_completion_policy route
          \<and> ae_observed_at e = cc_verified_at completion
          \<and> evidence_sources_ok route e
          \<and> evidence_digest X e = cc_evidence_digest completion)"

section \<open>Validation\<close>

definition completion_is_valid ::
  "'x ext_scheme \<Rightarrow> mission_definition \<Rightarrow> mission_checkpoint \<Rightarrow> mission_checkpoint_completion \<Rightarrow> bool" where
  "completion_is_valid X d c completion \<longleftrightarrow>
     cc_oracle_ids completion \<noteq> {||}
     \<and> (\<forall>oracle |\<in>| cc_oracle_ids completion. oracle |\<in>| md_oracle_ids d)
     \<and> is_sha256 (cc_evidence_digest completion)
     \<and> is_some_and (\<lambda>started_at. started_at \<le> cc_verified_at completion) (cp_started_at c)
     \<and> is_none_or (\<lambda>route.
          is_contracted route
          \<and> cc_oracle_ids completion = rt_oracle_ids route
          \<and> rt_completion_policy route \<noteq> Some EffectReadbackV2
          \<and> valid_persisted_application_checkpoint_evidence X d c route completion
          \<and> (''work_product'' |\<notin>| rt_oracle_ids route \<or> cc_work_product_ids completion \<noteq> {||})
          \<and> (rt_completion_policy route \<noteq> Some VerifiedEffect \<or> cc_effect_ids completion \<noteq> {||}))
        (cp_route c)"

definition checkpoint_is_valid ::
  "'x ext_scheme \<Rightarrow> mission_definition \<Rightarrow> mission_checkpoint \<Rightarrow> string fset \<Rightarrow> bool" where
  "checkpoint_is_valid X d c seen =
     (if blank (cp_id c)
         \<or> cp_revision c = 0
         \<or> is_some_and (\<lambda>route. is_err (route_validate route)
              \<or> rt_capability_id route |\<notin>| md_capability_ids d
              \<or> \<not> (\<forall>oracle |\<in>| rt_oracle_ids route. oracle |\<in>| md_oracle_ids d)) (cp_route c)
         \<or> cp_id c |\<in>| cp_depends_on c
         \<or> \<not> (\<forall>dependency |\<in>| cp_depends_on c. dependency |\<in>| seen)
         \<or> (cp_attempt c = 0 \<and> cp_started_at c \<noteq> None)
         \<or> (cp_status c = CpPending
             \<and> (cp_started_at c \<noteq> None \<or> cp_block c \<noteq> None \<or> cp_completion c \<noteq> None))
         \<or> (cp_status c = CpReady \<and> (cp_block c \<noteq> None \<or> cp_completion c \<noteq> None))
         \<or> (cp_status c = CpCompleted \<and> cp_completion c = None)
         \<or> (cp_status c \<noteq> CpCompleted \<and> cp_completion c \<noteq> None)
         \<or> (cp_status c \<in> {CpBlocked, CpWaitingUser, CpWaitingApproval}) \<noteq> (cp_block c \<noteq> None)
      then False
      else is_none_or (completion_is_valid X d c) (cp_completion c))"

text \<open>The last loop of \<open>validate\<close>, with its three running variables.\<close>

fun validate_checkpoints ::
  "'x ext_scheme \<Rightarrow> mission_definition \<Rightarrow> string fset \<Rightarrow> nat \<Rightarrow> nat \<Rightarrow> mission_checkpoint list
     \<Rightarrow> mission_error + unit" where
  "validate_checkpoints X d seen ready_count active_count [] =
     (if 1 < ready_count \<or> 1 < active_count then Err InvalidMissionDefinition else Ok ())"
| "validate_checkpoints X d seen ready_count active_count (c # cs) =
     (if \<not> checkpoint_is_valid X d c seen then Err InvalidMissionDefinition
      else validate_checkpoints X d (finsert (cp_id c) seen)
        (ready_count + (if cp_status c = CpReady then 1 else 0))
        (active_count + (if cp_is_active (cp_status c) then 1 else 0)) cs)"

definition routes_ok :: "mission_definition \<Rightarrow> bool" where
  "routes_ok d \<longleftrightarrow>
     (let routes = List.map_filter cp_route (md_checkpoints d);
          contracted_count = length (filter is_contracted routes)
      in fset_of_list (map rt_capability_id routes) = md_capability_ids d
         \<and> (contracted_count = 0 \<or> contracted_count = length routes)
         \<and> (contracted_count \<noteq> length routes
            \<or> ffUnion (rt_oracle_ids |`| fset_of_list routes) = md_oracle_ids d))"

definition definition_validate :: "'x ext_scheme \<Rightarrow> mission_definition \<Rightarrow> mission_error + unit" where
  "definition_validate X d =
     (if blank (md_manifest_id d)
         \<or> md_manifest_version d = 0
         \<or> \<not> is_sha256 (md_catalog_digest d)
         \<or> md_capability_ids d = {||}
         \<or> md_required_artifact_types d = {||}
         \<or> md_oracle_ids d = {||}
         \<or> md_checkpoints d = []
         \<or> md_cycle d = 0
         \<or> fcard (fset_of_list (map cp_id (md_checkpoints d))) \<noteq> length (md_checkpoints d)
         \<or> (\<exists>v |\<in>| md_capability_ids d |\<union>| md_required_artifact_types d |\<union>| md_oracle_ids d. blank v)
      then Err InvalidMissionDefinition
      else let routed = length (filter (\<lambda>c. cp_route c \<noteq> None) (md_checkpoints d)) in
        if routed \<noteq> 0 \<and> routed \<noteq> length (md_checkpoints d) then Err InvalidMissionDefinition
        else if routed = length (md_checkpoints d) \<and> \<not> routes_ok d then Err InvalidMissionDefinition
        else validate_checkpoints X d {||} 0 0 (md_checkpoints d))"

section \<open>Constructors\<close>

fun chain_checkpoints ::
  "string option \<Rightarrow> (string \<times> mission_checkpoint_route option) list \<Rightarrow> mission_checkpoint list" where
  "chain_checkpoints previous [] = []"
| "chain_checkpoints previous ((cid, route) # rest) =
     \<lparr>cp_id = cid, cp_depends_on = (case previous of None \<Rightarrow> {||} | Some p \<Rightarrow> {|p|}), cp_route = route,
      cp_status = (if previous = None then CpReady else CpPending), cp_revision = 1, cp_attempt = 0,
      cp_started_at = None, cp_block = None, cp_completion = None\<rparr>
     # chain_checkpoints (Some cid) rest"

definition from_manifest_parts ::
  "'x ext_scheme \<Rightarrow> string \<Rightarrow> u32 \<Rightarrow> string \<Rightarrow> operating_mode \<Rightarrow> string list \<Rightarrow> string list \<Rightarrow> string list
     \<Rightarrow> (string \<times> mission_checkpoint_route option) list \<Rightarrow> mission_error + mission_definition" where
  "from_manifest_parts X manifest_id version catalog_digest mode capabilities artifacts oracles routes =
     (let d = \<lparr>md_manifest_id = manifest_id, md_manifest_version = version,
               md_catalog_digest = catalog_digest, md_operating_mode = mode,
               md_capability_ids = fset_of_list capabilities,
               md_required_artifact_types = fset_of_list artifacts,
               md_oracle_ids = fset_of_list oracles, md_checkpoints = chain_checkpoints None routes,
               md_cycle = 1\<rparr>
      in and_then (definition_validate X d) (\<lambda>_. Ok d))"

definition from_linear_manifest ::
  "'x ext_scheme \<Rightarrow> string \<Rightarrow> u32 \<Rightarrow> string \<Rightarrow> operating_mode \<Rightarrow> string list \<Rightarrow> string list \<Rightarrow> string list
     \<Rightarrow> string list \<Rightarrow> mission_error + mission_definition" where
  "from_linear_manifest X manifest_id version catalog_digest mode capabilities artifacts oracles ids =
     from_manifest_parts X manifest_id version catalog_digest mode capabilities artifacts oracles
       (map (\<lambda>cid. (cid, None)) ids)"

definition from_routed_linear_manifest ::
  "'x ext_scheme \<Rightarrow> string \<Rightarrow> u32 \<Rightarrow> string \<Rightarrow> operating_mode \<Rightarrow> string list \<Rightarrow> string list \<Rightarrow> string list
     \<Rightarrow> (string \<times> mission_checkpoint_route) list \<Rightarrow> mission_error + mission_definition" where
  "from_routed_linear_manifest X manifest_id version catalog_digest mode capabilities artifacts oracles routes =
     from_manifest_parts X manifest_id version catalog_digest mode capabilities artifacts oracles
       (map (\<lambda>(cid, route). (cid, Some route)) routes)"

section \<open>Operations\<close>

definition active_checkpoint :: "mission_definition \<Rightarrow> mission_checkpoint option" where
  "active_checkpoint d = find (\<lambda>c. cp_is_active (cp_status c)) (md_checkpoints d)"

definition current_checkpoint :: "mission_definition \<Rightarrow> mission_checkpoint option" where
  "current_checkpoint d =
     (case active_checkpoint d of
        Some c \<Rightarrow> Some c
      | None \<Rightarrow> find (\<lambda>c. cp_status c = CpReady) (md_checkpoints d))"

definition validate_first_checkpoint_tasks ::
  "mission_definition \<Rightarrow> task list \<Rightarrow> mission_error + unit" where
  "validate_first_checkpoint_tasks d tasks =
     (case md_checkpoints d of
        [] \<Rightarrow> Err InvalidMissionDefinition
      | c # _ \<Rightarrow>
          (case cp_route c of
             None \<Rightarrow> Ok ()
           | Some route \<Rightarrow>
               if tasks = []
                  \<or> list_ex (\<lambda>t. tk_status t \<noteq> TaskRunning \<or> blank (tk_title t)
                       \<or> tk_capability t \<noteq> rt_capability_id route) tasks
                  \<or> fcard (fset_of_list (map tk_id tasks)) \<noteq> length tasks
               then Err (MissionCheckpointTaskMismatch (cp_id c) (rt_capability_id route))
               else Ok ()))"

text \<open>
  The revision is advanced by an unchecked \<open>+= 1\<close>. The model follows a build with overflow checks,
  where it panics at the largest revision; without them it would wrap to zero.
\<close>

definition start_first_checkpoint ::
  "mission_definition \<Rightarrow> time \<Rightarrow> (mission_error + unit) \<times> mission_definition" where
  "start_first_checkpoint d now =
     (case md_checkpoints d of
        [] \<Rightarrow> (Err InvalidMissionDefinition, d)
      | c # cs \<Rightarrow>
          if cp_status c \<noteq> CpReady \<or> cp_attempt c \<noteq> 0 \<or> cp_started_at c \<noteq> None
          then (Err (InvalidCheckpointTransition (cp_id c) (cp_status c) CpRunning), d)
          else let c = c\<lparr>cp_status := CpRunning, cp_attempt := 1, cp_started_at := Some now\<rparr> in
            attempt (ok_or MissionPanic (checked_add (cp_revision c) 1)) (d\<lparr>md_checkpoints := c # cs\<rparr>)
              (\<lambda>revision. (Ok (), d\<lparr>md_checkpoints := c\<lparr>cp_revision := revision\<rparr> # cs\<rparr>)))"

fun reset_checkpoints ::
  "bool \<Rightarrow> mission_checkpoint list \<Rightarrow> (mission_error + unit) \<times> mission_checkpoint list" where
  "reset_checkpoints first [] = (Ok (), [])"
| "reset_checkpoints first (c # cs) =
     (let c = c\<lparr>cp_status := (if first then CpReady else CpPending)\<rparr> in
      attempt (ok_or MissionRevisionOverflow (checked_add (cp_revision c) 1)) (c # cs) (\<lambda>revision.
        let c = c\<lparr>cp_revision := revision, cp_attempt := 0, cp_started_at := None, cp_block := None,
                  cp_completion := None\<rparr>;
            (r, cs) = reset_checkpoints False cs
        in (r, c # cs)))"

definition reset_for_next_cycle ::
  "'x ext_scheme \<Rightarrow> mission_definition \<Rightarrow> u64 \<Rightarrow> (mission_error + unit) \<times> mission_definition" where
  "reset_for_next_cycle X d cycle =
     (if checked_add (md_cycle d) 1 \<noteq> Some cycle
         \<or> \<not> list_all (\<lambda>c. cp_is_terminal (cp_status c)) (md_checkpoints d)
      then (Err MissionCycleCheckpointIncomplete, d)
      else let (r, cs) = reset_checkpoints True (md_checkpoints d); d = d\<lparr>md_checkpoints := cs\<rparr> in
        attempt r d (\<lambda>_.
          let d = d\<lparr>md_cycle := cycle\<rparr> in (definition_validate X d, d)))"

definition set_active_status ::
  "mission_definition \<Rightarrow> mission_checkpoint_status \<Rightarrow> mission_block option
     \<Rightarrow> (mission_error + unit) \<times> mission_definition" where
  "set_active_status d status block =
     (case find (\<lambda>c. cp_is_active (cp_status c)) (md_checkpoints d) of
        None \<Rightarrow> (Err InvalidMissionDefinition, d)
      | Some c \<Rightarrow>
          let set_to = (\<lambda>c'. d\<lparr>md_checkpoints :=
                update_first (\<lambda>c. cp_is_active (cp_status c)) (\<lambda>_. c') (md_checkpoints d)\<rparr>);
              c = c\<lparr>cp_status := status, cp_block := block\<rparr>
          in attempt (ok_or MissionRevisionOverflow (checked_add (cp_revision c) 1)) (set_to c)
               (\<lambda>revision. (Ok (), set_to (c\<lparr>cp_revision := revision\<rparr>))))"

end
