(* ===== verification/Mission_Terminal.thy ===== *)
theory Mission_Terminal
  imports Checkpoint
begin

text \<open>
  The catalog-specific rules of \<open>domain-kernel/src/mission.rs\<close>: what the final checkpoints of the
  manifests VM-04, VM-07 and VM-11 must look like before a mission may be completed, and the
  resolution of an outcome review (\<open>outcome.rs\<close>) that VM-11 binds to its evidence. All of it is
  pure; the commands that use it are in the theory of the mission.
\<close>

section \<open>Outcome review resolutions\<close>

datatype next_contract_intent =
  ValidTerminal | ContinueCurrentContract | ScaleWithRevisedContract | TestWithNewExperiment

record next_contract_resolution =
  nr_schema_version :: u32
  nr_tenant_id :: string
  nr_project_id :: string
  nr_mission_id :: string
  nr_cycle :: u64
  nr_decision_digest :: string
  nr_action :: outcome_decision
  nr_next_contract_intent :: next_contract_intent
  nr_source_mission_id :: string
  nr_source_mission_revision :: u64
  nr_source_contract_digest :: string
  nr_continued_contract_digest :: "string option"
  nr_terminal_disposition :: "mission_terminal_disposition option"
  nr_resolved_at :: time

definition handler_id :: string where
  "handler_id = ''vm11.next-contract-or-valid-terminal/v1''"

fun outcome_decision_name :: "outcome_decision \<Rightarrow> string" where
  "outcome_decision_name OutContinue = ''continue''"
| "outcome_decision_name OutStop = ''stop''"
| "outcome_decision_name OutScale = ''scale''"
| "outcome_decision_name OutTest = ''test''"

fun next_contract_intent_name :: "next_contract_intent \<Rightarrow> string" where
  "next_contract_intent_name ValidTerminal = ''valid_terminal''"
| "next_contract_intent_name ContinueCurrentContract = ''continue_current_contract''"
| "next_contract_intent_name ScaleWithRevisedContract = ''scale_with_revised_contract''"
| "next_contract_intent_name TestWithNewExperiment = ''test_with_new_experiment''"

definition decision_source_id :: "next_contract_resolution \<Rightarrow> string" where
  "decision_source_id r =
     nr_mission_id r @ '':cycle:'' @ dec_u64 (nr_cycle r) @ '':'' @ outcome_decision_name (nr_action r)
     @ '':'' @ next_contract_intent_name (nr_next_contract_intent r)"

section \<open>Lookups\<close>

definition checkpoint_named :: "mission_definition \<Rightarrow> string \<Rightarrow> mission_checkpoint option" where
  "checkpoint_named d cid = find (\<lambda>c. cp_id c = cid) (md_checkpoints d)"

definition source_of_kind ::
  "mission_checkpoint_application_evidence \<Rightarrow> string \<Rightarrow> mission_checkpoint_oracle_source option" where
  "source_of_kind e kind = find (\<lambda>s. os_source_kind s = kind) (sorted_list_of_fset (ae_sources e))"

definition source_kinds :: "mission_checkpoint_application_evidence \<Rightarrow> string fset" where
  "source_kinds e = os_source_kind |`| ae_sources e"

definition all_completed :: "mission_definition \<Rightarrow> bool" where
  "all_completed d \<longleftrightarrow> list_all (\<lambda>c. cp_status c = CpCompleted) (md_checkpoints d)"

definition completion_of :: "mission_definition \<Rightarrow> string \<Rightarrow> mission_checkpoint_completion option" where
  "completion_of d cid = Option.bind (checkpoint_named d cid) cp_completion"

definition evidence_of ::
  "mission_definition \<Rightarrow> string \<Rightarrow> mission_checkpoint_application_evidence option" where
  "evidence_of d cid = Option.bind (completion_of d cid) cc_application_evidence"

section \<open>Typed terminals\<close>

definition vm04_valid_terminal_is_typed :: "mission \<Rightarrow> bool" where
  "vm04_valid_terminal_is_typed m =
     (case ms_definition m of
        None \<Rightarrow> False
      | Some d \<Rightarrow>
          if md_manifest_id d \<noteq> ''VM-04'' \<or> md_manifest_version d \<noteq> 3 \<or> \<not> all_completed d then False
          else case evidence_of d ''channel_rebalance'' of
            None \<Rightarrow> False
          | Some e \<Rightarrow>
              ae_handler_id e = ''vm04.channel-rebalance/v1''
              \<and> ae_checkpoint_id e = ''channel_rebalance''
              \<and> source_kinds e = {|''channel_rebalance'', ''engagement_review'',
                   ''mission_checkpoint'', ''mission_contract''|})"

definition vm07_replan_or_terminal_valid_terminal_is_typed :: "'x ext_scheme \<Rightarrow> mission \<Rightarrow> bool" where
  "vm07_replan_or_terminal_valid_terminal_is_typed X m =
     (case ms_definition m of
        None \<Rightarrow> False
      | Some d \<Rightarrow>
          if md_manifest_id d \<noteq> ''VM-07'' \<or> md_manifest_version d \<noteq> 3 \<or> \<not> all_completed d then False
          else case checkpoint_named d ''prioritized_experiments'' of
            None \<Rightarrow> False
          | Some prioritized \<Rightarrow>
          (case cp_completion prioritized of
             None \<Rightarrow> False
           | Some pc \<Rightarrow>
          (case cc_application_evidence pc of
             None \<Rightarrow> False
           | Some pe \<Rightarrow>
          (case sorted_list_of_fset (cc_work_product_ids pc) of
             [plan_id] \<Rightarrow>
          (case find (\<lambda>w. wp_id w = plan_id) (ms_work_products m) of
             None \<Rightarrow> False
           | Some plan \<Rightarrow>
          (case completion_of d ''replan_or_terminal'' of
             None \<Rightarrow> False
           | Some fc \<Rightarrow>
          (case cc_application_evidence fc of
             None \<Rightarrow> False
           | Some fe \<Rightarrow>
               ae_handler_id pe = ''vm07.prioritized-experiments/v1''
               \<and> evidence_digest X pe = cc_evidence_digest pc
               \<and> cc_effect_ids pc = {||}
               \<and> cc_work_product_ids fc = {||}
               \<and> cc_effect_ids fc = {||}
               \<and> cc_oracle_ids fc = {|''decision'', ''goal'', ''operating_state'', ''outcome''|}
               \<and> evidence_digest X fe = cc_evidence_digest fc
               \<and> ae_handler_id fe = ''vm07.replan-or-terminal/v1''
               \<and> ae_checkpoint_id fe = ''replan_or_terminal''
               \<and> source_kinds fe = {|''budgeted_experiment_plan'', ''mission_checkpoint'',
                    ''mission_contract'', ''prioritized_experiments''|}
               \<and> is_some_and (\<lambda>s.
                    os_source_id s = ms_id m @ '':prioritized_experiments''
                    \<and> os_source_revision s = cp_revision prioritized
                    \<and> os_projection_digest s = cc_evidence_digest pc
                    \<and> os_oracle_ids s = {|''decision''|}) (source_of_kind fe ''prioritized_experiments'')
               \<and> is_some_and (\<lambda>s.
                    os_source_id s = wp_id plan
                    \<and> os_source_revision s = wp_revision plan
                    \<and> os_projection_digest s = wp_content_digest plan
                    \<and> os_oracle_ids s = {|''outcome''|}) (source_of_kind fe ''budgeted_experiment_plan'')
               \<and> is_some_and (\<lambda>s.
                    os_source_id s = ms_id m
                    \<and> os_oracle_ids s = {|''goal''|}) (source_of_kind fe ''mission_contract''))))
           | _ \<Rightarrow> False))))"

definition vm11_candidate_learning_valid_terminal_is_typed :: "mission \<Rightarrow> bool" where
  "vm11_candidate_learning_valid_terminal_is_typed m =
     (case ms_definition m of
        None \<Rightarrow> False
      | Some d \<Rightarrow>
          if md_manifest_id d \<noteq> ''VM-11'' \<or> md_manifest_version d \<noteq> 3 \<or> \<not> all_completed d then False
          else case completion_of d ''next_contract_or_valid_terminal'' of
            None \<Rightarrow> False
          | Some nc \<Rightarrow>
          (case cc_application_evidence nc of
             None \<Rightarrow> False
           | Some ne \<Rightarrow>
          (case source_of_kind ne ''outcome_review_decision'' of
             None \<Rightarrow> False
           | Some decision \<Rightarrow>
          (case completion_of d ''candidate_learning'' of
             None \<Rightarrow> False
           | Some cc \<Rightarrow>
          (case cc_application_evidence cc of
             None \<Rightarrow> False
           | Some ce \<Rightarrow>
               ae_handler_id ne = handler_id
               \<and> suffix '':continue:continue_current_contract'' (os_source_id decision)
               \<and> ae_handler_id ce = ''vm11.candidate-learning/v1''
               \<and> ae_checkpoint_id ce = ''candidate_learning''
               \<and> source_kinds ce = {|''candidate_learning_proposal'', ''mission_checkpoint'',
                    ''next_contract_resolution''|}
               \<and> fcard (cc_work_product_ids cc) = 1
               \<and> is_some_and (\<lambda>s.
                    os_source_revision s = 1
                    \<and> os_oracle_ids s = {|''work_product''|}
                    \<and> os_source_id s |\<in>| cc_work_product_ids cc)
                  (source_of_kind ce ''candidate_learning_proposal'')
               \<and> is_some_and (\<lambda>s.
                    os_source_id s = os_source_id decision
                    \<and> os_source_revision s = os_source_revision decision
                    \<and> os_projection_digest s = cc_evidence_digest nc
                    \<and> os_oracle_ids s = {|''decision''|})
                  (source_of_kind ce ''next_contract_resolution''))))))"

definition vm11_valid_terminal_is_typed :: "mission \<Rightarrow> bool" where
  "vm11_valid_terminal_is_typed m =
     (case ms_definition m of
        None \<Rightarrow> False
      | Some d \<Rightarrow>
          if md_manifest_id d \<noteq> ''VM-11'' \<or> md_manifest_version d \<noteq> 3 then False
          else case checkpoint_named d ''next_contract_or_valid_terminal'' of
            None \<Rightarrow> False
          | Some c \<Rightarrow>
          (case checkpoint_named d ''candidate_learning'' of
             None \<Rightarrow> False
           | Some candidate \<Rightarrow>
          (case Option.bind (cp_completion c) cc_application_evidence of
             None \<Rightarrow> False
           | Some e \<Rightarrow>
               cp_status c = CpCompleted
               \<and> cp_status candidate = CpSkipped
               \<and> ae_handler_id e = handler_id
               \<and> (\<exists>s |\<in>| ae_sources e. os_source_kind s = ''outcome_review_decision''
                    \<and> suffix '':stop:valid_terminal'' (os_source_id s)
                    \<and> os_oracle_ids s = {|''outcome''|})
               \<or> vm11_candidate_learning_valid_terminal_is_typed m)))"

section \<open>VM-11 resolutions\<close>

definition validate_vm11_stop_resolution :: "next_contract_resolution \<Rightarrow> mission_error + unit" where
  "validate_vm11_stop_resolution r =
     (if nr_action r \<noteq> OutStop
         \<or> nr_terminal_disposition r \<noteq> Some TermCompleted
         \<or> nr_continued_contract_digest r \<noteq> None
      then Err Vm11ValidTerminalResolutionRequired else Ok ())"

definition validate_vm11_continue_resolution :: "next_contract_resolution \<Rightarrow> mission_error + unit" where
  "validate_vm11_continue_resolution r =
     (if nr_action r \<noteq> OutContinue
         \<or> nr_next_contract_intent r \<noteq> ContinueCurrentContract
         \<or> nr_continued_contract_digest r \<noteq> Some (nr_source_contract_digest r)
         \<or> nr_terminal_disposition r \<noteq> None
      then Err (InvalidCheckpointCompletion ''next_contract_or_valid_terminal'') else Ok ())"

definition validate_vm11_next_contract_completion_sources ::
  "mission \<Rightarrow> next_contract_resolution \<Rightarrow> mission_checkpoint_completion \<Rightarrow> mission_error + unit" where
  "validate_vm11_next_contract_completion_sources m r completion =
     and_then (ok_or MissionDefinitionRequired (ms_definition m)) (\<lambda>d.
     and_then (ok_or (MissionCheckpointNotFound ''next_contract_or_valid_terminal'')
       (checkpoint_named d ''next_contract_or_valid_terminal'')) (\<lambda>c.
     and_then (ok_or (InvalidCheckpointCompletion ''next_contract_or_valid_terminal'')
       (cc_application_evidence completion)) (\<lambda>e.
     if md_manifest_id d \<noteq> ''VM-11''
        \<or> md_cycle d \<noteq> nr_cycle r
        \<or> cp_status c \<noteq> CpVerifying
        \<or> nr_tenant_id r \<noteq> ms_tenant_id m
        \<or> nr_project_id r \<noteq> ms_project_id m
        \<or> nr_mission_id r \<noteq> ms_id m
        \<or> nr_resolved_at r \<noteq> cc_verified_at completion
        \<or> ae_handler_id e \<noteq> handler_id
        \<or> ae_observed_at e \<noteq> nr_resolved_at r
        \<or> source_kinds e \<noteq> {|''mission_checkpoint'', ''outcome_review_decision'',
             ''parent_mission_contract''|}
        \<or> is_none_or (\<lambda>s.
             os_source_id s \<noteq> ms_id m @ '':'' @ cp_id c
             \<or> os_oracle_ids s \<noteq> {|''operating_state''|}) (source_of_kind e ''mission_checkpoint'')
        \<or> is_none_or (\<lambda>s.
             os_source_id s \<noteq> nr_source_mission_id r
             \<or> os_source_revision s \<noteq> nr_source_mission_revision r
             \<or> os_projection_digest s \<noteq> nr_source_contract_digest r
             \<or> os_oracle_ids s \<noteq> {|''goal''|}) (source_of_kind e ''parent_mission_contract'')
        \<or> is_none_or (\<lambda>s.
             os_source_id s \<noteq> decision_source_id r
             \<or> os_source_revision s \<noteq> nr_cycle r
             \<or> os_projection_digest s \<noteq> nr_decision_digest r
             \<or> os_oracle_ids s \<noteq> {|''outcome''|}) (source_of_kind e ''outcome_review_decision'')
     then Err (InvalidCheckpointCompletion ''next_contract_or_valid_terminal'') else Ok ())))"

end
