(* ===== verification/Approval.thy ===== *)
theory Approval
  imports Mission_Types
begin

text \<open>
  \<open>domain-kernel/src/mission.rs\<close>: what an approval of an effect covers. \<open>approval_digest\<close> hashes the
  scope of an effect field by field; the scope validators decide what may be proposed and which
  receipts belong to an effect. The main result is that the hashed text can be read back in only
  one way, although the two sets in it are hashed without their sizes.
\<close>

section \<open>The approval digest\<close>

text \<open>
  \<open>serde_json::to_string\<close> of a consent purpose and of a contact channel. serde_json documents the
  text of a unit variant as a JSON string of its name: it starts with a quotation mark, and
  different variants have different texts.
\<close>

record effect_ext = ext +
  json_purpose :: "consent_purpose \<Rightarrow> string"
  json_channel :: "contact_channel \<Rightarrow> string"

definition json_names :: "'x effect_ext_scheme \<Rightarrow> bool" where
  "json_names X \<longleftrightarrow>
     inj (json_purpose X) \<and> inj (json_channel X) \<and>
     (\<forall>p. prefix [CHR 0x22] (json_purpose X p)) \<and> (\<forall>c. prefix [CHR 0x22] (json_channel X c))"

fun effect_class_name :: "effect_class \<Rightarrow> string" where
  "effect_class_name Read = ''read''"
| "effect_class_name LocalWrite = ''local_write''"
| "effect_class_name ExternalWrite = ''external_write''"
| "effect_class_name Outreach = ''outreach''"
| "effect_class_name Spend = ''spend''"
| "effect_class_name Payment = ''payment''"

fun consent_name :: "consent_state \<Rightarrow> string" where
  "consent_name ConsentNotRequired = ''not_required''"
| "consent_name ConsentConfirmed = ''confirmed''"
| "consent_name ConsentMissing = ''missing''"
| "consent_name ConsentWithdrawn = ''withdrawn''"

fun risk_name :: "effect_risk \<Rightarrow> string" where
  "risk_name RiskLow = ''low''"
| "risk_name RiskMedium = ''medium''"
| "risk_name RiskHigh = ''high''"
| "risk_name RiskCritical = ''critical''"

definition consent_requirement_fields :: "'x effect_ext_scheme \<Rightarrow> consent_requirement option \<Rightarrow> string list" where
  "consent_requirement_fields X requirement =
     (case requirement of
        Some r \<Rightarrow> [''consent_requirement'', cr_person_id r, json_purpose X (cr_purpose r),
                   json_channel X (cr_channel r), cr_market r]
      | None \<Rightarrow> [''no_consent_requirement''])"

definition conversation_guard_fields :: "conversation_effect_guard option \<Rightarrow> string list" where
  "conversation_guard_fields guard =
     (case guard of
        Some g \<Rightarrow> [''conversation_guard'', cg_conversation_id g, dec_u64 (cg_control_generation g),
                   cg_scope_digest g]
      | None \<Rightarrow> [''no_conversation_guard''])"

definition creator_contact_guard_fields :: "creator_contact_effect_guard option \<Rightarrow> string list" where
  "creator_contact_guard_fields guard =
     (case guard of
        Some g \<Rightarrow> [''creator_contact_guard'', gg_hiring_id g, gg_creator_id g, gg_partner_id g,
                   gg_scope_digest g, gg_permission_evidence_digest g]
      | None \<Rightarrow> [''no_creator_contact_guard''])"

definition approval_fields :: "'x effect_ext_scheme \<Rightarrow> effect \<Rightarrow> string list" where
  "approval_fields X e =
     [ef_tenant_id e, ef_project_id e, ef_mission_id e, es_id e, es_actor_id e, es_capability e,
      es_provider e]
     @ hash_optional (es_connection_id e)
     @ hash_optional (es_account_id e)
     @ sorted_list_of_fset (es_required_scopes e)
     @ [effect_class_name (es_effect_class e), es_description e, es_target_resource e]
     @ hash_optional (es_audience_digest e)
     @ [es_payload_digest e]
     @ sorted_list_of_fset (es_asset_digests e)
     @ hash_optional (map_option (rfc3339 X) (es_scheduled_for e))
     @ [es_timezone e, consent_name (es_consent e)]
     @ hash_optional (es_consent_record_id e)
     @ consent_requirement_fields X (es_consent_requirement e)
     @ conversation_guard_fields (es_conversation_guard e)
     @ creator_contact_guard_fields (es_creator_contact_guard e)
     @ [es_policy_version e, risk_name (es_risk e), es_idempotency_key e,
        dec_i64 (amount_minor (es_amount e)), currency (es_amount e), rfc3339 X (es_expires_at e)]"

definition approval_digest :: "'x effect_ext_scheme \<Rightarrow> effect \<Rightarrow> string" where
  "approval_digest X e = sha256 X (hash_stream (approval_fields X e))"

section \<open>Scope validation\<close>

definition validate_effect_connection_scope :: "'a effect_spec_scheme \<Rightarrow> mission_error + unit" where
  "validate_effect_connection_scope spec =
     (let has_connection = es_connection_id spec \<noteq> None \<or> es_account_id spec \<noteq> None in
      if (es_connection_id spec \<noteq> None) \<noteq> (es_account_id spec \<noteq> None)
         \<or> (has_connection \<and> es_required_scopes spec = {||})
         \<or> (\<not> has_connection \<and> es_required_scopes spec \<noteq> {||})
         \<or> (\<exists>scope |\<in>| es_required_scopes spec. blank scope)
      then Err InvalidEffectScope else Ok ())"

definition validate_effect_content_scope :: "'a effect_spec_scheme \<Rightarrow> time \<Rightarrow> mission_error + unit" where
  "validate_effect_content_scope spec now =
     (if blank (es_capability spec) \<or> blank (es_provider spec) \<or> blank (es_description spec)
         \<or> blank (es_target_resource spec) \<or> blank (es_timezone spec) \<or> blank (es_policy_version spec)
         \<or> \<not> is_sha256 (es_payload_digest spec)
         \<or> is_some_and (\<lambda>d. \<not> is_sha256 d) (es_audience_digest spec)
         \<or> (\<exists>d |\<in>| es_asset_digests spec. \<not> is_sha256 d)
         \<or> es_expires_at spec \<le> now
         \<or> is_some_and (\<lambda>at. at < now \<or> es_expires_at spec \<le> at) (es_scheduled_for spec)
         \<or> is_some_and blank (es_connection_id spec)
         \<or> is_some_and blank (es_account_id spec)
         \<or> is_some_and (\<lambda>g. blank (cg_conversation_id g) \<or> cg_control_generation g = 0
              \<or> \<not> is_sha256 (cg_scope_digest g)) (es_conversation_guard spec)
         \<or> is_some_and (\<lambda>g. blank (gg_hiring_id g) \<or> blank (gg_creator_id g) \<or> blank (gg_partner_id g)
              \<or> \<not> is_sha256 (gg_scope_digest g) \<or> \<not> is_sha256 (gg_permission_evidence_digest g)
              \<or> gg_scope_digest g \<noteq> es_payload_digest spec) (es_creator_contact_guard spec)
      then Err InvalidEffectScope else Ok ())"

definition validate_effect_consent_scope :: "'a effect_spec_scheme \<Rightarrow> mission_error + unit" where
  "validate_effect_consent_scope spec =
     (let valid = (case es_consent spec of
          ConsentNotRequired \<Rightarrow>
            es_consent_record_id spec = None \<and> es_consent_requirement spec = None
        | ConsentConfirmed \<Rightarrow> es_consent_record_id spec \<noteq> None
            \<and> is_some_and consent_requirement_validate (es_consent_requirement spec)
        | ConsentWithdrawn \<Rightarrow> es_consent_record_id spec \<noteq> None
            \<and> is_some_and consent_requirement_validate (es_consent_requirement spec)
        | ConsentMissing \<Rightarrow> es_consent_record_id spec = None
            \<and> is_some_and consent_requirement_validate (es_consent_requirement spec))
      in if valid then Ok () else Err ConsentRecordMismatch)"

definition validate_receipt_scope ::
  "'x effect_ext_scheme \<Rightarrow> effect \<Rightarrow> receipt \<Rightarrow> mission_error + unit" where
  "validate_receipt_scope X e r =
     (if rc_provider r \<noteq> es_provider e
         \<or> blank (rc_external_id r)
         \<or> rc_request_digest r \<noteq> approval_digest X e
         \<or> \<not> is_sha256 (rc_response_digest r)
         \<or> es_expires_at e \<le> rc_accepted_at r
         \<or> is_none_or (\<lambda>a. rc_accepted_at r < ap_decided_at a) (ef_approval e)
      then Err ReceiptScopeMismatch else Ok ())"

definition durable_execution_start_is_valid ::
  "'x effect_ext_scheme \<Rightarrow> effect \<Rightarrow> approval \<Rightarrow> time \<Rightarrow> bool" where
  "durable_execution_start_is_valid X e a execution_started_at \<longleftrightarrow>
     ap_scope_digest a = approval_digest X e
     \<and> ap_decided_at a \<le> execution_started_at
     \<and> execution_started_at < ap_valid_until a
     \<and> execution_started_at < es_expires_at e"

section \<open>The digest text is unambiguous\<close>

lemma sha256_not_tag [simp]:
  "\<not> is_sha256 ''none''" "\<not> is_sha256 ''some''" "\<not> is_sha256 ''no_conversation_guard''"
  "\<not> is_sha256 ''no_creator_contact_guard''"
  by (simp_all add: is_sha256_def)

lemma effect_class_name_inject [simp]: "effect_class_name c = effect_class_name c' \<longleftrightarrow> c = c'"
  by (cases c; cases c') simp_all

lemma risk_name_inject [simp]: "risk_name r = risk_name r' \<longleftrightarrow> r = r'"
  by (cases r; cases r') simp_all

lemma consent_name_inject [simp]: "consent_name s = consent_name s' \<longleftrightarrow> s = s'"
  by (cases s; cases s') simp_all

lemma consent_name_not_tag [simp]: "consent_name s \<noteq> ''some''" "''some'' \<noteq> consent_name s"
  by (cases s; simp)+

lemma hash_optional_inject:
  "hash_optional a @ xs = hash_optional b @ ys \<longleftrightarrow> a = b \<and> xs = ys"
  by (cases a; cases b) (auto simp: hash_optional_def)

text \<open>From here on the fields are read from the last one backwards.\<close>

lemma creator_contact_guard_inject:
  assumes "rev (creator_contact_guard_fields g) @ xs = rev (creator_contact_guard_fields g') @ ys"
    and "is_none_or (\<lambda>g. is_sha256 (gg_permission_evidence_digest g)) g"
    and "is_none_or (\<lambda>g. is_sha256 (gg_permission_evidence_digest g)) g'"
  shows "g = g' \<and> xs = ys"
  using assms sha256_not_tag(4) by (cases g; cases g') (auto simp: creator_contact_guard_fields_def simp del: sha256_not_tag)

lemma conversation_guard_inject:
  assumes "rev (conversation_guard_fields g) @ xs = rev (conversation_guard_fields g') @ ys"
    and "is_none_or (\<lambda>g. is_sha256 (cg_scope_digest g)) g"
    and "is_none_or (\<lambda>g. is_sha256 (cg_scope_digest g)) g'"
  shows "g = g' \<and> xs = ys"
  using assms sha256_not_tag(3) by (cases g; cases g') (auto simp: conversation_guard_fields_def simp del: sha256_not_tag)

lemma json_names_quoted:
  assumes "json_names X"
  shows "json_purpose X p \<noteq> ''some''" "json_channel X c \<noteq> ''none''"
    "json_purpose X p = json_purpose X p' \<longleftrightarrow> p = p'" "json_channel X c = json_channel X c' \<longleftrightarrow> c = c'"
proof -
  have "prefix [CHR 0x22] (json_purpose X p)" "prefix [CHR 0x22] (json_channel X c)"
    using assms unfolding json_names_def by blast+
  then show "json_purpose X p \<noteq> ''some''" "json_channel X c \<noteq> ''none''"
    by (auto simp: prefix_def)
  show "json_purpose X p = json_purpose X p' \<longleftrightarrow> p = p'" "json_channel X c = json_channel X c' \<longleftrightarrow> c = c'"
    using assms by (auto simp: json_names_def inj_def)
qed

lemma consent_fields_inject:
  assumes "rev (consent_requirement_fields X r) @ rev (hash_optional rid) @ consent_name s # xs =
      rev (consent_requirement_fields X r') @ rev (hash_optional rid') @ consent_name s' # ys"
    and "json_names X"
  shows "r = r' \<and> rid = rid' \<and> s = s' \<and> xs = ys"
  using assms json_names_quoted [OF assms(2)]
  by (cases r; cases r'; cases rid; cases rid')
    (auto simp: consent_requirement_fields_def hash_optional_def dest: sym)

lemma scheduled_inject:
  assumes "rev (hash_optional t) @ xs = rev (hash_optional t') @ ys"
    and "xs \<noteq> []" "is_sha256 (hd xs)" "ys \<noteq> []" "is_sha256 (hd ys)"
  shows "t = t' \<and> xs = ys"
  using assms by (cases t; cases t'; cases xs; cases ys) (auto simp: hash_optional_def)

lemma run_inject:
  assumes "run @ t # xs = run' @ t' # ys" and "\<forall>x \<in> set run. P x" and "\<forall>x \<in> set run'. P x"
    and "\<not> P t" and "\<not> P t'"
  shows "run = run' \<and> t = t' \<and> xs = ys"
  using assms
proof (induction run arbitrary: run')
  case Nil
  then show ?case
    by (cases run') auto
next
  case (Cons a run)
  then show ?case
    by (cases run') auto
qed

lemma content_digests_inject:
  assumes eq: "rev as @ p # rev (hash_optional d) @ xs = rev as' @ p' # rev (hash_optional d') @ ys"
    and "\<forall>a \<in> set as. is_sha256 a" "is_sha256 p" "is_none_or is_sha256 d"
    and "\<forall>a \<in> set as'. is_sha256 a" "is_sha256 p'" "is_none_or is_sha256 d'"
  shows "as = as' \<and> p = p' \<and> d = d' \<and> xs = ys"
proof -
  define tag where "tag d = (if d = None then ''none'' else ''some'')" for d :: "string option"
  have split: "rev as @ p # rev (hash_optional d) @ zs = (rev as @ p # (case d of None \<Rightarrow> [] | Some v \<Rightarrow> [v])) @ tag d # zs"
    for as p d zs
    by (cases d) (simp_all add: hash_optional_def tag_def)
  have "rev as @ p # (case d of None \<Rightarrow> [] | Some v \<Rightarrow> [v]) = rev as' @ p' # (case d' of None \<Rightarrow> [] | Some v \<Rightarrow> [v])
      \<and> tag d = tag d' \<and> xs = ys"
    by (rule run_inject [where P = is_sha256, OF eq [unfolded split]])
      (use assms(2-7) in \<open>auto simp: tag_def split: option.splits\<close>)
  then show ?thesis
    by (cases d; cases d') (auto simp: tag_def)
qed

text \<open>The digests in a scope that the content check has accepted.\<close>

definition digests_ok :: "'a effect_spec_scheme \<Rightarrow> bool" where
  "digests_ok e \<longleftrightarrow>
     is_sha256 (es_payload_digest e) \<and> is_none_or is_sha256 (es_audience_digest e) \<and>
     (\<forall>d. d |\<in>| es_asset_digests e \<longrightarrow> is_sha256 d) \<and>
     is_none_or (\<lambda>g. is_sha256 (cg_scope_digest g)) (es_conversation_guard e) \<and>
     is_none_or (\<lambda>g. is_sha256 (gg_permission_evidence_digest g)) (es_creator_contact_guard e)"

lemma content_scope_digests: "validate_effect_content_scope e now = Ok () \<Longrightarrow> digests_ok e"
  by (auto simp: validate_effect_content_scope_def digests_ok_def is_none_or_iff is_some_and_iff)

text \<open>The fields in reverse, cut where the readers above take over from each other.\<close>

definition scope_front :: "effect \<Rightarrow> string list" where
  "scope_front e =
     [ef_tenant_id e, ef_project_id e, ef_mission_id e, es_id e, es_actor_id e, es_capability e,
      es_provider e] @ hash_optional (es_connection_id e) @ hash_optional (es_account_id e)
     @ sorted_list_of_fset (es_required_scopes e)"

definition content_rev :: "effect \<Rightarrow> string list" where
  "content_rev e = rev (sorted_list_of_fset (es_asset_digests e)) @ es_payload_digest e
     # rev (hash_optional (es_audience_digest e)) @ es_target_resource e # es_description e
     # effect_class_name (es_effect_class e) # rev (scope_front e)"

definition consent_rev :: "'x effect_ext_scheme \<Rightarrow> effect \<Rightarrow> string list" where
  "consent_rev X e = rev (consent_requirement_fields X (es_consent_requirement e))
     @ rev (hash_optional (es_consent_record_id e)) @ consent_name (es_consent e) # es_timezone e
     # rev (hash_optional (map_option (rfc3339 X) (es_scheduled_for e))) @ content_rev e"

lemma rev_approval_fields:
  "rev (approval_fields X e) = rfc3339 X (es_expires_at e) # currency (es_amount e)
     # dec_i64 (amount_minor (es_amount e)) # es_idempotency_key e # risk_name (es_risk e)
     # es_policy_version e # rev (creator_contact_guard_fields (es_creator_contact_guard e))
     @ rev (conversation_guard_fields (es_conversation_guard e)) @ consent_rev X e"
  by (simp add: approval_fields_def consent_rev_def content_rev_def scope_front_def)

lemma scope_front_inject:
  assumes "scope_front e = scope_front e'"
  shows "ef_tenant_id e = ef_tenant_id e' \<and> ef_project_id e = ef_project_id e' \<and>
    ef_mission_id e = ef_mission_id e' \<and> es_id e = es_id e' \<and> es_actor_id e = es_actor_id e' \<and>
    es_capability e = es_capability e' \<and> es_provider e = es_provider e' \<and>
    es_connection_id e = es_connection_id e' \<and> es_account_id e = es_account_id e' \<and>
    es_required_scopes e = es_required_scopes e'"
  using assms by (simp add: scope_front_def hash_optional_inject sorted_list_of_fset_inject)

lemma content_rev_inject:
  assumes "content_rev e = content_rev e'" and "digests_ok e" and "digests_ok e'"
  shows "es_asset_digests e = es_asset_digests e' \<and> es_payload_digest e = es_payload_digest e' \<and>
    es_audience_digest e = es_audience_digest e' \<and> es_target_resource e = es_target_resource e' \<and>
    es_description e = es_description e' \<and> es_effect_class e = es_effect_class e' \<and>
    scope_front e = scope_front e'"
  using content_digests_inject [OF assms(1) [unfolded content_rev_def]] assms(2,3)
  by (simp add: digests_ok_def sorted_list_of_fset_inject)

lemma content_rev_hd: "digests_ok e \<Longrightarrow> content_rev e \<noteq> [] \<and> is_sha256 (hd (content_rev e))"
proof (cases "rev (sorted_list_of_fset (es_asset_digests e))")
  case (Cons a as)
  then have "a |\<in>| es_asset_digests e"
    by (metis list.set_intros(1) set_rev sorted_list_of_fset_simps(1))
  with Cons show "digests_ok e \<Longrightarrow> ?thesis"
    by (simp add: content_rev_def digests_ok_def)
qed (simp add: content_rev_def digests_ok_def)

lemma consent_rev_inject:
  assumes "consent_rev X e = consent_rev X e'" and "digests_ok e" and "digests_ok e'"
    and "json_names X" and "inj (rfc3339 X)"
  shows "es_consent_requirement e = es_consent_requirement e' \<and> es_consent_record_id e = es_consent_record_id e' \<and>
    es_consent e = es_consent e' \<and> es_timezone e = es_timezone e' \<and> es_scheduled_for e = es_scheduled_for e' \<and>
    content_rev e = content_rev e'"
proof -
  from consent_fields_inject [OF assms(1) [unfolded consent_rev_def] assms(4)]
  have *: "es_consent_requirement e = es_consent_requirement e'" "es_consent_record_id e = es_consent_record_id e'"
    "es_consent e = es_consent e'" "es_timezone e = es_timezone e'"
    and "rev (hash_optional (map_option (rfc3339 X) (es_scheduled_for e))) @ content_rev e =
      rev (hash_optional (map_option (rfc3339 X) (es_scheduled_for e'))) @ content_rev e'"
    by simp_all
  from scheduled_inject [OF this(5)] content_rev_hd assms(2,3)
  have "map_option (rfc3339 X) (es_scheduled_for e) = map_option (rfc3339 X) (es_scheduled_for e')"
    "content_rev e = content_rev e'"
    by blast+
  with * assms(5) show ?thesis
    by (simp add: inj_eq [OF option.inj_map])
qed

lemma approval_fields_inject:
  assumes eq: "approval_fields X e = approval_fields X e'"
    and ok: "digests_ok e" "digests_ok e'" and X: "json_names X" "inj (rfc3339 X)"
  shows "effect_spec.truncate e = effect_spec.truncate e' \<and> ef_tenant_id e = ef_tenant_id e' \<and>
    ef_project_id e = ef_project_id e' \<and> ef_mission_id e = ef_mission_id e'"
proof -
  from arg_cong [OF eq, of rev, unfolded rev_approval_fields]
  have last: "es_expires_at e = es_expires_at e'" "es_amount e = es_amount e'"
    "es_idempotency_key e = es_idempotency_key e'" "es_risk e = es_risk e'"
    "es_policy_version e = es_policy_version e'"
    and "rev (creator_contact_guard_fields (es_creator_contact_guard e))
       @ rev (conversation_guard_fields (es_conversation_guard e)) @ consent_rev X e =
      rev (creator_contact_guard_fields (es_creator_contact_guard e'))
       @ rev (conversation_guard_fields (es_conversation_guard e')) @ consent_rev X e'"
    using X(2) by (auto simp: inj_eq)
  from creator_contact_guard_inject [OF this(6)] conversation_guard_inject ok
  have guards: "es_creator_contact_guard e = es_creator_contact_guard e'"
    "es_conversation_guard e = es_conversation_guard e'" and consent: "consent_rev X e = consent_rev X e'"
    unfolding digests_ok_def by blast+
  from consent_rev_inject [OF consent ok X] content_rev_inject [OF _ ok] scope_front_inject [of e e']
    last guards
  show ?thesis
    by (simp add: effect_spec.defs)
qed

text \<open>
  C8: An approval covers exactly one effect: two effects whose scopes have passed the content check
  have the same approval digest only if they agree in every single approved dimension (owner,
  capability, connection, scopes, content, audience, assets, schedule, consent, guards, policy,
  risk, idempotency key, amount and expiry), short of a SHA-256 collision between their two texts.
\<close>

theorem approval_digest_binds:
  assumes "validate_effect_content_scope e now = Ok ()" and "validate_effect_content_scope e' now' = Ok ()"
    and "json_names X" and "inj (rfc3339 X)"
    and "\<forall>v \<in> set (approval_fields X e) \<union> set (approval_fields X e'). length v < 2 ^ 64"
    and "inj_on (sha256 X) {hash_stream (approval_fields X e), hash_stream (approval_fields X e')}"
  shows "approval_digest X e = approval_digest X e' \<longleftrightarrow>
    effect_spec.truncate e = effect_spec.truncate e' \<and> ef_tenant_id e = ef_tenant_id e' \<and>
    ef_project_id e = ef_project_id e' \<and> ef_mission_id e = ef_mission_id e'"
proof
  assume "approval_digest X e = approval_digest X e'"
  then have "hash_stream (approval_fields X e) = hash_stream (approval_fields X e')"
    using assms(6) by (simp add: approval_digest_def inj_on_eq_iff)
  then have "approval_fields X e = approval_fields X e'"
    using assms(5) by (intro hash_stream_inject) auto
  then show "effect_spec.truncate e = effect_spec.truncate e' \<and> ef_tenant_id e = ef_tenant_id e' \<and>
      ef_project_id e = ef_project_id e' \<and> ef_mission_id e = ef_mission_id e'"
    using approval_fields_inject content_scope_digests assms(1-4) by blast
next
  assume "effect_spec.truncate e = effect_spec.truncate e' \<and> ef_tenant_id e = ef_tenant_id e' \<and>
      ef_project_id e = ef_project_id e' \<and> ef_mission_id e = ef_mission_id e'"
  then show "approval_digest X e = approval_digest X e'"
    by (simp add: approval_digest_def approval_fields_def effect_spec.defs)
qed

fun sample_purpose :: "consent_purpose \<Rightarrow> string" where
  "sample_purpose EmailMarketing = [CHR 0x22, CHR ''e'']"
| "sample_purpose DirectOutreach = [CHR 0x22, CHR ''d'']"
| "sample_purpose AutomatedReply = [CHR 0x22, CHR ''a'']"
| "sample_purpose PartnerContact = [CHR 0x22, CHR ''p'']"
| "sample_purpose DataSync = [CHR 0x22, CHR ''s'']"
| "sample_purpose Attribution = [CHR 0x22, CHR ''t'']"

fun sample_channel :: "contact_channel \<Rightarrow> string" where
  "sample_channel Email = [CHR 0x22, CHR ''e'']"
| "sample_channel Phone = [CHR 0x22, CHR ''p'']"
| "sample_channel SocialDirectMessage = [CHR 0x22, CHR ''s'']"
| "sample_channel Chat = [CHR 0x22, CHR ''c'']"

definition sample_eext :: effect_ext where
  "sample_eext = ext.extend sample_ext \<lparr>json_purpose = sample_purpose, json_channel = sample_channel\<rparr>"

lemma sample_eext_simps [simp]:
  "sha256 sample_eext = sha256 sample_ext" "rfc3339 sample_eext = dec_i64"
  "json_purpose sample_eext = sample_purpose" "json_channel sample_eext = sample_channel"
  "add_signed sample_eext = add_signed sample_ext" "dur_seconds sample_eext = dur_seconds sample_ext"
  by (simp_all add: sample_eext_def ext.defs sample_ext_def)

lemma sample_eext_names: "json_names sample_eext"
proof -
  have "inj sample_purpose" "inj sample_channel"
    by (rule injI, case_tac x; case_tac y; simp)+
  moreover have "prefix [CHR 0x22] (sample_purpose p)" for p
    by (cases p) simp_all
  moreover have "prefix [CHR 0x22] (sample_channel c)" for c
    by (cases c) simp_all
  ultimately show ?thesis
    by (simp add: json_names_def)
qed

definition sample_effect_spec :: effect_spec where
  "sample_effect_spec = \<lparr>es_id = ''e1'', es_actor_id = ''a'', es_capability = ''c'', es_provider = ''p'',
     es_connection_id = Some ''m'', es_account_id = Some ''a'', es_required_scopes = {|''write''|},
     es_effect_class = Payment, es_description = ''d'', es_target_resource = ''t'',
     es_audience_digest = None, es_payload_digest = sample_digest, es_asset_digests = {||},
     es_scheduled_for = None, es_timezone = ''UTC'', es_consent = ConsentNotRequired,
     es_consent_record_id = None, es_consent_requirement = None, es_conversation_guard = None,
     es_creator_contact_guard = None, es_policy_version = ''s'', es_risk = RiskLow,
     es_idempotency_key = ''i'', es_amount = \<lparr>amount_minor = 100, currency = ''USD''\<rparr>,
     es_expires_at = 9000\<rparr>"

definition sample_effect :: effect where
  "sample_effect = effect_spec.extend sample_effect_spec \<lparr>ef_tenant_id = ''t'', ef_project_id = ''p'',
     ef_mission_id = ''m1'', ef_status = EffProposed, ef_approval = None, ef_receipt = None,
     ef_verification = None\<rparr>"

theorem approval_digest_binds_witness:
  "approval_digest (sample_eext\<lparr>sha256 := (\<lambda>m. m)\<rparr>) sample_effect \<noteq>
   approval_digest (sample_eext\<lparr>sha256 := (\<lambda>m. m)\<rparr>)
     (sample_effect\<lparr>es_amount := \<lparr>amount_minor = 101, currency = ''USD''\<rparr>\<rparr>)"
proof -
  let ?X = "sample_eext\<lparr>sha256 := (\<lambda>m. m)\<rparr>"
  let ?e = "sample_effect\<lparr>es_amount := \<lparr>amount_minor = 101, currency = ''USD''\<rparr>\<rparr>"
  have ok: "validate_effect_content_scope sample_effect 0 = Ok ()" "validate_effect_content_scope ?e 0 = Ok ()"
    by (simp_all add: validate_effect_content_scope_def sample_effect_def effect_spec.defs
        sample_effect_spec_def sample_names sample_digest_hex)
  have X: "json_names ?X" "inj (rfc3339 ?X)"
    using sample_eext_names by (simp_all add: json_names_def inj_def)
  have "length (dec_i64 100) = 3" "length (dec_i64 101) = 3" "length (dec_i64 9000) = 4"
    by (simp_all add: dec_i64_def dec.simps)
  moreover have "length sample_digest = 64"
    by (simp add: sample_digest_def)
  ultimately have "\<forall>v \<in> set (approval_fields ?X sample_effect) \<union> set (approval_fields ?X ?e). length v < 2 ^ 64"
    by (simp add: approval_fields_def sample_effect_def effect_spec.defs sample_effect_spec_def
        hash_optional_def consent_requirement_fields_def conversation_guard_fields_def
        creator_contact_guard_fields_def)
  from approval_digest_binds [OF ok X this] show ?thesis
    by (simp add: sample_effect_def effect_spec.defs sample_effect_spec_def)
qed

end
