(* ===== verification/Mission.thy ===== *)
theory Mission
  imports Mission_Terminal Approval Work_Product
begin

text \<open>
  \<open>domain-kernel/src/mission.rs\<close>, \<open>impl Mission\<close>: one definition per method, in the order of the
  source. A command gives back its result together with the mission as it leaves it behind, on the
  error paths too: several commands fail after they have written a field. \<open>mission_apply\<close> collects
  the commands that change a mission.
\<close>

section \<open>Shared parts of the commands\<close>

definition require_stage :: "mission \<Rightarrow> mission_stage list \<Rightarrow> mission_error + unit" where
  "require_stage m expected =
     (if ms_stage m \<in> set expected then Ok () else Err (InvalidMissionStage (ms_stage m) expected))"

definition ensure_touchable :: "mission \<Rightarrow> mission_error + unit" where
  "ensure_touchable m = and_then (ok_or MissionRevisionOverflow (checked_add (ms_revision m) 1)) (\<lambda>_. Ok ())"

text \<open>The addition is unchecked; every command calls \<open>ensure_touchable\<close> first.\<close>

definition touch :: "time \<Rightarrow> mission \<Rightarrow> mission" where
  "touch now m = m\<lparr>ms_updated_at := now, ms_revision := ms_revision m + 1\<rparr>"

definition effect_of :: "mission \<Rightarrow> string \<Rightarrow> mission_error + effect" where
  "effect_of m eid = ok_or (UnknownEffect eid) (find (\<lambda>e. es_id e = eid) (ms_effects m))"

text \<open>A write through the reference that \<open>effect_mut\<close> gives out.\<close>

definition set_effect :: "string \<Rightarrow> effect \<Rightarrow> mission \<Rightarrow> mission" where
  "set_effect eid e m =
     m\<lparr>ms_effects := update_first (\<lambda>e. es_id e = eid) (\<lambda>_. e) (ms_effects m)\<rparr>"

definition any_effect :: "mission \<Rightarrow> effect_status set \<Rightarrow> bool" where
  "any_effect m statuses \<longleftrightarrow> list_ex (\<lambda>e. ef_status e \<in> statuses) (ms_effects m)"

definition set_catalog_checkpoint_status ::
  "mission_checkpoint_status \<Rightarrow> mission_block option \<Rightarrow> mission \<Rightarrow> (mission_error + unit) \<times> mission" where
  "set_catalog_checkpoint_status status block m =
     (case ms_definition m of
        None \<Rightarrow> (Ok (), m)
      | Some d \<Rightarrow> let (r, d) = set_active_status d status block in (r, m\<lparr>ms_definition := Some d\<rparr>))"

fun checkpoint_status_for_mission_stage :: "mission_stage \<Rightarrow> mission_error + mission_checkpoint_status" where
  "checkpoint_status_for_mission_stage StageBlocked = Ok CpBlocked"
| "checkpoint_status_for_mission_stage StageWaitingUser = Ok CpWaitingUser"
| "checkpoint_status_for_mission_stage StageWaitingApproval = Ok CpWaitingApproval"
| "checkpoint_status_for_mission_stage _ = Err InvalidBlock"

text \<open>A write to the first checkpoint with the given id.\<close>

definition set_checkpoint :: "string \<Rightarrow> mission_checkpoint \<Rightarrow> mission_definition \<Rightarrow> mission_definition" where
  "set_checkpoint cid c d =
     d\<lparr>md_checkpoints := update_first (\<lambda>c. cp_id c = cid) (\<lambda>_. c) (md_checkpoints d)\<rparr>"

definition completed_ids :: "mission_definition \<Rightarrow> string fset" where
  "completed_ids d =
     fset_of_list (map cp_id (filter (\<lambda>c. cp_status c = CpCompleted) (md_checkpoints d)))"

text \<open>The result of a command on a clone that replaces the receiver only if everything succeeds.\<close>

definition committed :: "('e + unit) \<times> 's \<Rightarrow> 'e + 's" where
  "committed rs = and_then (fst rs) (\<lambda>_. Ok (snd rs))"

definition replace_with :: "'s \<Rightarrow> 'e + 's \<Rightarrow> ('e + unit) \<times> 's" where
  "replace_with s r = (case r of Inl e \<Rightarrow> (Err e, s) | Inr s' \<Rightarrow> (Ok (), s'))"

definition manifest_is :: "mission \<Rightarrow> string \<Rightarrow> bool" where
  "manifest_is m manifest \<longleftrightarrow> is_some_and (\<lambda>d. md_manifest_id d = manifest) (ms_definition m)"

section \<open>Compilation and cycles\<close>

definition compile ::
  "string \<Rightarrow> string \<Rightarrow> string \<Rightarrow> string \<Rightarrow> operating_contract \<Rightarrow> time \<Rightarrow> mission_error + mission" where
  "compile tenant_id mid project_id title contract now =
     (let title = trim title in
      if title = [] \<or> blank (oc_goal contract) then Err EmptyMission
      else and_then (map_err OperatingContract (contract_validate contract now)) (\<lambda>_.
        Ok \<lparr>ms_tenant_id = tenant_id, ms_id = mid, ms_project_id = project_id, ms_title = title,
            ms_contract = contract, ms_definition = None, ms_stage = StageReady, ms_tasks = [],
            ms_evidence = [], ms_work_products = [], ms_effects = [], ms_outcome_history = [],
            ms_outcome = None, ms_block = None, ms_created_at = now, ms_updated_at = now,
            ms_revision = 1\<rparr>))"

definition compile_catalog ::
  "'x ext_scheme \<Rightarrow> string \<Rightarrow> string \<Rightarrow> string \<Rightarrow> string \<Rightarrow> operating_contract \<Rightarrow> mission_definition \<Rightarrow> time
     \<Rightarrow> mission_error + mission" where
  "compile_catalog X tenant_id mid project_id title contract d now =
     and_then (definition_validate X d) (\<lambda>_.
     if md_operating_mode d \<noteq> oc_mode contract
        \<or> md_capability_ids d \<noteq> oc_enabled_capabilities contract
        \<or> md_capability_ids d |\<inter>| oc_forbidden_capabilities contract \<noteq> {||}
     then Err MissionDefinitionContractMismatch
     else and_then (compile tenant_id mid project_id title contract now) (\<lambda>m.
       Ok (m\<lparr>ms_definition := Some d\<rparr>)))"

definition validate_checkpoint_evidence_scope :: "'x ext_scheme \<Rightarrow> mission \<Rightarrow> mission_error + unit" where
  "validate_checkpoint_evidence_scope X m =
     (case ms_definition m of
        None \<Rightarrow> Ok ()
      | Some d \<Rightarrow>
          and_then (definition_validate X d) (\<lambda>_.
          for_each (\<lambda>c.
            case Option.bind (cp_completion c) cc_application_evidence of
              None \<Rightarrow> Ok ()
            | Some e \<Rightarrow>
                if ae_tenant_id e \<noteq> ms_tenant_id m \<or> ae_project_id e \<noteq> ms_project_id m
                   \<or> ae_mission_id e \<noteq> ms_id m \<or> ms_revision m \<le> ae_verification_mission_revision e
                then Err (InvalidCheckpointCompletion (cp_id c)) else Ok ()) (md_checkpoints d)))"

text \<open>The common end of the two commands that start a cycle.\<close>

definition start_tasks :: "task list \<Rightarrow> time \<Rightarrow> mission \<Rightarrow> mission" where
  "start_tasks tasks now m =
     touch now (m\<lparr>ms_tasks := ms_tasks m @ tasks, ms_stage := StageRunning, ms_block := None\<rparr>)"

definition start_research :: "task list \<Rightarrow> time \<Rightarrow> mission \<Rightarrow> (mission_error + unit) \<times> mission" where
  "start_research tasks now m =
     attempt (require_stage m [StageReady]) m (\<lambda>_.
     attempt (case ms_definition m of None \<Rightarrow> Ok () | Some d \<Rightarrow> validate_first_checkpoint_tasks d tasks) m (\<lambda>_.
     attempt (ensure_touchable m) m (\<lambda>_.
     then_with (case ms_definition m of
          None \<Rightarrow> (Ok (), m)
        | Some d \<Rightarrow> let (r, d) = start_first_checkpoint d now in (r, m\<lparr>ms_definition := Some d\<rparr>))
       (\<lambda>_ m. (Ok (), start_tasks tasks now m)))))"

definition start_scheduled_cycle ::
  "'x ext_scheme \<Rightarrow> u64 \<Rightarrow> task list \<Rightarrow> time \<Rightarrow> mission \<Rightarrow> (mission_error + unit) \<times> mission" where
  "start_scheduled_cycle X cycle tasks now m =
     attempt (require_stage m [StageScheduled]) m (\<lambda>_.
     attempt (map_err OperatingContract (contract_validate (ms_contract m) now)) m (\<lambda>_.
     attempt (ok_or MissionRevisionOverflow
       (Option.bind (usize_to_u64 (length (ms_outcome_history m))) (\<lambda>value. checked_add value 1))) m
       (\<lambda>expected_cycle.
     if cycle \<noteq> expected_cycle \<or> cycle < 2 then (Err (InvalidMissionCycle expected_cycle cycle), m)
     else
     attempt (case ms_definition m of None \<Rightarrow> Ok () | Some d \<Rightarrow> validate_first_checkpoint_tasks d tasks) m (\<lambda>_.
     attempt (ensure_touchable m) m (\<lambda>_.
     then_with (case ms_definition m of
          None \<Rightarrow> (Ok (), m)
        | Some d \<Rightarrow>
            let (r, d) = then_with (reset_for_next_cycle X d cycle) (\<lambda>_ d. start_first_checkpoint d now)
            in (r, m\<lparr>ms_definition := Some d\<rparr>))
       (\<lambda>_ m. (Ok (), start_tasks tasks now m)))))))"

section \<open>Evidence and work products\<close>

definition record_evidence :: "evidence \<Rightarrow> time \<Rightarrow> mission \<Rightarrow> (mission_error + unit) \<times> mission" where
  "record_evidence evidence now m =
     attempt (require_stage m [StageRunning]) m (\<lambda>_.
     if list_ex (\<lambda>item. ev_id item = ev_id evidence) (ms_evidence m)
     then (Err (DuplicateEvidence (ev_id evidence)), m)
     else attempt (ensure_touchable m) m (\<lambda>_.
       (Ok (), touch now (m\<lparr>ms_evidence := ms_evidence m @ [evidence]\<rparr>))))"

definition require_evidence :: "mission \<Rightarrow> string fset \<Rightarrow> mission_error + unit" where
  "require_evidence m ids =
     for_each (\<lambda>evidence_id.
       if \<not> list_ex (\<lambda>item. ev_id item = evidence_id) (ms_evidence m)
       then Err (UnknownEvidence evidence_id) else Ok ()) (sorted_list_of_fset ids)"

definition record_work_product ::
  "'x ext_scheme \<Rightarrow> work_product \<Rightarrow> time \<Rightarrow> mission \<Rightarrow> (mission_error + unit) \<times> mission" where
  "record_work_product X w now m =
     attempt (require_stage m [StageRunning]) m (\<lambda>_.
     attempt (wp_validate X w) m (\<lambda>_.
     if wp_revision w \<noteq> 1 \<or> wp_status w \<noteq> WpDraft then (Err (InvalidWorkProduct (wp_id w)), m)
     else if list_ex (\<lambda>item. wp_id item = wp_id w) (ms_work_products m)
     then (Err (DuplicateWorkProduct (wp_id w)), m)
     else
     attempt (require_evidence m (wp_evidence_ids w)) m (\<lambda>_.
     attempt (ensure_touchable m) m (\<lambda>_.
       (Ok (), touch now (m\<lparr>ms_work_products := ms_work_products m @ [w\<lparr>wp_status := WpReadyForReview\<rparr>]\<rparr>))))))"

definition revise_work_product ::
  "'x ext_scheme \<Rightarrow> work_product \<Rightarrow> time \<Rightarrow> mission \<Rightarrow> (mission_error + unit) \<times> mission" where
  "revise_work_product X w now m =
     attempt (require_stage m [StageRunning, StageWaitingUser, StageWaitingApproval, StageVerifying]) m (\<lambda>_.
     attempt (ok_or (UnknownWorkProduct (wp_id w))
       (find (\<lambda>item. wp_id item = wp_id w) (ms_work_products m))) m (\<lambda>previous.
     attempt (wp_follows X w previous) m (\<lambda>ok.
     if \<not> ok then (Err (InvalidWorkProductTransition (wp_id w)), m)
     else
     attempt (require_evidence m (wp_evidence_ids w)) m (\<lambda>_.
     attempt (ensure_touchable m) m (\<lambda>_.
       (Ok (), touch now (m\<lparr>ms_work_products :=
          update_first (\<lambda>item. wp_id item = wp_id w) (\<lambda>_. w) (ms_work_products m)\<rparr>)))))))"

section \<open>Checkpoints\<close>

definition route_of :: "mission \<Rightarrow> string \<Rightarrow> mission_checkpoint_route option" where
  "route_of m cid =
     Option.bind (Option.bind (ms_definition m) (\<lambda>d. checkpoint_named d cid)) cp_route"

text \<open>The lookup all the checkpoint commands share: the definition, then the checkpoint in it.\<close>

definition require_checkpoint ::
  "mission \<Rightarrow> string \<Rightarrow> mission_error + (mission_definition \<times> mission_checkpoint)" where
  "require_checkpoint m cid =
     and_then (ok_or MissionDefinitionRequired (ms_definition m)) (\<lambda>d.
     and_then (ok_or (MissionCheckpointNotFound cid) (checkpoint_named d cid)) (\<lambda>c. Ok (d, c)))"

definition begin_checkpoint_transition ::
  "string \<Rightarrow> time \<Rightarrow> mission \<Rightarrow> (mission_error + unit) \<times> mission" where
  "begin_checkpoint_transition cid now m =
     attempt (require_stage m [StageRunning]) m (\<lambda>_.
     attempt (ensure_touchable m) m (\<lambda>_.
     attempt (require_checkpoint m cid) m (\<lambda>(d, c).
     let set_to = (\<lambda>c. m\<lparr>ms_definition := Some (set_checkpoint cid c d)\<rparr>) in
     if cp_status c \<noteq> CpReady
     then (Err (InvalidCheckpointTransition (cp_id c) (cp_status c) CpRunning), m)
     else if \<not> cp_depends_on c |\<subseteq>| completed_ids d
     then (Err (CheckpointDependencyIncomplete (cp_id c)), m)
     else
       let c = c\<lparr>cp_status := CpRunning\<rparr> in
       attempt (ok_or InvalidMissionDefinition (checked_add (cp_attempt c) 1)) (set_to c) (\<lambda>n.
       let c = c\<lparr>cp_attempt := n, cp_started_at := Some now, cp_block := None\<rparr> in
       attempt (ok_or MissionRevisionOverflow (checked_add (cp_revision c) 1)) (set_to c) (\<lambda>revision.
         (Ok (), touch now (set_to (c\<lparr>cp_revision := revision\<rparr>))))))))"

definition begin_checkpoint :: "string \<Rightarrow> time \<Rightarrow> mission \<Rightarrow> (mission_error + unit) \<times> mission" where
  "begin_checkpoint cid now m =
     (case route_of m cid of
        Some route \<Rightarrow> (Err (MissionCheckpointTaskMismatch cid (rt_capability_id route)), m)
      | None \<Rightarrow> begin_checkpoint_transition cid now m)"

definition begin_checkpoint_with_task ::
  "string \<Rightarrow> task \<Rightarrow> time \<Rightarrow> mission \<Rightarrow> (mission_error + unit) \<times> mission" where
  "begin_checkpoint_with_task cid tk now m =
     attempt (ok_or MissionDefinitionRequired (route_of m cid)) m (\<lambda>route.
     if tk_status tk \<noteq> TaskRunning \<or> blank (tk_title tk) \<or> tk_capability tk \<noteq> rt_capability_id route
        \<or> list_ex (\<lambda>existing. tk_id existing = tk_id tk) (ms_tasks m)
     then (Err (MissionCheckpointTaskMismatch cid (rt_capability_id route)), m)
     else then_with (begin_checkpoint_transition cid now m) (\<lambda>_ m.
       (Ok (), m\<lparr>ms_tasks := ms_tasks m @ [tk]\<rparr>)))"

definition begin_checkpoint_verification ::
  "string \<Rightarrow> time \<Rightarrow> mission \<Rightarrow> (mission_error + unit) \<times> mission" where
  "begin_checkpoint_verification cid now m =
     attempt (require_stage m [StageRunning]) m (\<lambda>_.
     if any_effect m {EffProposed, EffApproved, EffExecuting, EffReceiptRecorded, EffVerificationRequired}
     then (Err JourneyContinuationNotReady, m)
     else
     attempt (ensure_touchable m) m (\<lambda>_.
     attempt (require_checkpoint m cid) m (\<lambda>(d, c).
     let set_to = (\<lambda>c. m\<lparr>ms_definition := Some (set_checkpoint cid c d)\<rparr>) in
     if cp_status c \<noteq> CpRunning
     then (Err (InvalidCheckpointTransition (cp_id c) (cp_status c) CpVerifying), m)
     else
       let c = c\<lparr>cp_status := CpVerifying\<rparr> in
       attempt (ok_or MissionRevisionOverflow (checked_add (cp_revision c) 1)) (set_to c) (\<lambda>revision.
         (Ok (), touch now ((set_to (c\<lparr>cp_revision := revision\<rparr>))\<lparr>ms_stage := StageVerifying\<rparr>))))))"

definition validated_checkpoint_completion_route ::
  "'x ext_scheme \<Rightarrow> mission \<Rightarrow> string \<Rightarrow> mission_checkpoint_completion
     \<Rightarrow> mission_error + mission_checkpoint_route option" where
  "validated_checkpoint_completion_route X m cid completion =
     and_then (require_checkpoint m cid) (\<lambda>(d, c).
     if cc_oracle_ids completion = {||}
        \<or> \<not> cc_oracle_ids completion |\<subseteq>| md_oracle_ids d
        \<or> \<not> is_sha256 (cc_evidence_digest completion)
        \<or> \<not> (\<forall>wid |\<in>| cc_work_product_ids completion. list_ex (\<lambda>w. wp_id w = wid) (ms_work_products m))
        \<or> \<not> (\<forall>eid |\<in>| cc_effect_ids completion.
               list_ex (\<lambda>e. es_id e = eid \<and> ef_status e = EffVerified) (ms_effects m))
        \<or> is_some_and (\<lambda>route.
             \<not> is_contracted route
             \<or> cc_oracle_ids completion \<noteq> rt_oracle_ids route
             \<or> \<not> valid_application_checkpoint_evidence X m d c route completion
             \<or> ''work_product'' |\<in>| rt_oracle_ids route \<and> cc_work_product_ids completion = {||}
             \<or> rt_completion_policy route = Some EffectReadbackV2
             \<or> rt_completion_policy route = Some VerifiedEffect \<and> cc_effect_ids completion = {||}
             \<or> \<not> list_ex (\<lambda>t. tk_status t = TaskRunning \<and> tk_capability t = rt_capability_id route) (ms_tasks m))
           (cp_route c)
     then Err (InvalidCheckpointCompletion cid) else Ok (cp_route c))"

definition complete_tasks :: "mission_checkpoint_route option \<Rightarrow> task list \<Rightarrow> task list" where
  "complete_tasks route tasks =
     (case route of
        None \<Rightarrow> tasks
      | Some route \<Rightarrow>
          map (\<lambda>t. if tk_status t = TaskRunning \<and> tk_capability t = rt_capability_id route
                   then t\<lparr>tk_status := TaskCompleted\<rparr> else t) tasks)"

text \<open>The next checkpoint to release: pending, with all its dependencies completed.\<close>

definition releasable :: "string fset \<Rightarrow> mission_checkpoint \<Rightarrow> bool" where
  "releasable completed c \<longleftrightarrow> cp_status c = CpPending \<and> cp_depends_on c |\<subseteq>| completed"

definition release_next :: "mission \<Rightarrow> mission_definition \<Rightarrow> (mission_error + unit) \<times> mission" where
  "release_next m d =
     (let p = releasable (completed_ids d) in
      case find p (md_checkpoints d) of
        None \<Rightarrow> (Ok (), m\<lparr>ms_definition := Some d, ms_stage := StageVerifying\<rparr>)
      | Some next \<Rightarrow>
          let set_to = (\<lambda>c. m\<lparr>ms_definition :=
                Some (d\<lparr>md_checkpoints := update_first p (\<lambda>_. c) (md_checkpoints d)\<rparr>)\<rparr>);
              next = next\<lparr>cp_status := CpReady\<rparr>
          in attempt (ok_or MissionRevisionOverflow (checked_add (cp_revision next) 1)) (set_to next)
               (\<lambda>revision. (Ok (), (set_to (next\<lparr>cp_revision := revision\<rparr>))\<lparr>ms_stage := StageRunning\<rparr>)))"

definition complete_checkpoint_validated ::
  "'x ext_scheme \<Rightarrow> string \<Rightarrow> mission_checkpoint_completion \<Rightarrow> mission \<Rightarrow> (mission_error + unit) \<times> mission" where
  "complete_checkpoint_validated X cid completion m =
     attempt (require_stage m [StageVerifying]) m (\<lambda>_.
     attempt (validated_checkpoint_completion_route X m cid completion) m (\<lambda>route.
     attempt (ensure_touchable m) m (\<lambda>_.
     attempt (require_checkpoint m cid) m (\<lambda>(d, c).
     if cp_status c \<noteq> CpVerifying
        \<or> is_none_or (\<lambda>started_at. cc_verified_at completion < started_at) (cp_started_at c)
     then (Err (InvalidCheckpointTransition (cp_id c) (cp_status c) CpCompleted), m)
     else
       let c = c\<lparr>cp_status := CpCompleted, cp_completion := Some completion, cp_block := None\<rparr> in
       attempt (ok_or MissionRevisionOverflow (checked_add (cp_revision c) 1))
         (m\<lparr>ms_definition := Some (set_checkpoint cid c d)\<rparr>) (\<lambda>revision.
       let d = set_checkpoint cid (c\<lparr>cp_revision := revision\<rparr>) d;
           m = m\<lparr>ms_tasks := complete_tasks route (ms_tasks m)\<rparr>
       in then_with (release_next m d) (\<lambda>_ m. (Ok (), touch (cc_verified_at completion) m)))))))"

definition complete_checkpoint ::
  "'x ext_scheme \<Rightarrow> string \<Rightarrow> mission_checkpoint_completion \<Rightarrow> mission \<Rightarrow> (mission_error + unit) \<times> mission" where
  "complete_checkpoint X cid completion m =
     (if cid = ''replan_or_terminal'' \<and> manifest_is m ''VM-07''
      then (Err Vm07ReplanOrTerminalResolutionRequired, m)
      else if cid = ''channel_rebalance'' \<and> manifest_is m ''VM-04''
      then (Err Vm04ValidTerminalResolutionRequired, m)
      else if cid = ''next_contract_or_valid_terminal'' \<and> manifest_is m ''VM-11''
      then (Err Vm11NextContractResolutionRequired, m)
      else if cid = ''candidate_learning'' \<and> manifest_is m ''VM-11''
      then (Err Vm11CandidateLearningTerminalResolutionRequired, m)
      else complete_checkpoint_validated X cid completion m)"

section \<open>Termination\<close>

fun terminal_stage :: "mission_terminal_disposition \<Rightarrow> mission_stage" where
  "terminal_stage TermCompleted = StageCompleted"
| "terminal_stage TermPartial = StagePartial"
| "terminal_stage TermExpectedRefusal = StageExpectedRefusal"
| "terminal_stage TermFailed = StageFailed"
| "terminal_stage TermCancelled = StageCancelled"

definition terminate ::
  "mission_terminal_disposition \<Rightarrow> time \<Rightarrow> mission \<Rightarrow> (mission_error + unit) \<times> mission" where
  "terminate disposition now m =
     (if stage_is_terminal (ms_stage m) then (Err AlreadyTerminal, m)
      else if disposition = TermCompleted \<and> manifest_is m ''VM-04'' \<and> \<not> vm04_valid_terminal_is_typed m
      then (Err Vm04ValidTerminalResolutionRequired, m)
      else if disposition = TermCompleted \<and> manifest_is m ''VM-11'' \<and> \<not> vm11_valid_terminal_is_typed m
      then (Err Vm11ValidTerminalResolutionRequired, m)
      else attempt (ensure_touchable m) m (\<lambda>_.
        let stage = terminal_stage disposition;
            status = (if stage = StageCancelled then TaskCancelled else TaskCompleted)
        in (Ok (), touch now (m\<lparr>ms_stage := stage, ms_block := None,
             ms_tasks := map (\<lambda>t. t\<lparr>tk_status := status\<rparr>) (ms_tasks m)\<rparr>))))"

text \<open>The three typed terminals work on a clone and differ in the checkpoint, the test and the error.\<close>

definition complete_typed_terminal ::
  "'x ext_scheme \<Rightarrow> string \<Rightarrow> (mission \<Rightarrow> bool) \<Rightarrow> mission_error \<Rightarrow> mission_checkpoint_completion \<Rightarrow> mission
     \<Rightarrow> (mission_error + unit) \<times> mission" where
  "complete_typed_terminal X cid typed e completion m =
     replace_with m
       (and_then (committed (complete_checkpoint_validated X cid completion m)) (\<lambda>resolved.
        if \<not> typed resolved then Err e
        else committed (terminate TermCompleted (cc_verified_at completion) resolved)))"

definition complete_vm04_channel_rebalance_terminal ::
  "'x ext_scheme \<Rightarrow> mission_checkpoint_completion \<Rightarrow> mission \<Rightarrow> (mission_error + unit) \<times> mission" where
  "complete_vm04_channel_rebalance_terminal X =
     complete_typed_terminal X ''channel_rebalance'' vm04_valid_terminal_is_typed
       Vm04ValidTerminalResolutionRequired"

definition complete_vm07_replan_or_terminal_terminal ::
  "'x ext_scheme \<Rightarrow> mission_checkpoint_completion \<Rightarrow> mission \<Rightarrow> (mission_error + unit) \<times> mission" where
  "complete_vm07_replan_or_terminal_terminal X =
     complete_typed_terminal X ''replan_or_terminal'' (vm07_replan_or_terminal_valid_terminal_is_typed X)
       Vm07ReplanOrTerminalResolutionRequired"

definition complete_vm11_candidate_learning_terminal ::
  "'x ext_scheme \<Rightarrow> mission_checkpoint_completion \<Rightarrow> mission \<Rightarrow> (mission_error + unit) \<times> mission" where
  "complete_vm11_candidate_learning_terminal X =
     complete_typed_terminal X ''candidate_learning'' vm11_candidate_learning_valid_terminal_is_typed
       Vm11CandidateLearningTerminalResolutionRequired"

definition skip_vm11_candidate_learning :: "mission \<Rightarrow> mission_error + mission" where
  "skip_vm11_candidate_learning m =
     and_then (require_checkpoint m ''candidate_learning'') (\<lambda>(d, candidate).
     if cp_status candidate \<noteq> CpReady \<or> cp_completion candidate \<noteq> None \<or> cp_block candidate \<noteq> None
     then Err Vm11ValidTerminalResolutionRequired
     else and_then (ok_or MissionRevisionOverflow (checked_add (cp_revision candidate) 1)) (\<lambda>revision.
       Ok (m\<lparr>ms_definition := Some (set_checkpoint ''candidate_learning''
         (candidate\<lparr>cp_status := CpSkipped, cp_revision := revision\<rparr>) d)\<rparr>)))"

definition resolved_vm11_next_contract_mission ::
  "'x ext_scheme \<Rightarrow> mission \<Rightarrow> next_contract_resolution \<Rightarrow> mission_checkpoint_completion
     \<Rightarrow> mission_error + mission" where
  "resolved_vm11_next_contract_mission X m r completion =
     and_then (committed (complete_checkpoint_validated X ''next_contract_or_valid_terminal'' completion m))
       (\<lambda>resolved.
     if nr_next_contract_intent r = ValidTerminal
     then and_then (validate_vm11_stop_resolution r) (\<lambda>_.
          and_then (skip_vm11_candidate_learning resolved) (\<lambda>resolved.
            committed (terminate TermCompleted (nr_resolved_at r) resolved)))
     else and_then (validate_vm11_continue_resolution r) (\<lambda>_. Ok resolved))"

definition complete_vm11_next_contract_resolution ::
  "'x ext_scheme \<Rightarrow> next_contract_resolution \<Rightarrow> mission_checkpoint_completion \<Rightarrow> mission
     \<Rightarrow> (mission_error + unit) \<times> mission" where
  "complete_vm11_next_contract_resolution X r completion m =
     attempt (validate_vm11_next_contract_completion_sources m r completion) m (\<lambda>_.
       replace_with m (resolved_vm11_next_contract_mission X m r completion))"

definition block_checkpoint ::
  "string \<Rightarrow> mission_block \<Rightarrow> mission_stage \<Rightarrow> mission \<Rightarrow> (mission_error + unit) \<times> mission" where
  "block_checkpoint cid block waiting_stage m =
     (if waiting_stage \<notin> {StageBlocked, StageWaitingUser, StageWaitingApproval}
         \<or> blank (mb_code block) \<or> blank (mb_detail block)
      then (Err InvalidBlock, m)
      else
      attempt (require_stage m [StageRunning, StageVerifying]) m (\<lambda>_.
      attempt (ensure_touchable m) m (\<lambda>_.
      attempt (require_checkpoint m cid) m (\<lambda>(d, c).
      attempt (checkpoint_status_for_mission_stage waiting_stage) m (\<lambda>status.
      if cp_status c \<notin> {CpRunning, CpVerifying}
      then (Err (InvalidCheckpointTransition (cp_id c) (cp_status c) status), m)
      else
        let set_to = (\<lambda>c. m\<lparr>ms_definition := Some (set_checkpoint cid c d)\<rparr>);
            c = c\<lparr>cp_status := status, cp_block := Some block\<rparr>
        in attempt (ok_or MissionRevisionOverflow (checked_add (cp_revision c) 1)) (set_to c) (\<lambda>revision.
          (Ok (), touch (mb_observed_at block) ((set_to (c\<lparr>cp_revision := revision\<rparr>))
             \<lparr>ms_block := Some block, ms_stage := waiting_stage\<rparr>))))))))"

section \<open>Effects\<close>

definition validate_effect_spec :: "mission \<Rightarrow> effect_spec \<Rightarrow> time \<Rightarrow> mission_error + unit" where
  "validate_effect_spec m spec now =
     (if es_capability spec |\<in>| oc_forbidden_capabilities (ms_contract m)
         \<or> es_capability spec |\<notin>| oc_enabled_capabilities (ms_contract m)
      then Err (CapabilityNotEnabled (es_capability spec))
      else if blank (es_idempotency_key spec) then Err EmptyIdempotencyKey
      else if amount_minor (es_amount spec) < 0 then Err NegativeCostLimit
      else if es_effect_class spec = Payment \<and> \<not> is_positive (es_amount spec)
      then Err PaymentAmountNotPositive
      else if es_effect_class spec = Payment \<and> (es_connection_id spec = None \<or> es_account_id spec = None)
      then Err InvalidEffectScope
      else
        and_then (validate_effect_connection_scope spec) (\<lambda>_.
        and_then (validate_effect_content_scope spec now) (\<lambda>_.
        and_then (validate_effect_consent_scope spec) (\<lambda>_.
          if list_ex (\<lambda>e. es_idempotency_key e = es_idempotency_key spec) (ms_effects m)
          then Err (DuplicateIdempotencyKey (es_idempotency_key spec)) else Ok ()))))"

definition new_effect :: "mission \<Rightarrow> effect_spec \<Rightarrow> effect" where
  "new_effect m spec =
     effect_spec.extend spec
       \<lparr>ef_tenant_id = ms_tenant_id m, ef_project_id = ms_project_id m, ef_mission_id = ms_id m,
        ef_status = EffProposed, ef_approval = None, ef_receipt = None, ef_verification = None\<rparr>"

definition effect_block :: "string \<Rightarrow> string \<Rightarrow> string \<Rightarrow> time \<Rightarrow> mission_block" where
  "effect_block code eid rest now =
     \<lparr>mb_code = code, mb_detail = ''effect '' @ eid @ rest, mb_recoverable = True, mb_observed_at = now\<rparr>"

definition propose_effect ::
  "effect_spec \<Rightarrow> time \<Rightarrow> mission \<Rightarrow> (mission_error + string) \<times> mission" where
  "propose_effect spec now m =
     attempt (require_stage m [StageRunning, StageWaitingApproval]) m (\<lambda>_.
     attempt (validate_effect_spec m spec now) m (\<lambda>_.
     attempt (ensure_touchable m) m (\<lambda>_.
     let m = m\<lparr>ms_effects := ms_effects m @ [new_effect m spec]\<rparr> in
     then_with
       (if ms_definition m = None then (Ok (), m)
        else
          let block = effect_block ''effect_approval_required'' (es_id spec)
                '' requires an exact, time-bounded approval'' now
          in then_with (set_catalog_checkpoint_status CpWaitingApproval (Some block) m) (\<lambda>_ m.
               (Ok (), m\<lparr>ms_block := Some block\<rparr>)))
       (\<lambda>_ m. (Ok (es_id spec), touch now (m\<lparr>ms_stage := StageWaitingApproval\<rparr>))))))"

text \<open>\<open>chrono::Duration::seconds\<close> panics out of its range.\<close>

definition approval_valid_until ::
  "'x ext_scheme \<Rightarrow> mission \<Rightarrow> string \<Rightarrow> time \<Rightarrow> mission_error + time" where
  "approval_valid_until X m eid decided_at =
     and_then (effect_of m eid) (\<lambda>e.
     and_then (ok_or InvalidApproval
       (u64_to_i64 (validity_seconds (oc_approval_policy (ms_contract m))))) (\<lambda>secs.
     and_then (ok_or MissionPanic (dur_seconds X secs)) (\<lambda>d.
     and_then (ok_or InvalidApproval (add_signed X decided_at d)) (\<lambda>policy_deadline.
     let valid_until = min (min policy_deadline (es_expires_at e)) (oc_valid_until (ms_contract m)) in
     if secs \<le> 0 \<or> valid_until \<le> decided_at then Err InvalidApproval else Ok valid_until))))"

text \<open>What approving and cancelling share: back to work unless another effect waits for approval.\<close>

definition after_decision :: "time \<Rightarrow> mission \<Rightarrow> (mission_error + unit) \<times> mission" where
  "after_decision now m =
     (let m = m\<lparr>ms_stage := if any_effect m {EffProposed} then StageWaitingApproval else StageRunning\<rparr> in
      then_with
        (if ms_definition m \<noteq> None \<and> ms_stage m = StageRunning
         then then_with (set_catalog_checkpoint_status CpRunning None m) (\<lambda>_ m. (Ok (), m\<lparr>ms_block := None\<rparr>))
         else (Ok (), m))
        (\<lambda>_ m. (Ok (), touch now m)))"

definition approve_effect ::
  "'x effect_ext_scheme \<Rightarrow> string \<Rightarrow> approval \<Rightarrow> mission \<Rightarrow> (mission_error + unit) \<times> mission" where
  "approve_effect X eid a m =
     attempt (ensure_touchable m) m (\<lambda>_.
     attempt (approval_valid_until X m eid (ap_decided_at a)) m (\<lambda>expected_valid_until.
     attempt (effect_of m eid) m (\<lambda>e.
     if ef_status e \<noteq> EffProposed then (Err (InvalidEffectTransition (ef_status e) EffApproved), m)
     else if ap_scope_digest a \<noteq> approval_digest X e then (Err ApprovalScopeChanged, m)
     else if blank (ap_id a) \<or> \<not> is_sha256 (ap_permission_digest a)
        \<or> es_expires_at e \<le> ap_decided_at a \<or> ap_valid_until a \<noteq> expected_valid_until
     then (Err InvalidApproval, m)
     else
       let status = (if ap_decision a = DecRejected then EffRejected else EffApproved) in
       after_decision (ap_decided_at a)
         (set_effect eid (e\<lparr>ef_status := status, ef_approval := Some a\<rparr>) m))))"

definition cancel_effect :: "string \<Rightarrow> time \<Rightarrow> mission \<Rightarrow> (mission_error + unit) \<times> mission" where
  "cancel_effect eid now m =
     attempt (ensure_touchable m) m (\<lambda>_.
     attempt (effect_of m eid) m (\<lambda>e.
     if ef_status e \<notin> {EffProposed, EffApproved}
     then (Err (InvalidEffectTransition (ef_status e) EffCancelled), m)
     else after_decision now (set_effect eid (e\<lparr>ef_status := EffCancelled\<rparr>) m)))"

definition begin_effect ::
  "'x effect_ext_scheme \<Rightarrow> string \<Rightarrow> time \<Rightarrow> mission \<Rightarrow> (mission_error + unit) \<times> mission" where
  "begin_effect X eid now m =
     attempt (ensure_touchable m) m (\<lambda>_.
     attempt (effect_of m eid) m (\<lambda>e.
     if ef_status e \<noteq> EffApproved then (Err (InvalidEffectTransition (ef_status e) EffExecuting), m)
     else attempt (ok_or MissingApproval (ef_approval e)) m (\<lambda>a.
     if ap_scope_digest a \<noteq> approval_digest X e then (Err ApprovalScopeChanged, m)
     else if ap_valid_until a \<le> now
     then (Err ApprovalExpired, set_effect eid (e\<lparr>ef_status := EffExpired\<rparr>) m)
     else if es_expires_at e \<le> now
     then (Err EffectExpired, set_effect eid (e\<lparr>ef_status := EffExpired\<rparr>) m)
     else (Ok (), touch now ((set_effect eid (e\<lparr>ef_status := EffExecuting\<rparr>) m)
            \<lparr>ms_stage := StageRunning\<rparr>)))))"

definition record_receipt ::
  "'x effect_ext_scheme \<Rightarrow> string \<Rightarrow> receipt \<Rightarrow> mission \<Rightarrow> (mission_error + unit) \<times> mission" where
  "record_receipt X eid r m =
     attempt (ensure_touchable m) m (\<lambda>_.
     attempt (effect_of m eid) m (\<lambda>e.
     if ef_status e \<noteq> EffExecuting
     then (Err (InvalidEffectTransition (ef_status e) EffReceiptRecorded), m)
     else attempt (validate_receipt_scope X e r) m (\<lambda>_.
       let m = (set_effect eid (e\<lparr>ef_receipt := Some r, ef_status := EffReceiptRecorded\<rparr>) m)
                 \<lparr>ms_stage := StageVerifying\<rparr>
       in then_with (set_catalog_checkpoint_status CpVerifying None m) (\<lambda>_ m.
            (Ok (), touch (rc_accepted_at r) m)))))"

definition reconcile_durable_receipt ::
  "'x effect_ext_scheme \<Rightarrow> string \<Rightarrow> receipt \<Rightarrow> time \<Rightarrow> mission \<Rightarrow> (mission_error + unit) \<times> mission" where
  "reconcile_durable_receipt X eid r started_at m =
     attempt (ensure_touchable m) m (\<lambda>_.
     attempt (effect_of m eid) m (\<lambda>e.
     if ef_status e \<notin> {EffApproved, EffExecuting, EffReceiptRecorded, EffVerificationRequired}
     then (Err (InvalidEffectTransition (ef_status e) EffReceiptRecorded), m)
     else attempt (ok_or MissingApproval (ef_approval e)) m (\<lambda>a.
     if \<not> durable_execution_start_is_valid X e a started_at \<or> rc_accepted_at r < started_at
     then (Err DurableReceiptRecoveryMismatch, m)
     else attempt (validate_receipt_scope X e r) m (\<lambda>_.
     if ef_status e = EffReceiptRecorded
     then (if ef_receipt e = Some r then Ok () else Err DurableReceiptRecoveryMismatch, m)
     else (Ok (), touch (rc_accepted_at r)
            ((set_effect eid (e\<lparr>ef_receipt := Some r, ef_status := EffReceiptRecorded\<rparr>) m)
               \<lparr>ms_stage := StageVerifying\<rparr>))))))"

fun durable_target :: "durable_provider_state \<Rightarrow> effect_status" where
  "durable_target DurRejected = EffFailed"
| "durable_target DurUncertain = EffVerificationRequired"
| "durable_target DurReconciledNotExecuted = EffReconciled"
| "durable_target DurDeadLetter = EffDeadLetter"

fun durable_allowed :: "durable_provider_state \<Rightarrow> effect_status set" where
  "durable_allowed DurRejected = {EffApproved, EffExecuting, EffVerificationRequired, EffFailed}"
| "durable_allowed DurUncertain = {EffApproved, EffExecuting, EffVerificationRequired}"
| "durable_allowed DurReconciledNotExecuted =
     {EffApproved, EffExecuting, EffVerificationRequired, EffReconciled}"
| "durable_allowed DurDeadLetter = {EffVerificationRequired, EffDeadLetter}"

fun durable_stage :: "durable_provider_state \<Rightarrow> string \<Rightarrow> time \<Rightarrow> mission \<Rightarrow> mission" where
  "durable_stage DurRejected eid now m =
     m\<lparr>ms_stage := StageBlocked, ms_block := Some (effect_block ''effect_failed'' eid
       '' requires recovery or an explicit terminal decision'' now)\<rparr>"
| "durable_stage DurUncertain eid now m = m\<lparr>ms_stage := StageVerifying\<rparr>"
| "durable_stage DurReconciledNotExecuted eid now m =
     m\<lparr>ms_stage := StageBlocked, ms_block := Some (effect_block ''effect_reconciled_not_executed'' eid
       '' was independently reconciled as not executed; any retry requires a new exact effect and approval'' now)\<rparr>"
| "durable_stage DurDeadLetter eid now m =
     m\<lparr>ms_stage := StageBlocked, ms_block := Some (effect_block ''effect_reconciliation_dead_letter'' eid
       '' exhausted bounded reconciliation and requires explicit support review'' now)\<rparr>"

definition reconcile_durable_provider_state ::
  "'x effect_ext_scheme \<Rightarrow> string \<Rightarrow> durable_provider_state \<Rightarrow> time \<Rightarrow> time \<Rightarrow> mission
     \<Rightarrow> (mission_error + unit) \<times> mission" where
  "reconcile_durable_provider_state X eid state started_at recorded_at m =
     attempt (ensure_touchable m) m (\<lambda>_.
     attempt (effect_of m eid) m (\<lambda>e.
     if ef_status e \<notin> durable_allowed state
     then (Err (InvalidEffectTransition (ef_status e) (durable_target state)), m)
     else attempt (ok_or MissingApproval (ef_approval e)) m (\<lambda>a.
     if \<not> durable_execution_start_is_valid X e a started_at \<or> recorded_at < started_at
     then (Err DurableProviderRecoveryMismatch, m)
     else if ef_status e = durable_target state then (Ok (), m)
     else (Ok (), touch recorded_at (durable_stage state eid recorded_at
            (set_effect eid (e\<lparr>ef_status := durable_target state\<rparr>) m))))))"

definition mark_effect_uncertain :: "string \<Rightarrow> time \<Rightarrow> mission \<Rightarrow> (mission_error + unit) \<times> mission" where
  "mark_effect_uncertain eid now m =
     attempt (ensure_touchable m) m (\<lambda>_.
     attempt (effect_of m eid) m (\<lambda>e.
     if ef_status e \<notin> {EffExecuting, EffReceiptRecorded}
     then (Err (InvalidEffectTransition (ef_status e) EffVerificationRequired), m)
     else
       let m = (set_effect eid (e\<lparr>ef_status := EffVerificationRequired\<rparr>) m)\<lparr>ms_stage := StageVerifying\<rparr>
       in then_with (set_catalog_checkpoint_status CpVerifying None m) (\<lambda>_ m. (Ok (), touch now m))))"

definition mark_effect_failed :: "string \<Rightarrow> time \<Rightarrow> mission \<Rightarrow> (mission_error + unit) \<times> mission" where
  "mark_effect_failed eid now m =
     attempt (ensure_touchable m) m (\<lambda>_.
     attempt (effect_of m eid) m (\<lambda>e.
     if ef_status e \<noteq> EffExecuting then (Err (InvalidEffectTransition (ef_status e) EffFailed), m)
     else
       let m = (set_effect eid (e\<lparr>ef_status := EffFailed\<rparr>) m)\<lparr>ms_stage := StageBlocked\<rparr>;
           block = effect_block ''effect_failed'' eid
             '' requires recovery or an explicit terminal decision'' now
       in then_with (set_catalog_checkpoint_status CpBlocked (Some block) m) (\<lambda>_ m.
            (Ok (), touch now (m\<lparr>ms_block := Some block\<rparr>)))))"

fun verification_target :: "verification_status \<Rightarrow> effect_status" where
  "verification_target VerConfirmed = EffVerified"
| "verification_target VerRejected = EffFailed"
| "verification_target VerInconclusive = EffVerificationRequired"

definition record_verification :: "string \<Rightarrow> verification \<Rightarrow> mission \<Rightarrow> (mission_error + unit) \<times> mission" where
  "record_verification eid v m =
     attempt (ensure_touchable m) m (\<lambda>_.
     attempt (effect_of m eid) m (\<lambda>e.
     if ef_status e \<notin> {EffReceiptRecorded, EffVerificationRequired}
     then (Err (InvalidEffectTransition (ef_status e) EffVerified), m)
     else attempt (ok_or VerificationReceiptMismatch (ef_receipt e)) m (\<lambda>r.
     if rc_id r \<noteq> vf_receipt_id v \<or> blank (vf_verifier v) \<or> \<not> vf_independent v
        \<or> \<not> is_sha256 (vf_evidence_digest v) \<or> vf_observed_at v < rc_accepted_at r
     then (Err VerificationReceiptMismatch, m)
     else
       let m = set_effect eid (e\<lparr>ef_status := verification_target (vf_status v),
                                 ef_verification := Some v\<rparr>) m;
           m = m\<lparr>ms_stage := if any_effect m {EffFailed} then StageBlocked else StageVerifying\<rparr>
       in then_with
            (if ms_stage m = StageBlocked
             then
               let block = \<lparr>mb_code = ''verification_rejected'',
                     mb_detail = ''independent verification rejected at least one provider effect'',
                     mb_recoverable = True, mb_observed_at = vf_observed_at v\<rparr>
               in then_with (set_catalog_checkpoint_status CpBlocked (Some block) m) (\<lambda>_ m.
                    (Ok (), m\<lparr>ms_block := Some block\<rparr>))
             else set_catalog_checkpoint_status CpVerifying None m)
            (\<lambda>_ m. (Ok (), touch (vf_observed_at v) m)))))"

definition continue_after_verified_effect ::
  "string \<Rightarrow> time \<Rightarrow> mission \<Rightarrow> (mission_error + unit) \<times> mission" where
  "continue_after_verified_effect eid now m =
     attempt (require_stage m [StageVerifying]) m (\<lambda>_.
     attempt (effect_of m eid) m (\<lambda>e.
     if ef_status e \<noteq> EffVerified
        \<or> any_effect m {EffProposed, EffApproved, EffExecuting, EffReceiptRecorded,
             EffVerificationRequired, EffFailed}
     then (Err JourneyContinuationNotReady, m)
     else attempt (ensure_touchable m) m (\<lambda>_.
       then_with (set_catalog_checkpoint_status CpRunning None (m\<lparr>ms_stage := StageRunning\<rparr>)) (\<lambda>_ m.
         (Ok (), touch now m)))))"

section \<open>Outcomes and blocks\<close>

definition cadence_has_future_authority ::
  "'x ext_scheme \<Rightarrow> operating_contract \<Rightarrow> time \<Rightarrow> panic + bool" where
  "cadence_has_future_authority X contract observed_at =
     (if oc_valid_until contract \<le> observed_at then Ok False
      else case oc_cadence contract of
        None \<Rightarrow> Ok False
      | Some cadence \<Rightarrow>
          if cd_trigger cadence = Interval
          then and_then (next_interval_due_at X cadence observed_at) (\<lambda>due.
                 Ok (is_some_and (\<lambda>due_at. due_at < oc_valid_until contract) due))
          else Ok True)"

definition next_stage_after_outcome ::
  "'x ext_scheme \<Rightarrow> operating_contract \<Rightarrow> outcome_decision \<Rightarrow> time \<Rightarrow> panic + mission_stage" where
  "next_stage_after_outcome X contract decision observed_at =
     (if decision = OutStop then Ok StageCompleted
      else if oc_mode contract \<in> {BuildOnce, OneOffDecision} then Ok StageCompleted
      else and_then (cadence_has_future_authority X contract observed_at) (\<lambda>future.
        Ok (if future then StageScheduled
            else if oc_mode contract \<in> {ContinuousOperator, ContinuousRelationship} then StageCompleted
            else if oc_cadence contract \<noteq> None then StageCompleted
            else StageCycleReviewed)))"

definition record_outcome ::
  "'x ext_scheme \<Rightarrow> outcome \<Rightarrow> mission \<Rightarrow> (mission_error + unit) \<times> mission" where
  "record_outcome X outcome m =
     attempt (require_stage m [StageRunning, StageVerifying, StageCycleReviewed]) m (\<lambda>_.
     if blank (ou_summary outcome)
        \<or> (ms_outcome_history m \<noteq> []
           \<and> ou_observed_at outcome \<le> ou_observed_at (last (ms_outcome_history m)))
        \<or> any_effect m {EffProposed, EffApproved, EffExecuting, EffReceiptRecorded, EffVerificationRequired}
        \<or> is_some_and (\<lambda>d. \<not> list_all (\<lambda>c. cp_is_terminal (cp_status c)) (md_checkpoints d)) (ms_definition m)
     then (Err InvalidOutcome, m)
     else attempt (ensure_touchable m) m (\<lambda>_.
     attempt (map_err (\<lambda>_. MissionPanic) (next_stage_after_outcome X (ms_contract m)
       (ou_decision outcome) (ou_observed_at outcome))) m (\<lambda>next_stage.
       (Ok (), touch (ou_observed_at outcome)
          (m\<lparr>ms_outcome_history := ms_outcome_history m @ [outcome], ms_outcome := Some outcome,
             ms_stage := next_stage, ms_block := None,
             ms_tasks := map (\<lambda>t. if tk_status t = TaskCancelled then t
                                  else t\<lparr>tk_status := TaskCompleted\<rparr>) (ms_tasks m)\<rparr>)))))"

definition block_mission ::
  "mission_block \<Rightarrow> mission_stage \<Rightarrow> mission \<Rightarrow> (mission_error + unit) \<times> mission" where
  "block_mission block waiting_stage m =
     (if stage_is_terminal (ms_stage m)
         \<or> waiting_stage \<notin> {StageBlocked, StageWaitingUser, StageWaitingApproval}
         \<or> blank (mb_code block) \<or> blank (mb_detail block)
      then (Err InvalidBlock, m)
      else attempt (ensure_touchable m) m (\<lambda>_.
      then_with
        (if ms_definition m = None then (Ok (), m)
         else attempt (checkpoint_status_for_mission_stage waiting_stage) m (\<lambda>status.
           set_catalog_checkpoint_status status (Some block) m))
        (\<lambda>_ m. (Ok (), touch (mb_observed_at block)
           (m\<lparr>ms_block := Some block, ms_stage := waiting_stage\<rparr>)))))"

definition resume :: "time \<Rightarrow> mission \<Rightarrow> (mission_error + unit) \<times> mission" where
  "resume now m =
     attempt (require_stage m [StageBlocked, StageWaitingUser]) m (\<lambda>_.
     if is_some_and (\<lambda>block. \<not> mb_recoverable block) (ms_block m) then (Err BlockNotRecoverable, m)
     else attempt (ensure_touchable m) m (\<lambda>_.
       then_with (set_catalog_checkpoint_status CpRunning None m) (\<lambda>_ m.
         (Ok (), touch now (m\<lparr>ms_block := None, ms_stage := StageRunning\<rparr>)))))"

section \<open>The commands\<close>

datatype (plugins only: code) mission_command =
    StartResearch "task list" time
  | StartScheduledCycle u64 "task list" time
  | RecordEvidence evidence time
  | RecordWorkProduct work_product time
  | ReviseWorkProduct work_product time
  | BeginCheckpoint string time
  | BeginCheckpointWithTask string task time
  | BeginCheckpointVerification string time
  | CompleteCheckpoint string mission_checkpoint_completion
  | CompleteVm04 mission_checkpoint_completion
  | CompleteVm07 mission_checkpoint_completion
  | CompleteVm11Candidate mission_checkpoint_completion
  | CompleteVm11NextContract next_contract_resolution mission_checkpoint_completion
  | BlockCheckpoint string mission_block mission_stage
  | ProposeEffect effect_spec time
  | ApproveEffect string approval
  | CancelEffect string time
  | BeginEffect string time
  | RecordReceipt string receipt
  | ReconcileDurableReceipt string receipt time
  | ReconcileDurableProviderState string durable_provider_state time time
  | MarkEffectUncertain string time
  | MarkEffectFailed string time
  | RecordVerification string verification
  | ContinueAfterVerifiedEffect string time
  | RecordOutcome outcome
  | BlockMission mission_block mission_stage
  | Resume time
  | Terminate mission_terminal_disposition time

fun mission_apply ::
  "'x effect_ext_scheme \<Rightarrow> mission_command \<Rightarrow> mission \<Rightarrow> (mission_error + unit) \<times> mission" where
  "mission_apply X (StartResearch tasks now) m = start_research tasks now m"
| "mission_apply X (StartScheduledCycle cycle tasks now) m = start_scheduled_cycle X cycle tasks now m"
| "mission_apply X (RecordEvidence evidence now) m = record_evidence evidence now m"
| "mission_apply X (RecordWorkProduct w now) m = record_work_product X w now m"
| "mission_apply X (ReviseWorkProduct w now) m = revise_work_product X w now m"
| "mission_apply X (BeginCheckpoint cid now) m = begin_checkpoint cid now m"
| "mission_apply X (BeginCheckpointWithTask cid tk now) m = begin_checkpoint_with_task cid tk now m"
| "mission_apply X (BeginCheckpointVerification cid now) m = begin_checkpoint_verification cid now m"
| "mission_apply X (CompleteCheckpoint cid completion) m = complete_checkpoint X cid completion m"
| "mission_apply X (CompleteVm04 completion) m = complete_vm04_channel_rebalance_terminal X completion m"
| "mission_apply X (CompleteVm07 completion) m = complete_vm07_replan_or_terminal_terminal X completion m"
| "mission_apply X (CompleteVm11Candidate completion) m =
     complete_vm11_candidate_learning_terminal X completion m"
| "mission_apply X (CompleteVm11NextContract r completion) m =
     complete_vm11_next_contract_resolution X r completion m"
| "mission_apply X (BlockCheckpoint cid block stage) m = block_checkpoint cid block stage m"
| "mission_apply X (ProposeEffect spec now) m =
     then_with (propose_effect spec now m) (\<lambda>_ m. (Ok (), m))"
| "mission_apply X (ApproveEffect eid a) m = approve_effect X eid a m"
| "mission_apply X (CancelEffect eid now) m = cancel_effect eid now m"
| "mission_apply X (BeginEffect eid now) m = begin_effect X eid now m"
| "mission_apply X (RecordReceipt eid r) m = record_receipt X eid r m"
| "mission_apply X (ReconcileDurableReceipt eid r started_at) m =
     reconcile_durable_receipt X eid r started_at m"
| "mission_apply X (ReconcileDurableProviderState eid state started_at recorded_at) m =
     reconcile_durable_provider_state X eid state started_at recorded_at m"
| "mission_apply X (MarkEffectUncertain eid now) m = mark_effect_uncertain eid now m"
| "mission_apply X (MarkEffectFailed eid now) m = mark_effect_failed eid now m"
| "mission_apply X (RecordVerification eid v) m = record_verification eid v m"
| "mission_apply X (ContinueAfterVerifiedEffect eid now) m = continue_after_verified_effect eid now m"
| "mission_apply X (RecordOutcome outcome) m = record_outcome X outcome m"
| "mission_apply X (BlockMission block stage) m = block_mission block stage m"
| "mission_apply X (Resume now) m = resume now m"
| "mission_apply X (Terminate disposition now) m = terminate disposition now m"

end
