(* ===== verification/Mission_Store.thy ===== *)
theory Mission_Store
  imports Mission Schedule_Store "HOL-Library.Option_ord" "HOL-Library.Product_Lexorder"
begin

text \<open>
  The transactions of \<open>storage/src/mission_schedule_store.rs\<close> that change a mission and its schedule
  together, on the mission tables of \<open>storage/src/normalized.rs\<close> and the event and outbox tables of
  \<open>storage/src/aggregate.rs\<close>.

  A mission is stored as one row and its children; reading them back gives the mission again, as
  the JSON and enumeration columns are read with the decoders of the encoders that wrote them, so
  that the tables are modelled by a finite map of missions. The checks the source makes while it
  writes and reads are all there; whether SQLite accepts the child rows under the constraints of
  the schema is the parameter \<open>sql_accepts\<close>. Missions that exist only as a legacy snapshot are not
  modelled. The payload of an event is JSON for the reader and is left out.

  A transaction is a result: on an error nothing is committed, and the caller keeps its store.
\<close>

section \<open>Tables\<close>

type_synonym mission_rows = "(string \<times> string, mission) fmap"

record store_ext = ext +
  sql_accepts :: "mission_rows \<Rightarrow> mission \<Rightarrow> bool"

record pending_event =
  pe_event_type :: string
  pe_recorded_at :: time

record domain_event =
  ev_tenant_id :: string
  ev_project_id :: string
  ev_mission_id :: "string option"
  ev_event_type :: string
  ev_recorded_at :: time

record outbox_message =
  ob_tenant_id :: string
  ob_project_id :: string
  ob_mission_id :: "string option"
  ob_aggregate_type :: string
  ob_aggregate_id :: string
  ob_event_type :: string
  ob_available_at :: time

text \<open>\<open>st_projects\<close> is the tenant column of the project table.\<close>

record project_store =
  st_projects :: "(string, string) fmap"
  st_missions :: mission_rows
  st_schedules :: schedule_rows
  st_events :: "domain_event list"
  st_outbox :: "outbox_message list"

section \<open>Missions\<close>

definition to_sql_usize :: "nat \<Rightarrow> storage_error + i64" where
  "to_sql_usize value = ok_or StDomainDecode (checked_i64 (int value))"

text \<open>The ordinal columns of a child table with \<open>n\<close> rows; the other columns of the row cannot fail.\<close>

definition insert_ordinals :: "nat \<Rightarrow> storage_error + unit" where
  "insert_ordinals n = for_each (\<lambda>ordinal. and_then (to_sql_usize ordinal) (\<lambda>_. Ok ())) [0..<n]"

definition insert_mission_checkpoint :: "mission_checkpoint \<Rightarrow> nat \<Rightarrow> storage_error + unit" where
  "insert_mission_checkpoint c ordinal =
     and_then (to_sql_usize ordinal) (\<lambda>_.
     and_then (to_sql_u64 (cp_revision c)) (\<lambda>_. Ok ()))"

definition definition_matches_contract :: "mission \<Rightarrow> mission_definition \<Rightarrow> bool" where
  "definition_matches_contract m d \<longleftrightarrow>
     md_operating_mode d = oc_mode (ms_contract m)
     \<and> md_capability_ids d = oc_enabled_capabilities (ms_contract m)
     \<and> md_capability_ids d |\<inter>| oc_forbidden_capabilities (ms_contract m) = {||}"

definition insert_mission_definition :: "'x ext_scheme \<Rightarrow> mission \<Rightarrow> storage_error + unit" where
  "insert_mission_definition X m =
     (case ms_definition m of
        None \<Rightarrow> Ok ()
      | Some d \<Rightarrow>
          and_then (map_err (\<lambda>_. StDomainDecode) (definition_validate X d)) (\<lambda>_.
          if \<not> definition_matches_contract m d then Err StDomainDecode
          else
            and_then (to_sql_u64 (md_cycle d)) (\<lambda>_.
            and_then (insert_ordinals (fcard (md_capability_ids d))) (\<lambda>_.
            and_then (insert_ordinals (fcard (md_required_artifact_types d))) (\<lambda>_.
            and_then (insert_ordinals (fcard (md_oracle_ids d))) (\<lambda>_.
            for_each (\<lambda>(ordinal, c). insert_mission_checkpoint c ordinal)
              (enumerate 0 (md_checkpoints d))))))))"

definition insert_mission_tasks :: "mission \<Rightarrow> storage_error + unit" where
  "insert_mission_tasks m = insert_ordinals (length (ms_tasks m))"

definition insert_mission_evidence :: "mission \<Rightarrow> storage_error + unit" where
  "insert_mission_evidence m = insert_ordinals (length (ms_evidence m))"

definition insert_mission_work_products :: "mission \<Rightarrow> storage_error + unit" where
  "insert_mission_work_products m =
     for_each (\<lambda>(ordinal, p). and_then (to_sql_usize ordinal) (\<lambda>_.
       and_then (to_sql_u64 (wp_revision p)) (\<lambda>_. Ok ()))) (enumerate 0 (ms_work_products m))"

definition insert_mission_effects :: "mission \<Rightarrow> storage_error + unit" where
  "insert_mission_effects m = insert_ordinals (length (ms_effects m))"

text \<open>A mission without a history is stored with its last outcome as the history.\<close>

definition stored_outcomes :: "mission \<Rightarrow> outcome list" where
  "stored_outcomes m =
     (if ms_outcome_history m = [] then (case ms_outcome m of None \<Rightarrow> [] | Some outcome \<Rightarrow> [outcome])
      else ms_outcome_history m)"

definition insert_mission_outcomes :: "mission \<Rightarrow> storage_error + unit" where
  "insert_mission_outcomes m = insert_ordinals (length (stored_outcomes m))"

definition replace_mission_children ::
  "'x store_ext_scheme \<Rightarrow> mission_rows \<Rightarrow> mission \<Rightarrow> storage_error + unit" where
  "replace_mission_children X rows m =
     and_then (insert_mission_definition X m) (\<lambda>_.
     and_then (insert_mission_tasks m) (\<lambda>_.
     and_then (insert_mission_evidence m) (\<lambda>_.
     and_then (insert_mission_work_products m) (\<lambda>_.
     and_then (insert_mission_effects m) (\<lambda>_.
     and_then (insert_mission_outcomes m) (\<lambda>_.
       if sql_accepts X rows m then Ok () else Err StSqlite))))))"

definition stored :: "mission \<Rightarrow> mission" where
  "stored m = m\<lparr>ms_outcome_history := stored_outcomes m,
     ms_outcome := (if stored_outcomes m = [] then None else Some (last (stored_outcomes m)))\<rparr>"

definition update_mission_normalized_cas ::
  "'x store_ext_scheme \<Rightarrow> mission \<Rightarrow> u64 \<Rightarrow> project_store \<Rightarrow> storage_error + project_store" where
  "update_mission_normalized_cas X m expected_revision st =
     and_then (to_sql_u64 (ms_revision m)) (\<lambda>_.
     and_then (to_sql_u64 expected_revision) (\<lambda>_.
       if \<not> is_some_and (\<lambda>row. ms_tenant_id row = ms_tenant_id m \<and> ms_revision row = expected_revision)
              (fmlookup (st_missions st) (ms_project_id m, ms_id m))
       then Err (StOptimisticConflict (''mission:'' @ ms_id m) expected_revision)
       else and_then (replace_mission_children X (st_missions st) m) (\<lambda>_.
         Ok (st\<lparr>st_missions := fmupd (ms_project_id m, ms_id m) (stored m) (st_missions st)\<rparr>))))"

text \<open>The key columns are read from the row, so that a loaded mission carries the key.\<close>

definition load_mission_normalized ::
  "'x ext_scheme \<Rightarrow> project_store \<Rightarrow> string \<Rightarrow> string \<Rightarrow> storage_error + mission option" where
  "load_mission_normalized X st project_id mission_id =
     (case fmlookup (st_missions st) (project_id, mission_id) of
        None \<Rightarrow> Ok None
      | Some row \<Rightarrow>
          let m = row\<lparr>ms_project_id := project_id, ms_id := mission_id\<rparr> in
          (case ms_definition m of
             None \<Rightarrow> Ok (Some m)
           | Some d \<Rightarrow>
               and_then (map_err (\<lambda>_. StDomainDecode) (definition_validate X d)) (\<lambda>_.
               if \<not> definition_matches_contract m d then Err StDomainDecode
               else and_then (map_err (\<lambda>_. StDomainDecode) (validate_checkpoint_evidence_scope X m)) (\<lambda>_.
                 Ok (Some m)))))"

definition load_mission ::
  "'x ext_scheme \<Rightarrow> project_store \<Rightarrow> string \<Rightarrow> string \<Rightarrow> storage_error + mission" where
  "load_mission X st project_id mission_id =
     and_then (load_mission_normalized X st project_id mission_id) (ok_or StMissionNotFound)"

section \<open>Events\<close>

definition append_event ::
  "string \<Rightarrow> string \<Rightarrow> string option \<Rightarrow> string \<Rightarrow> string \<Rightarrow> pending_event \<Rightarrow> project_store \<Rightarrow> project_store" where
  "append_event tenant_id project_id mission_id aggregate_type aggregate_id event st =
     st\<lparr>st_events := st_events st @ [\<lparr>ev_tenant_id = tenant_id, ev_project_id = project_id,
          ev_mission_id = mission_id, ev_event_type = pe_event_type event,
          ev_recorded_at = pe_recorded_at event\<rparr>],
        st_outbox := st_outbox st @ [\<lparr>ob_tenant_id = tenant_id, ob_project_id = project_id,
          ob_mission_id = mission_id, ob_aggregate_type = aggregate_type, ob_aggregate_id = aggregate_id,
          ob_event_type = pe_event_type event, ob_available_at = pe_recorded_at event\<rparr>]\<rparr>"

fun append_events ::
  "string \<Rightarrow> string \<Rightarrow> string option \<Rightarrow> string \<Rightarrow> string \<Rightarrow> pending_event list \<Rightarrow> project_store
     \<Rightarrow> storage_error + project_store" where
  "append_events tenant_id project_id mission_id aggregate_type aggregate_id [] st = Ok st"
| "append_events tenant_id project_id mission_id aggregate_type aggregate_id (event # events) st =
     (if blank (pe_event_type event) then Err StEmptyEventType
      else append_events tenant_id project_id mission_id aggregate_type aggregate_id events
        (append_event tenant_id project_id mission_id aggregate_type aggregate_id event st))"

definition append_schedule_events ::
  "mission_schedule \<Rightarrow> pending_event list \<Rightarrow> project_store \<Rightarrow> storage_error + project_store" where
  "append_schedule_events s events =
     append_events (sc_tenant_id s) (sc_project_id s) (Some (sc_mission_id s)) ''mission_schedule'' (sc_id s) events"

definition append_pair_events ::
  "mission \<Rightarrow> mission_schedule \<Rightarrow> pending_event list \<Rightarrow> project_store \<Rightarrow> storage_error + project_store" where
  "append_pair_events m s events =
     append_events (ms_tenant_id m) (ms_project_id m) (Some (ms_id m)) ''mission_schedule'' (sc_id s) events"

definition ensure_project_scope :: "string \<Rightarrow> string \<Rightarrow> project_store \<Rightarrow> storage_error + unit" where
  "ensure_project_scope tenant_id project_id st =
     and_then (ok_or StProjectNotFound (fmlookup (st_projects st) project_id)) (\<lambda>stored_tenant.
       if stored_tenant \<noteq> tenant_id then Err StTenantScopeMismatch else Ok ())"

definition update_mission_atomic ::
  "'x store_ext_scheme \<Rightarrow> mission \<Rightarrow> u64 \<Rightarrow> pending_event list \<Rightarrow> project_store
     \<Rightarrow> storage_error + project_store" where
  "update_mission_atomic X m expected_revision events st =
     (if ms_revision m \<le> expected_revision
      then Err (StUnexpectedNewerRevision expected_revision (ms_revision m))
      else if events = [] then Err StEmptyAtomicEventSet
      else
        and_then (ensure_project_scope (ms_tenant_id m) (ms_project_id m) st) (\<lambda>_.
        and_then (update_mission_normalized_cas X m expected_revision st) (\<lambda>st.
        append_events (ms_tenant_id m) (ms_project_id m) (Some (ms_id m)) ''mission'' (ms_id m) events st)))"

section \<open>Schedules\<close>

definition with_schedules ::
  "project_store \<Rightarrow> storage_error + schedule_rows \<Rightarrow> storage_error + project_store" where
  "with_schedules st rows = and_then rows (\<lambda>rows. Ok (st\<lparr>st_schedules := rows\<rparr>))"

text \<open>
  The primary key, the unique constraint on the cycle of a mission and the foreign key of
  \<open>mission_schedules\<close>; its CHECK clauses repeat what the validation requires.
\<close>

definition insert_schedule :: "mission_schedule \<Rightarrow> project_store \<Rightarrow> storage_error + project_store" where
  "insert_schedule s st =
     and_then (validate_schedule s) (\<lambda>_.
     and_then (schedule_values s) (\<lambda>_.
       if contains_key (st_schedules st) (sc_project_id s, sc_id s)
          \<or> fmlookup (st_missions st) (sc_project_id s, sc_mission_id s) = None
          \<or> list_ex (\<lambda>row. sc_project_id row = sc_project_id s \<and> sc_mission_id row = sc_mission_id s
                \<and> sc_cycle row = sc_cycle s) (bt_values (st_schedules st))
       then Err StSqlite
       else Ok (st\<lparr>st_schedules := fmupd (sc_project_id s, sc_id s) s (st_schedules st)\<rparr>)))"

definition next_cycle_of :: "mission \<Rightarrow> u64 option" where
  "next_cycle_of m = Option.bind (usize_to_u64 (length (ms_outcome_history m))) (\<lambda>value. checked_add value 1)"

definition update_mission_and_create_schedule_atomic ::
  "'x store_ext_scheme \<Rightarrow> mission \<Rightarrow> u64 \<Rightarrow> mission_schedule \<Rightarrow> pending_event list \<Rightarrow> project_store
     \<Rightarrow> storage_error + project_store" where
  "update_mission_and_create_schedule_atomic X m expected_revision s events st =
     and_then (validate_schedule s) (\<lambda>_.
       if events = [] then Err StEmptyAtomicEventSet
       else if ms_revision m \<le> expected_revision
          \<or> ms_stage m \<noteq> StageScheduled
          \<or> sc_revision s \<noteq> 1
          \<or> sc_tenant_id s \<noteq> ms_tenant_id m
          \<or> sc_project_id s \<noteq> ms_project_id m
          \<or> sc_mission_id s \<noteq> ms_id m
          \<or> sc_scheduled_from_mission_revision s \<noteq> ms_revision m
          \<or> next_cycle_of m \<noteq> Some (sc_cycle s)
          \<or> sc_definition_cycle s \<noteq> map_option md_cycle (ms_definition m)
       then Err StDomainDecode
       else
         and_then (update_mission_normalized_cas X m expected_revision st) (\<lambda>st.
         and_then (insert_schedule s st) (\<lambda>st.
         append_pair_events m s events st)))"

definition load_mission_schedule ::
  "project_store \<Rightarrow> string \<Rightarrow> string \<Rightarrow> storage_error + mission_schedule" where
  "load_mission_schedule st = load_schedule (st_schedules st)"

text \<open>Loading the rows a query selected, in order.\<close>

fun load_schedules :: "project_store \<Rightarrow> (string \<times> string) list \<Rightarrow> storage_error + mission_schedule list" where
  "load_schedules st [] = Ok []"
| "load_schedules st ((project_id, schedule_id) # ids) =
     and_then (load_mission_schedule st project_id schedule_id) (\<lambda>s.
     and_then (load_schedules st ids) (\<lambda>rest. Ok (s # rest)))"

definition schedule_key :: "mission_schedule \<Rightarrow> string \<times> string" where
  "schedule_key s = (sc_project_id s, sc_id s)"

definition list_mission_schedules ::
  "'x ext_scheme \<Rightarrow> project_store \<Rightarrow> string \<Rightarrow> string option \<Rightarrow> storage_error + mission_schedule list" where
  "list_mission_schedules X st project_id mission_id =
     and_then (ok_or StProjectNotFound (fmlookup (st_projects st) project_id)) (\<lambda>_.
     case mission_id of
       Some mission_id \<Rightarrow>
         and_then (load_mission X st project_id mission_id) (\<lambda>_.
         load_schedules st (map schedule_key (sort_key (\<lambda>s. (sc_cycle s, sc_id s))
           (filter (\<lambda>s. sc_project_id s = project_id \<and> sc_mission_id s = mission_id)
              (bt_values (st_schedules st))))))
     | None \<Rightarrow>
         load_schedules st (map schedule_key (sort_key (\<lambda>s. (sc_mission_id s, sc_cycle s, sc_id s))
           (filter (\<lambda>s. sc_project_id s = project_id) (bt_values (st_schedules st))))))"

definition latest_mission_schedule ::
  "'x ext_scheme \<Rightarrow> project_store \<Rightarrow> string \<Rightarrow> string \<Rightarrow> storage_error + mission_schedule option" where
  "latest_mission_schedule X st project_id mission_id =
     and_then (load_mission X st project_id mission_id) (\<lambda>_.
     case rev (sort_key (\<lambda>s. (sc_cycle s, sc_id s))
         (filter (\<lambda>s. sc_project_id s = project_id \<and> sc_mission_id s = mission_id)
            (bt_values (st_schedules st)))) of
       [] \<Rightarrow> Ok None
     | s # _ \<Rightarrow> and_then (load_mission_schedule st project_id (sc_id s)) (\<lambda>s. Ok (Some s)))"

definition list_expired_mission_schedules ::
  "project_store \<Rightarrow> time \<Rightarrow> storage_error + mission_schedule list" where
  "list_expired_mission_schedules st now =
     load_schedules st (map schedule_key
       (sort_key (\<lambda>s. (sc_contract_valid_until s, sc_created_at s, sc_project_id s, sc_mission_id s, sc_cycle s))
         (filter (\<lambda>s. sc_status s \<in> {SchedPending, SchedLeased} \<and> sc_contract_valid_until s \<le> now)
            (bt_values (st_schedules st)))))"

definition store_update_schedule ::
  "mission_schedule \<Rightarrow> u64 \<Rightarrow> pending_event list \<Rightarrow> project_store \<Rightarrow> storage_error + project_store" where
  "store_update_schedule s expected_revision events st =
     and_then (with_schedules st
       (update_mission_schedule_atomic (st_schedules st) s expected_revision (length events))) (\<lambda>st.
     append_schedule_events s events st)"

definition validate_schedule_mission_waiting_pair ::
  "mission_schedule \<Rightarrow> mission \<Rightarrow> storage_error + unit" where
  "validate_schedule_mission_waiting_pair s m =
     (if sc_tenant_id s \<noteq> ms_tenant_id m
         \<or> sc_project_id s \<noteq> ms_project_id m
         \<or> sc_mission_id s \<noteq> ms_id m
         \<or> ms_stage m \<notin> {StageScheduled, StagePartial}
         \<or> \<not> (ms_revision m = sc_scheduled_from_mission_revision s
              \<or> ms_revision m \<noteq> 0 \<and> ms_revision m - 1 = sc_scheduled_from_mission_revision s)
         \<or> sc_contract_version s \<noteq> oc_version (ms_contract m)
         \<or> sc_contract_valid_until s \<noteq> oc_valid_until (ms_contract m)
         \<or> next_cycle_of m \<noteq> Some (sc_cycle s)
      then Err StDomainDecode else Ok ())"

definition event_at :: "string \<Rightarrow> time \<Rightarrow> pending_event" where
  "event_at event_type now = \<lparr>pe_event_type = event_type, pe_recorded_at = now\<rparr>"

definition commit_exhausted_schedule_claim ::
  "'x store_ext_scheme \<Rightarrow> mission_schedule \<Rightarrow> u64 \<Rightarrow> time \<Rightarrow> project_store \<Rightarrow> storage_error + project_store" where
  "commit_exhausted_schedule_claim X s expected_schedule_revision now st =
     and_then (load_mission X st (sc_project_id s) (sc_mission_id s)) (\<lambda>m.
     and_then (validate_schedule_mission_waiting_pair s m) (\<lambda>_.
     and_then (map_err StMissionError (committed (terminate TermPartial now m))) (\<lambda>m'.
     and_then (update_mission_normalized_cas X m' (ms_revision m) st) (\<lambda>st.
     and_then (with_schedules st
       (update_schedule_row (st_schedules st) s expected_schedule_revision)) (\<lambda>st.
     append_schedule_events s
       [event_at ''mission.schedule_dead_lettered'' now, event_at ''mission.partial'' now] st)))))"

text \<open>The ORDER BY clause of the claim; NULL sorts first.\<close>

definition coalesce :: "'a option \<Rightarrow> 'a option \<Rightarrow> 'a option" where
  "coalesce x y = (if x = None then y else x)"

definition claim_order ::
  "mission_schedule \<Rightarrow> nat \<times> time option \<times> time \<times> string \<times> string \<times> u64" where
  "claim_order s =
     ((if sc_signal s \<noteq> None then 0 else 1),
      coalesce (sc_retry_not_before s) (coalesce (sc_due_at s) (map_option sl_expires_at (sc_lease s))),
      sc_created_at s, sc_project_id s, sc_mission_id s, sc_cycle s)"

definition claim_due_mission_schedule ::
  "'x store_ext_scheme \<Rightarrow> string \<Rightarrow> string \<Rightarrow> duration \<Rightarrow> time \<Rightarrow> project_store
     \<Rightarrow> storage_error + (mission_schedule option \<times> project_store)" where
  "claim_due_mission_schedule X owner_digest token_digest lease_duration now st =
     (case sort_key claim_order (filter (\<lambda>s. claim_candidate s now) (bt_values (st_schedules st))) of
        [] \<Rightarrow> Ok (None, st)
      | candidate # _ \<Rightarrow>
          and_then (load_mission_schedule st (sc_project_id candidate) (sc_id candidate)) (\<lambda>s.
          let (claimed, s') = claim X owner_digest token_digest lease_duration now s in
          if claimed = Err FailureLimitReached \<and> sc_status s' = SchedDeadLetter
          then and_then (commit_exhausted_schedule_claim X s' (sc_revision s) now st) (\<lambda>st. Ok (None, st))
          else
            and_then (map_err StScheduleError claimed) (\<lambda>_.
            and_then (with_schedules st (update_schedule_row (st_schedules st) s' (sc_revision s))) (\<lambda>st.
            and_then (append_schedule_events s' [event_at ''mission.schedule_claimed'' now] st) (\<lambda>st.
            Ok (Some s', st))))))"

text \<open>The end the three transactions on a pair share: both rows and the events, or nothing.\<close>

definition commit_pair ::
  "'x store_ext_scheme \<Rightarrow> mission_schedule \<Rightarrow> u64 \<Rightarrow> mission \<Rightarrow> u64 \<Rightarrow> pending_event list \<Rightarrow> project_store
     \<Rightarrow> storage_error + project_store" where
  "commit_pair X s expected_schedule_revision m expected_mission_revision events st =
     and_then (load_mission_schedule st (sc_project_id s) (sc_id s)) (\<lambda>previous.
     and_then (validate_schedule_transition previous s expected_schedule_revision) (\<lambda>_.
     and_then (update_mission_normalized_cas X m expected_mission_revision st) (\<lambda>st.
     and_then (with_schedules st
       (update_schedule_row (st_schedules st) s expected_schedule_revision)) (\<lambda>st.
     append_pair_events m s events st))))"

definition trigger_mission_schedule_and_start_cycle_atomic ::
  "'x store_ext_scheme \<Rightarrow> mission_schedule \<Rightarrow> u64 \<Rightarrow> mission \<Rightarrow> u64 \<Rightarrow> pending_event list \<Rightarrow> project_store
     \<Rightarrow> storage_error + project_store" where
  "trigger_mission_schedule_and_start_cycle_atomic X s expected_schedule_revision m expected_mission_revision
     events st =
     and_then (validate_schedule s) (\<lambda>_.
       if events = [] then Err StEmptyAtomicEventSet
       else if sc_status s \<noteq> SchedTriggered
          \<or> ms_stage m \<noteq> StageRunning
          \<or> sc_tenant_id s \<noteq> ms_tenant_id m
          \<or> sc_project_id s \<noteq> ms_project_id m
          \<or> sc_mission_id s \<noteq> ms_id m
          \<or> sc_scheduled_from_mission_revision s \<noteq> expected_mission_revision
          \<or> ms_revision m \<le> expected_mission_revision
          \<or> is_some_and (\<lambda>d. md_cycle d \<noteq> sc_cycle s) (ms_definition m)
       then Err StDomainDecode
       else commit_pair X s expected_schedule_revision m expected_mission_revision events st)"

definition expire_mission_schedule_and_complete_mission_atomic ::
  "'x store_ext_scheme \<Rightarrow> mission_schedule \<Rightarrow> u64 \<Rightarrow> mission \<Rightarrow> u64 \<Rightarrow> pending_event list \<Rightarrow> project_store
     \<Rightarrow> storage_error + project_store" where
  "expire_mission_schedule_and_complete_mission_atomic X s expected_schedule_revision m
     expected_mission_revision events st =
     and_then (validate_schedule s) (\<lambda>_.
       if events = [] then Err StEmptyAtomicEventSet
       else if sc_status s \<noteq> SchedExpired
          \<or> ms_stage m \<noteq> StageCompleted
          \<or> sc_tenant_id s \<noteq> ms_tenant_id m
          \<or> sc_project_id s \<noteq> ms_project_id m
          \<or> sc_mission_id s \<noteq> ms_id m
          \<or> sc_scheduled_from_mission_revision s \<noteq> expected_mission_revision
          \<or> sc_contract_version s \<noteq> oc_version (ms_contract m)
          \<or> sc_contract_valid_until s \<noteq> oc_valid_until (ms_contract m)
          \<or> sc_updated_at s < sc_contract_valid_until s
       then Err StDomainDecode
       else
         and_then (ok_or (StRevisionOverflow expected_mission_revision)
           (checked_add expected_mission_revision 1)) (\<lambda>successor.
         if ms_revision m \<noteq> successor \<or> next_cycle_of m \<noteq> Some (sc_cycle s) then Err StDomainDecode
         else commit_pair X s expected_schedule_revision m expected_mission_revision events st))"

definition dead_letter_mission_schedule_and_partial_mission_atomic ::
  "'x store_ext_scheme \<Rightarrow> mission_schedule \<Rightarrow> u64 \<Rightarrow> mission \<Rightarrow> u64 \<Rightarrow> pending_event list \<Rightarrow> project_store
     \<Rightarrow> storage_error + project_store" where
  "dead_letter_mission_schedule_and_partial_mission_atomic X s expected_schedule_revision m
     expected_mission_revision events st =
     and_then (validate_schedule s) (\<lambda>_.
       if events = [] then Err StEmptyAtomicEventSet
       else if sc_status s \<noteq> SchedDeadLetter \<or> ms_stage m \<noteq> StagePartial then Err StDomainDecode
       else
         and_then (ok_or (StRevisionOverflow expected_mission_revision)
           (checked_add expected_mission_revision 1)) (\<lambda>successor.
         if ms_revision m \<noteq> successor then Err StDomainDecode
         else
           and_then (validate_schedule_mission_waiting_pair s m) (\<lambda>_.
           commit_pair X s expected_schedule_revision m expected_mission_revision events st)))"

end
