(* ===== verification/Scheduler.thy ===== *)
theory Scheduler
  imports Mission_Store
begin

text \<open>
  The scheduler services of \<open>application/src/lib.rs\<close>: recording the outcome of a cycle, waking,
  claiming, renewing and failing a schedule, starting the cycle a lease was granted for, closing
  the schedules whose contract has ended, and one tick of the local scheduler.

  A service works on records it has loaded and commits them through one transaction; a service
  that calls another keeps what the other committed even when it fails later. The state is the
  project store, so that a service returns its result and the store it leaves behind. The random
  key material of a tick is an argument.
\<close>

section \<open>Errors and results\<close>

datatype application_error =
    AppStorage storage_error
  | AppSchedule mission_schedule_error
  | AppMission mission_error
  | AppKeyManagement
  | MissionScheduleUnavailable
  | MissionScheduleSignalInvalid
  | MissionScheduleLeaseInvalid
  | MissionScheduleTaskInvalid
  | MissionScheduleStateConflict string string
  | InvalidCatalogMissionInput
  | HumanCheckpointConfirmationRequired
  | ApplicationCheckpointExecutionRequired

type_synonym 'a service = "(application_error + 'a) \<times> project_store"

record mission_schedule_projection =
  pj_schedule_id :: string
  pj_project_id :: string
  pj_mission_id :: string
  pj_cycle :: u64
  pj_trigger :: cadence_trigger_kind
  pj_status :: mission_schedule_status
  pj_due_at :: "time option"
  pj_retry_not_before :: "time option"
  pj_signal_received :: bool
  pj_lease_generation :: u64
  pj_lease_expires_at :: "time option"
  pj_failure_count :: nat
  pj_revision :: u64
  pj_updated_at :: time

definition project_schedule :: "mission_schedule \<Rightarrow> mission_schedule_projection" where
  "project_schedule s =
     \<lparr>pj_schedule_id = sc_id s, pj_project_id = sc_project_id s, pj_mission_id = sc_mission_id s,
      pj_cycle = sc_cycle s, pj_trigger = sc_trigger s, pj_status = sc_status s, pj_due_at = sc_due_at s,
      pj_retry_not_before = sc_retry_not_before s, pj_signal_received = (sc_signal s \<noteq> None),
      pj_lease_generation = sc_lease_generation s,
      pj_lease_expires_at = map_option sl_expires_at (sc_lease s),
      pj_failure_count = length (sc_failures s), pj_revision = sc_revision s,
      pj_updated_at = sc_updated_at s\<rparr>"

text \<open>The counters of the report; the row ids of its events are not modelled.\<close>

record schedule_reconciliation =
  rc_scanned_schedules :: nat
  rc_expired_schedules :: nat
  rc_completed_missions :: nat

text \<open>
  A command on a loaded record, whose errors become errors of the service, and the transaction
  that commits.
\<close>

definition locally ::
  "('e \<Rightarrow> application_error) \<Rightarrow> ('e + 'b) \<times> 'm \<Rightarrow> project_store \<Rightarrow> ('b \<Rightarrow> 'm \<Rightarrow> 'a service) \<Rightarrow> 'a service" where
  "locally f rs st k = attempt (map_err f (fst rs)) st (\<lambda>b. k b (snd rs))"

definition stored_or :: "storage_error + 'b \<Rightarrow> project_store \<Rightarrow> ('b \<Rightarrow> 'a service) \<Rightarrow> 'a service" where
  "stored_or r st k = attempt (map_err AppStorage r) st k"

definition commit :: "storage_error + project_store \<Rightarrow> project_store \<Rightarrow> 'a \<Rightarrow> 'a service" where
  "commit r st a = stored_or r st (\<lambda>st. (Ok a, st))"

section \<open>Recording an outcome\<close>

fun mission_stage_event :: "mission_stage \<Rightarrow> string" where
  "mission_stage_event StageScheduled = ''mission.scheduled''"
| "mission_stage_event StageCycleReviewed = ''mission.cycle_reviewed''"
| "mission_stage_event StageCompleted = ''mission.completed''"
| "mission_stage_event StagePartial = ''mission.partial''"
| "mission_stage_event StageExpectedRefusal = ''mission.expected_refusal''"
| "mission_stage_event StageFailed = ''mission.failed''"
| "mission_stage_event StageCancelled = ''mission.cancelled''"
| "mission_stage_event _ = ''mission.state_changed''"

definition app_record_outcome ::
  "'x store_ext_scheme \<Rightarrow> string \<Rightarrow> string \<Rightarrow> string \<Rightarrow> outcome_decision \<Rightarrow> (string, metric_value) fmap \<Rightarrow> time
     \<Rightarrow> project_store \<Rightarrow> mission service" where
  "app_record_outcome X project_id mission_id summary decision metrics now st =
     stored_or (load_mission X st project_id mission_id) st (\<lambda>m.
     locally AppMission
       (record_outcome X \<lparr>ou_summary = summary, ou_decision = decision, ou_metrics = metrics,
          ou_observed_at = now\<rparr> m) st (\<lambda>_ m'.
     let events = [event_at ''outcome.observed'' now, event_at (mission_stage_event (ms_stage m')) now] in
     if ms_stage m' = StageScheduled
     then attempt (map_err AppSchedule (prepare X m' now)) st (\<lambda>s.
       commit (update_mission_and_create_schedule_atomic X m' (ms_revision m) s
         (events @ [event_at ''mission.schedule_created'' now]) st) st m')
     else commit (update_mission_atomic X m' (ms_revision m) events st) st m'))"

section \<open>Contract expiry\<close>

definition close_expired ::
  "'x store_ext_scheme \<Rightarrow> time \<Rightarrow> mission_schedule \<Rightarrow> project_store \<Rightarrow> unit service" where
  "close_expired X now s st =
     stored_or (load_mission X st (sc_project_id s) (sc_mission_id s)) st (\<lambda>m.
     if ms_stage m \<noteq> StageScheduled \<or> ms_revision m \<noteq> sc_scheduled_from_mission_revision s
     then (Err (MissionScheduleStateConflict (sc_id s) (ms_id m)), st)
     else
       locally AppSchedule (sched_expire now s) st (\<lambda>_ s'.
       locally AppMission (terminate TermCompleted now m) st (\<lambda>_ m'.
       commit (expire_mission_schedule_and_complete_mission_atomic X s' (sc_revision s) m' (ms_revision m)
         [event_at ''mission.schedule_expired'' now, event_at ''mission.completed'' now] st) st ())))"

fun close_all_expired ::
  "'x store_ext_scheme \<Rightarrow> time \<Rightarrow> mission_schedule list \<Rightarrow> schedule_reconciliation \<Rightarrow> project_store
     \<Rightarrow> schedule_reconciliation service" where
  "close_all_expired X now [] report st = (Ok report, st)"
| "close_all_expired X now (s # ss) report st =
     then_with (close_expired X now s st) (\<lambda>_ st.
     close_all_expired X now ss
       \<lparr>rc_scanned_schedules = rc_scanned_schedules report + 1,
        rc_expired_schedules = rc_expired_schedules report + 1,
        rc_completed_missions = rc_completed_missions report + 1\<rparr> st)"

definition reconcile_mission_schedules_on_startup ::
  "'x store_ext_scheme \<Rightarrow> time \<Rightarrow> project_store \<Rightarrow> schedule_reconciliation service" where
  "reconcile_mission_schedules_on_startup X now st =
     stored_or (list_expired_mission_schedules st now) st (\<lambda>schedules.
     close_all_expired X now schedules
       \<lparr>rc_scanned_schedules = 0, rc_expired_schedules = 0, rc_completed_missions = 0\<rparr> st)"

section \<open>Signals and leases\<close>

definition signal_mission_schedule_event ::
  "'x store_ext_scheme \<Rightarrow> string \<Rightarrow> string \<Rightarrow> string \<Rightarrow> string \<Rightarrow> string \<Rightarrow> time \<Rightarrow> project_store
     \<Rightarrow> mission_schedule_projection service" where
  "signal_mission_schedule_event X project_id mission_id topic event_id payload_digest now st =
     then_with (reconcile_mission_schedules_on_startup X now st) (\<lambda>_ st.
     if blank event_id then (Err MissionScheduleSignalInvalid, st)
     else
       stored_or (latest_mission_schedule X st project_id mission_id) st (\<lambda>latest.
       attempt (ok_or MissionScheduleUnavailable latest) st (\<lambda>s.
       locally AppSchedule (signal_event topic (sha256 X event_id) payload_digest now s) st (\<lambda>changed s'.
       if changed
       then commit (store_update_schedule s' (sc_revision s) [event_at ''mission.schedule_signalled'' now] st)
              st (project_schedule s')
       else (Ok (project_schedule s'), st)))))"

definition app_claim_due_mission_schedule ::
  "'x store_ext_scheme \<Rightarrow> string \<Rightarrow> string \<Rightarrow> duration \<Rightarrow> time \<Rightarrow> project_store
     \<Rightarrow> mission_schedule_projection option service" where
  "app_claim_due_mission_schedule X owner token lease_duration now st =
     then_with (reconcile_mission_schedules_on_startup X now st) (\<lambda>_ st.
     if blank owner \<or> length token < 32 then (Err MissionScheduleLeaseInvalid, st)
     else
       stored_or (claim_due_mission_schedule X (sha256 X owner) (sha256 X token) lease_duration now st) st
         (\<lambda>(s, st). (Ok (map_option project_schedule s), st)))"

definition heartbeat_mission_schedule ::
  "'x store_ext_scheme \<Rightarrow> string \<Rightarrow> string \<Rightarrow> string \<Rightarrow> string \<Rightarrow> u64 \<Rightarrow> duration \<Rightarrow> time \<Rightarrow> project_store
     \<Rightarrow> mission_schedule_projection service" where
  "heartbeat_mission_schedule X project_id schedule_id owner token generation lease_duration now st =
     stored_or (load_mission_schedule st project_id schedule_id) st (\<lambda>s.
     locally AppSchedule
       (heartbeat X (sha256 X owner) (sha256 X token) generation lease_duration now s) st (\<lambda>_ s'.
     commit (store_update_schedule s' (sc_revision s) [event_at ''mission.schedule_heartbeat'' now] st)
       st (project_schedule s')))"

section \<open>Starting a cycle\<close>

definition first_route :: "mission \<Rightarrow> mission_checkpoint_route option" where
  "first_route m =
     Option.bind (ms_definition m) (\<lambda>d. case md_checkpoints d of [] \<Rightarrow> None | c # _ \<Rightarrow> cp_route c)"

definition start_claimed_mission_cycle ::
  "'x store_ext_scheme \<Rightarrow> string \<Rightarrow> string \<Rightarrow> string \<Rightarrow> string \<Rightarrow> u64 \<Rightarrow> task \<Rightarrow> time \<Rightarrow> project_store
     \<Rightarrow> mission service" where
  "start_claimed_mission_cycle X project_id schedule_id owner token generation task now st =
     stored_or (load_mission_schedule st project_id schedule_id) st (\<lambda>s.
     stored_or (load_mission X st project_id (sc_mission_id s)) st (\<lambda>m.
     attempt (ok_or MissionScheduleTaskInvalid (first_route m)) st (\<lambda>route.
     if tk_status task \<noteq> TaskRunning \<or> blank (tk_title task) \<or> tk_capability task \<noteq> rt_capability_id route
     then (Err MissionScheduleTaskInvalid, st)
     else
       locally AppMission (start_scheduled_cycle X (sc_cycle s) [task] now m) st (\<lambda>_ m'.
       locally AppSchedule
         (mark_triggered (sha256 X owner) (sha256 X token) generation m' now s) st (\<lambda>_ s'.
       commit (trigger_mission_schedule_and_start_cycle_atomic X s' (sc_revision s) m' (ms_revision m)
         [event_at ''mission.schedule_triggered'' now, event_at ''mission.cycle_started'' now] st) st m')))))"

section \<open>Failures\<close>

definition record_mission_schedule_failure ::
  "'x store_ext_scheme \<Rightarrow> string \<Rightarrow> string \<Rightarrow> string \<Rightarrow> string \<Rightarrow> u64 \<Rightarrow> mission_schedule_failure_class \<Rightarrow> string
     \<Rightarrow> time option \<Rightarrow> time \<Rightarrow> project_store \<Rightarrow> mission_schedule_projection service" where
  "record_mission_schedule_failure X project_id schedule_id owner token generation cls evidence
     retry_at now st =
     stored_or (load_mission_schedule st project_id schedule_id) st (\<lambda>s.
     locally AppSchedule
       (record_failure (sha256 X owner) (sha256 X token) generation cls evidence
          (retry_at \<noteq> None) retry_at now s) st (\<lambda>_ s'.
     if sc_status s' = SchedDeadLetter
     then
       stored_or (load_mission X st project_id (sc_mission_id s')) st (\<lambda>m.
       if ms_stage m \<noteq> StageScheduled \<or> ms_revision m \<noteq> sc_scheduled_from_mission_revision s'
       then (Err (MissionScheduleStateConflict (sc_id s') (ms_id m)), st)
       else
         locally AppMission (terminate TermPartial now m) st (\<lambda>_ m'.
         commit (dead_letter_mission_schedule_and_partial_mission_atomic X s' (sc_revision s) m' (ms_revision m)
           [event_at ''mission.schedule_dead_lettered'' now, event_at ''mission.partial'' now] st)
           st (project_schedule s')))
     else commit (store_update_schedule s' (sc_revision s)
            [event_at ''mission.schedule_retry_scheduled'' now] st) st (project_schedule s')))"

section \<open>One tick\<close>

text \<open>The title of the task a tick starts; the separator is the two bytes of a middle dot.\<close>

definition cycle_title :: "u64 \<Rightarrow> mission \<Rightarrow> string" where
  "cycle_title cycle m =
     ''Cycle '' @ dec_u64 cycle @ '' '' @ [CHR 0xC2, CHR 0xB7] @ '' '' @
     (case Option.bind (ms_definition m) (\<lambda>d. case md_checkpoints d of [] \<Rightarrow> None | c # _ \<Rightarrow> Some (cp_id c)) of
        None \<Rightarrow> ''next_cycle'' | Some checkpoint \<Rightarrow> checkpoint)"

definition run_due_mission_scheduler_once ::
  "'x store_ext_scheme \<Rightarrow> string option \<Rightarrow> string \<Rightarrow> time \<Rightarrow> project_store \<Rightarrow> mission option service" where
  "run_due_mission_scheduler_once X key_material owner now st =
     (if blank owner then (Err MissionScheduleLeaseInvalid, st)
      else attempt (ok_or AppKeyManagement key_material) st (\<lambda>secret.
      let token = sha256 X secret in
      then_with (app_claim_due_mission_schedule X owner token (seconds 300) now st) (\<lambda>claimed st.
      case claimed of
        None \<Rightarrow> (Ok None, st)
      | Some claimed \<Rightarrow>
          stored_or (load_mission X st (pj_project_id claimed) (pj_mission_id claimed)) st (\<lambda>m.
          case first_route m of
            None \<Rightarrow>
              then_with (record_mission_schedule_failure X (pj_project_id claimed) (pj_schedule_id claimed)
                owner token (pj_lease_generation claimed) InvalidTrigger
                (sha256 X (''mission-checkpoint-route-unbound:'' @ pj_mission_id claimed @ '':''
                   @ pj_schedule_id claimed @ '':'' @ dec_u64 (pj_cycle claimed))) None now st) (\<lambda>_ st.
              (Err MissionScheduleTaskInvalid, st))
          | Some route \<Rightarrow>
              then_with (start_claimed_mission_cycle X (ms_project_id m) (pj_schedule_id claimed) owner token
                (pj_lease_generation claimed)
                \<lparr>tk_id = ''task:'' @ pj_schedule_id claimed, tk_title = cycle_title (pj_cycle claimed) m,
                 tk_status = TaskRunning, tk_capability = rt_capability_id route\<rparr> now st) (\<lambda>started st.
              (Ok (Some started), st))))))"

end
