(* ===== verification/Mission_Frame.thy ===== *)
theory Mission_Frame
  imports Mission
begin

text \<open>
  What the mission commands leave unchanged. A projection of the mission that ignores some of its
  fields is unchanged by every command that writes only those fields, on success and on failure.
  The four locales name the groups of fields a projection may ignore and prove the frame of each
  command once; the theories on effects, outcomes and records instantiate them with their own
  projections.
\<close>

lemma committed_OkD: "committed rs = Ok s \<Longrightarrow> \<exists>u. rs = (Ok u, s)"
  by (cases rs) (auto simp: committed_def)

section \<open>Checkpoints, stages and tasks\<close>

locale mission_frame =
  fixes F :: "mission \<Rightarrow> 'f"
  assumes F_definition [simp]: "F (m\<lparr>ms_definition := d\<rparr>) = F m"
    and F_stage [simp]: "F (m\<lparr>ms_stage := s\<rparr>) = F m"
    and F_tasks [simp]: "F (m\<lparr>ms_tasks := ts\<rparr>) = F m"
    and F_block [simp]: "F (m\<lparr>ms_block := b\<rparr>) = F m"
    and F_touch [simp]: "F (touch now m) = F m"
begin

text \<open>The frame of a command follows the shape of its body, one rule for each construct.\<close>

lemma attempt_frame:
  "F s = v \<Longrightarrow> (\<And>b. r = Ok b \<Longrightarrow> F (snd (k b)) = v) \<Longrightarrow>
   F (snd (attempt r s k)) = v"
  by (cases r) simp_all

lemma then_with_frame:
  "F (snd rs) = v \<Longrightarrow>
   (\<And>a s. rs = (Ok a, s) \<Longrightarrow> F s = v \<Longrightarrow> F (snd (k a s)) = v) \<Longrightarrow>
   F (snd (then_with rs k)) = v"
  by (cases rs; cases "fst rs") (auto simp: then_with_def)

lemma if_frame:
  "(c \<Longrightarrow> F (snd a) = v) \<Longrightarrow> (\<not> c \<Longrightarrow> F (snd b) = v) \<Longrightarrow>
   F (snd (if c then a else b)) = v"
  by simp

lemma prod_frame:
  "(\<And>x y. p = (x, y) \<Longrightarrow> F (snd (f x y)) = v) \<Longrightarrow>
   F (snd (case p of (x, y) \<Rightarrow> f x y)) = v"
  by (cases p) simp

lemma option_frame:
  "(x = None \<Longrightarrow> F (snd a) = v) \<Longrightarrow> (\<And>y. x = Some y \<Longrightarrow> F (snd (f y)) = v) \<Longrightarrow>
   F (snd (case x of None \<Rightarrow> a | Some y \<Rightarrow> f y)) = v"
  by (cases x) simp_all

lemma replace_with_frame:
  "F m = v \<Longrightarrow> (\<And>m'. r = Ok m' \<Longrightarrow> F m' = v) \<Longrightarrow>
   F (snd (replace_with m r)) = v"
  by (cases r) (simp_all add: replace_with_def)

lemmas frame_rules =
  attempt_frame then_with_frame if_frame prod_frame option_frame replace_with_frame

lemma F_start_tasks [simp]: "F (start_tasks tasks now m) = F m"
  by (simp add: start_tasks_def)

lemma set_catalog_frame [simp]: "F (snd (set_catalog_checkpoint_status status block m)) = F m"
  by (simp add: set_catalog_checkpoint_status_def split: option.split prod.split)

lemma catalog_then_frame [simp]:
  "F (snd (then_with (set_catalog_checkpoint_status s b m) (\<lambda>_ m. (Ok (), touch now m)))) = F m"
  "F (snd (then_with (set_catalog_checkpoint_status s b m)
     (\<lambda>_ m. (Ok (), touch now (m\<lparr>ms_block := c\<rparr>))))) = F m"
  by (intro frame_rules; simp)+

lemma release_next_frame [simp]: "F (snd (release_next m d)) = F m"
  unfolding release_next_def Let_def by (intro frame_rules) simp_all

lemma committed_frame: "committed rs = Ok s \<Longrightarrow> F (snd rs) = v \<Longrightarrow> F s = v"
  by (auto dest: committed_OkD)

lemma begin_checkpoint_transition_frame [simp]:
  "F (snd (begin_checkpoint_transition cid now m)) = F m"
  unfolding begin_checkpoint_transition_def Let_def by (intro frame_rules) simp_all

lemma complete_checkpoint_validated_frame [simp]:
  "F (snd (complete_checkpoint_validated X cid completion m)) = F m"
  unfolding complete_checkpoint_validated_def Let_def
  by (intro frame_rules) simp_all

lemma terminate_frame [simp]: "F (snd (terminate disposition now m)) = F m"
  unfolding terminate_def Let_def by (intro frame_rules) simp_all

lemma typed_terminal_frame [simp]:
  "F (snd (complete_typed_terminal X cid typed e completion m)) = F m"
proof -
  have "F m' = F m"
    if ok: "and_then (committed (complete_checkpoint_validated X cid completion m)) (\<lambda>resolved.
        if \<not> typed resolved then Err e
        else committed (terminate TermCompleted (cc_verified_at completion) resolved)) = Ok m'" for m'
  proof -
    from ok obtain resolved where
      "committed (complete_checkpoint_validated X cid completion m) = Ok resolved"
      "committed (terminate TermCompleted (cc_verified_at completion) resolved) = Ok m'"
      unfolding and_then_eq_Ok if_Err_eq_Ok by blast
    then show ?thesis
      by (metis committed_frame complete_checkpoint_validated_frame terminate_frame)
  qed
  then show ?thesis
    unfolding complete_typed_terminal_def by (intro frame_rules refl)
qed

lemma skip_vm11_frame: "skip_vm11_candidate_learning m = Ok m' \<Longrightarrow> F m' = F m"
  by (auto simp: skip_vm11_candidate_learning_def split: prod.splits)

lemma vm11_resolution_frame [simp]:
  "F (snd (complete_vm11_next_contract_resolution X r completion m)) = F m"
proof -
  have *: "F m' = F m"
    if ok: "resolved_vm11_next_contract_mission X m r completion = Ok m'" for m'
  proof -
    obtain resolved where resolved:
      "committed (complete_checkpoint_validated X ''next_contract_or_valid_terminal'' completion m) = Ok resolved"
      and cases: "resolved = m' \<or> (\<exists>skipped. skip_vm11_candidate_learning resolved = Ok skipped \<and>
        committed (terminate TermCompleted (nr_resolved_at r) skipped) = Ok m')"
      using ok by (auto simp: resolved_vm11_next_contract_mission_def split: if_splits)
    have "F resolved = F m"
      using committed_frame [OF resolved complete_checkpoint_validated_frame] .
    with cases show ?thesis
      by (metis committed_frame skip_vm11_frame terminate_frame)
  qed
  show ?thesis
    unfolding complete_vm11_next_contract_resolution_def
    by (intro frame_rules refl *)
qed

lemma start_research_frame [simp]: "F (snd (start_research tasks now m)) = F m"
  unfolding start_research_def Let_def
  by (intro frame_rules) simp_all

lemma start_scheduled_cycle_frame [simp]: "F (snd (start_scheduled_cycle X cycle tasks now m)) = F m"
  unfolding start_scheduled_cycle_def Let_def
  by (intro frame_rules) simp_all

lemma begin_checkpoint_frame [simp]: "F (snd (begin_checkpoint cid now m)) = F m"
  unfolding begin_checkpoint_def Let_def
  by (intro frame_rules) simp_all

lemma begin_checkpoint_with_task_frame [simp]: "F (snd (begin_checkpoint_with_task cid tk now m)) = F m"
  unfolding begin_checkpoint_with_task_def Let_def
  by (intro frame_rules) simp_all

lemma begin_checkpoint_verification_frame [simp]: "F (snd (begin_checkpoint_verification cid now m)) = F m"
  unfolding begin_checkpoint_verification_def Let_def
  by (intro frame_rules) simp_all

lemma complete_checkpoint_frame [simp]: "F (snd (complete_checkpoint X cid completion m)) = F m"
  unfolding complete_checkpoint_def Let_def
  by (intro frame_rules) simp_all

lemma block_checkpoint_frame [simp]: "F (snd (block_checkpoint cid block stage m)) = F m"
  unfolding block_checkpoint_def Let_def
  by (intro frame_rules) simp_all

lemma continue_after_verified_effect_frame [simp]: "F (snd (continue_after_verified_effect eid now m)) = F m"
  unfolding continue_after_verified_effect_def Let_def
  by (intro frame_rules) simp_all

lemma block_mission_frame [simp]: "F (snd (block_mission block stage m)) = F m"
  unfolding block_mission_def Let_def
  by (intro frame_rules) simp_all

lemma resume_frame [simp]: "F (snd (resume now m)) = F m"
  unfolding resume_def Let_def
  by (intro frame_rules) simp_all

lemma after_decision_frame [simp]: "F (snd (after_decision now m)) = F m"
  unfolding after_decision_def Let_def by (intro frame_rules) simp_all

lemma durable_stage_frame [simp]: "F (durable_stage state eid now m) = F m"
  by (cases state) simp_all

lemma verification_frame [simp]:
  "F (snd (then_with
     (if c then then_with (set_catalog_checkpoint_status s1 b1 m) (\<lambda>_ m. (Ok (), m\<lparr>ms_block := b2\<rparr>))
      else set_catalog_checkpoint_status s2 b3 m) (\<lambda>_ m. (Ok (), touch now m)))) = F m"
  by (intro frame_rules) simp_all

end

section \<open>Evidence and work products\<close>

locale record_frame = mission_frame +
  assumes F_evidence [simp]: "F (m\<lparr>ms_evidence := es\<rparr>) = F m"
    and F_work_products [simp]: "F (m\<lparr>ms_work_products := ws\<rparr>) = F m"
begin

lemma record_evidence_frame [simp]: "F (snd (record_evidence evidence now m)) = F m"
  unfolding record_evidence_def Let_def
  by (intro frame_rules) simp_all

lemma record_work_product_frame [simp]: "F (snd (record_work_product X w now m)) = F m"
  unfolding record_work_product_def Let_def
  by (intro frame_rules) simp_all

lemma revise_work_product_frame [simp]: "F (snd (revise_work_product X w now m)) = F m"
  unfolding revise_work_product_def Let_def
  by (intro frame_rules) simp_all

end

section \<open>Outcomes\<close>

locale outcome_frame = mission_frame +
  assumes F_outcome_history [simp]: "F (m\<lparr>ms_outcome_history := os\<rparr>) = F m"
    and F_outcome [simp]: "F (m\<lparr>ms_outcome := out\<rparr>) = F m"
begin

lemma record_outcome_frame [simp]: "F (snd (record_outcome X outcome m)) = F m"
  unfolding record_outcome_def Let_def
  by (intro frame_rules) simp_all

end

section \<open>Effects\<close>

locale effects_frame = mission_frame +
  assumes F_effects [simp]: "F (m\<lparr>ms_effects := es\<rparr>) = F m"
begin

lemma F_set_effect [simp]: "F (set_effect eid e m) = F m"
  by (simp add: set_effect_def)

lemma propose_effect_frame [simp]: "F (snd (propose_effect spec now m)) = F m"
  unfolding propose_effect_def Let_def
  by (intro frame_rules) simp_all

lemma approve_effect_frame [simp]: "F (snd (approve_effect X eid a m)) = F m"
  unfolding approve_effect_def Let_def
  by (intro frame_rules) simp_all

lemma cancel_effect_frame [simp]: "F (snd (cancel_effect eid now m)) = F m"
  unfolding cancel_effect_def Let_def
  by (intro frame_rules) simp_all

lemma begin_effect_frame [simp]: "F (snd (begin_effect X eid now m)) = F m"
  unfolding begin_effect_def Let_def
  by (intro frame_rules) simp_all

lemma record_receipt_frame [simp]: "F (snd (record_receipt X eid r m)) = F m"
  unfolding record_receipt_def Let_def
  by (intro frame_rules) simp_all

lemma reconcile_durable_receipt_frame [simp]: "F (snd (reconcile_durable_receipt X eid r started_at m)) = F m"
  unfolding reconcile_durable_receipt_def Let_def
  by (intro frame_rules) simp_all

lemma reconcile_durable_provider_state_frame [simp]: "F (snd (reconcile_durable_provider_state X eid state started_at recorded_at m)) = F m"
  unfolding reconcile_durable_provider_state_def Let_def
  by (intro frame_rules) simp_all

lemma mark_effect_uncertain_frame [simp]: "F (snd (mark_effect_uncertain eid now m)) = F m"
  unfolding mark_effect_uncertain_def Let_def
  by (intro frame_rules) simp_all

lemma mark_effect_failed_frame [simp]: "F (snd (mark_effect_failed eid now m)) = F m"
  unfolding mark_effect_failed_def Let_def
  by (intro frame_rules) simp_all

lemma record_verification_frame [simp]: "F (snd (record_verification eid v m)) = F m"
  unfolding record_verification_def Let_def
  by (intro frame_rules) simp_all

end

end
