(* ===== verification/Effect_Spec.thy ===== *)
theory Effect_Spec
  imports Approval Interfaces
begin

text \<open>
  What the mission promises about one effect, independently of the commands: the step relation of
  an effect, from its proposal through approval, execution, receipt and verification to a final
  state, and the invariant of the effects that follow it. The mission commands are shown to
  implement this relation in the theory of their refinement.
\<close>

section \<open>The life of an effect\<close>

text \<open>
  The parameter \<open>until\<close> is the end of the operating contract. Execution is entered by \<open>dispatch\<close> only;
  the two \<open>recover\<close> steps take over what a durable ledger has already recorded about an execution
  that started inside the window of the approval.
\<close>

inductive effect_step :: "'x effect_ext_scheme \<Rightarrow> time \<Rightarrow> effect \<Rightarrow> effect \<Rightarrow> bool"
  for X :: "'x effect_ext_scheme" and until :: time where
  decide:
    "ef_status e = EffProposed \<Longrightarrow> ap_scope_digest a = approval_digest X e \<Longrightarrow>
     ap_decided_at a < ap_valid_until a \<Longrightarrow> ap_valid_until a \<le> es_expires_at e \<Longrightarrow>
     ap_valid_until a \<le> until \<Longrightarrow> \<not> blank (ap_id a) \<Longrightarrow> is_sha256 (ap_permission_digest a) \<Longrightarrow>
     s = (if ap_decision a = DecRejected then EffRejected else EffApproved) \<Longrightarrow>
     effect_step X until e (e\<lparr>ef_status := s, ef_approval := Some a\<rparr>)"
| cancel:
    "ef_status e \<in> {EffProposed, EffApproved} \<Longrightarrow>
     effect_step X until e (e\<lparr>ef_status := EffCancelled\<rparr>)"
| dispatch:
    "ef_status e = EffApproved \<Longrightarrow> ef_approval e = Some a \<Longrightarrow>
     ap_scope_digest a = approval_digest X e \<Longrightarrow> now < ap_valid_until a \<Longrightarrow> now < es_expires_at e \<Longrightarrow>
     effect_step X until e (e\<lparr>ef_status := EffExecuting\<rparr>)"
| expire:
    "ef_status e = EffApproved \<Longrightarrow> ef_approval e = Some a \<Longrightarrow>
     ap_valid_until a \<le> now \<or> es_expires_at e \<le> now \<Longrightarrow>
     effect_step X until e (e\<lparr>ef_status := EffExpired\<rparr>)"
| receive:
    "ef_status e = EffExecuting \<Longrightarrow> validate_receipt_scope X e r = Ok () \<Longrightarrow>
     effect_step X until e (e\<lparr>ef_receipt := Some r, ef_status := EffReceiptRecorded\<rparr>)"
| recover_receipt:
    "ef_status e \<in> {EffApproved, EffExecuting, EffVerificationRequired} \<Longrightarrow> ef_approval e = Some a \<Longrightarrow>
     durable_execution_start_is_valid X e a started \<Longrightarrow> started \<le> rc_accepted_at r \<Longrightarrow>
     validate_receipt_scope X e r = Ok () \<Longrightarrow>
     effect_step X until e (e\<lparr>ef_receipt := Some r, ef_status := EffReceiptRecorded\<rparr>)"
| recover_state:
    "ef_status e \<in> {EffApproved, EffExecuting, EffVerificationRequired} \<Longrightarrow> ef_approval e = Some a \<Longrightarrow>
     durable_execution_start_is_valid X e a started \<Longrightarrow>
     s \<in> {EffFailed, EffVerificationRequired, EffReconciled} \<or>
       (s = EffDeadLetter \<and> ef_status e = EffVerificationRequired) \<Longrightarrow>
     s \<noteq> ef_status e \<Longrightarrow>
     effect_step X until e (e\<lparr>ef_status := s\<rparr>)"
| doubt:
    "ef_status e \<in> {EffExecuting, EffReceiptRecorded} \<Longrightarrow>
     effect_step X until e (e\<lparr>ef_status := EffVerificationRequired\<rparr>)"
| fail:
    "ef_status e = EffExecuting \<Longrightarrow> effect_step X until e (e\<lparr>ef_status := EffFailed\<rparr>)"
| verify:
    "ef_status e \<in> {EffReceiptRecorded, EffVerificationRequired} \<Longrightarrow> ef_receipt e = Some r \<Longrightarrow>
     rc_id r = vf_receipt_id v \<Longrightarrow> \<not> blank (vf_verifier v) \<Longrightarrow> vf_independent v \<Longrightarrow>
     is_sha256 (vf_evidence_digest v) \<Longrightarrow> rc_accepted_at r \<le> vf_observed_at v \<Longrightarrow>
     s = (case vf_status v of VerConfirmed \<Rightarrow> EffVerified | VerRejected \<Rightarrow> EffFailed
          | VerInconclusive \<Rightarrow> EffVerificationRequired) \<Longrightarrow>
     effect_step X until e (e\<lparr>ef_status := s, ef_verification := Some v\<rparr>)"

inductive_cases effect_stepE: "effect_step X until e e'"

section \<open>Content\<close>

definition content :: "effect \<Rightarrow> effect_spec \<times> string \<times> string \<times> string" where
  "content e = (effect_spec.truncate e, ef_tenant_id e, ef_project_id e, ef_mission_id e)"

lemma content_updates [simp]:
  "content (e\<lparr>ef_status := s\<rparr>) = content e" "content (e\<lparr>ef_approval := a\<rparr>) = content e"
  "content (e\<lparr>ef_receipt := r\<rparr>) = content e" "content (e\<lparr>ef_verification := v\<rparr>) = content e"
  by (simp_all add: content_def effect_spec.truncate_def)

lemma approval_digest_updates [simp]:
  "approval_digest X (e\<lparr>ef_status := s\<rparr>) = approval_digest X e"
  "approval_digest X (e\<lparr>ef_approval := a\<rparr>) = approval_digest X e"
  "approval_digest X (e\<lparr>ef_receipt := r\<rparr>) = approval_digest X e"
  "approval_digest X (e\<lparr>ef_verification := v\<rparr>) = approval_digest X e"
  by (simp_all add: approval_digest_def approval_fields_def)

lemma content_fields:
  assumes "content e = content e'"
  shows "es_id e = es_id e'" and "es_idempotency_key e = es_idempotency_key e'"
    and "es_expires_at e = es_expires_at e'"
  using assms by (simp_all add: content_def effect_spec.truncate_def)

lemma effect_step_content: "effect_step X until e e' \<Longrightarrow> content e' = content e"
  by (erule effect_stepE) simp_all

section \<open>Order of the states\<close>

fun effect_rank :: "effect_status \<Rightarrow> nat" where
  "effect_rank EffProposed = 0"
| "effect_rank EffApproved = 1"
| "effect_rank EffExecuting = 2"
| "effect_rank EffReceiptRecorded = 3"
| "effect_rank EffVerificationRequired = 3"
| "effect_rank _ = 4"

definition effect_final :: "effect_status \<Rightarrow> bool" where
  "effect_final s \<longleftrightarrow> s \<in> {EffRejected, EffCancelled, EffVerified, EffReconciled, EffDeadLetter, EffFailed, EffExpired}"

lemma effect_step_rank: "effect_step X until e e' \<Longrightarrow> effect_rank (ef_status e) \<le> effect_rank (ef_status e')"
  by (erule effect_stepE) (auto split: verification_status.splits)

lemma effect_step_leaves_approved:
  "effect_step X until e e' \<Longrightarrow> ef_status e = EffApproved \<Longrightarrow> 2 \<le> effect_rank (ef_status e')"
  by (erule effect_stepE) auto

lemma effect_final_stuck: "effect_step X until e e' \<Longrightarrow> \<not> effect_final (ef_status e)"
  by (erule effect_stepE) (auto simp: effect_final_def)

section \<open>The invariant\<close>

definition approved_for :: "'x effect_ext_scheme \<Rightarrow> time \<Rightarrow> effect \<Rightarrow> approval \<Rightarrow> bool" where
  "approved_for X until e a \<longleftrightarrow>
     ap_decision a = DecApproved \<and> ap_scope_digest a = approval_digest X e
     \<and> ap_decided_at a < ap_valid_until a \<and> ap_valid_until a \<le> es_expires_at e \<and> ap_valid_until a \<le> until"

definition receipt_for :: "'x effect_ext_scheme \<Rightarrow> effect \<Rightarrow> receipt \<Rightarrow> bool" where
  "receipt_for X e r \<longleftrightarrow>
     rc_provider r = es_provider e \<and> rc_request_digest r = approval_digest X e
     \<and> rc_accepted_at r < es_expires_at e
     \<and> (\<exists>a. ef_approval e = Some a \<and> ap_decided_at a \<le> rc_accepted_at r)"

definition verified_by :: "effect \<Rightarrow> verification \<Rightarrow> receipt \<Rightarrow> bool" where
  "verified_by e v r \<longleftrightarrow>
     ef_verification e = Some v \<and> ef_receipt e = Some r \<and> vf_receipt_id v = rc_id r
     \<and> vf_independent v \<and> vf_status v = VerConfirmed \<and> rc_accepted_at r \<le> vf_observed_at v"

definition effect_ok :: "'x effect_ext_scheme \<Rightarrow> time \<Rightarrow> effect \<Rightarrow> bool" where
  "effect_ok X until e \<longleftrightarrow>
     (ef_status e = EffProposed \<longrightarrow> ef_approval e = None \<and> ef_receipt e = None)
     \<and> (ef_status e \<notin> {EffProposed, EffRejected, EffCancelled} \<longrightarrow>
          (\<exists>a. ef_approval e = Some a \<and> approved_for X until e a))
     \<and> (\<forall>r. ef_receipt e = Some r \<longrightarrow> receipt_for X e r)
     \<and> (ef_status e = EffReceiptRecorded \<longrightarrow> ef_receipt e \<noteq> None)
     \<and> (ef_status e = EffVerified \<longrightarrow> (\<exists>v r. verified_by e v r))"

lemma validate_receipt_scope_OkD:
  assumes "validate_receipt_scope X e r = Ok ()"
  shows "receipt_for X e r"
  using assms by (cases "ef_approval e") (auto simp: validate_receipt_scope_def receipt_for_def split: if_splits)

lemma approved_for_updates [simp]:
  "approved_for X until (e\<lparr>ef_status := s\<rparr>) a = approved_for X until e a"
  "approved_for X until (e\<lparr>ef_approval := b\<rparr>) a = approved_for X until e a"
  "approved_for X until (e\<lparr>ef_receipt := r\<rparr>) a = approved_for X until e a"
  "approved_for X until (e\<lparr>ef_verification := v\<rparr>) a = approved_for X until e a"
  by (simp_all add: approved_for_def)

lemma receipt_for_updates [simp]:
  "receipt_for X (e\<lparr>ef_status := s\<rparr>) r = receipt_for X e r"
  "receipt_for X (e\<lparr>ef_receipt := q\<rparr>) r = receipt_for X e r"
  "receipt_for X (e\<lparr>ef_verification := v\<rparr>) r = receipt_for X e r"
  by (simp_all add: receipt_for_def)

lemma effect_step_ok: "effect_step X until e e' \<Longrightarrow> effect_ok X until e \<Longrightarrow> effect_ok X until e'"
proof (induction rule: effect_step.cases)
  case (decide e a s)
  then show ?case
    by (cases "ap_decision a") (auto simp: effect_ok_def approved_for_def)
next
  case (receive e r)
  then show ?case
    using validate_receipt_scope_OkD [of X e r] by (auto simp: effect_ok_def)
next
  case (recover_receipt e a started r)
  then show ?case
    using validate_receipt_scope_OkD [of X e r] by (auto simp: effect_ok_def)
next
  case (verify e r v s)
  then show ?case
    by (cases "vf_status v") (auto simp: effect_ok_def verified_by_def)
qed (auto simp: effect_ok_def)

text \<open>A decision is final: no step changes an approval that is there.\<close>

lemma effect_step_approval:
  "effect_step X until e e' \<Longrightarrow> effect_ok X until e \<Longrightarrow> ef_approval e = Some a \<Longrightarrow> ef_approval e' = Some a"
  by (erule effect_stepE) (auto simp: effect_ok_def)

end
