(* ===== verification/Mission_Refine.thy ===== *)
theory Mission_Refine
  imports Mission_Frame Effect_Spec
begin

text \<open>
  The mission commands implement the effect relation: whatever command is called, whether it
  succeeds or fails, the effects of the mission are left alone, or one validated proposal is
  appended, or one effect makes one step of the relation.
\<close>

section \<open>Frames\<close>

text \<open>What no command ever changes, and what the commands outside the effect group leave alone.\<close>

definition identity :: "mission \<Rightarrow> string \<times> string \<times> string \<times> operating_contract" where
  "identity m = (ms_tenant_id m, ms_project_id m, ms_id m, ms_contract m)"

definition effect_frame where
  "effect_frame m = (identity m, ms_effects m)"

interpretation ef: record_frame effect_frame
  by unfold_locales (simp_all add: effect_frame_def identity_def touch_def)

interpretation ef_out: outcome_frame effect_frame
  by unfold_locales (simp_all add: effect_frame_def identity_def)

fun plain_command :: "mission_command \<Rightarrow> bool" where
  "plain_command (ProposeEffect _ _) = False"
| "plain_command (ApproveEffect _ _) = False"
| "plain_command (CancelEffect _ _) = False"
| "plain_command (BeginEffect _ _) = False"
| "plain_command (RecordReceipt _ _) = False"
| "plain_command (ReconcileDurableReceipt _ _ _) = False"
| "plain_command (ReconcileDurableProviderState _ _ _ _) = False"
| "plain_command (MarkEffectUncertain _ _) = False"
| "plain_command (MarkEffectFailed _ _) = False"
| "plain_command (RecordVerification _ _) = False"
| "plain_command _ = True"

lemma plain_command_frame:
  "plain_command cmd \<Longrightarrow> effect_frame (snd (mission_apply X cmd m)) = effect_frame m"
  by (cases cmd)
    (simp_all add: complete_vm04_channel_rebalance_terminal_def
      complete_vm07_replan_or_terminal_terminal_def complete_vm11_candidate_learning_terminal_def)

section \<open>Commands of the effect group\<close>

definition contract_end :: "mission \<Rightarrow> time" where
  "contract_end m = oc_valid_until (ms_contract m)"

definition effects_move :: "'x effect_ext_scheme \<Rightarrow> mission \<Rightarrow> effect list \<Rightarrow> bool" where
  "effects_move X m es' \<longleftrightarrow>
     es' = ms_effects m
     \<or> (\<exists>spec now. validate_effect_spec m spec now = Ok () \<and> es' = ms_effects m @ [new_effect m spec])
     \<or> (\<exists>eid e e'. find (\<lambda>e. es_id e = eid) (ms_effects m) = Some e \<and> effect_step X (contract_end m) e e'
          \<and> es' = update_first (\<lambda>e. es_id e = eid) (\<lambda>_. e') (ms_effects m))"

definition mission_moves :: "'x effect_ext_scheme \<Rightarrow> mission \<Rightarrow> mission \<Rightarrow> bool" where
  "mission_moves X m m' \<longleftrightarrow> identity m' = identity m \<and> effects_move X m (ms_effects m')"

lemma moves_refl [simp]: "mission_moves X m m"
  by (simp add: mission_moves_def effects_move_def)

lemma moves_keep: "effect_frame m' = effect_frame m \<Longrightarrow> mission_moves X m m'"
  by (simp add: mission_moves_def effects_move_def effect_frame_def)

lemma moves_step:
  assumes "effect_of m eid = Ok e" and "effect_step X (contract_end m) e e'"
    and "effect_frame m' = effect_frame (set_effect eid e' m)"
  shows "mission_moves X m m'"
proof -
  have "find (\<lambda>e. es_id e = eid) (ms_effects m) = Some e"
    using assms(1) by (simp add: effect_of_def)
  then have "effects_move X m (update_first (\<lambda>e. es_id e = eid) (\<lambda>_. e') (ms_effects m))"
    using assms(2) unfolding effects_move_def by blast
  then show ?thesis
    using assms(3) by (simp add: mission_moves_def effect_frame_def set_effect_def identity_def)
qed

lemma moves_propose:
  assumes "validate_effect_spec m spec now = Ok u"
    and "effect_frame m' = effect_frame (m\<lparr>ms_effects := ms_effects m @ [new_effect m spec]\<rparr>)"
  shows "mission_moves X m m'"
proof -
  have "effects_move X m (ms_effects m @ [new_effect m spec])"
    using assms(1) unfolding effects_move_def by auto
  then show ?thesis
    using assms(2) by (simp add: mission_moves_def effect_frame_def identity_def)
qed

lemma moves_attempt:
  "mission_moves X m s \<Longrightarrow> (\<And>b. r = Ok b \<Longrightarrow> mission_moves X m (snd (k b))) \<Longrightarrow>
   mission_moves X m (snd (attempt r s k))"
  by (cases r) simp_all

lemma moves_if:
  "(c \<Longrightarrow> mission_moves X m (snd a)) \<Longrightarrow> (\<not> c \<Longrightarrow> mission_moves X m (snd b)) \<Longrightarrow>
   mission_moves X m (snd (if c then a else b))"
  by simp

lemma moves_snd_refl: "mission_moves X m (snd (r, m))"
  by simp

lemmas moves_rules = moves_attempt moves_if moves_refl moves_snd_refl

lemma approval_valid_until_OkD:
  assumes "approval_valid_until X m eid decided_at = Ok t" and "effect_of m eid = Ok e"
  shows "decided_at < t" and "t \<le> es_expires_at e" and "t \<le> contract_end m"
  using assms by (auto simp: approval_valid_until_def Let_def contract_end_def)

lemma propose_effect_moves: "mission_moves X m (snd (propose_effect spec now m))"
  unfolding propose_effect_def Let_def
  apply (intro moves_rules)
  apply (rule moves_propose, assumption)
  apply (intro ef.frame_rules)
  apply simp_all
  done

lemma approve_effect_moves: "mission_moves X m (snd (approve_effect X eid a m))"
  unfolding approve_effect_def Let_def
  apply (intro moves_rules)
  apply (rule moves_step [OF _ decide], assumption)
  apply (auto dest: approval_valid_until_OkD)
  done

lemma cancel_effect_moves: "mission_moves X m (snd (cancel_effect eid now m))"
  unfolding cancel_effect_def
  apply (intro moves_rules)
  apply (rule moves_step [OF _ cancel], assumption)
  apply auto
  done

lemma begin_effect_moves: "mission_moves X m (snd (begin_effect X eid now m))"
  unfolding begin_effect_def
  apply (intro moves_rules)
  subgoal by (rule moves_step [OF _ expire [where now = now]], assumption) auto
  subgoal by (rule moves_step [OF _ expire [where now = now]], assumption) auto
  subgoal by (rule moves_step [OF _ dispatch [where now = now]], assumption) auto
  done

lemma record_receipt_moves: "mission_moves X m (snd (record_receipt X eid r m))"
  unfolding record_receipt_def Let_def
  apply (intro moves_rules)
  apply (rule moves_step [OF _ receive], assumption)
  apply auto
  done

lemma reconcile_durable_receipt_moves:
  "mission_moves X m (snd (reconcile_durable_receipt X eid r started_at m))"
  unfolding reconcile_durable_receipt_def
  apply (intro moves_rules)
  apply (rule moves_step [OF _ recover_receipt], assumption)
  apply auto
  done

lemma durable_allowed_cases:
  assumes "s \<in> durable_allowed state" and "s \<noteq> durable_target state"
  shows "s \<in> {EffApproved, EffExecuting, EffVerificationRequired}"
    and "durable_target state \<in> {EffFailed, EffVerificationRequired, EffReconciled} \<or>
      (durable_target state = EffDeadLetter \<and> s = EffVerificationRequired)"
  using assms by (cases state; auto)+

lemma reconcile_durable_provider_state_moves:
  "mission_moves X m (snd (reconcile_durable_provider_state X eid state started_at recorded_at m))"
  unfolding reconcile_durable_provider_state_def
  apply (intro moves_rules)
  apply (rule moves_step [OF _ recover_state [where started = started_at and s = "durable_target state"]], assumption)
  apply (rule durable_allowed_cases(1), simp, assumption)
  apply simp
  apply (simp add: de_Morgan_disj)
  apply (rule durable_allowed_cases(2), simp, assumption)
  apply simp_all
  done

lemma mark_effect_uncertain_moves: "mission_moves X m (snd (mark_effect_uncertain eid now m))"
  unfolding mark_effect_uncertain_def Let_def
  apply (intro moves_rules)
  apply (rule moves_step [OF _ doubt], assumption)
  apply auto
  done

lemma mark_effect_failed_moves: "mission_moves X m (snd (mark_effect_failed eid now m))"
  unfolding mark_effect_failed_def Let_def
  apply (intro moves_rules)
  apply (rule moves_step [OF _ fail], assumption)
  apply auto
  done

lemma record_verification_moves: "mission_moves X m (snd (record_verification eid v m))"
  unfolding record_verification_def Let_def
  apply (intro moves_rules)
  apply (rule moves_step [OF _ verify], assumption)
  apply (auto split: verification_status.split)
  done

lemma mission_apply_moves: "mission_moves X m (snd (mission_apply X cmd m))"
proof (cases "plain_command cmd")
  case True
  then show ?thesis
    by (intro moves_keep plain_command_frame)
next
  case False
  then show ?thesis
  proof (cases cmd)
    case (ProposeEffect spec now)
    have "snd (mission_apply X cmd m) = snd (propose_effect spec now m)"
      by (simp add: ProposeEffect then_with_def split: sum.split)
    then show ?thesis
      by (simp add: propose_effect_moves)
  qed (simp_all add: approve_effect_moves cancel_effect_moves begin_effect_moves record_receipt_moves
      reconcile_durable_receipt_moves reconcile_durable_provider_state_moves
      mark_effect_uncertain_moves mark_effect_failed_moves record_verification_moves)
qed

section \<open>Runs\<close>

text \<open>
  A run is any sequence of calls. A call that fails counts as well, with whatever it has written
  before it failed; \<open>mission_commits\<close> restricts the steps to the calls that succeed.
\<close>

definition mission_next :: "'x effect_ext_scheme \<Rightarrow> mission \<Rightarrow> mission \<Rightarrow> bool" where
  "mission_next X m m' \<longleftrightarrow> (\<exists>cmd. m' = snd (mission_apply X cmd m))"

definition mission_commits :: "'x effect_ext_scheme \<Rightarrow> mission \<Rightarrow> mission \<Rightarrow> bool" where
  "mission_commits X m m' \<longleftrightarrow> (\<exists>cmd. mission_apply X cmd m = (Ok (), m'))"

lemma mission_commits_next: "mission_commits X m m' \<Longrightarrow> mission_next X m m'"
  unfolding mission_commits_def mission_next_def by (metis snd_conv)

lemma mission_next_moves: "mission_next X m m' \<Longrightarrow> mission_moves X m m'"
  unfolding mission_next_def using mission_apply_moves by blast

lemma mission_next_identity: "mission_next X m m' \<Longrightarrow> identity m' = identity m"
  by (drule mission_next_moves) (simp add: mission_moves_def)

lemma run_identity: "(mission_next X)\<^sup>*\<^sup>* m m' \<Longrightarrow> identity m' = identity m"
  by (induction rule: rtranclp_induct) (auto dest: mission_next_identity)

lemma contract_end_identity: "identity m' = identity m \<Longrightarrow> contract_end m' = contract_end m"
  by (simp add: identity_def contract_end_def)

section \<open>One effect along a run\<close>

definition effect_at :: "mission \<Rightarrow> string \<Rightarrow> effect option" where
  "effect_at m eid = find (\<lambda>e. es_id e = eid) (ms_effects m)"

lemma find_append_Some: "find p xs = Some x \<Longrightarrow> find p (xs @ ys) = Some x"
  by (induction xs) (auto split: if_splits)

lemma find_update_other:
  assumes "\<And>x. q x \<Longrightarrow> \<not> p x" and "\<And>x. q x \<Longrightarrow> \<not> p (f x)"
  shows "find p (update_first q f xs) = find p xs"
  using assms by (induction xs) auto

lemma map_update_found:
  "find p xs = Some x \<Longrightarrow> h y = h x \<Longrightarrow> map h (update_first p (\<lambda>_. y) xs) = map h xs"
  by (induction xs) (auto split: if_splits)

text \<open>The effect an id stands for stays where it is and only makes steps of the relation.\<close>

lemma effect_at_next:
  assumes call: "mission_next X m m'" and at: "effect_at m eid = Some e"
  obtains e' where "effect_at m' eid = Some e'" and "e' = e \<or> effect_step X (contract_end m) e e'"
proof -
  from mission_next_moves [OF call] have "effects_move X m (ms_effects m')"
    by (simp add: mission_moves_def)
  then consider (same) "ms_effects m' = ms_effects m"
    | (add) e1 where "ms_effects m' = ms_effects m @ [e1]"
    | (step) eid1 e1 e2 where "effect_at m eid1 = Some e1" "effect_step X (contract_end m) e1 e2"
        "ms_effects m' = update_first (\<lambda>e. es_id e = eid1) (\<lambda>_. e2) (ms_effects m)"
    unfolding effects_move_def effect_at_def by blast
  then show ?thesis
  proof cases
    case same
    with at that [of e] show ?thesis by (simp add: effect_at_def)
  next
    case add
    with at that [of e] show ?thesis by (simp add: effect_at_def find_append_Some)
  next
    case step
    have id2: "es_id e2 = eid1"
      using content_fields(1) [OF effect_step_content [OF step(2)]] find_SomeD [OF step(1) [unfolded effect_at_def]]
      by simp
    show ?thesis
    proof (cases "eid1 = eid")
      case True
      then have "effect_at m' eid = Some e2"
        using find_update_first [OF step(1) [unfolded effect_at_def], of "\<lambda>_. e2"] id2 step(3)
        by (simp add: effect_at_def)
      then show ?thesis
        using that [of e2] step(1,2) at True by simp
    next
      case False
      then have "effect_at m' eid = Some e"
        using at id2 step(3) by (simp add: effect_at_def find_update_other)
      then show ?thesis
        using that [of e] by simp
    qed
  qed
qed

lemma effect_at_run:
  assumes "(mission_next X)\<^sup>*\<^sup>* m m'" and "effect_at m eid = Some e"
  shows "\<exists>e'. effect_at m' eid = Some e' \<and> (effect_step X (contract_end m))\<^sup>*\<^sup>* e e'"
  using assms
proof (induction rule: rtranclp_induct)
  case base
  then show ?case by simp
next
  case (step m1 m2)
  then obtain e1 where e1: "effect_at m1 eid = Some e1" "(effect_step X (contract_end m))\<^sup>*\<^sup>* e e1"
    by blast
  from effect_at_next [OF step(2) e1(1)] obtain e2 where e2: "effect_at m2 eid = Some e2"
    "e2 = e1 \<or> effect_step X (contract_end m1) e1 e2" .
  moreover have "contract_end m1 = contract_end m"
    using contract_end_identity run_identity step(1) by blast
  ultimately show ?case
    using e1(2) by (auto intro: rtranclp.rtrancl_into_rtrancl)
qed

section \<open>The invariant of the effects\<close>

definition effects_ok :: "'x effect_ext_scheme \<Rightarrow> mission \<Rightarrow> bool" where
  "effects_ok X m \<longleftrightarrow>
     (\<forall>e \<in> set (ms_effects m). effect_ok X (contract_end m) e
        \<and> ef_tenant_id e = ms_tenant_id m \<and> ef_project_id e = ms_project_id m \<and> ef_mission_id e = ms_id m)
     \<and> distinct (map es_idempotency_key (ms_effects m))"

lemma new_effect_ok [simp]: "effect_ok X until (new_effect m spec)"
  by (simp add: effect_ok_def new_effect_def effect_spec.defs)

lemma new_effect_selectors [simp]:
  "es_idempotency_key (new_effect m spec) = es_idempotency_key spec" "es_id (new_effect m spec) = es_id spec"
  "ef_tenant_id (new_effect m spec) = ms_tenant_id m" "ef_project_id (new_effect m spec) = ms_project_id m"
  "ef_mission_id (new_effect m spec) = ms_id m" "ef_status (new_effect m spec) = EffProposed"
  by (simp_all add: new_effect_def effect_spec.defs)

lemma validate_effect_spec_fresh:
  "validate_effect_spec m spec now = Ok () \<Longrightarrow>
   es_idempotency_key spec \<notin> es_idempotency_key ` set (ms_effects m)"
  by (auto simp: validate_effect_spec_def list_ex_iff)

lemma content_owner:
  assumes "content e = content e'"
  shows "ef_tenant_id e = ef_tenant_id e'" and "ef_project_id e = ef_project_id e'"
    and "ef_mission_id e = ef_mission_id e'"
  using assms by (simp_all add: content_def)

lemma effects_ok_next:
  assumes call: "mission_next X m m'" and ok: "effects_ok X m"
  shows "effects_ok X m'"
proof -
  have ident: "contract_end m' = contract_end m" "ms_tenant_id m' = ms_tenant_id m"
    "ms_project_id m' = ms_project_id m" "ms_id m' = ms_id m"
    using mission_next_identity [OF call] by (simp_all add: contract_end_def identity_def)
  from mission_next_moves [OF call] have "effects_move X m (ms_effects m')"
    by (simp add: mission_moves_def)
  then consider (same) "ms_effects m' = ms_effects m"
    | (add) spec now where "validate_effect_spec m spec now = Ok ()" "ms_effects m' = ms_effects m @ [new_effect m spec]"
    | (step) eid e1 e2 where "find (\<lambda>e. es_id e = eid) (ms_effects m) = Some e1"
        "effect_step X (contract_end m) e1 e2"
        "ms_effects m' = update_first (\<lambda>e. es_id e = eid) (\<lambda>_. e2) (ms_effects m)"
    unfolding effects_move_def by blast
  then show ?thesis
  proof cases
    case same
    with ok show ?thesis by (simp add: effects_ok_def ident)
  next
    case add
    have "es_idempotency_key spec \<notin> es_idempotency_key ` set (ms_effects m)"
      by (rule validate_effect_spec_fresh [OF add(1)])
    with ok show ?thesis
      by (simp add: effects_ok_def ident add(2))
  next
    case step
    have e1: "e1 \<in> set (ms_effects m)" using find_SomeD [OF step(1)] by simp
    have same: "content e2 = content e1" by (rule effect_step_content [OF step(2)])
    let ?P = "\<lambda>e. effect_ok X (contract_end m) e \<and> ef_tenant_id e = ms_tenant_id m
      \<and> ef_project_id e = ms_project_id m \<and> ef_mission_id e = ms_id m"
    have old: "\<forall>e \<in> set (ms_effects m). ?P e" and keys: "distinct (map es_idempotency_key (ms_effects m))"
      using ok by (simp_all add: effects_ok_def)
    have new: "?P e2"
      using bspec [OF old e1] effect_step_ok [OF step(2)] content_owner [OF same] by simp
    have "set (ms_effects m') \<subseteq> insert e2 (set (ms_effects m))"
      using set_update_first [OF step(1), of "\<lambda>_. e2"] step(3) by simp
    with old new have "\<forall>e \<in> set (ms_effects m'). ?P e"
      by blast
    moreover have "map es_idempotency_key (ms_effects m') = map es_idempotency_key (ms_effects m)"
      using map_update_found [OF step(1) content_fields(2) [OF same]] step(3) by simp
    ultimately show ?thesis
      using keys by (simp only: effects_ok_def ident)
  qed
qed

end
