(* ===== verification/Mission_Run.thy ===== *)
theory Mission_Run
  imports Mission_Refine
begin

text \<open>
  Facts about runs of a mission beyond its effects: every successful command that changes the
  mission advances its revision, the outcome history only grows, and the evidence and work products
  of the mission stay consistent with each other.
\<close>

section \<open>Postconditions of successful commands\<close>

definition ok_post :: "('s \<Rightarrow> bool) \<Rightarrow> ('e + 'a) \<times> 's \<Rightarrow> bool" where
  "ok_post Q rs \<longleftrightarrow> (\<forall>u. fst rs = Ok u \<longrightarrow> Q (snd rs))"

lemma ok_postD: "ok_post Q rs \<Longrightarrow> rs = (Ok u, s) \<Longrightarrow> Q s"
  by (simp add: ok_post_def)

lemma post_Err: "ok_post Q (Err e, s)"
  by (simp add: ok_post_def)

lemma post_Ok: "Q s \<Longrightarrow> ok_post Q (Ok u, s)"
  by (simp add: ok_post_def)

lemma post_pair: "Q s \<Longrightarrow> ok_post Q (r, s)"
  by (simp add: ok_post_def)

lemma post_attempt: "(\<And>b. r = Ok b \<Longrightarrow> ok_post Q (k b)) \<Longrightarrow> ok_post Q (attempt r s k)"
  by (cases r) (auto simp: ok_post_def)

lemma post_then: "(\<And>a s. rs = (Ok a, s) \<Longrightarrow> ok_post Q (k a s)) \<Longrightarrow> ok_post Q (then_with rs k)"
  by (cases rs; cases "fst rs") (auto simp: ok_post_def then_with_def)

lemma post_if: "(c \<Longrightarrow> ok_post Q a) \<Longrightarrow> (\<not> c \<Longrightarrow> ok_post Q b) \<Longrightarrow> ok_post Q (if c then a else b)"
  by simp

lemma post_prod: "(\<And>x y. p = (x, y) \<Longrightarrow> ok_post Q (f x y)) \<Longrightarrow> ok_post Q (case p of (x, y) \<Rightarrow> f x y)"
  by (cases p) simp

lemma post_option:
  "(x = None \<Longrightarrow> ok_post Q a) \<Longrightarrow> (\<And>y. x = Some y \<Longrightarrow> ok_post Q (f y)) \<Longrightarrow>
   ok_post Q (case x of None \<Rightarrow> a | Some y \<Rightarrow> f y)"
  by (cases x) simp_all

lemma post_replace_with: "(\<And>s'. r = Ok s' \<Longrightarrow> Q s') \<Longrightarrow> ok_post Q (replace_with s r)"
  by (cases r) (simp_all add: replace_with_def ok_post_def)

lemmas post_rules =
  post_attempt post_then post_if post_prod post_option post_replace_with post_Err

section \<open>Revisions\<close>

lemma ensure_touchable_OkD: "ensure_touchable m = Ok u \<Longrightarrow> ms_revision m < ms_revision m + 1"
  unfolding ensure_touchable_def using checked_add_one_Some(2,4) by fastforce

definition bumps :: "mission \<Rightarrow> mission \<Rightarrow> bool" where
  "bumps m m' \<longleftrightarrow> ms_revision m < ms_revision m'"

lemma bumps_touch: "ensure_touchable m = Ok u \<Longrightarrow> ms_revision m' = ms_revision m \<Longrightarrow> bumps m (touch now m')"
  by (simp add: bumps_def touch_def ensure_touchable_OkD)

lemma bumps_trans: "bumps m m1 \<Longrightarrow> bumps m1 m2 \<Longrightarrow> bumps m m2"
  by (simp add: bumps_def)

lemma bumps_updates [simp]: "bumps m (m'\<lparr>ms_tasks := ts\<rparr>) = bumps m m'"
  by (simp add: bumps_def)

lemma catalog_revision:
  "set_catalog_checkpoint_status status block m = (Ok u, m') \<Longrightarrow> ms_revision m' = ms_revision m"
  by (auto simp: set_catalog_checkpoint_status_def split: option.splits prod.splits)

lemma release_next_revision: "release_next m d = (Ok u, m') \<Longrightarrow> ms_revision m' = ms_revision m"
  by (auto simp: release_next_def Let_def split: option.splits)

lemma set_effect_revision [simp]: "ms_revision (set_effect eid e m) = ms_revision m"
  by (simp add: set_effect_def)

lemma durable_stage_revision [simp]: "ms_revision (durable_stage state eid now m) = ms_revision m"
  by (cases state) simp_all

lemma after_decision_bumps:
  "ensure_touchable m = Ok u \<Longrightarrow> ms_revision m' = ms_revision m \<Longrightarrow> ok_post (bumps m) (after_decision now m')"
  unfolding after_decision_def Let_def
  by (intro post_rules post_Ok bumps_touch; (assumption | auto dest!: catalog_revision split: if_splits))

lemma committed_bumps: "committed rs = Ok m' \<Longrightarrow> ok_post (bumps m) rs \<Longrightarrow> bumps m m'"
  by (auto dest!: committed_OkD simp: ok_post_def)

lemmas command_defs =
  start_research_def start_scheduled_cycle_def record_evidence_def record_work_product_def
  revise_work_product_def begin_checkpoint_transition_def begin_checkpoint_verification_def
  complete_checkpoint_validated_def terminate_def block_checkpoint_def propose_effect_def
  begin_effect_def record_receipt_def mark_effect_uncertain_def mark_effect_failed_def
  record_verification_def continue_after_verified_effect_def record_outcome_def
  block_mission_def resume_def

lemma command_bumps:
  "ok_post (bumps m) (start_research tasks now m)"
  "ok_post (bumps m) (start_scheduled_cycle X cycle tasks now m)"
  "ok_post (bumps m) (record_evidence evidence now m)"
  "ok_post (bumps m) (record_work_product X w now m)"
  "ok_post (bumps m) (revise_work_product X w now m)"
  "ok_post (bumps m) (begin_checkpoint_transition cid now m)"
  "ok_post (bumps m) (begin_checkpoint_verification cid now m)"
  "ok_post (bumps m) (complete_checkpoint_validated X cid completion m)"
  "ok_post (bumps m) (terminate disposition now m)"
  "ok_post (bumps m) (block_checkpoint cid block stage m)"
  "ok_post (bumps m) (propose_effect spec now m)"
  "ok_post (bumps m) (begin_effect Y eid now m)"
  "ok_post (bumps m) (record_receipt Y eid r m)"
  "ok_post (bumps m) (mark_effect_uncertain eid now m)"
  "ok_post (bumps m) (mark_effect_failed eid now m)"
  "ok_post (bumps m) (record_verification eid v m)"
  "ok_post (bumps m) (continue_after_verified_effect eid now m)"
  "ok_post (bumps m) (record_outcome X outcome m)"
  "ok_post (bumps m) (block_mission block stage m)"
  "ok_post (bumps m) (resume now m)"
  unfolding command_defs Let_def start_tasks_def
  by (intro post_rules post_Ok bumps_touch;
      (assumption | auto dest!: catalog_revision release_next_revision
        split: if_splits option.splits prod.splits))+

lemmas checkpoint_bumps =
  command_bumps(6) committed_bumps [OF _ command_bumps(8)] committed_bumps [OF _ command_bumps(9)]

lemma derived_bumps:
  "ok_post (bumps m) (begin_checkpoint cid now m)"
  "ok_post (bumps m) (begin_checkpoint_with_task cid tk now m)"
  "ok_post (bumps m) (complete_checkpoint X cid completion m)"
  "ok_post (bumps m) (approve_effect Y eid a m)"
  "ok_post (bumps m) (cancel_effect eid now m)"
  subgoal
    unfolding begin_checkpoint_def by (intro post_rules command_bumps)
  subgoal
    unfolding begin_checkpoint_with_task_def
    by (intro post_rules post_Ok) (auto dest: ok_postD [OF command_bumps(6)])
  subgoal
    unfolding complete_checkpoint_def by (intro post_rules command_bumps)
  subgoal
    unfolding approve_effect_def Let_def by (intro post_rules after_decision_bumps) simp_all
  subgoal
    unfolding cancel_effect_def by (intro post_rules after_decision_bumps) simp_all
  done

lemma typed_terminal_bumps: "ok_post (bumps m) (complete_typed_terminal X cid typed e completion m)"
  unfolding complete_typed_terminal_def
  by (intro post_rules, unfold and_then_eq_Ok if_Err_eq_Ok)
    (blast intro: bumps_trans checkpoint_bumps)

lemma skip_vm11_revision: "skip_vm11_candidate_learning m = Ok m' \<Longrightarrow> ms_revision m' = ms_revision m"
  by (auto simp: skip_vm11_candidate_learning_def split: prod.splits)

lemma vm11_resolution_bumps: "ok_post (bumps m) (complete_vm11_next_contract_resolution X r completion m)"
proof -
  have "bumps m m'" if ok: "resolved_vm11_next_contract_mission X m r completion = Ok m'" for m'
  proof -
    obtain resolved where resolved:
      "committed (complete_checkpoint_validated X ''next_contract_or_valid_terminal'' completion m) = Ok resolved"
      and cases: "resolved = m' \<or> (\<exists>skipped. skip_vm11_candidate_learning resolved = Ok skipped \<and>
        committed (terminate TermCompleted (nr_resolved_at r) skipped) = Ok m')"
      using ok by (auto simp: resolved_vm11_next_contract_mission_def split: if_splits)
    then show ?thesis
      using checkpoint_bumps(2) [OF resolved] checkpoint_bumps(3)
      by (auto simp: bumps_def dest!: skip_vm11_revision) (metis less_trans)
  qed
  then show ?thesis
    unfolding complete_vm11_next_contract_resolution_def by (intro post_rules)
qed

text \<open>
  Only the two commands that take over a durable record may succeed without a change: when the
  mission already says what the record says.
\<close>

lemma reconcile_bumps:
  "ok_post (\<lambda>m'. m' = m \<or> bumps m m') (reconcile_durable_receipt X eid r started_at m)"
  "ok_post (\<lambda>m'. m' = m \<or> bumps m m') (reconcile_durable_provider_state X eid state started_at recorded_at m)"
  unfolding reconcile_durable_receipt_def reconcile_durable_provider_state_def
  by (intro post_rules post_pair; auto intro!: bumps_touch)+

lemma mission_apply_version: "ok_post (\<lambda>m'. m' = m \<or> bumps m m') (mission_apply X cmd m)"
proof -
  have weaken: "ok_post (bumps m) rs \<Longrightarrow> ok_post (\<lambda>m'. m' = m \<or> bumps m m') rs" for rs :: "(mission_error + unit) \<times> mission"
    by (simp add: ok_post_def)
  show ?thesis
  proof (cases cmd)
    case (ProposeEffect spec now)
    then show ?thesis
      using command_bumps(11) [of m spec now] by (auto simp: ok_post_def then_with_def split: sum.splits)
  qed (simp_all add: reconcile_bumps weaken command_bumps derived_bumps typed_terminal_bumps
      vm11_resolution_bumps complete_vm04_channel_rebalance_terminal_def
      complete_vm07_replan_or_terminal_terminal_def complete_vm11_candidate_learning_terminal_def)
qed

interpretation mission_rev: versioned ms_revision "mission_commits X"
  for X :: "'x effect_ext_scheme"
proof unfold_locales
  fix m m'
  assume "mission_commits X m m'"
  then obtain cmd where "mission_apply X cmd m = (Ok (), m')"
    by (auto simp: mission_commits_def)
  from ok_postD [OF mission_apply_version this] show "m' = m \<or> ms_revision m < ms_revision m'"
    by (simp add: bumps_def)
qed

section \<open>The outcome history\<close>

definition outcomes :: "mission \<Rightarrow> outcome list \<times> outcome option" where
  "outcomes m = (ms_outcome_history m, ms_outcome m)"

interpretation outc: record_frame outcomes
  by unfold_locales (simp_all add: outcomes_def touch_def)

interpretation outc_eff: effects_frame outcomes
  by unfold_locales (simp_all add: outcomes_def)

definition outcomes_ok :: "outcome list \<times> outcome option \<Rightarrow> bool" where
  "outcomes_ok os \<longleftrightarrow>
     sorted_wrt (<) (map ou_observed_at (fst os)) \<and> (\<forall>out \<in> set (fst os). \<not> blank (ou_summary out))
     \<and> snd os = (if fst os = [] then None else Some (last (fst os)))"

lemma propose_apply_snd: "snd (mission_apply X (ProposeEffect spec now) m) = snd (propose_effect spec now m)"
  by (simp add: then_with_def split: sum.split)

lemma outcomes_next:
  assumes "mission_next X m m'"
  obtains "outcomes m' = outcomes m"
  | out where "record_outcome X out m = (Ok (), m')"
proof -
  obtain cmd where cmd: "m' = snd (mission_apply X cmd m)"
    using assms by (auto simp: mission_next_def)
  show ?thesis
  proof (cases cmd)
    case (RecordOutcome out)
    show ?thesis
    proof (cases "fst (record_outcome X out m)")
      case (Inl e)
      then have "m' = m"
        using cmd RecordOutcome by (auto simp: record_outcome_def attempt_def split: sum.splits if_splits)
      with that show ?thesis by simp
    next
      case (Inr u)
      with that(2) [of out] cmd RecordOutcome show ?thesis by (metis mission_apply.simps(26) old.unit.exhaust prod.collapse)
    qed
  next
    case (ProposeEffect spec now)
    with that(1) cmd show ?thesis by (simp only: propose_apply_snd outc_eff.propose_effect_frame)
  qed (use that(1) cmd in \<open>simp_all add: complete_vm04_channel_rebalance_terminal_def
      complete_vm07_replan_or_terminal_terminal_def complete_vm11_candidate_learning_terminal_def\<close>)
qed

lemma record_outcome_OkD:
  assumes "record_outcome X out m = (Ok u, m')"
  shows "ms_outcome_history m' = ms_outcome_history m @ [out]" and "ms_outcome m' = Some out"
    and "\<not> blank (ou_summary out)"
    and "ms_outcome_history m = [] \<or> ou_observed_at (last (ms_outcome_history m)) < ou_observed_at out"
  using assms by (auto simp: record_outcome_def touch_def split: if_splits)

lemma sorted_wrt_snoc_last:
  assumes "sorted_wrt (<) (map f xs)" and "xs = [] \<or> f (last xs) < (f x :: 'b::linorder)"
  shows "sorted_wrt (<) (map f (xs @ [x]))"
  using assms by (induction xs) (auto split: if_splits intro: less_trans)

lemma outcomes_ok_next:
  assumes "mission_next X m m'" and "outcomes_ok (outcomes m)"
  shows "outcomes_ok (outcomes m') \<and> prefix (ms_outcome_history m) (ms_outcome_history m')"
  using assms(1)
proof (cases rule: outcomes_next)
  case 1
  with assms(2) show ?thesis by (simp add: outcomes_def)
next
  case (2 out)
  note post = record_outcome_OkD [OF this]
  have "sorted_wrt (<) (map ou_observed_at (ms_outcome_history m @ [out]))"
    using assms(2) post(4) by (intro sorted_wrt_snoc_last) (simp_all add: outcomes_ok_def outcomes_def)
  then show ?thesis
    using assms(2) post(1-3) by (simp add: outcomes_ok_def outcomes_def)
qed

section \<open>Evidence and work products\<close>

definition records :: "mission \<Rightarrow> evidence list \<times> work_product list" where
  "records m = (ms_evidence m, ms_work_products m)"

interpretation recs: outcome_frame records
  by unfold_locales (simp_all add: records_def touch_def)

interpretation recs_eff: effects_frame records
  by unfold_locales (simp_all add: records_def)

inductive records_step ::
  "'x ext_scheme \<Rightarrow> evidence list \<times> work_product list \<Rightarrow> evidence list \<times> work_product list \<Rightarrow> bool"
  for X :: "'x ext_scheme" where
  stay: "records_step X rs rs"
| add_evidence: "ev_id e \<notin> ev_id ` set es \<Longrightarrow> records_step X (es, ws) (es @ [e], ws)"
| add_product: "wp_id w \<notin> wp_id ` set ws \<Longrightarrow> wp_validate X w = Ok () \<Longrightarrow> wp_revision w = 1 \<Longrightarrow>
    wp_status w = WpReadyForReview \<Longrightarrow> fset (wp_evidence_ids w) \<subseteq> ev_id ` set es \<Longrightarrow>
    records_step X (es, ws) (es, ws @ [w])"
| revise: "find (\<lambda>p. wp_id p = wp_id w) ws = Some p \<Longrightarrow> wp_step X p w \<Longrightarrow>
    fset (wp_evidence_ids w) \<subseteq> ev_id ` set es \<Longrightarrow>
    records_step X (es, ws) (es, update_first (\<lambda>p. wp_id p = wp_id w) (\<lambda>_. w) ws)"

lemma require_evidence_Ok: "require_evidence m ids = Ok u \<Longrightarrow> fset ids \<subseteq> ev_id ` set (ms_evidence m)"
  by (auto simp: require_evidence_def list_ex_iff image_iff split: if_splits)

lemma record_evidence_records: "records_step X (records m) (records (snd (record_evidence e now m)))"
proof (cases "fst (record_evidence e now m)")
  case (Inl x)
  then have "snd (record_evidence e now m) = m"
    by (auto simp: record_evidence_def attempt_def split: sum.splits if_splits)
  then show ?thesis by (simp add: stay)
next
  case (Inr u)
  then show ?thesis
    by (auto simp: record_evidence_def attempt_def records_def touch_def list_ex_iff image_iff
        intro!: add_evidence split: sum.splits if_splits)
qed

lemma wp_validate_status: "wp_validate X (w\<lparr>wp_status := s\<rparr>) = wp_validate X w"
  by (simp add: wp_validate_def)

lemma record_work_product_records:
  "records_step X (records m) (records (snd (record_work_product X w now m)))"
proof (cases "record_work_product X w now m")
  case (Pair r m')
  show ?thesis
  proof (cases r)
    case (Inl x)
    with Pair have "m' = m"
      by (auto simp: record_work_product_def attempt_def split: sum.splits if_splits)
    with Pair show ?thesis by (simp add: stay)
  next
    case (Inr u)
    with Pair have "m' = touch now (m\<lparr>ms_work_products := ms_work_products m @ [w\<lparr>wp_status := WpReadyForReview\<rparr>]\<rparr>)"
      and "wp_validate X w = Ok ()" and "wp_revision w = 1"
      and "wp_id w \<notin> wp_id ` set (ms_work_products m)" and "require_evidence m (wp_evidence_ids w) = Ok ()"
      by (auto simp: record_work_product_def list_ex_iff split: if_splits)
    then show ?thesis
      using Pair require_evidence_Ok [of m "wp_evidence_ids w"]
        add_product [of "w\<lparr>wp_status := WpReadyForReview\<rparr>" "ms_work_products m" X "ms_evidence m"]
      by (simp add: records_def touch_def wp_validate_status)
  qed
qed

lemma revise_work_product_records:
  "records_step X (records m) (records (snd (revise_work_product X w now m)))"
proof (cases "revise_work_product X w now m")
  case (Pair r m')
  show ?thesis
  proof (cases r)
    case (Inl x)
    with Pair have "m' = m"
      by (auto simp: revise_work_product_def attempt_def split: sum.splits if_splits)
    with Pair show ?thesis by (simp add: stay)
  next
    case (Inr u)
    with Pair obtain p where "find (\<lambda>item. wp_id item = wp_id w) (ms_work_products m) = Some p"
      and "wp_step X p w" and "require_evidence m (wp_evidence_ids w) = Ok ()"
      and "m' = touch now (m\<lparr>ms_work_products :=
          update_first (\<lambda>item. wp_id item = wp_id w) (\<lambda>_. w) (ms_work_products m)\<rparr>)"
      by (auto simp: revise_work_product_def wp_step_def split: if_splits)
    then show ?thesis
      using Pair require_evidence_Ok [of m "wp_evidence_ids w"] revise [of w "ms_work_products m" p X "ms_evidence m"]
      by (simp add: records_def touch_def)
  qed
qed

lemma records_next: "mission_next X m m' \<Longrightarrow> records_step X (records m) (records m')"
proof -
  assume "mission_next X m m'"
  then obtain cmd where cmd: "m' = snd (mission_apply X cmd m)"
    by (auto simp: mission_next_def)
  show ?thesis
  proof (cases cmd)
    case (ProposeEffect spec now)
    with cmd show ?thesis by (simp only: propose_apply_snd recs_eff.propose_effect_frame stay)
  qed (simp_all add: cmd stay record_evidence_records record_work_product_records revise_work_product_records
      complete_vm04_channel_rebalance_terminal_def complete_vm07_replan_or_terminal_terminal_def
      complete_vm11_candidate_learning_terminal_def)
qed

definition records_ok :: "'x ext_scheme \<Rightarrow> evidence list \<times> work_product list \<Rightarrow> bool" where
  "records_ok X rs \<longleftrightarrow>
     distinct (map ev_id (fst rs)) \<and> distinct (map wp_id (snd rs))
     \<and> (\<forall>w \<in> set (snd rs). wp_validate X w = Ok () \<and> wp_status w \<noteq> WpDraft
          \<and> fset (wp_evidence_ids w) \<subseteq> ev_id ` set (fst rs))"

lemma records_step_ok: "records_step X rs rs' \<Longrightarrow> records_ok X rs \<Longrightarrow> records_ok X rs'"
proof (induction rule: records_step.cases)
  case (revise w ws p es)
  let ?ws = "update_first (\<lambda>p. wp_id p = wp_id w) (\<lambda>_. w) ws"
  have p: "p \<in> set ws" "wp_id p = wp_id w"
    using find_SomeD [OF revise(3)] by auto
  have w: "wp_validate X w = Ok ()" "wp_rank (wp_status p) \<le> wp_rank (wp_status w)"
    using wp_step_rank [OF revise(4)] by auto
  have "wp_status p \<noteq> WpDraft"
    using revise(1,6) p(1) by (auto simp: records_ok_def)
  with w have new: "wp_status w \<noteq> WpDraft"
    by (cases "wp_status p"; cases "wp_status w") simp_all
  have "map wp_id ?ws = map wp_id ws"
    using map_update_found [OF revise(3), of wp_id w] p(2) by simp
  moreover have "set ?ws \<subseteq> insert w (set ws)"
    by (rule set_update_first [OF revise(3)])
  ultimately show ?case
    using revise(1,2,5,6) w(1) new unfolding records_ok_def by (simp, blast)
qed (auto simp: records_ok_def)

lemma update_first_keeps: "find p xs = Some x \<Longrightarrow> y \<in> set xs \<Longrightarrow> y \<noteq> x \<Longrightarrow> y \<in> set (update_first p f xs)"
  by (induction xs) (auto split: if_splits)

lemma update_first_puts: "find p xs = Some x \<Longrightarrow> f x \<in> set (update_first p f xs)"
  by (induction xs) (auto split: if_splits)

lemma records_step_history:
  assumes "records_step X rs rs'"
  shows "prefix (fst rs) (fst rs')" and "w \<in> set (snd rs) \<Longrightarrow> \<exists>w' \<in> set (snd rs'). w' = w \<or> wp_step X w w'"
proof -
  show "prefix (fst rs) (fst rs')"
    using assms by (cases rule: records_step.cases) simp_all
  show "\<exists>w' \<in> set (snd rs'). w' = w \<or> wp_step X w w'" if w: "w \<in> set (snd rs)"
    using assms
  proof (cases rule: records_step.cases)
    case (revise v ws p es)
    show ?thesis
    proof (cases "w = p")
      case True
      then show ?thesis
        using revise update_first_puts [OF revise(3), of "\<lambda>_. v"] by auto
    next
      case False
      then show ?thesis
        using revise w update_first_keeps [OF revise(3) _ False] by auto
    qed
  qed (use w in auto)
qed

lemma records_run:
  assumes "(mission_next X)\<^sup>*\<^sup>* m m'" and "records_ok X (records m)"
  shows "records_ok X (records m') \<and> prefix (ms_evidence m) (ms_evidence m')
    \<and> (\<forall>w \<in> set (ms_work_products m). \<exists>w' \<in> set (ms_work_products m'). (wp_step X)\<^sup>*\<^sup>* w w')"
  using assms
proof (induction rule: rtranclp_induct)
  case base
  then show ?case by auto
next
  case (step m1 m2)
  note s = records_next [OF step(2)]
  have "prefix (ms_evidence m1) (ms_evidence m2)"
    using records_step_history(1) [OF s] by (simp add: records_def)
  moreover have "\<exists>w2 \<in> set (ms_work_products m2). (wp_step X)\<^sup>*\<^sup>* w w2"
    if w1: "w1 \<in> set (ms_work_products m1)" and run: "(wp_step X)\<^sup>*\<^sup>* w w1" for w w1
    using records_step_history(2) [OF s, of w1] w1 run
    by (auto simp: records_def intro: rtranclp.rtrancl_into_rtrancl)
  ultimately show ?case
    using step.IH step.prems records_step_ok [OF s] by (meson prefix_order.trans)
qed

section \<open>Compiled missions\<close>

definition compiled :: "'x ext_scheme \<Rightarrow> mission \<Rightarrow> bool" where
  "compiled X m \<longleftrightarrow>
     (\<exists>tenant mid project title contract now. compile tenant mid project title contract now = Ok m)
     \<or> (\<exists>tenant mid project title contract d now.
          compile_catalog X tenant mid project title contract d now = Ok m)"

lemma compile_OkD:
  assumes "compile tenant mid project title contract now = Ok m"
  shows "ms_effects m = []" "ms_outcome_history m = []" "ms_outcome m = None" "ms_evidence m = []"
    "ms_work_products m = []" "ms_definition m = None" "ms_stage m = StageReady" "ms_revision m = 1"
    "ms_tasks m = []"
  using assms by (auto simp: compile_def Let_def)

lemma compile_catalog_OkD:
  assumes "compile_catalog X tenant mid project title contract d now = Ok m"
  obtains m1 where "compile tenant mid project title contract now = Ok m1"
    and "m = m1\<lparr>ms_definition := Some d\<rparr>" and "definition_validate X d = Ok ()"
  using assms by (auto simp: compile_catalog_def)

lemma compiled_empty:
  assumes "compiled X m"
  shows "ms_effects m = []" and "ms_outcome_history m = []" and "ms_outcome m = None"
    and "ms_evidence m = []" and "ms_work_products m = []" and "ms_stage m = StageReady"
  using assms unfolding compiled_def
  by (auto dest: compile_OkD elim!: compile_catalog_OkD)

end
