(* ===== verification/Scheduler_Tx.thy ===== *)
theory Scheduler_Tx
  imports Scheduler Mission_Run
begin

text \<open>
  What the scheduler services commit. \<open>pair_tx\<close> lists the transactions on the mission and schedule
  tables: a mission that waits for nothing moves on, a mission starts to wait together with the
  schedule it waits for, an open schedule changes and stays open, and a schedule is closed
  together with the mission that waits for it. Every service, whatever it returns, leaves a store
  reached by such transactions.
\<close>

section \<open>Transactions\<close>

abbreviation sched_open :: "mission_schedule \<Rightarrow> bool" where
  "sched_open s \<equiv> sc_status s \<in> {SchedPending, SchedLeased}"

abbreviation waits :: "mission \<Rightarrow> bool" where
  "waits m \<equiv> ms_stage m = StageScheduled"

definition mission_key :: "mission_schedule \<Rightarrow> string \<times> string" where
  "mission_key s = (sc_project_id s, sc_mission_id s)"

text \<open>The schedule and the mission of one waiting cycle.\<close>

definition awaits :: "mission \<Rightarrow> mission_schedule \<Rightarrow> bool" where
  "awaits m s \<longleftrightarrow> waits m \<and> ms_revision m = sc_scheduled_from_mission_revision s \<and>
     next_cycle_of m = Some (sc_cycle s)"

inductive pair_tx :: "'x ext_scheme \<Rightarrow> project_store \<Rightarrow> project_store \<Rightarrow> bool"
  for X :: "'x ext_scheme" where
  mission_moved: "fmlookup (st_missions st) k = Some row \<Longrightarrow> \<not> waits row \<Longrightarrow> \<not> waits m \<Longrightarrow>
    st_missions st' = fmupd k m (st_missions st) \<Longrightarrow> st_schedules st' = st_schedules st \<Longrightarrow> pair_tx X st st'"
| waiting: "fmlookup (st_missions st) (mission_key s) = Some row \<Longrightarrow> \<not> waits row \<Longrightarrow> awaits m s \<Longrightarrow>
    sched_inv s \<Longrightarrow> sched_open s \<Longrightarrow> fmlookup (st_schedules st) (schedule_key s) = None \<Longrightarrow>
    (\<And>k t. fmlookup (st_schedules st) k = Some t \<Longrightarrow> (mission_key t, sc_cycle t) \<noteq> (mission_key s, sc_cycle s)) \<Longrightarrow>
    st_missions st' = fmupd (mission_key s) m (st_missions st) \<Longrightarrow>
    st_schedules st' = fmupd (schedule_key s) s (st_schedules st) \<Longrightarrow> pair_tx X st st'"
| schedule_moved: "fmlookup (st_schedules st) (schedule_key s) = Some s \<Longrightarrow> sched_step X now s s' \<Longrightarrow>
    sched_open s' \<Longrightarrow> st_missions st' = st_missions st \<Longrightarrow>
    st_schedules st' = fmupd (schedule_key s) s' (st_schedules st) \<Longrightarrow> pair_tx X st st'"
| closed: "fmlookup (st_schedules st) (schedule_key s) = Some s \<Longrightarrow> sched_step X now s s' \<Longrightarrow>
    \<not> sched_open s' \<Longrightarrow> fmlookup (st_missions st) (mission_key s) = Some row \<Longrightarrow> waits row \<Longrightarrow> \<not> waits m \<Longrightarrow>
    st_missions st' = fmupd (mission_key s) m (st_missions st) \<Longrightarrow>
    st_schedules st' = fmupd (schedule_key s) s' (st_schedules st) \<Longrightarrow> pair_tx X st st'"

section \<open>What a service leaves behind\<close>

definition leaves :: "('s \<Rightarrow> 's \<Rightarrow> bool) \<Rightarrow> 's \<Rightarrow> ('e + 'a) \<times> 's \<Rightarrow> bool" where
  "leaves R st rs \<longleftrightarrow> R\<^sup>*\<^sup>* st (snd rs)"

lemma leaves_same: "leaves R st (r, st)"
  by (simp add: leaves_def)

lemma leaves_if: "(P \<Longrightarrow> leaves R st a) \<Longrightarrow> (\<not> P \<Longrightarrow> leaves R st b) \<Longrightarrow> leaves R st (if P then a else b)"
  by simp

lemma leaves_attempt: "(\<And>b. r = Ok b \<Longrightarrow> leaves R st (k b)) \<Longrightarrow> leaves R st (attempt r st k)"
  by (cases r) (simp_all add: leaves_same)

lemma leaves_locally:
  "(\<And>b m. rs = (Ok b, m) \<Longrightarrow> leaves R st (k b m)) \<Longrightarrow> leaves R st (locally f rs st k)"
  unfolding locally_def by (cases rs; cases "fst rs") (auto intro: leaves_same)

lemma leaves_stored_or: "(\<And>b. r = Ok b \<Longrightarrow> leaves R st (k b)) \<Longrightarrow> leaves R st (stored_or r st k)"
  unfolding stored_or_def by (intro leaves_attempt) simp

lemma leaves_commit: "(\<And>st'. r = Ok st' \<Longrightarrow> R\<^sup>*\<^sup>* st st') \<Longrightarrow> leaves R st (commit r st a)"
  unfolding commit_def by (intro leaves_stored_or) (simp add: leaves_def)

lemma leaves_then_with:
  assumes "leaves R st rs" and "\<And>a st'. rs = (Ok a, st') \<Longrightarrow> leaves R st' (k a st')"
  shows "leaves R st (then_with rs k)"
proof (cases rs)
  case (Pair r st')
  show ?thesis
  proof (cases r)
    case (Inr a)
    have "R\<^sup>*\<^sup>* st st'" and "leaves R st' (k a st')"
      using assms Pair Inr by (auto simp: leaves_def)
    then show ?thesis
      using Pair Inr by (auto simp: leaves_def)
  qed (use assms Pair in \<open>simp add: leaves_def\<close>)
qed

lemma leaves_option:
  "(x = None \<Longrightarrow> leaves R st a) \<Longrightarrow> (\<And>y. x = Some y \<Longrightarrow> leaves R st (k y)) \<Longrightarrow>
   leaves R st (case x of None \<Rightarrow> a | Some y \<Rightarrow> k y)"
  by (cases x) simp_all

lemmas leaves_rules = leaves_if leaves_attempt leaves_locally leaves_stored_or leaves_commit
  leaves_then_with leaves_option leaves_same

lemma service_Ok [simp]:
  "stored_or r st k = (Ok a, st') \<longleftrightarrow> (\<exists>b. r = Ok b \<and> k b = (Ok a, st'))"
  "locally f rs st k2 = (Ok a, st') \<longleftrightarrow> (\<exists>b m. rs = (Ok b, m) \<and> k2 b m = (Ok a, st'))"
  "commit r2 st a2 = (Ok a, st') \<longleftrightarrow> r2 = Ok st' \<and> a2 = a"
  by (auto simp: stored_or_def locally_def commit_def) (metis prod.collapse)

section \<open>The tables after a transaction\<close>

lemma append_events_tables:
  "append_events t p m at ai events st = Ok st' \<Longrightarrow>
     st_missions st' = st_missions st \<and> st_schedules st' = st_schedules st"
  by (induction events arbitrary: st) (auto simp: append_event_def split: if_splits)

lemma update_mission_cas_Ok:
  assumes "update_mission_normalized_cas X m expected st = Ok st'"
  shows "st_missions st' = fmupd (ms_project_id m, ms_id m) (stored m) (st_missions st)"
    and "st_schedules st' = st_schedules st"
    and "\<exists>row. fmlookup (st_missions st) (ms_project_id m, ms_id m) = Some row \<and> ms_revision row = expected"
  using assms by (auto simp: update_mission_normalized_cas_def is_some_and_iff split: if_splits)

lemma load_mission_Ok:
  assumes "load_mission X st project_id mission_id = Ok m"
  shows "\<exists>row. fmlookup (st_missions st) (project_id, mission_id) = Some row \<and>
    m = row\<lparr>ms_project_id := project_id, ms_id := mission_id\<rparr>"
  using assms
  by (auto simp: load_mission_def load_mission_normalized_def Let_def split: option.splits if_splits)

lemma stored_stage [simp]: "ms_stage (stored m) = ms_stage m" "ms_revision (stored m) = ms_revision m"
  by (simp_all add: stored_def)

lemma with_schedules_Ok:
  "with_schedules st rows = Ok st' \<longleftrightarrow> (\<exists>r. rows = Ok r \<and> st' = st\<lparr>st_schedules := r\<rparr>)"
  by (auto simp: with_schedules_def)

lemma store_update_schedule_Ok:
  assumes "store_update_schedule s expected events st = Ok st'"
  shows "st_missions st' = st_missions st"
    and "st_schedules st' = fmupd (schedule_key s) s (st_schedules st)"
proof -
  obtain rows where "update_mission_schedule_atomic (st_schedules st) s expected (length events) = Ok rows"
    and "append_schedule_events s events (st\<lparr>st_schedules := rows\<rparr>) = Ok st'"
    using assms by (auto simp: store_update_schedule_def with_schedules_Ok)
  then show "st_missions st' = st_missions st"
    and "st_schedules st' = fmupd (schedule_key s) s (st_schedules st)"
    using append_events_tables [of _ _ _ _ _ events "st\<lparr>st_schedules := rows\<rparr>" st']
      update_schedule_row_Ok(1) [of "st_schedules st" s expected rows]
    by (auto simp: append_schedule_events_def update_mission_schedule_atomic_def schedule_key_def split: if_splits)
qed

text \<open>The common end of the transactions on a pair.\<close>

lemma commit_pair_Ok:
  assumes "commit_pair X s expected_s m expected_m events st = Ok st'"
    and "ms_project_id m = sc_project_id s" "ms_id m = sc_mission_id s"
  shows "st_missions st' = fmupd (mission_key s) (stored m) (st_missions st)"
    and "st_schedules st' = fmupd (schedule_key s) s (st_schedules st)"
proof -
  obtain st1 rows where cas: "update_mission_normalized_cas X m expected_m st = Ok st1"
    and row: "update_schedule_row (st_schedules st1) s expected_s = Ok rows"
    and ev: "append_pair_events m s events (st1\<lparr>st_schedules := rows\<rparr>) = Ok st'"
    using assms(1) by (auto simp: commit_pair_def with_schedules_Ok)
  then show "st_missions st' = fmupd (mission_key s) (stored m) (st_missions st)"
    and "st_schedules st' = fmupd (schedule_key s) s (st_schedules st)"
    using append_events_tables [of _ _ _ _ _ events "st1\<lparr>st_schedules := rows\<rparr>" st']
      update_mission_cas_Ok(1,2) [OF cas] update_schedule_row_Ok(1) [OF row] assms(2,3)
    by (auto simp: append_pair_events_def mission_key_def schedule_key_def)
qed

section \<open>The commands on loaded records\<close>

lemma effect_frame_key:
  "effect_frame m' = effect_frame m \<Longrightarrow> ms_project_id m' = ms_project_id m \<and> ms_id m' = ms_id m"
  by (simp add: effect_frame_def identity_def)

lemma start_scheduled_cycle_Ok:
  assumes "start_scheduled_cycle X cycle tasks now m = (Ok u, m')"
  shows "waits m" and "\<not> waits m'"
  using assms
  by (auto simp: start_scheduled_cycle_def require_stage_def start_tasks_def touch_def split: if_splits)

lemma terminate_Ok:
  assumes "terminate disposition now m = (Ok u, m')"
  shows "\<not> stage_is_terminal (ms_stage m)" and "\<not> waits m'"
    and "ms_project_id m' = ms_project_id m" "ms_id m' = ms_id m"
proof -
  show "\<not> stage_is_terminal (ms_stage m)" and "\<not> waits m'"
    using assms by (cases disposition; auto simp: terminate_def touch_def Let_def split: if_splits)+
  have "effect_frame (snd (terminate disposition now m)) = effect_frame m"
    by (rule ef.terminate_frame)
  then show "ms_project_id m' = ms_project_id m" "ms_id m' = ms_id m"
    using effect_frame_key [of m' m] assms by simp_all
qed

lemma record_outcome_stage:
  assumes "record_outcome X outcome m = (Ok u, m')"
  shows "\<not> waits m" and "ms_project_id m' = ms_project_id m" "ms_id m' = ms_id m"
proof -
  show "\<not> waits m"
    using assms by (auto simp: record_outcome_def require_stage_def split: if_splits)
  have "effect_frame (snd (record_outcome X outcome m)) = effect_frame m"
    by (rule ef_out.record_outcome_frame)
  then show "ms_project_id m' = ms_project_id m" "ms_id m' = ms_id m"
    using effect_frame_key [of m' m] assms by simp_all
qed

lemma prepare_key:
  assumes "prepare X m now = Ok s"
  shows "mission_key s = (ms_project_id m, ms_id m)" and "next_cycle_of m = Some (sc_cycle s)"
    and "sc_scheduled_from_mission_revision s = ms_revision m"
    and "oc_valid_until (ms_contract m) = sc_contract_valid_until s"
  using assms
  by (auto simp: prepare_def mission_key_def next_cycle_of_def Let_def split: if_splits sum.splits)

lemma sched_step_keys:
  assumes "sched_step X now s s'"
  shows "schedule_key s' = schedule_key s" and "mission_key s' = mission_key s"
    and "sc_cycle s' = sc_cycle s"
    and "sc_scheduled_from_mission_revision s' = sc_scheduled_from_mission_revision s"
  using sched_step_frame [OF assms] by (auto simp: sched_frame_def schedule_key_def mission_key_def)

section \<open>Services on schedules\<close>

lemma schedule_moved_tx:
  assumes "load_mission_schedule st project_id schedule_id = Ok s" and "sched_step X now s s'"
    and "sched_open s'" and "store_update_schedule s' (sc_revision s) events st = Ok st'"
  shows "(pair_tx X)\<^sup>*\<^sup>* st st'"
proof -
  have "fmlookup (st_schedules st) (schedule_key s) = Some s"
    using assms(1) by (auto simp: load_mission_schedule_def load_schedule_Ok schedule_key_def)
  from pair_tx.schedule_moved [OF this assms(2,3)]
  show ?thesis
    using store_update_schedule_Ok [OF assms(4)] sched_step_keys(1) [OF assms(2)] by auto
qed

lemma loaded_schedule:
  "load_mission_schedule st project_id schedule_id = Ok s \<Longrightarrow> fmlookup (st_schedules st) (schedule_key s) = Some s"
  by (auto simp: load_mission_schedule_def load_schedule_Ok schedule_key_def)

lemma closed_tx:
  assumes "fmlookup (st_schedules st) (schedule_key s) = Some s" and "sched_step X now s s'"
    and "\<not> sched_open s'" and "load_mission X st (sc_project_id s) (sc_mission_id s) = Ok m"
    and "waits m" and "\<not> waits m'" and "ms_project_id m' = sc_project_id s'" "ms_id m' = sc_mission_id s'"
    and "commit_pair X s' es m' em events st = Ok st'"
  shows "pair_tx X st st'"
proof -
  obtain row where "fmlookup (st_missions st) (mission_key s) = Some row" "waits row"
    using load_mission_Ok [OF assms(4)] assms(5) by (auto simp: mission_key_def)
  then show ?thesis
    using commit_pair_Ok [OF assms(9,7,8)] sched_step_keys(1,2) [OF assms(2)] assms(6)
    by (intro pair_tx.closed [OF assms(1-3)]) auto
qed

lemma heartbeat_tx: "leaves (pair_tx X) st (heartbeat_mission_schedule X p i owner token g d now st)"
  unfolding heartbeat_mission_schedule_def
proof (intro leaves_rules)
  fix s s' u st'
  assume load: "load_mission_schedule st p i = Ok s"
    and run: "heartbeat X (sha256 X owner) (sha256 X token) g d now s = (Ok u, s')"
    and commit: "store_update_schedule s' (sc_revision s) [event_at ''mission.schedule_heartbeat'' now] st = Ok st'"
  have "sched_step X now s s'" and "sched_open s'"
    using run heartbeat_Ok [of X "sha256 X owner" "sha256 X token" g d now s s']
    by (auto intro: sched_step.renewed simp: verify_lease_Ok sched_touch_def)
  then show "(pair_tx X)\<^sup>*\<^sup>* st st'"
    using schedule_moved_tx load commit by blast
qed

lemma start_cycle_tx:
  "leaves (pair_tx X) st (start_claimed_mission_cycle X p i owner token g task now st)"
  unfolding start_claimed_mission_cycle_def
proof (intro leaves_rules)
  fix s m route u m' u' s' st'
  assume load: "load_mission_schedule st p i = Ok s" "load_mission X st p (sc_mission_id s) = Ok m"
    and start: "start_scheduled_cycle X (sc_cycle s) [task] now m = (Ok u, m')"
    and mark: "mark_triggered (sha256 X owner) (sha256 X token) g m' now s = (Ok u', s')"
    and commit: "trigger_mission_schedule_and_start_cycle_atomic X s' (sc_revision s) m' (ms_revision m)
      [event_at ''mission.schedule_triggered'' now, event_at ''mission.cycle_started'' now] st = Ok st'"
  have "sched_step X now s s'" and "\<not> sched_open s'"
    using mark mark_triggered_Ok [of "sha256 X owner" "sha256 X token" g m' now s s']
    by (auto intro: sched_step.triggered simp: sched_touch_def)
  moreover have "sc_project_id s = p"
    using load(1) by (simp add: load_mission_schedule_def load_schedule_Ok)
  ultimately show "(pair_tx X)\<^sup>*\<^sup>* st st'"
    using commit load start_scheduled_cycle_Ok [OF start]
    by (intro r_into_rtranclp closed_tx [OF loaded_schedule [OF load(1)]])
       (auto simp: trigger_mission_schedule_and_start_cycle_atomic_def split: if_splits)
qed

lemma record_failure_tx:
  "leaves (pair_tx X) st (record_mission_schedule_failure X p i owner token g cls evidence retry_at now st)"
  unfolding record_mission_schedule_failure_def
proof (intro leaves_rules)
  fix s u s' st'
  assume load: "load_mission_schedule st p i = Ok s"
    and run: "record_failure (sha256 X owner) (sha256 X token) g cls evidence (retry_at \<noteq> None) retry_at now s = (Ok u, s')"
  have step: "sched_step X now s s'" and status: "sc_status s' \<in> {SchedPending, SchedDeadLetter}"
    using run record_failure_Ok [of "sha256 X owner" "sha256 X token" g cls evidence "retry_at \<noteq> None" retry_at now s s']
    by (auto intro: sched_step.failed simp: sched_touch_def split: if_splits)
  have p: "sc_project_id s = p" "sc_mission_id s' = sc_mission_id s"
    using load sched_step_keys(2) [OF step]
    by (auto simp: load_mission_schedule_def load_schedule_Ok mission_key_def)
  show "(pair_tx X)\<^sup>*\<^sup>* st st'" if "sc_status s' \<noteq> SchedDeadLetter"
    "store_update_schedule s' (sc_revision s) [event_at ''mission.schedule_retry_scheduled'' now] st = Ok st'"
    using that status schedule_moved_tx [OF load step] by auto
  fix m u' m' assume dead: "sc_status s' = SchedDeadLetter" and lm: "load_mission X st p (sc_mission_id s') = Ok m"
    and stage: "\<not> (\<not> waits m \<or> ms_revision m \<noteq> sc_scheduled_from_mission_revision s')"
    and ends: "terminate TermPartial now m = (Ok u', m')"
    and commit: "dead_letter_mission_schedule_and_partial_mission_atomic X s' (sc_revision s) m' (ms_revision m)
       [event_at ''mission.schedule_dead_lettered'' now, event_at ''mission.partial'' now] st = Ok st'"
  show "(pair_tx X)\<^sup>*\<^sup>* st st'"
    using commit dead lm stage p terminate_Ok(2) [OF ends]
    by (intro r_into_rtranclp closed_tx [OF loaded_schedule [OF load] step])
       (auto simp: dead_letter_mission_schedule_and_partial_mission_atomic_def
         validate_schedule_mission_waiting_pair_def split: if_splits)
qed

section \<open>Services on pairs\<close>

lemma insert_schedule_Ok:
  assumes "insert_schedule s st = Ok st'"
  shows "st_missions st' = st_missions st" "st_schedules st' = fmupd (schedule_key s) s (st_schedules st)"
    and "fmlookup (st_schedules st) (schedule_key s) = None"
    and "fmlookup (st_schedules st) k = Some t \<Longrightarrow> (mission_key t, sc_cycle t) \<noteq> (mission_key s, sc_cycle s)"
proof -
  show "st_missions st' = st_missions st" "st_schedules st' = fmupd (schedule_key s) s (st_schedules st)"
    "fmlookup (st_schedules st) (schedule_key s) = None"
    using assms by (auto simp: insert_schedule_def schedule_key_def contains_key_def fmlookup_dom_iff split: if_splits)
  have "\<not> list_ex (\<lambda>row. sc_project_id row = sc_project_id s \<and> sc_mission_id row = sc_mission_id s
      \<and> sc_cycle row = sc_cycle s) (bt_values (st_schedules st))"
    using assms by (auto simp: insert_schedule_def split: if_splits)
  then show "fmlookup (st_schedules st) k = Some t \<Longrightarrow> (mission_key t, sc_cycle t) \<noteq> (mission_key s, sc_cycle s)"
    by (cases k) (auto simp: list_ex_iff set_bt_values mission_key_def)
qed

lemma create_schedule_tx:
  assumes "update_mission_and_create_schedule_atomic X m expected s events st = Ok st'"
    and "fmlookup (st_missions st) (mission_key s) = Some row" "\<not> waits row" and "prepare X m now = Ok s"
    and "ms_outcome_history m \<noteq> []"
  shows "pair_tx X st st'"
proof -
  obtain st1 st2 where cas: "update_mission_normalized_cas X m expected st = Ok st1"
    and ins: "insert_schedule s st1 = Ok st2" and ev: "append_pair_events m s events st2 = Ok st'"
    and "waits m"
    using assms(1) by (auto simp: update_mission_and_create_schedule_atomic_def split: if_splits)
  have "awaits (stored m) s"
    using \<open>waits m\<close> prepare_key [OF assms(4)] assms(5)
    by (simp add: awaits_def next_cycle_of_def stored_def stored_outcomes_def)
  moreover have "sched_inv s" "sched_open s"
    using prepare_inv [OF assms(4)] prepare_Ok [OF assms(4)] by simp_all
  moreover have "st_missions st' = st_missions st2" "st_schedules st' = st_schedules st2"
    using append_events_tables [OF ev [unfolded append_pair_events_def]] by simp_all
  ultimately show ?thesis
    using insert_schedule_Ok [OF ins] update_mission_cas_Ok(1,2) [OF cas] prepare_key(1) [OF assms(4)]
    by (intro pair_tx.waiting [OF assms(2,3)]) simp_all
qed

lemma mission_atomic_tx:
  assumes "update_mission_atomic X m expected events st = Ok st'"
    and "fmlookup (st_missions st) (ms_project_id m, ms_id m) = Some row" "\<not> waits row" "\<not> waits m"
  shows "pair_tx X st st'"
proof -
  obtain st1 where cas: "update_mission_normalized_cas X m expected st = Ok st1"
    and ev: "append_events (ms_tenant_id m) (ms_project_id m) (Some (ms_id m)) ''mission'' (ms_id m) events st1 = Ok st'"
    using assms(1) by (auto simp: update_mission_atomic_def split: if_splits)
  show ?thesis
    using update_mission_cas_Ok(1,2) [OF cas] append_events_tables [OF ev] assms(4)
    by (intro pair_tx.mission_moved [OF assms(2,3), of "stored m"]) simp_all
qed

lemma record_outcome_tx:
  "leaves (pair_tx X) st (app_record_outcome X p i summary decision metrics now st)"
  unfolding app_record_outcome_def Let_def
proof (intro leaves_rules)
  fix m u m' st'
  assume load: "load_mission X st p i = Ok m"
    and run: "record_outcome X \<lparr>ou_summary = summary, ou_decision = decision, ou_metrics = metrics,
      ou_observed_at = now\<rparr> m = (Ok u, m')"
  obtain row where row: "fmlookup (st_missions st) (ms_project_id m', ms_id m') = Some row" "\<not> waits row"
    using load_mission_Ok [OF load] record_outcome_stage [OF run] by auto
  let ?events = "[event_at ''outcome.observed'' now, event_at (mission_stage_event (ms_stage m')) now]"
  show "(pair_tx X)\<^sup>*\<^sup>* st st'" if "\<not> waits m'" "update_mission_atomic X m' (ms_revision m) ?events st = Ok st'"
    using mission_atomic_tx [OF that(2) row that(1)] by simp
  fix s assume "map_err AppSchedule (prepare X m' now) = Ok s"
    and "update_mission_and_create_schedule_atomic X m' (ms_revision m) s
         (?events @ [event_at ''mission.schedule_created'' now]) st = Ok st'"
  then show "(pair_tx X)\<^sup>*\<^sup>* st st'"
    using create_schedule_tx [of X m' _ s _ st st' row now] row prepare_key(1) [of X m' now s]
      record_outcome_OkD(1) [OF run]
    by auto
qed

text \<open>
  The expired schedules are read before the first of them is closed: a schedule of the list is
  still the stored one, or has been closed since.
\<close>

definition listed :: "project_store \<Rightarrow> mission_schedule \<Rightarrow> bool" where
  "listed st s \<longleftrightarrow> (\<exists>t. fmlookup (st_schedules st) (schedule_key s) = Some t \<and> (t = s \<or> \<not> sched_open t))"

lemma commit_pair_open:
  assumes "commit_pair X s es m em events st = Ok st'"
  shows "\<exists>t. fmlookup (st_schedules st) (schedule_key s) = Some t \<and> sched_open t"
proof -
  obtain t where "load_mission_schedule st (sc_project_id s) (sc_id s) = Ok t"
    and "validate_schedule_transition t s es = Ok ()"
    using assms by (auto simp: commit_pair_def)
  then show ?thesis
    by (cases "sc_status t") (auto simp: load_mission_schedule_def load_schedule_Ok schedule_key_def
        validate_schedule_transition_def split: if_splits)
qed

definition closing :: "'x ext_scheme \<Rightarrow> mission_schedule \<Rightarrow> project_store \<Rightarrow> project_store \<Rightarrow> bool" where
  "closing X s st st' \<longleftrightarrow> pair_tx X st st' \<and>
     (\<exists>t. st_schedules st' = fmupd (schedule_key s) t (st_schedules st) \<and> \<not> sched_open t)"

lemma closing_tx: "(closing X s)\<^sup>*\<^sup>* st st' \<Longrightarrow> (pair_tx X)\<^sup>*\<^sup>* st st'"
  by (rule mono_rtranclp [rule_format]) (simp_all add: closing_def)

lemma closing_listed: "(closing X s)\<^sup>*\<^sup>* st st' \<Longrightarrow> listed st t \<Longrightarrow> listed st' t"
  by (induction rule: rtranclp_induct) (auto simp: closing_def listed_def split: if_splits)

lemma close_expired_closing:
  assumes "listed st s"
  shows "leaves (closing X s) st (close_expired X now s st)"
  unfolding close_expired_def
proof (intro leaves_rules)
  fix m u s' u' m' st'
  let ?events = "[event_at ''mission.schedule_expired'' now, event_at ''mission.completed'' now]"
  assume lm: "load_mission X st (sc_project_id s) (sc_mission_id s) = Ok m"
    and stage: "\<not> (\<not> waits m \<or> ms_revision m \<noteq> sc_scheduled_from_mission_revision s)"
    and run: "sched_expire now s = (Ok u, s')" and ends: "terminate TermCompleted now m = (Ok u', m')"
    and commit: "expire_mission_schedule_and_complete_mission_atomic X s' (sc_revision s) m' (ms_revision m)
       ?events st = Ok st'"
  have step: "sched_step X now s s'" "\<not> sched_open s'"
    using run sched_expire_Ok [of now s s'] by (auto intro: sched_step.expired simp: sched_touch_def)
  have pair: "commit_pair X s' (sc_revision s) m' (ms_revision m) ?events st = Ok st'"
    "ms_project_id m' = sc_project_id s'" "ms_id m' = sc_mission_id s'"
    using commit by (auto simp: expire_mission_schedule_and_complete_mission_atomic_def split: if_splits)
  have "fmlookup (st_schedules st) (schedule_key s) = Some s"
    using commit_pair_open [OF pair(1)] assms sched_step_keys(1) [OF step(1)] by (auto simp: listed_def)
  then have "pair_tx X st st'"
    using closed_tx [OF _ step lm _ terminate_Ok(2) [OF ends] pair(2,3,1)] stage by simp
  then show "(closing X s)\<^sup>*\<^sup>* st st'"
    using step(2) commit_pair_Ok(2) [OF pair] sched_step_keys(1) [OF step(1)]
    by (intro r_into_rtranclp) (auto simp: closing_def)
qed

lemma close_all_expired_tx:
  "(\<And>s. s \<in> set ss \<Longrightarrow> listed st s) \<Longrightarrow> leaves (pair_tx X) st (close_all_expired X now ss report st)"
proof (induction ss arbitrary: report st)
  case (Cons s ss)
  have here: "leaves (closing X s) st (close_expired X now s st)"
    using Cons.prems by (simp add: close_expired_closing)
  show ?case
    unfolding close_all_expired.simps
  proof (intro leaves_then_with Cons.IH)
    show "leaves (pair_tx X) st (close_expired X now s st)"
      using here closing_tx by (auto simp: leaves_def)
    show "listed st' t" if "close_expired X now s st = (Ok u, st')" "t \<in> set ss" for u st' t
      using here closing_listed [of X s st st' t] Cons.prems [of t] that by (simp add: leaves_def)
  qed
qed (simp add: leaves_same)

lemma load_schedules_listed: "load_schedules st ids = Ok ss \<Longrightarrow> s \<in> set ss \<Longrightarrow> listed st s"
proof (induction st ids arbitrary: ss rule: load_schedules.induct)
  case (2 st p i ids)
  then show ?case by (auto simp: listed_def dest!: loaded_schedule)
qed simp

lemma reconcile_tx: "leaves (pair_tx X) st (reconcile_mission_schedules_on_startup X now st)"
  unfolding reconcile_mission_schedules_on_startup_def list_expired_mission_schedules_def
  by (intro leaves_stored_or close_all_expired_tx load_schedules_listed)

lemma commit_exhausted_tx:
  assumes "load_mission_schedule st p i = Ok s" and "sched_step X now s s'" and "\<not> sched_open s'"
    and "commit_exhausted_schedule_claim X s' expected now st = Ok st'"
  shows "(pair_tx X)\<^sup>*\<^sup>* st st'"
proof -
  obtain m u m' st1 rows where lm: "load_mission X st (sc_project_id s') (sc_mission_id s') = Ok m"
    and pair: "validate_schedule_mission_waiting_pair s' m = Ok ()"
    and ends: "terminate TermPartial now m = (Ok u, m')"
    and cas: "update_mission_normalized_cas X m' (ms_revision m) st = Ok st1"
    and row: "update_schedule_row (st_schedules st1) s' expected = Ok rows"
    and ev: "append_schedule_events s' [event_at ''mission.schedule_dead_lettered'' now,
        event_at ''mission.partial'' now] (st1\<lparr>st_schedules := rows\<rparr>) = Ok st'"
    using assms(4)
    by (auto simp: commit_exhausted_schedule_claim_def with_schedules_Ok dest!: committed_OkD)
  have "waits m" "ms_project_id m = sc_project_id s'" "ms_id m = sc_mission_id s'"
    using pair terminate_Ok(1) [OF ends]
    by (auto simp: validate_schedule_mission_waiting_pair_def stage_is_terminal_def split: if_splits)
  moreover obtain mrow where "fmlookup (st_missions st) (mission_key s) = Some mrow" "waits mrow"
    using load_mission_Ok [OF lm] \<open>waits m\<close> sched_step_keys(2) [OF assms(2)] by (auto simp: mission_key_def)
  moreover have "fmlookup (st_schedules st) (schedule_key s) = Some s"
    using assms(1) by (auto simp: load_mission_schedule_def load_schedule_Ok schedule_key_def)
  moreover have "mission_key s = (sc_project_id s', sc_mission_id s')" "schedule_key s = (sc_project_id s', sc_id s')"
    using sched_step_keys(1,2) [OF assms(2)] by (simp_all add: mission_key_def schedule_key_def)
  ultimately have "pair_tx X st st'"
    using append_events_tables [OF ev [unfolded append_schedule_events_def]]
      update_mission_cas_Ok(1,2) [OF cas] update_schedule_row_Ok(1) [OF row] terminate_Ok(2-4) [OF ends]
    by (intro pair_tx.closed [OF _ assms(2,3), where row = mrow and m = "stored m'"]) simp_all
  then show ?thesis by simp
qed

lemma claim_leases: "claim X owner token d now s = (Ok lease, s') \<Longrightarrow> sc_status s' = SchedLeased"
  by (erule claim_Ok) (simp add: sched_touch_def)

lemma claim_due_tx:
  assumes "claim_due_mission_schedule X owner token d now st = Ok (r, st')"
  shows "(pair_tx X)\<^sup>*\<^sup>* st st'"
proof (cases "sort_key claim_order (filter (\<lambda>s. claim_candidate s now) (bt_values (st_schedules st)))")
  case Nil
  with assms show ?thesis by (simp add: claim_due_mission_schedule_def)
next
  case (Cons c cs)
  obtain s where load: "load_mission_schedule st (sc_project_id c) (sc_id c) = Ok s"
    using assms Cons by (auto simp: claim_due_mission_schedule_def)
  obtain res s' where claim: "claim X owner token d now s = (res, s')"
    by (cases "claim X owner token d now s") auto
  note run = assms [unfolded claim_due_mission_schedule_def Cons list.case load and_then_simps claim Let_def prod.case]
  show ?thesis
  proof (cases "res = Err FailureLimitReached \<and> sc_status s' = SchedDeadLetter")
    case True
    with run have "commit_exhausted_schedule_claim X s' (sc_revision s) now st = Ok st'"
      by auto
    with True show ?thesis
      using claim commit_exhausted_tx [OF load sched_step.exhausted, of X owner token d now s']
      by simp
  next
    case False
    with run obtain lease rows where res: "res = Ok lease"
      and row: "update_schedule_row (st_schedules st) s' (sc_revision s) = Ok rows"
      and ev: "append_schedule_events s' [event_at ''mission.schedule_claimed'' now] (st\<lparr>st_schedules := rows\<rparr>) = Ok st'"
      by (auto simp: with_schedules_Ok split: if_splits)
    have step: "sched_step X now s s'"
      using claim res sched_step.claimed by blast
    moreover have "sched_open s'"
      using claim res claim_leases by blast
    moreover have "fmlookup (st_schedules st) (schedule_key s) = Some s"
      using load by (auto simp: load_mission_schedule_def load_schedule_Ok schedule_key_def)
    ultimately have "pair_tx X st st'"
      using append_events_tables [OF ev [unfolded append_schedule_events_def]]
        update_schedule_row_Ok(1) [OF row] sched_step_keys(1) [OF step]
      by (intro pair_tx.schedule_moved [of st s X now s' st']) (auto simp: schedule_key_def)
    then show ?thesis by simp
  qed
qed

lemma signal_tx: "leaves (pair_tx X) st (signal_mission_schedule_event X p i topic event payload now st)"
  unfolding signal_mission_schedule_event_def
proof (intro leaves_rules reconcile_tx)
  fix report st1 latest s changed s' st'
  assume latest: "latest_mission_schedule X st1 p i = Ok latest"
    and some: "ok_or MissionScheduleUnavailable latest = Ok s"
    and run: "signal_event topic (sha256 X event) payload now s = (Ok changed, s')" and changed
    and commit: "store_update_schedule s' (sc_revision s) [event_at ''mission.schedule_signalled'' now] st1 = Ok st'"
  from some have "latest = Some s"
    by simp
  with latest obtain c where load: "load_mission_schedule st1 p c = Ok s"
    by (auto simp: latest_mission_schedule_def split: list.splits)
  have "sched_step X now s s'" "sched_open s'"
    using run \<open>changed\<close> signal_event_Ok [of topic "sha256 X event" payload now s s']
    by (auto intro: sched_step.signalled simp: sched_touch_def)
  then show "(pair_tx X)\<^sup>*\<^sup>* st1 st'"
    using schedule_moved_tx load commit by blast
qed

lemma app_claim_tx: "leaves (pair_tx X) st (app_claim_due_mission_schedule X owner token d now st)"
  unfolding app_claim_due_mission_schedule_def
  by (intro leaves_rules reconcile_tx) (auto simp: leaves_def split: prod.splits dest: claim_due_tx)

lemma run_once_tx: "leaves (pair_tx X) st (run_due_mission_scheduler_once X key owner now st)"
  unfolding run_due_mission_scheduler_once_def Let_def
  by (intro leaves_rules app_claim_tx record_failure_tx start_cycle_tx)

end
