(* ===== verification/Checkpoint_Service.thy ===== *)
theory Checkpoint_Service
  imports Scheduler_Tx
begin

text \<open>
  The checkpoint services of \<open>application/src/lib.rs\<close>: starting a checkpoint with its task, starting
  its verification and completing it, each on the stored mission and committed with
  \<open>update_mission_atomic\<close>. A mission they change was running or verifying and does not start to
  wait for a cycle, so that what they commit is a \<open>mission_moved\<close> transaction.
\<close>

section \<open>Services\<close>

definition begin_mission_checkpoint ::
  "'x store_ext_scheme \<Rightarrow> string \<Rightarrow> string \<Rightarrow> string \<Rightarrow> time \<Rightarrow> project_store \<Rightarrow> mission service" where
  "begin_mission_checkpoint X project_id mission_id checkpoint_id now st =
     stored_or (load_mission X st project_id mission_id) st (\<lambda>m.
     attempt (ok_or InvalidCatalogMissionInput
       (Option.bind (ms_definition m) (\<lambda>d.
        map_option (\<lambda>route. (md_cycle d, rt_capability_id route))
          (Option.bind (checkpoint_named d checkpoint_id) cp_route)))) st (\<lambda>(cycle, capability).
     locally AppMission
       (begin_checkpoint_with_task checkpoint_id
          \<lparr>tk_id = ''mission-checkpoint-task:'' @ ms_id m @ '':'' @ checkpoint_id @ '':cycle:'' @ dec_u64 cycle,
           tk_title = ''Checkpoint: '' @ checkpoint_id, tk_status = TaskRunning, tk_capability = capability\<rparr>
          now m) st (\<lambda>_ m'.
     if \<not> is_some_and (\<lambda>c. cp_id c = checkpoint_id) (Option.bind (ms_definition m') current_checkpoint)
     then (Err InvalidCatalogMissionInput, st)
     else commit (update_mission_atomic X m' (ms_revision m)
            [event_at ''mission.checkpoint_started'' now] st) st m')))"

definition human_confirmation :: "mission_checkpoint_route \<Rightarrow> bool" where
  "human_confirmation route \<longleftrightarrow> rt_completion_policy route = Some HumanConfirmation"

text \<open>The route of the current checkpoint, if that is the checkpoint the caller names.\<close>

definition current_route :: "mission \<Rightarrow> string \<Rightarrow> mission_checkpoint_route option" where
  "current_route m checkpoint_id =
     Option.bind (ms_definition m) (\<lambda>d. Option.bind (current_checkpoint d) (\<lambda>c.
       if cp_id c = checkpoint_id then cp_route c else None))"

definition begin_mission_checkpoint_verification ::
  "'x store_ext_scheme \<Rightarrow> string \<Rightarrow> string \<Rightarrow> string \<Rightarrow> time \<Rightarrow> project_store \<Rightarrow> mission service" where
  "begin_mission_checkpoint_verification X project_id mission_id checkpoint_id now st =
     stored_or (load_mission X st project_id mission_id) st (\<lambda>m.
     if is_some_and human_confirmation (current_route m checkpoint_id)
     then (Err HumanCheckpointConfirmationRequired, st)
     else
       locally AppMission (begin_checkpoint_verification checkpoint_id now m) st (\<lambda>_ m'.
       if \<not> is_some_and (\<lambda>c. cp_id c = checkpoint_id) (Option.bind (ms_definition m') active_checkpoint)
       then (Err InvalidCatalogMissionInput, st)
       else commit (update_mission_atomic X m' (ms_revision m)
              [event_at ''mission.checkpoint_verification_started'' now] st) st m'))"

definition complete_mission_checkpoint_trusted ::
  "'x store_ext_scheme \<Rightarrow> mission \<Rightarrow> string \<Rightarrow> mission_checkpoint_completion \<Rightarrow> project_store \<Rightarrow> mission service" where
  "complete_mission_checkpoint_trusted X m checkpoint_id completion st =
     locally AppMission (complete_checkpoint X checkpoint_id completion m) st (\<lambda>_ m'.
     if Option.bind (ms_definition m') (\<lambda>d. checkpoint_named d checkpoint_id) = None
     then (Err InvalidCatalogMissionInput, st)
     else commit (update_mission_atomic X m' (ms_revision m)
            [event_at ''mission.checkpoint_completed'' (cc_verified_at completion)] st) st m')"

definition complete_mission_checkpoint ::
  "'x store_ext_scheme \<Rightarrow> string \<Rightarrow> string \<Rightarrow> string \<Rightarrow> mission_checkpoint_completion \<Rightarrow> project_store
     \<Rightarrow> mission service" where
  "complete_mission_checkpoint X project_id mission_id checkpoint_id completion st =
     stored_or (load_mission X st project_id mission_id) st (\<lambda>m.
     if is_some_and human_confirmation (current_route m checkpoint_id)
     then (Err HumanCheckpointConfirmationRequired, st)
     else if is_some_and (\<lambda>route. rt_executor route = ExApplication) (current_route m checkpoint_id)
     then (Err ApplicationCheckpointExecutionRequired, st)
     else complete_mission_checkpoint_trusted X m checkpoint_id completion st)"

section \<open>What they commit\<close>

text \<open>A command that neither finds nor leaves the mission waiting, and keeps its key.\<close>

definition keeps_working :: "mission \<Rightarrow> mission \<Rightarrow> bool" where
  "keeps_working m m' \<longleftrightarrow> \<not> waits m \<and> \<not> waits m' \<and> effect_frame m' = effect_frame m"

lemma keeps_workingI:
  assumes "rs = (Ok u, m')" and "effect_frame (snd rs) = effect_frame m" and "\<not> waits m" "\<not> waits m'"
  shows "keeps_working m m'"
  using assms by (simp add: keeps_working_def)

lemma begin_transition_stage:
  "begin_checkpoint_transition cid now m = (Ok u, m') \<Longrightarrow> \<not> waits m \<and> \<not> waits m'"
  by (auto simp: begin_checkpoint_transition_def require_stage_def touch_def Let_def split: if_splits prod.splits)

lemma begin_with_task_works:
  assumes "begin_checkpoint_with_task cid tk now m = (Ok u, m')"
  shows "keeps_working m m'"
proof (rule keeps_workingI [OF assms])
  show "effect_frame (snd (begin_checkpoint_with_task cid tk now m)) = effect_frame m"
    by (rule ef.begin_checkpoint_with_task_frame)
  show "\<not> waits m" "\<not> waits m'"
    using assms begin_transition_stage [of cid now m]
    by (auto simp: begin_checkpoint_with_task_def split: if_splits)
qed

lemma begin_verification_works:
  assumes "begin_checkpoint_verification cid now m = (Ok u, m')"
  shows "keeps_working m m'"
proof (rule keeps_workingI [OF assms])
  show "effect_frame (snd (begin_checkpoint_verification cid now m)) = effect_frame m"
    by (rule ef.begin_checkpoint_verification_frame)
  show "\<not> waits m" "\<not> waits m'"
    using assms
    by (auto simp: begin_checkpoint_verification_def require_stage_def touch_def Let_def
        split: if_splits prod.splits)
qed

lemma release_next_stage: "release_next m d = (Ok u, m') \<Longrightarrow> \<not> waits m'"
  by (auto simp: release_next_def Let_def split: option.splits)

lemma complete_works:
  assumes "complete_checkpoint X cid completion m = (Ok u, m')"
  shows "keeps_working m m'"
proof (rule keeps_workingI [OF assms])
  show "effect_frame (snd (complete_checkpoint X cid completion m)) = effect_frame m"
    by (rule ef.complete_checkpoint_frame)
  have "complete_checkpoint_validated X cid completion m = (Ok u, m')"
    using assms by (auto simp: complete_checkpoint_def split: if_splits)
  then show "\<not> waits m" "\<not> waits m'"
    by (auto simp: complete_checkpoint_validated_def require_stage_def touch_def Let_def
        dest!: release_next_stage split: if_splits prod.splits)
qed

lemma works_tx:
  assumes "load_mission X st p i = Ok m" and "keeps_working m m'"
    and "update_mission_atomic X m' expected events st = Ok st'"
  shows "(pair_tx X)\<^sup>*\<^sup>* st st'"
proof -
  obtain row where "fmlookup (st_missions st) (ms_project_id m', ms_id m') = Some row" "\<not> waits row"
    using load_mission_Ok [OF assms(1)] assms(2) effect_frame_key [of m' m] by (auto simp: keeps_working_def)
  then show ?thesis
    using mission_atomic_tx [OF assms(3)] assms(2) by (auto simp: keeps_working_def)
qed

lemma leaves_prod: "(\<And>x y. p = (x, y) \<Longrightarrow> leaves R st (f x y)) \<Longrightarrow> leaves R st (case p of (x, y) \<Rightarrow> f x y)"
  by (cases p) simp

lemma begin_checkpoint_tx: "leaves (pair_tx X) st (begin_mission_checkpoint X p i cid now st)"
  unfolding begin_mission_checkpoint_def
  by (intro leaves_rules leaves_prod; erule works_tx) (rule begin_with_task_works, assumption+)

lemma begin_verification_tx:
  "leaves (pair_tx X) st (begin_mission_checkpoint_verification X p i cid now st)"
  unfolding begin_mission_checkpoint_verification_def
  by (intro leaves_rules; erule works_tx) (rule begin_verification_works, assumption+)

lemma complete_checkpoint_tx:
  "leaves (pair_tx X) st (complete_mission_checkpoint X p i cid completion st)"
  unfolding complete_mission_checkpoint_def complete_mission_checkpoint_trusted_def
  by (intro leaves_rules; erule works_tx) (rule complete_works, assumption+)

end
