(* ===== verification/Mission_Sample.thy ===== *)
theory Mission_Sample
  imports Mission_Run
begin

text \<open>
  A mission carried through one cycle, command by command: research is started, evidence and a work
  product are recorded, a payment is proposed, approved, dispatched, receipted and verified, and an
  outcome sends the mission back to its schedule. The properties of missions are instantiated on
  these states.
\<close>

definition sample_evidence :: evidence where
  "sample_evidence = \<lparr>ev_id = ''e'', ev_title = ''t'', ev_source_uri = ''u'', ev_observed_at = 5,
     ev_confidence = 0, ev_status = EvConfirmed, ev_content_digest = sample_digest\<rparr>"

definition sample_product :: work_product where
  "sample_product = wp_draft sample_eext ''p'' ''t'' ''d'' {|''e''|}"

definition sample_state ::
  "mission_stage \<Rightarrow> evidence list \<Rightarrow> work_product list \<Rightarrow> effect list \<Rightarrow> outcome list \<Rightarrow> time \<Rightarrow> u64 \<Rightarrow> mission" where
  "sample_state stage es ws effs outs now revision =
     \<lparr>ms_tenant_id = ''t'', ms_id = ''m1'', ms_project_id = ''p'', ms_title = ''T'',
      ms_contract = sample_contract, ms_definition = None, ms_stage = stage, ms_tasks = [],
      ms_evidence = es, ms_work_products = ws, ms_effects = effs, ms_outcome_history = outs,
      ms_outcome = (if outs = [] then None else Some (last outs)), ms_block = None,
      ms_created_at = 0, ms_updated_at = now, ms_revision = revision\<rparr>"

lemma sample_state_simps [simp]:
  "ms_tenant_id (sample_state st es ws effs outs now n) = ''t''"
  "ms_id (sample_state st es ws effs outs now n) = ''m1''"
  "ms_project_id (sample_state st es ws effs outs now n) = ''p''"
  "ms_contract (sample_state st es ws effs outs now n) = sample_contract"
  "ms_definition (sample_state st es ws effs outs now n) = None"
  "ms_stage (sample_state st es ws effs outs now n) = st"
  "ms_tasks (sample_state st es ws effs outs now n) = []"
  "ms_evidence (sample_state st es ws effs outs now n) = es"
  "ms_work_products (sample_state st es ws effs outs now n) = ws"
  "ms_effects (sample_state st es ws effs outs now n) = effs"
  "ms_outcome_history (sample_state st es ws effs outs now n) = outs"
  "ms_revision (sample_state st es ws effs outs now n) = n"
  "ms_block (sample_state st es ws effs outs now n) = None"
  "ms_updated_at (sample_state st es ws effs outs now n) = now"
  by (simp_all add: sample_state_def)

definition sample_approval :: approval where
  "sample_approval = \<lparr>ap_id = ''a'', ap_decision = DecApproved, ap_decided_by = ''u'', ap_decided_at = 100,
     ap_valid_until = 9000, ap_scope_digest = replicate 64 (CHR ''0''), ap_permission_digest = sample_digest\<rparr>"

definition sample_receipt :: receipt where
  "sample_receipt = \<lparr>rc_id = ''r'', rc_provider = ''p'', rc_external_id = ''d'', rc_accepted_at = 300,
     rc_request_digest = replicate 64 (CHR ''0''), rc_response_digest = sample_digest\<rparr>"

definition sample_verification :: verification where
  "sample_verification = \<lparr>vf_id = ''v'', vf_status = VerConfirmed, vf_verifier = ''s'', vf_independent = True,
     vf_observed_at = 400, vf_evidence_digest = sample_digest, vf_receipt_id = ''r''\<rparr>"

definition effect_0 :: effect where
  "effect_0 = new_effect (sample_state StageRunning [] [] [] [] 0 1) sample_effect_spec"

definition effect_1 :: effect where
  "effect_1 = effect_0\<lparr>ef_status := EffApproved, ef_approval := Some sample_approval\<rparr>"

definition effect_2 :: effect where
  "effect_2 = effect_1\<lparr>ef_status := EffExecuting\<rparr>"

definition effect_3 :: effect where
  "effect_3 = effect_2\<lparr>ef_receipt := Some sample_receipt, ef_status := EffReceiptRecorded\<rparr>"

definition effect_4 :: effect where
  "effect_4 = effect_3\<lparr>ef_status := EffVerified, ef_verification := Some sample_verification\<rparr>"

lemma sample_hash [simp]: "approval_digest sample_eext e = replicate 64 (CHR ''0'')"
  by (simp add: approval_digest_def sample_ext_def)

lemma effect_selectors [simp]:
  "es_id effect_0 = ''e1''" "es_expires_at effect_0 = 9000" "es_provider effect_0 = ''p''"
  "es_idempotency_key effect_0 = ''i''" "ef_status effect_0 = EffProposed" "ef_approval effect_0 = None"
  by (simp_all add: effect_0_def new_effect_def effect_spec.defs sample_effect_spec_def)

definition mission_0 :: mission where "mission_0 = sample_state StageReady [] [] [] [] 0 1"
definition mission_1 :: mission where "mission_1 = sample_state StageRunning [] [] [] [] 10 2"
definition mission_2 :: mission where "mission_2 = sample_state StageRunning [sample_evidence] [] [] [] 20 3"
definition mission_3 :: mission where
  "mission_3 = sample_state StageRunning [sample_evidence] [sample_product\<lparr>wp_status := WpReadyForReview\<rparr>] [] [] 30 4"
definition mission_4 :: mission where
  "mission_4 = sample_state StageWaitingApproval [sample_evidence] [sample_product\<lparr>wp_status := WpReadyForReview\<rparr>]
     [effect_0] [] 40 5"
definition mission_5 :: mission where
  "mission_5 = sample_state StageRunning [sample_evidence] [sample_product\<lparr>wp_status := WpReadyForReview\<rparr>]
     [effect_1] [] 100 6"
definition mission_6 :: mission where
  "mission_6 = sample_state StageRunning [sample_evidence] [sample_product\<lparr>wp_status := WpReadyForReview\<rparr>]
     [effect_2] [] 200 7"
definition mission_7 :: mission where
  "mission_7 = sample_state StageVerifying [sample_evidence] [sample_product\<lparr>wp_status := WpReadyForReview\<rparr>]
     [effect_3] [] 300 8"
definition mission_8 :: mission where
  "mission_8 = sample_state StageVerifying [sample_evidence] [sample_product\<lparr>wp_status := WpReadyForReview\<rparr>]
     [effect_4] [] 400 9"
definition mission_9 :: mission where
  "mission_9 = sample_state StageScheduled [sample_evidence] [sample_product\<lparr>wp_status := WpReadyForReview\<rparr>]
     [effect_4] [sample_outcome] (seconds 3000) 10"

lemmas mission_states = mission_0_def mission_1_def mission_2_def mission_3_def mission_4_def mission_5_def
  mission_6_def mission_7_def mission_8_def mission_9_def

lemma sample_touchable [simp]:
  "n \<in> {1, 2, 3, 4, 5, 6, 7, 8, 9, 10} \<Longrightarrow> ensure_touchable (sample_state st es ws effs outs now n) = Ok ()"
  by (auto simp: ensure_touchable_def checked_add_def)

lemma touch_sample:
  "touch now (sample_state st es ws effs outs now' n) = sample_state st es ws effs outs now (n + 1)"
  by (simp add: touch_def sample_state_def)

lemma set_effect_sample:
  "set_effect ''e1'' e (sample_state st es ws [e'] outs now n) =
     (if es_id e' = ''e1'' then sample_state st es ws [e] outs now n else sample_state st es ws [e'] outs now n)"
  by (simp add: set_effect_def sample_state_def)

lemma sample_updates [simp]:
  "(sample_state st es ws effs outs now n)\<lparr>ms_stage := st'\<rparr> = sample_state st' es ws effs outs now n"
  "(sample_state st es ws effs outs now n)\<lparr>ms_evidence := es'\<rparr> = sample_state st es' ws effs outs now n"
  "(sample_state st es ws effs outs now n)\<lparr>ms_work_products := ws'\<rparr> = sample_state st es ws' effs outs now n"
  "(sample_state st es ws effs outs now n)\<lparr>ms_effects := effs'\<rparr> = sample_state st es ws effs' outs now n"
  "(sample_state st es ws effs outs now n)\<lparr>ms_tasks := []\<rparr> = sample_state st es ws effs outs now n"
  "(sample_state st es ws effs outs now n)\<lparr>ms_block := None\<rparr> = sample_state st es ws effs outs now n"
  by (simp_all add: sample_state_def)

lemma catalog_none [simp]:
  "set_catalog_checkpoint_status status block (sample_state st es ws effs outs now n) =
     (Ok (), sample_state st es ws effs outs now n)"
  by (simp add: set_catalog_checkpoint_status_def)

lemma sample_compile: "compile ''t'' ''m1'' ''p'' ''T'' sample_contract 0 = Ok mission_0"
proof -
  have "trim ''T'' = ''T''" by code_simp
  moreover have "contract_validate sample_contract 0 = Ok ()"
    by (rule sample_contract_valid) (simp_all add: seconds_def nanos_per_second_def)
  moreover have "oc_goal sample_contract = ''g''"
    by (simp add: sample_contract_def)
  ultimately show ?thesis
    by (simp add: compile_def sample_names mission_0_def sample_state_def)
qed

lemma mission_step_1: "mission_apply sample_eext (StartResearch [] 10) mission_0 = (Ok (), mission_1)"
  by (simp add: start_research_def require_stage_def start_tasks_def touch_sample mission_states)

lemma mission_step_2: "mission_apply sample_eext (RecordEvidence sample_evidence 20) mission_1 = (Ok (), mission_2)"
  by (simp add: record_evidence_def require_stage_def touch_sample mission_states)

lemma mission_step_3: "mission_apply sample_eext (RecordWorkProduct sample_product 30) mission_2 = (Ok (), mission_3)"
proof -
  have "wp_validate sample_eext sample_product = Ok ()"
    by (simp add: wp_validate_def sample_product_def wp_draft_def sample_names wp_content_digest_of_def)
      code_simp
  then show ?thesis
    by (simp add: record_work_product_def require_stage_def require_evidence_def touch_sample mission_states
        sample_product_def wp_draft_def sample_evidence_def)
qed

lemma mission_step_4: "mission_apply sample_eext (ProposeEffect sample_effect_spec 40) mission_3 = (Ok (), mission_4)"
proof -
  have names: "\<not> blank ''i''" "\<not> blank ''write''"
    by code_simp+
  have "validate_effect_spec mission_3 sample_effect_spec 40 = Ok ()"
    by (simp add: validate_effect_spec_def sample_effect_spec_def mission_3_def sample_contract_def names
        is_positive_def validate_effect_connection_scope_def validate_effect_content_scope_def
        validate_effect_consent_scope_def sample_names sample_digest_hex)
  then show ?thesis
    by (simp add: propose_effect_def require_stage_def mission_states touch_sample effect_0_def
        new_effect_def)
qed

lemma mission_step_5: "mission_apply sample_eext (ApproveEffect ''e1'' sample_approval) mission_4 = (Ok (), mission_5)"
proof -
  have "oc_valid_until sample_contract = seconds 2592000"
    "validity_seconds (oc_approval_policy sample_contract) = 3600"
    by (simp_all add: sample_contract_def)
  then have "approval_valid_until sample_eext mission_4 ''e1'' 100 = Ok 9000"
    by (simp add: approval_valid_until_def effect_of_def mission_4_def u64_to_i64_def sample_ext_def
        checked_i64_def in_i64_def seconds_def nanos_per_second_def min_def)
  then show ?thesis
    by (simp add: approve_effect_def mission_states sample_approval_def effect_of_def sample_names
        sample_digest_hex after_decision_def any_effect_def set_effect_sample touch_sample effect_1_def)
qed

lemma effect_statuses [simp]:
  "es_id effect_1 = ''e1''" "ef_status effect_1 = EffApproved" "ef_approval effect_1 = Some sample_approval"
  "es_id effect_2 = ''e1''" "ef_status effect_2 = EffExecuting"
  "es_id effect_3 = ''e1''" "ef_status effect_3 = EffReceiptRecorded" "ef_receipt effect_3 = Some sample_receipt"
  "es_id effect_4 = ''e1''" "ef_status effect_4 = EffVerified"
  "es_expires_at effect_1 = 9000" "es_expires_at effect_2 = 9000" "es_provider effect_2 = ''p''"
  "ef_approval effect_2 = Some sample_approval"
  by (simp_all add: effect_1_def effect_2_def effect_3_def effect_4_def)

lemma mission_step_6: "mission_apply sample_eext (BeginEffect ''e1'' 200) mission_5 = (Ok (), mission_6)"
  by (simp add: begin_effect_def mission_states effect_of_def set_effect_sample touch_sample
      sample_approval_def flip: effect_2_def)

lemma mission_step_7: "mission_apply sample_eext (RecordReceipt ''e1'' sample_receipt) mission_6 = (Ok (), mission_7)"
  by (simp add: record_receipt_def mission_states effect_of_def set_effect_sample touch_sample
      validate_receipt_scope_def sample_receipt_def sample_approval_def sample_names sample_digest_hex effect_3_def)

lemma mission_step_8:
  "mission_apply sample_eext (RecordVerification ''e1'' sample_verification) mission_7 = (Ok (), mission_8)"
  by (simp add: record_verification_def mission_states effect_of_def set_effect_sample touch_sample
      sample_receipt_def sample_verification_def sample_names sample_digest_hex any_effect_def effect_4_def)

lemma mission_step_9: "mission_apply sample_eext (RecordOutcome sample_outcome) mission_8 = (Ok (), mission_9)"
proof -
  have "next_stage_after_outcome sample_eext sample_contract OutContinue (seconds 3000) = Ok StageScheduled"
    by (simp add: next_stage_after_outcome_def cadence_has_future_authority_def sample_contract_def
        sample_cadence_def next_interval_due_at_def u64_to_i64_def checked_i64_def in_i64_def
        sample_ext_def num_seconds_def seconds_def nanos_per_second_def)
  moreover have "\<not> blank ''o''" by code_simp
  ultimately show ?thesis
    by (simp add: record_outcome_def mission_states require_stage_def any_effect_def sample_names
        sample_outcome_def) (simp add: sample_state_def touch_def)
qed

section \<open>The run\<close>

lemma commits_run: "mission_apply X cmd m = (Ok (), m') \<Longrightarrow> (mission_commits X)\<^sup>*\<^sup>* m0 m \<Longrightarrow> (mission_commits X)\<^sup>*\<^sup>* m0 m'"
  by (erule rtranclp.rtrancl_into_rtrancl) (auto simp: mission_commits_def)

lemma commits_next_run: "(mission_commits X)\<^sup>*\<^sup>* m m' \<Longrightarrow> (mission_next X)\<^sup>*\<^sup>* m m'"
  by (erule mono_rtranclp [rule_format, rotated]) (rule mission_commits_next)

lemma sample_run_5: "(mission_commits sample_eext)\<^sup>*\<^sup>* mission_0 mission_5"
  by (rule commits_run [OF mission_step_5 commits_run [OF mission_step_4 commits_run [OF mission_step_3
        commits_run [OF mission_step_2 commits_run [OF mission_step_1 rtranclp.rtrancl_refl]]]]])

lemma sample_run_6_9: "(mission_commits sample_eext)\<^sup>*\<^sup>* mission_6 mission_9"
  by (rule commits_run [OF mission_step_9 commits_run [OF mission_step_8 commits_run [OF mission_step_7
        rtranclp.rtrancl_refl]]])

lemma sample_run_9: "(mission_commits sample_eext)\<^sup>*\<^sup>* mission_0 mission_9"
  by (rule rtranclp_trans [OF commits_run [OF mission_step_6 sample_run_5] sample_run_6_9])

lemma sample_compiled: "compiled sample_eext mission_0"
  unfolding compiled_def using sample_compile by blast

end
