(* ===== verification/Scheduler_Sample.thy ===== *)
theory Scheduler_Sample
  imports Scheduler Mission_Sample
begin

text \<open>
  A catalog mission carried by the scheduler services from the outcome of its first cycle to the
  start of its second: the outcome is recorded, the schedule that was prepared with it is claimed
  when it is due, and the claimant starts the cycle; or the contract ends first, and reconciliation
  closes both. The properties of the scheduler are instantiated on these stores.
\<close>

definition sample_sext :: store_ext where
  "sample_sext = ext.extend sample_ext \<lparr>sql_accepts = (\<lambda>_ _. True)\<rparr>"

lemma sample_sext_simps [simp]:
  "sha256 sample_sext = sha256 sample_ext" "rfc3339 sample_sext = rfc3339 sample_ext"
  "add_signed sample_sext = add_signed sample_ext" "dur_seconds sample_sext = dur_seconds sample_ext"
  "sql_accepts sample_sext rows m"
  by (simp_all add: sample_sext_def ext.defs)

lemma sample_sext_sha256: "sha256_hex sample_sext"
  using sample_ext_sha256 by (simp add: sha256_hex_def)

section \<open>States\<close>

definition cycle_checkpoint :: "mission_checkpoint_status \<Rightarrow> u64 \<Rightarrow> u32 \<Rightarrow> time option \<Rightarrow> mission_checkpoint" where
  "cycle_checkpoint status revision att started =
     \<lparr>cp_id = ''c'', cp_depends_on = {||},
      cp_route = Some \<lparr>rt_capability_id = ''c'', rt_executor = ExRuntime, rt_oracle_ids = {||}, rt_completion_policy = None\<rparr>,
      cp_status = status, cp_revision = revision, cp_attempt = att, cp_started_at = started, cp_block = None,
      cp_completion = None\<rparr>"

definition cycle_definition :: "mission_checkpoint \<Rightarrow> u64 \<Rightarrow> mission_definition" where
  "cycle_definition c n = \<lparr>md_manifest_id = ''m'', md_manifest_version = 1, md_catalog_digest = sample_digest,
     md_operating_mode = ContinuousOperator, md_capability_ids = {|''c''|},
     md_required_artifact_types = {|''a''|}, md_oracle_ids = {|''g''|}, md_checkpoints = [c], md_cycle = n\<rparr>"

definition cycle_mission :: "mission_definition \<Rightarrow> mission_stage \<Rightarrow> task list \<Rightarrow> outcome list \<Rightarrow> time \<Rightarrow> u64 \<Rightarrow> mission" where
  "cycle_mission d stage tasks outs now n =
     (sample_state stage [] [] [] outs now n)\<lparr>ms_definition := Some d, ms_tasks := tasks\<rparr>"

definition first_cycle :: mission where
  "first_cycle = cycle_mission (cycle_definition (cycle_checkpoint CpSkipped 1 0 None) 1) StageRunning [] [] 10 2"

definition waiting_cycle :: mission where
  "waiting_cycle = cycle_mission (cycle_definition (cycle_checkpoint CpSkipped 1 0 None) 1) StageScheduled []
     [sample_outcome] (seconds 3000) 3"

definition cycle_task :: task where
  "cycle_task = \<lparr>tk_id = ''t'', tk_title = ''T'', tk_status = TaskRunning, tk_capability = ''c''\<rparr>"

definition second_cycle :: mission where
  "second_cycle = cycle_mission (cycle_definition (cycle_checkpoint CpRunning 3 1 (Some (seconds 3710))) 2)
     StageRunning [cycle_task] [sample_outcome] (seconds 3710) 4"

definition cycle_schedule :: mission_schedule where
  "cycle_schedule =
     \<lparr>sc_id = ''mission-schedule:m1:cycle:2'', sc_tenant_id = ''t'', sc_project_id = ''p'',
      sc_mission_id = ''m1'', sc_cycle = 2, sc_scheduled_from_mission_revision = 3,
      sc_contract_version = 1, sc_definition_cycle = Some 1, sc_trigger = Interval,
      sc_interval_seconds = 3600, sc_anchor_at = seconds 100, sc_event_topics = {||},
      sc_due_at = Some (seconds 3700), sc_retry_not_before = None,
      sc_contract_valid_until = seconds 2592000, sc_signal = None, sc_status = SchedPending,
      sc_lease_generation = 0, sc_lease = None, sc_failures = [], sc_revision = 1,
      sc_created_at = seconds 3000, sc_updated_at = seconds 3000\<rparr>"

definition cycle_lease :: mission_schedule_lease where
  "cycle_lease =
     \<lparr>sl_owner_digest = replicate 64 (CHR ''0''), sl_token_digest = replicate 64 (CHR ''0''), sl_generation = 1,
      sl_claimed_at = seconds 3700, sl_heartbeat_at = seconds 3700, sl_expires_at = seconds 3760\<rparr>"

definition leased_schedule :: mission_schedule where
  "leased_schedule = cycle_schedule\<lparr>sc_status := SchedLeased, sc_lease_generation := 1,
     sc_lease := Some cycle_lease, sc_revision := 2, sc_updated_at := seconds 3700\<rparr>"

definition triggered_schedule :: mission_schedule where
  "triggered_schedule = leased_schedule\<lparr>sc_status := SchedTriggered, sc_revision := 3, sc_updated_at := seconds 3710\<rparr>"

definition completed_cycle :: mission where
  "completed_cycle = cycle_mission (cycle_definition (cycle_checkpoint CpSkipped 1 0 None) 1) StageCompleted []
     [sample_outcome] (seconds 2592000) 4"

definition expired_schedule :: mission_schedule where
  "expired_schedule = cycle_schedule\<lparr>sc_status := SchedExpired, sc_revision := 2, sc_updated_at := seconds 2592000\<rparr>"

definition cycle_store :: project_store where
  "cycle_store =
     \<lparr>st_projects = fmap_of_list [(''p'', ''t'')], st_missions = fmap_of_list [((''p'', ''m1''), first_cycle)],
      st_schedules = fmempty, st_events = [], st_outbox = []\<rparr>"

lemmas cycle_states = first_cycle_def waiting_cycle_def second_cycle_def cycle_schedule_def leased_schedule_def
  triggered_schedule_def cycle_lease_def completed_cycle_def expired_schedule_def

section \<open>Missions\<close>

lemma cycle_checkpoint_valid:
  assumes "revision \<noteq> 0" and "status \<in> {CpReady, CpSkipped, CpRunning}" and "att = 0 \<longrightarrow> started = None"
  shows "checkpoint_is_valid X (cycle_definition c n) (cycle_checkpoint status revision att started) {||}"
  using assms by (auto simp: checkpoint_is_valid_def cycle_checkpoint_def cycle_definition_def route_validate_def sample_names)

lemma cycle_definition_valid:
  assumes "revision \<noteq> 0" and "status \<in> {CpReady, CpSkipped, CpRunning}" and "att = 0 \<longrightarrow> started = None" and "n \<noteq> 0"
  shows "definition_validate X (cycle_definition (cycle_checkpoint status revision att started) n) = Ok ()"
proof -
  have "routes_ok (cycle_definition (cycle_checkpoint status revision att started) n)"
    by (simp add: routes_ok_def cycle_definition_def cycle_checkpoint_def is_contracted_def map_filter_simps)
  moreover have "fcard {|''c''|} = 1"
    by (simp add: fcard.rep_eq)
  ultimately show ?thesis
    using cycle_checkpoint_valid [OF assms(1-3), of X "cycle_checkpoint status revision att started" n] assms
    by (auto simp: definition_validate_def cycle_definition_def cycle_checkpoint_def sample_names sample_digest_hex
        cp_is_active_def Let_def)
qed

lemma outcome_recorded:
  "record_outcome sample_sext sample_outcome first_cycle = (Ok (), waiting_cycle)"
proof -
  have "next_stage_after_outcome sample_sext sample_contract OutContinue (seconds 3000) = Ok StageScheduled"
    by (simp add: next_stage_after_outcome_def cadence_has_future_authority_def sample_contract_def
        sample_cadence_def next_interval_due_at_def u64_to_i64_def checked_i64_def in_i64_def
        sample_ext_def num_seconds_def seconds_def nanos_per_second_def)
  moreover have "\<not> blank ''o''" by code_simp
  ultimately show ?thesis
    by (simp add: record_outcome_def first_cycle_def waiting_cycle_def cycle_mission_def sample_state_def require_stage_def
        any_effect_def cycle_definition_def cycle_checkpoint_def cp_is_terminal_def sample_outcome_def
        ensure_touchable_def touch_def checked_add_def)
qed

lemma cycle_started:
  "start_scheduled_cycle sample_sext 2 [cycle_task] (seconds 3710) waiting_cycle = (Ok (), second_cycle)"
proof -
  have "definition_validate sample_sext (cycle_definition (cycle_checkpoint CpReady 2 0 None) 2) = Ok ()"
    by (rule cycle_definition_valid) simp_all
  moreover have "contract_validate sample_contract (seconds 3710) = Ok ()"
    by (rule sample_contract_valid) simp_all
  moreover have "fcard {|''t''|} = 1"
    by (simp add: fcard.rep_eq)
  ultimately show ?thesis
    by (simp add: start_scheduled_cycle_def waiting_cycle_def second_cycle_def cycle_mission_def sample_state_def
        require_stage_def usize_to_u64_def checked_add_def validate_first_checkpoint_tasks_def cycle_definition_def
        cycle_checkpoint_def cycle_task_def sample_names ensure_touchable_def reset_for_next_cycle_def
        cp_is_terminal_def start_first_checkpoint_def start_tasks_def touch_def Let_def)
qed

section \<open>Schedules\<close>

lemma cycle_due:
  "next_interval_due_at sample_sext sample_cadence (seconds 3000) = Ok (Some (seconds 3700))"
  by (simp add: next_interval_due_at_def sample_ext_def sample_cadence_def u64_to_i64_def
      checked_i64_def in_i64_def num_seconds_def seconds_def nanos_per_second_def)

lemma cycle_schedules_valid:
  "schedule_validate cycle_schedule = Ok ()" "schedule_validate leased_schedule = Ok ()"
  "schedule_validate triggered_schedule = Ok ()" "schedule_validate expired_schedule = Ok ()"
  by (simp_all add: schedule_validate_def cycle_states sample_names sample_digest_hex
      trigger_shape_is_valid_def max_failures_def checked_add_def)

lemma cycle_prepared: "prepare sample_sext waiting_cycle (seconds 3000) = Ok cycle_schedule"
  unfolding prepare_def waiting_cycle_def cycle_mission_def
  using cycle_schedules_valid(1) sample_contract_valid [of "seconds 3000"]
  by (simp add: sample_selectors cycle_due sample_dec cycle_schedule_def usize_to_u64_def
      cycle_definition_def checked_add_def Let_def sample_state_def)

lemma cycle_claimed:
  "claim sample_sext (replicate 64 (CHR ''0'')) (replicate 64 (CHR ''0'')) (seconds 60) (seconds 3700) cycle_schedule
     = (Ok cycle_lease, leased_schedule)"
  using cycle_schedules_valid(1,2)
  by (simp add: claim_def sample_digest_hex max_lease_seconds_def
      cycle_schedule_def is_due_def sample_add_signed checked_add_def sched_touch_defs
      leased_schedule_def cycle_lease_def Let_def)

lemma cycle_triggered:
  "mark_triggered (replicate 64 (CHR ''0'')) (replicate 64 (CHR ''0'')) 1 second_cycle (seconds 3710) leased_schedule
     = (Ok (), triggered_schedule)"
  using cycle_schedules_valid(2,3)
  by (simp add: mark_triggered_def verify_lease_def cycle_states cycle_mission_def sample_state_def
      cycle_definition_def usize_to_u64_def checked_add_def sched_touch_defs Let_def)

section \<open>Stores\<close>

text \<open>A store with one mission and, when there is one, its schedule; its events do not matter.\<close>

definition holds :: "project_store \<Rightarrow> mission \<Rightarrow> mission_schedule option \<Rightarrow> bool" where
  "holds st m s \<longleftrightarrow> st_projects st = fmap_of_list [(''p'', ''t'')] \<and>
     st_missions st = fmap_of_list [((''p'', ''m1''), m)] \<and>
     st_schedules st = (case s of None \<Rightarrow> fmempty
       | Some s \<Rightarrow> fmap_of_list [((''p'', ''mission-schedule:m1:cycle:2''), s)])"

lemma bt_values_small: "bt_values fmempty = []" "bt_values (fmupd k v fmempty) = [v]"
  by (simp_all add: bt_values_alt sorted_list_of_fset.rep_eq fmap_of_list_simps)

lemma append_events_holds:
  assumes "holds st m s" and "list_all (\<lambda>e. \<not> blank (pe_event_type e)) events"
  shows "\<exists>st'. append_events t p i a k events st = Ok st' \<and> holds st' m s"
  using assms
proof (induction events arbitrary: st)
  case (Cons e events)
  have "holds (append_event t p i a k e st) m s"
    using Cons.prems(1) by (simp add: holds_def append_event_def)
  then show ?case
    using Cons by simp
qed simp

lemma event_names:
  "\<not> blank ''outcome.observed''" "\<not> blank ''mission.scheduled''" "\<not> blank ''mission.schedule_created''"
  "\<not> blank ''mission.schedule_expired''" "\<not> blank ''mission.completed''" "\<not> blank ''mission.schedule_claimed''" "\<not> blank ''mission.schedule_triggered''" "\<not> blank ''mission.cycle_started''"
  by code_simp+

lemma to_sql_small: "n \<in> {0, 1, 2, 3, 4} \<Longrightarrow> to_sql_u64 n = Ok (uint n)"
  by (auto simp: to_sql_u64_def u64_to_i64_def checked_i64_def in_i64_def)

lemma ordinals_small: "n \<le> 1 \<Longrightarrow> insert_ordinals n = Ok ()"
  by (auto simp: insert_ordinals_def to_sql_usize_def checked_i64_def in_i64_def le_Suc_eq)

lemma cycle_matches: "definition_matches_contract (cycle_mission d stage tasks outs now r) (cycle_definition c n)"
  by (simp add: definition_matches_contract_def cycle_mission_def cycle_definition_def sample_state_def sample_contract_def)

lemma cycle_mission_children:
  assumes "revision \<in> {1, 3}" and "status \<in> {CpSkipped, CpRunning}" and "att = 0 \<longrightarrow> started = None"
    and "n \<in> {1, 2}" and "length tasks \<le> 1" and "length outs \<le> 1"
  shows "replace_mission_children sample_sext rows
    (cycle_mission (cycle_definition (cycle_checkpoint status revision att started) n) stage tasks outs now r) = Ok ()"
proof -
  let ?m = "cycle_mission (cycle_definition (cycle_checkpoint status revision att started) n) stage tasks outs now r"
  have "definition_validate sample_sext (cycle_definition (cycle_checkpoint status revision att started) n) = Ok ()"
    using assms by (intro cycle_definition_valid) auto
  moreover have "to_sql_u64 n = Ok (uint n)" "to_sql_u64 revision = Ok (uint revision)"
    using assms by (auto intro!: to_sql_small)
  moreover have "md_cycle (cycle_definition c n) = n" "fcard (md_capability_ids (cycle_definition c n)) = 1"
    "fcard (md_required_artifact_types (cycle_definition c n)) = 1" "fcard (md_oracle_ids (cycle_definition c n)) = 1"
    "md_checkpoints (cycle_definition c n) = [c]" "cp_revision (cycle_checkpoint status revision att started) = revision" for c
    by (simp_all add: cycle_definition_def cycle_checkpoint_def fcard.rep_eq)
  moreover have "to_sql_usize 0 = Ok 0"
    by (simp add: to_sql_usize_def checked_i64_def in_i64_def)
  ultimately have "insert_mission_definition sample_sext ?m = Ok ()"
    using cycle_matches
    by (simp add: insert_mission_definition_def cycle_mission_def ordinals_small insert_mission_checkpoint_def)
  moreover have "length (stored_outcomes ?m) \<le> 1"
    using assms(6) by (auto simp: stored_outcomes_def cycle_mission_def sample_state_def)
  ultimately show ?thesis
    using assms(5)
    by (simp add: replace_mission_children_def insert_mission_tasks_def insert_mission_evidence_def
        insert_mission_work_products_def insert_mission_effects_def insert_mission_outcomes_def ordinals_small
        cycle_mission_def)
qed

lemma cycle_mission_loads:
  assumes "holds st (cycle_mission (cycle_definition (cycle_checkpoint CpSkipped 1 0 None) 1) stage [] outs now r) s"
  shows "load_mission sample_sext st ''p'' ''m1'' =
    Ok (cycle_mission (cycle_definition (cycle_checkpoint CpSkipped 1 0 None) 1) stage [] outs now r)"
proof -
  let ?d = "cycle_definition (cycle_checkpoint CpSkipped 1 0 None) 1"
  let ?m = "cycle_mission ?d stage [] outs now r"
  have "definition_validate sample_sext ?d = Ok ()"
    by (rule cycle_definition_valid) simp_all
  moreover have "ms_definition ?m = Some ?d" "?m\<lparr>ms_project_id := ''p'', ms_id := ''m1''\<rparr> = ?m"
    by (simp_all add: cycle_mission_def sample_state_def)
  moreover from calculation have "validate_checkpoint_evidence_scope sample_sext ?m = Ok ()"
    by (simp add: validate_checkpoint_evidence_scope_def cycle_definition_def cycle_checkpoint_def)
  ultimately show ?thesis
    using assms cycle_matches by (simp add: load_mission_def load_mission_normalized_def holds_def)
qed

lemma cycle_cas:
  assumes "holds st (cycle_mission d0 stage0 tasks0 outs0 now0 r0) s" and "r0 \<in> {2, 3}" "r \<in> {3, 4}"
    and "revision \<in> {1, 3}" and "status \<in> {CpSkipped, CpRunning}" and "att = 0 \<longrightarrow> started = None"
    and "n \<in> {1, 2}" and "length tasks \<le> 1" and "length outs = 1"
  shows "\<exists>st'. update_mission_normalized_cas sample_sext
      (cycle_mission (cycle_definition (cycle_checkpoint status revision att started) n) stage tasks outs now r) r0 st = Ok st'
    \<and> holds st' (cycle_mission (cycle_definition (cycle_checkpoint status revision att started) n) stage tasks outs now r) s"
proof -
  let ?m = "cycle_mission (cycle_definition (cycle_checkpoint status revision att started) n) stage tasks outs now r"
  have "stored ?m = ?m"
    using assms(9) by (auto simp: stored_def stored_outcomes_def cycle_mission_def sample_state_def)
  moreover have "replace_mission_children sample_sext rows ?m = Ok ()" for rows
    using assms by (intro cycle_mission_children) auto
  moreover have "to_sql_u64 r = Ok (uint r)" "to_sql_u64 r0 = Ok (uint r0)"
    using assms(2,3) by (auto intro!: to_sql_small)
  moreover have "fmlookup (st_missions st) (''p'', ''m1'') = Some (cycle_mission d0 stage0 tasks0 outs0 now0 r0)"
    using assms(1) by (simp add: holds_def)
  ultimately show ?thesis
    using assms(1)
    by (simp add: update_mission_normalized_cas_def cycle_mission_def sample_state_def holds_def fmap_of_list_simps)
qed

section \<open>Services\<close>

lemma cycle_fields:
  "sc_project_id s = ''p''" "sc_id s = ''mission-schedule:m1:cycle:2''" "sc_mission_id s = ''m1''" "sc_tenant_id s = ''t''"
  "sc_cycle s = 2" "sc_scheduled_from_mission_revision s = 3" "schedule_values s = Ok ()" "schedule_validate s = Ok ()"
  if "s \<in> {cycle_schedule, leased_schedule, triggered_schedule, expired_schedule}"
  using that cycle_schedules_valid
  by (auto simp: cycle_states schedule_values_def to_sql_small) (auto simp: to_sql_u64_def u64_to_i64_def checked_i64_def in_i64_def)

lemma mission_fields:
  "ms_project_id m = ''p''" "ms_id m = ''m1''" "ms_tenant_id m = ''t''"
  if "m \<in> {first_cycle, waiting_cycle, second_cycle, completed_cycle}"
  using that by (auto simp: cycle_states cycle_mission_def sample_state_def)

lemma served_outcome:
  assumes "holds st first_cycle None"
  shows "\<exists>st'. app_record_outcome sample_sext ''p'' ''m1'' ''o'' OutContinue fmempty (seconds 3000) st = (Ok waiting_cycle, st')
    \<and> holds st' waiting_cycle (Some cycle_schedule)"
proof -
  have load: "load_mission sample_sext st ''p'' ''m1'' = Ok first_cycle"
    using assms cycle_mission_loads unfolding first_cycle_def by blast
  have out: "\<lparr>ou_summary = ''o'', ou_decision = OutContinue, ou_metrics = fmempty, ou_observed_at = seconds 3000\<rparr> = sample_outcome"
    by (simp add: sample_outcome_def)
  have "\<exists>st1. update_mission_normalized_cas sample_sext waiting_cycle 2 st = Ok st1 \<and> holds st1 waiting_cycle None"
    unfolding waiting_cycle_def by (rule cycle_cas [OF assms [unfolded first_cycle_def]]) simp_all
  then obtain st1 where cas: "update_mission_normalized_cas sample_sext waiting_cycle 2 st = Ok st1"
    and st1: "holds st1 waiting_cycle None"
    by blast
  note fields = cycle_fields [of cycle_schedule, simplified]
  define st2 where "st2 = st1\<lparr>st_schedules := fmap_of_list [((''p'', ''mission-schedule:m1:cycle:2''), cycle_schedule)]\<rparr>"
  have "st_schedules st1 = fmempty" "fmlookup (st_missions st1) (''p'', ''m1'') = Some waiting_cycle"
    using st1 by (simp_all add: holds_def)
  then have "insert_schedule cycle_schedule st1 = Ok st2"
    using fields
    by (simp add: insert_schedule_def validate_schedule_def contains_key_def bt_values_small st2_def fmap_of_list_simps)
  moreover have "holds st2 waiting_cycle (Some cycle_schedule)"
    using st1 by (simp add: holds_def st2_def)
  moreover have "ms_stage waiting_cycle = StageScheduled" "ms_revision waiting_cycle = 3" "ms_revision first_cycle = 2"
    "next_cycle_of waiting_cycle = Some 2"
    "ms_definition waiting_cycle = Some (cycle_definition (cycle_checkpoint CpSkipped 1 0 None) 1)" "md_cycle (cycle_definition c n) = n"
    "sc_definition_cycle cycle_schedule = Some 1" "sc_revision cycle_schedule = 1" for c n
    by (simp_all add: cycle_states cycle_mission_def sample_state_def next_cycle_of_def usize_to_u64_def checked_add_def
        cycle_definition_def)
  moreover have "\<exists>st3. append_pair_events waiting_cycle cycle_schedule
      [event_at ''outcome.observed'' (seconds 3000), event_at ''mission.scheduled'' (seconds 3000),
       event_at ''mission.schedule_created'' (seconds 3000)] st2 = Ok st3 \<and> holds st3 waiting_cycle (Some cycle_schedule)"
    unfolding append_pair_events_def
    by (rule append_events_holds [OF calculation(2)]) (simp add: event_at_def event_names)
  ultimately show ?thesis
    using load cas outcome_recorded cycle_prepared fields mission_fields [of waiting_cycle, simplified]
    by (simp add: app_record_outcome_def stored_or_def locally_def commit_def out validate_schedule_def
        update_mission_and_create_schedule_atomic_def Let_def)
qed

lemma served_claim:
  assumes "holds st waiting_cycle (Some cycle_schedule)"
  shows "\<exists>st' pj. app_claim_due_mission_schedule sample_sext ''t'' (replicate 32 (CHR ''a'')) (seconds 60) (seconds 3700) st
      = (Ok (Some pj), st') \<and> holds st' waiting_cycle (Some leased_schedule)"
proof -
  note fields = cycle_fields [of cycle_schedule, simplified] cycle_fields [of leased_schedule, simplified]
  have rows: "bt_values (st_schedules st) = [cycle_schedule]"
    "fmlookup (st_schedules st) (''p'', ''mission-schedule:m1:cycle:2'') = Some cycle_schedule"
    using assms by (simp_all add: holds_def bt_values_small)
  have "sc_contract_valid_until cycle_schedule = seconds 2592000"
    by (simp add: cycle_schedule_def)
  then have none: "reconcile_mission_schedules_on_startup sample_sext (seconds 3700) st =
      (Ok \<lparr>rc_scanned_schedules = 0, rc_expired_schedules = 0, rc_completed_missions = 0\<rparr>, st)"
    by (simp add: reconcile_mission_schedules_on_startup_def list_expired_mission_schedules_def rows stored_or_def)
  define st1 where "st1 = st\<lparr>st_schedules := fmap_of_list [((''p'', ''mission-schedule:m1:cycle:2''), leased_schedule)]\<rparr>"
  have "holds st1 waiting_cycle (Some leased_schedule)"
    using assms by (simp add: holds_def st1_def)
  then have events: "\<exists>st2. append_schedule_events leased_schedule [event_at ''mission.schedule_claimed'' (seconds 3700)] st1 = Ok st2
      \<and> holds st2 waiting_cycle (Some leased_schedule)"
    unfolding append_schedule_events_def by (rule append_events_holds) (simp add: event_at_def event_names)
  have "claim_candidate cycle_schedule (seconds 3700)" "sc_revision cycle_schedule = 1"
    by (simp_all add: claim_candidate_def cycle_schedule_def)
  moreover have "update_schedule_row (st_schedules st) leased_schedule 1 = Ok (st_schedules st1)"
    using rows fields to_sql_small [of 1] assms
    by (simp add: update_schedule_row_def calculation st1_def holds_def fmap_of_list_simps)
  moreover have "st\<lparr>st_schedules := st_schedules st1\<rparr> = st1"
    by (simp add: st1_def)
  moreover have "load_mission_schedule st ''p'' ''mission-schedule:m1:cycle:2'' = Ok cycle_schedule"
    using rows fields by (simp add: load_mission_schedule_def load_schedule_Ok)
  moreover have "\<not> blank ''t''"
    by (simp add: sample_names)
  ultimately show ?thesis
    using events cycle_claimed none
    by (simp add: app_claim_due_mission_schedule_def claim_due_mission_schedule_def rows fields stored_or_def
        sample_add_signed with_schedules_def)
qed

lemma served_start:
  assumes "holds st waiting_cycle (Some leased_schedule)"
  shows "\<exists>st'. start_claimed_mission_cycle sample_sext ''p'' ''mission-schedule:m1:cycle:2'' ''t''
      (replicate 32 (CHR ''a'')) 1 cycle_task (seconds 3710) st = (Ok second_cycle, st')
    \<and> holds st' second_cycle (Some triggered_schedule)"
proof -
  note fields = cycle_fields [of leased_schedule, simplified] cycle_fields [of triggered_schedule, simplified]
    mission_fields [of second_cycle, simplified]
  have "fmlookup (st_schedules st) (''p'', ''mission-schedule:m1:cycle:2'') = Some leased_schedule"
    using assms by (simp add: holds_def)
  then have load: "load_mission_schedule st ''p'' ''mission-schedule:m1:cycle:2'' = Ok leased_schedule"
    using fields by (simp add: load_mission_schedule_def load_schedule_Ok)
  have mission: "load_mission sample_sext st ''p'' ''m1'' = Ok waiting_cycle"
    using assms cycle_mission_loads unfolding waiting_cycle_def by blast
  have "\<exists>st1. update_mission_normalized_cas sample_sext second_cycle 3 st = Ok st1 \<and> holds st1 second_cycle (Some leased_schedule)"
    unfolding second_cycle_def by (rule cycle_cas [OF assms [unfolded waiting_cycle_def]]) simp_all
  then obtain st1 where cas: "update_mission_normalized_cas sample_sext second_cycle 3 st = Ok st1"
    and st1: "holds st1 second_cycle (Some leased_schedule)"
    by blast
  define st2 where "st2 = st1\<lparr>st_schedules := fmap_of_list [((''p'', ''mission-schedule:m1:cycle:2''), triggered_schedule)]\<rparr>"
  have "holds st2 second_cycle (Some triggered_schedule)"
    using st1 by (simp add: holds_def st2_def)
  then have events: "\<exists>st3. append_pair_events second_cycle triggered_schedule [event_at ''mission.schedule_triggered'' (seconds 3710),
      event_at ''mission.cycle_started'' (seconds 3710)] st2 = Ok st3 \<and> holds st3 second_cycle (Some triggered_schedule)"
    unfolding append_pair_events_def by (rule append_events_holds) (simp add: event_at_def event_names)
  have states: "sc_revision leased_schedule = 2" "sc_status triggered_schedule = SchedTriggered" "ms_stage second_cycle = StageRunning"
    "ms_revision second_cycle = 4" "ms_revision waiting_cycle = 3" "ms_definition second_cycle =
      Some (cycle_definition (cycle_checkpoint CpRunning 3 1 (Some (seconds 3710))) 2)"
    "first_route waiting_cycle = Some \<lparr>rt_capability_id = ''c'', rt_executor = ExRuntime, rt_oracle_ids = {||}, rt_completion_policy = None\<rparr>"
    by (simp_all add: cycle_states cycle_mission_def sample_state_def first_route_def cycle_definition_def cycle_checkpoint_def)
  have "update_schedule_row (st_schedules st1) triggered_schedule 2 = Ok (st_schedules st2)"
    using st1 fields to_sql_small [of 2] states(1)
    by (simp add: update_schedule_row_def st2_def holds_def fmap_of_list_simps)
  moreover have "st1\<lparr>st_schedules := st_schedules st2\<rparr> = st2"
    by (simp add: st2_def)
  moreover have "validate_schedule_transition leased_schedule triggered_schedule 2 = Ok ()"
    using cycle_schedules_valid(2,3)
    by (simp add: validate_schedule_transition_def validate_schedule_def)
       (simp add: cycle_states checked_add_def saturating_add_def)
  moreover have "tk_title cycle_task = ''T''" "tk_status cycle_task = TaskRunning" "tk_capability cycle_task = ''c''"
    "md_cycle (cycle_definition c n) = n" for c n
    by (simp_all add: cycle_task_def cycle_definition_def)
  ultimately show ?thesis
    using events load mission cas cycle_started cycle_triggered fields states
    by (simp add: start_claimed_mission_cycle_def stored_or_def locally_def commit_def sample_add_signed sample_names
        trigger_mission_schedule_and_start_cycle_atomic_def commit_pair_def validate_schedule_def with_schedules_def)
qed

lemma served_expiry:
  assumes "holds st waiting_cycle (Some cycle_schedule)"
  shows "\<exists>st' report. reconcile_mission_schedules_on_startup sample_sext (seconds 2592000) st = (Ok report, st')
    \<and> holds st' completed_cycle (Some expired_schedule)"
proof -
  note fields = cycle_fields [of cycle_schedule, simplified] cycle_fields [of expired_schedule, simplified]
    mission_fields [of completed_cycle, simplified]
  have rows: "bt_values (st_schedules st) = [cycle_schedule]"
    "fmlookup (st_schedules st) (''p'', ''mission-schedule:m1:cycle:2'') = Some cycle_schedule"
    using assms by (simp_all add: holds_def bt_values_small)
  then have load: "load_mission_schedule st ''p'' ''mission-schedule:m1:cycle:2'' = Ok cycle_schedule"
    using fields by (simp add: load_mission_schedule_def load_schedule_Ok)
  have mission: "load_mission sample_sext st ''p'' ''m1'' = Ok waiting_cycle"
    using assms cycle_mission_loads unfolding waiting_cycle_def by blast
  have "\<exists>st1. update_mission_normalized_cas sample_sext completed_cycle 3 st = Ok st1 \<and> holds st1 completed_cycle (Some cycle_schedule)"
    unfolding completed_cycle_def by (rule cycle_cas [OF assms [unfolded waiting_cycle_def]]) simp_all
  then obtain st1 where cas: "update_mission_normalized_cas sample_sext completed_cycle 3 st = Ok st1"
    and st1: "holds st1 completed_cycle (Some cycle_schedule)"
    by blast
  define st2 where "st2 = st1\<lparr>st_schedules := fmap_of_list [((''p'', ''mission-schedule:m1:cycle:2''), expired_schedule)]\<rparr>"
  have "holds st2 completed_cycle (Some expired_schedule)"
    using st1 by (simp add: holds_def st2_def)
  then have events: "\<exists>st3. append_pair_events completed_cycle expired_schedule [event_at ''mission.schedule_expired'' (seconds 2592000),
      event_at ''mission.completed'' (seconds 2592000)] st2 = Ok st3 \<and> holds st3 completed_cycle (Some expired_schedule)"
    unfolding append_pair_events_def by (rule append_events_holds) (simp add: event_at_def event_names)
  have expire: "sched_expire (seconds 2592000) cycle_schedule = (Ok (), expired_schedule)"
    using cycle_schedules_valid(1,4)
    by (simp add: sched_expire_def cycle_states sched_touch_defs checked_add_def Let_def)
  have finish: "terminate TermCompleted (seconds 2592000) waiting_cycle = (Ok (), completed_cycle)"
    by (simp add: terminate_def cycle_states cycle_mission_def sample_state_def stage_is_terminal_def manifest_is_def
        cycle_definition_def ensure_touchable_def touch_def checked_add_def Let_def)
  have states: "sc_revision cycle_schedule = 1" "sc_status cycle_schedule = SchedPending"
    "sc_contract_valid_until cycle_schedule = seconds 2592000" "ms_stage waiting_cycle = StageScheduled"
    "ms_revision waiting_cycle = 3" "ms_stage completed_cycle = StageCompleted" "ms_revision completed_cycle = 4"
    "ms_contract completed_cycle = sample_contract" "next_cycle_of completed_cycle = Some 2"
    "sc_status expired_schedule = SchedExpired" "sc_contract_version expired_schedule = 1"
    "sc_contract_valid_until expired_schedule = seconds 2592000" "sc_updated_at expired_schedule = seconds 2592000"
    by (simp_all add: cycle_states cycle_mission_def sample_state_def next_cycle_of_def usize_to_u64_def checked_add_def)
  have row: "update_schedule_row (st_schedules st1) expired_schedule 1 = Ok (st_schedules st2)" "st1\<lparr>st_schedules := st_schedules st2\<rparr> = st2"
    using st1 fields to_sql_small [of 1] states(1)
    by (simp_all add: update_schedule_row_def st2_def holds_def fmap_of_list_simps)
  have change: "validate_schedule_transition cycle_schedule expired_schedule 1 = Ok ()"
    using cycle_schedules_valid(1,4)
    by (simp add: validate_schedule_transition_def validate_schedule_def)
       (simp add: cycle_states checked_add_def saturating_add_def)
  obtain st3 where commit: "expire_mission_schedule_and_complete_mission_atomic sample_sext expired_schedule 1 completed_cycle 3
      [event_at ''mission.schedule_expired'' (seconds 2592000), event_at ''mission.completed'' (seconds 2592000)] st = Ok st3"
    and st3: "holds st3 completed_cycle (Some expired_schedule)"
    using events load cas row change fields states sample_selectors
    by (auto simp: expire_mission_schedule_and_complete_mission_atomic_def commit_pair_def validate_schedule_def
        with_schedules_def checked_add_def)
  have "close_expired sample_sext (seconds 2592000) cycle_schedule st = (Ok (), st3)"
    using mission expire finish commit states fields
    by (simp add: close_expired_def stored_or_def locally_def commit_def)
  then show ?thesis
    using st3 load fields states
    by (simp add: reconcile_mission_schedules_on_startup_def list_expired_mission_schedules_def rows stored_or_def schedule_key_def)
qed

lemma cycle_store_holds: "holds cycle_store first_cycle None"
  by (simp add: holds_def cycle_store_def)

end
