(* ===== verification/Scheduler_Props.thy ===== *)
theory Scheduler_Props
  imports Checkpoint_Service Scheduler_Sample
begin

text \<open>
  The services together: whatever order they are called in and whatever they return, a mission
  waits exactly when one open schedule will wake it, no cycle is started twice, and a
  reconciliation that succeeds leaves no expired schedule open.
\<close>

section \<open>Waiting missions and open schedules\<close>

definition waiting_ok :: "project_store \<Rightarrow> bool" where
  "waiting_ok st \<longleftrightarrow>
     (\<forall>k s. fmlookup (st_schedules st) k = Some s \<longrightarrow> k = schedule_key s \<and> sched_inv s) \<and>
     (\<forall>k s k' t. fmlookup (st_schedules st) k = Some s \<and> fmlookup (st_schedules st) k' = Some t \<and>
        mission_key s = mission_key t \<and> sc_cycle s = sc_cycle t \<longrightarrow> k = k') \<and>
     (\<forall>k s. fmlookup (st_schedules st) k = Some s \<and> sched_open s \<longrightarrow>
        (\<exists>m. fmlookup (st_missions st) (mission_key s) = Some m \<and> awaits m s)) \<and>
     (\<forall>k m. fmlookup (st_missions st) k = Some m \<and> waits m \<longrightarrow>
        (\<exists>s. fmlookup (st_schedules st) (schedule_key s) = Some s \<and> sched_open s \<and> mission_key s = k))"

lemma waiting_okD:
  assumes "waiting_ok st"
  shows "fmlookup (st_schedules st) k = Some s \<Longrightarrow> k = schedule_key s"
    and "fmlookup (st_schedules st) k = Some s \<Longrightarrow> sched_inv s"
    and "fmlookup (st_schedules st) k = Some s \<Longrightarrow> fmlookup (st_schedules st) k' = Some t \<Longrightarrow>
      mission_key s = mission_key t \<Longrightarrow> sc_cycle s = sc_cycle t \<Longrightarrow> k = k'"
    and "fmlookup (st_schedules st) k = Some s \<Longrightarrow> sched_open s \<Longrightarrow>
      \<exists>m. fmlookup (st_missions st) (mission_key s) = Some m \<and> awaits m s"
    and "fmlookup (st_missions st) k = Some m \<Longrightarrow> waits m \<Longrightarrow>
      \<exists>s. fmlookup (st_schedules st) (schedule_key s) = Some s \<and> sched_open s \<and> mission_key s = k"
  using assms unfolding waiting_ok_def by blast+

lemma waiting_okI:
  assumes "\<And>k s. fmlookup (st_schedules st) k = Some s \<Longrightarrow> k = schedule_key s \<and> sched_inv s"
    and "\<And>k s k' t. fmlookup (st_schedules st) k = Some s \<Longrightarrow> fmlookup (st_schedules st) k' = Some t \<Longrightarrow>
      mission_key s = mission_key t \<Longrightarrow> sc_cycle s = sc_cycle t \<Longrightarrow> k = k'"
    and "\<And>k s. fmlookup (st_schedules st) k = Some s \<Longrightarrow> sched_open s \<Longrightarrow>
      \<exists>m. fmlookup (st_missions st) (mission_key s) = Some m \<and> awaits m s"
    and "\<And>k m. fmlookup (st_missions st) k = Some m \<Longrightarrow> waits m \<Longrightarrow>
      \<exists>s. fmlookup (st_schedules st) (schedule_key s) = Some s \<and> sched_open s \<and> mission_key s = k"
  shows "waiting_ok st"
  using assms unfolding waiting_ok_def by blast

text \<open>Two open schedules never await the same mission: it waits for one cycle.\<close>

lemma open_schedule_unique:
  assumes "waiting_ok st" and "fmlookup (st_schedules st) k = Some s" "sched_open s"
    and "fmlookup (st_schedules st) k' = Some t" "sched_open t" and "mission_key s = mission_key t"
  shows "k = k'"
proof -
  have "sc_cycle s = sc_cycle t"
    using waiting_okD(4) [OF assms(1,2,3)] waiting_okD(4) [OF assms(1,4,5)] assms(6)
    by (auto simp: awaits_def)
  then show ?thesis
    using waiting_okD(3) [OF assms(1,2,4,6)] by simp
qed

lemma mission_moved_ok:
  assumes "waiting_ok st" and "fmlookup (st_missions st) k = Some row" "\<not> waits row" "\<not> waits m"
    and "st_missions st' = fmupd k m (st_missions st)" "st_schedules st' = st_schedules st"
  shows "waiting_ok st'"
proof (rule waiting_okI)
  fix k' s
  assume s: "fmlookup (st_schedules st') k' = Some s" "sched_open s"
  then obtain m' where "fmlookup (st_missions st) (mission_key s) = Some m'" "awaits m' s"
    using waiting_okD(4) [OF assms(1)] assms(6) by metis
  moreover from this have "mission_key s \<noteq> k"
    using assms(2,3) by (auto simp: awaits_def)
  ultimately show "\<exists>m. fmlookup (st_missions st') (mission_key s) = Some m \<and> awaits m s"
    using assms(5) by auto
next
  fix k' m'
  assume "fmlookup (st_missions st') k' = Some m'" "waits m'"
  then show "\<exists>s. fmlookup (st_schedules st') (schedule_key s) = Some s \<and> sched_open s \<and> mission_key s = k'"
    using waiting_okD(5) [OF assms(1), of k' m'] assms(4-6) by (auto split: if_splits)
next
  show "k' = schedule_key s \<and> sched_inv s" if "fmlookup (st_schedules st') k' = Some s" for k' s
    using waiting_okD(1,2) [OF assms(1)] assms(6) that by metis
next
  show "k' = k''" if "fmlookup (st_schedules st') k' = Some s" "fmlookup (st_schedules st') k'' = Some t"
    "mission_key s = mission_key t" "sc_cycle s = sc_cycle t" for k' s k'' t
    using waiting_okD(3) [OF assms(1)] assms(6) that by metis
qed

lemma waiting_tx_ok:
  assumes "waiting_ok st" and "fmlookup (st_missions st) (mission_key s) = Some row" "\<not> waits row"
    and "awaits m s" "sched_inv s" "sched_open s"
    and "\<And>k t. fmlookup (st_schedules st) k = Some t \<Longrightarrow> (mission_key t, sc_cycle t) \<noteq> (mission_key s, sc_cycle s)"
    and "st_missions st' = fmupd (mission_key s) m (st_missions st)"
    and "st_schedules st' = fmupd (schedule_key s) s (st_schedules st)"
    and "fmlookup (st_schedules st) (schedule_key s) = None"
  shows "waiting_ok st'"
proof (rule waiting_okI)
  have look: "fmlookup (st_schedules st') k = (if k = schedule_key s then Some s else fmlookup (st_schedules st) k)" for k
    using assms(9) by auto
  show "k = schedule_key t \<and> sched_inv t" if "fmlookup (st_schedules st') k = Some t" for k t
    using that assms(5) waiting_okD(1,2) [OF assms(1), of k t] unfolding look by (cases "k = schedule_key s") simp_all
  show "k = k'" if "fmlookup (st_schedules st') k = Some t" "fmlookup (st_schedules st') k' = Some u"
    "mission_key t = mission_key u" "sc_cycle t = sc_cycle u" for k t k' u
  proof (cases "k = schedule_key s"; cases "k' = schedule_key s")
    assume "k \<noteq> schedule_key s" "k' \<noteq> schedule_key s"
    then show ?thesis
      using that waiting_okD(3) [OF assms(1), of k t k' u] by (simp only: look if_False)
  qed (use that assms(7) [of k t] assms(7) [of k' u] in \<open>auto simp: look\<close>)
  show "\<exists>m. fmlookup (st_missions st') (mission_key t) = Some m \<and> awaits m t"
    if row: "fmlookup (st_schedules st') k = Some t" "sched_open t" for k t
  proof (cases "k = schedule_key s")
    case False
    then obtain m' where "fmlookup (st_missions st) (mission_key t) = Some m'" "awaits m' t"
      using row waiting_okD(4) [OF assms(1), of k t] unfolding look by auto
    then show ?thesis
      using assms(2,3,8) by (auto simp: awaits_def)
  qed (use row assms(4,8) look in simp)
  show "\<exists>t. fmlookup (st_schedules st') (schedule_key t) = Some t \<and> sched_open t \<and> mission_key t = k"
    if row: "fmlookup (st_missions st') k = Some m'" "waits m'" for k m'
  proof (cases "k = mission_key s")
    case True
    then show ?thesis
      using assms(6,9) by auto
  next
    case False
    then obtain t where t: "fmlookup (st_schedules st) (schedule_key t) = Some t" "sched_open t" "mission_key t = k"
      using row waiting_okD(5) [OF assms(1), of k m'] assms(8) by auto
    have "schedule_key t \<noteq> schedule_key s"
    proof
      assume "schedule_key t = schedule_key s"
      from t(1) [unfolded this] show False
        unfolding assms(10) by simp
    qed
    then have "fmlookup (st_schedules st') (schedule_key t) = Some t"
      using t(1) look by simp
    then show ?thesis
      using t(2,3) by blast
  qed
qed

text \<open>
  A schedule that changes keeps its key, its mission and its cycle; if it closes, the mission it
  woke no longer waits.
\<close>

lemma schedule_tx_ok:
  assumes "waiting_ok st" and "sha256_hex X" and "fmlookup (st_schedules st) (schedule_key s) = Some s"
    and "sched_step X now s s'" and "st_schedules st' = fmupd (schedule_key s) s' (st_schedules st)"
    and "\<And>k. k \<noteq> mission_key s \<Longrightarrow> fmlookup (st_missions st') k = fmlookup (st_missions st) k"
    and "sched_open s' \<Longrightarrow> fmlookup (st_missions st') (mission_key s) = fmlookup (st_missions st) (mission_key s)"
    and "\<not> sched_open s' \<Longrightarrow> \<exists>m. fmlookup (st_missions st') (mission_key s) = Some m \<and> \<not> waits m"
  shows "waiting_ok st'"
proof (rule waiting_okI)
  note keys = sched_step_keys [OF assms(4)]
  have opened: "sched_open s"
    using sched_step_open [OF assms(4)] .
  have look: "fmlookup (st_schedules st') k = (if k = schedule_key s then Some s' else fmlookup (st_schedules st) k)" for k
    using assms(5) by auto
  have row: "\<exists>u. fmlookup (st_schedules st) k = Some u \<and> mission_key t = mission_key u \<and> sc_cycle t = sc_cycle u \<and>
      sc_scheduled_from_mission_revision t = sc_scheduled_from_mission_revision u \<and> (t = u \<or> u = s)"
    if "fmlookup (st_schedules st') k = Some t" for k t
    using that assms(3) keys unfolding look by (cases "k = schedule_key s") auto
  show "k = schedule_key t \<and> sched_inv t" if "fmlookup (st_schedules st') k = Some t" for k t
    using that keys(1) sched_step_inv [OF assms(4,2) waiting_okD(2) [OF assms(1,3)]]
      waiting_okD(1,2) [OF assms(1), of k t] unfolding look by (cases "k = schedule_key s") simp_all
  show "k = k'" if t: "fmlookup (st_schedules st') k = Some t" "fmlookup (st_schedules st') k' = Some u"
    "mission_key t = mission_key u" "sc_cycle t = sc_cycle u" for k t k' u
  proof -
    obtain v w where "fmlookup (st_schedules st) k = Some v" "fmlookup (st_schedules st) k' = Some w"
      "mission_key v = mission_key w" "sc_cycle v = sc_cycle w"
      using row [OF t(1)] row [OF t(2)] t(3,4) by auto
    then show ?thesis
      using waiting_okD(3) [OF assms(1)] by blast
  qed
  show "\<exists>m. fmlookup (st_missions st') (mission_key t) = Some m \<and> awaits m t"
    if t: "fmlookup (st_schedules st') k = Some t" "sched_open t" for k t
  proof -
    obtain u where u: "fmlookup (st_schedules st) k = Some u" "mission_key t = mission_key u" "sc_cycle t = sc_cycle u"
      "sc_scheduled_from_mission_revision t = sc_scheduled_from_mission_revision u" "t = u \<or> u = s"
      using row [OF t(1)] by blast
    have "sched_open u"
      using u(5) t(2) opened by auto
    have same: "fmlookup (st_missions st') (mission_key u) = fmlookup (st_missions st) (mission_key u)"
    proof (cases "mission_key u = mission_key s")
      case True
      then have "k = schedule_key s"
        using open_schedule_unique [OF assms(1) u(1) \<open>sched_open u\<close> assms(3) opened] by simp
      then have "t = s'"
        using t(1) look by simp
      then show ?thesis
        using assms(7) t(2) True by simp
    qed (use assms(6) in simp)
    then show ?thesis
      using waiting_okD(4) [OF assms(1) u(1) \<open>sched_open u\<close>] u(2-4) by (auto simp: awaits_def)
  qed
  show "\<exists>t. fmlookup (st_schedules st') (schedule_key t) = Some t \<and> sched_open t \<and> mission_key t = k"
    if m: "fmlookup (st_missions st') k = Some m" "waits m" for k m
  proof (cases "k = mission_key s")
    case True
    then have "sched_open s'"
      using assms(8) m by auto
    then show ?thesis
      using keys True look by (intro exI [of _ s']) simp
  next
    case False
    then obtain t where t: "fmlookup (st_schedules st) (schedule_key t) = Some t" "sched_open t" "mission_key t = k"
      using m waiting_okD(5) [OF assms(1), of k m] assms(6) by auto
    have "schedule_key t \<noteq> schedule_key s"
    proof
      assume "schedule_key t = schedule_key s"
      from t(1) [unfolded this] have "t = s"
        unfolding assms(3) by simp
      then show False
        using t(3) False by simp
    qed
    then have "fmlookup (st_schedules st') (schedule_key t) = Some t"
      using t(1) look by simp
    then show ?thesis
      using t(2,3) by blast
  qed
qed

lemma pair_tx_ok:
  assumes "pair_tx X st st'" and "sha256_hex X" and "waiting_ok st"
  shows "waiting_ok st'"
  using assms(1)
proof cases
  case (mission_moved k row m)
  then show ?thesis using mission_moved_ok assms(3) by blast
next
  case (waiting s row m)
  show ?thesis by (rule waiting_tx_ok [OF assms(3) waiting(1-5,7,8,9,6)]) (use waiting in auto)
next
  case (schedule_moved s now s')
  then show ?thesis using assms(2,3) by (intro schedule_tx_ok [of st X s now s' st']) simp_all
next
  case (closed s now s' row m)
  then show ?thesis using assms(2,3) by (intro schedule_tx_ok [of st X s now s' st']) auto
qed

interpretation pairs: stable "\<lambda>st st'. sha256_hex X \<and> pair_tx X st st'" waiting_ok
  for X :: "'x ext_scheme"
  by unfold_locales (auto intro: pair_tx_ok)

section \<open>Runs of the services\<close>

datatype service_call =
    CallRecordOutcome string string string outcome_decision "(string, metric_value) fmap" time
  | CallReconcile time
  | CallSignal string string string string string time
  | CallClaim string string duration time
  | CallHeartbeat string string string string u64 duration time
  | CallStartCycle string string string string u64 task time
  | CallFailure string string string string u64 mission_schedule_failure_class string "time option" time
  | CallTick "string option" string time
  | CallBeginCheckpoint string string string time
  | CallBeginVerification string string string time
  | CallCompleteCheckpoint string string string mission_checkpoint_completion

fun serve :: "'x store_ext_scheme \<Rightarrow> service_call \<Rightarrow> project_store \<Rightarrow> project_store" where
  "serve X (CallRecordOutcome p i summary decision metrics now) st =
     snd (app_record_outcome X p i summary decision metrics now st)"
| "serve X (CallReconcile now) st = snd (reconcile_mission_schedules_on_startup X now st)"
| "serve X (CallSignal p i topic event payload now) st =
     snd (signal_mission_schedule_event X p i topic event payload now st)"
| "serve X (CallClaim owner token d now) st = snd (app_claim_due_mission_schedule X owner token d now st)"
| "serve X (CallHeartbeat p i owner token g d now) st =
     snd (heartbeat_mission_schedule X p i owner token g d now st)"
| "serve X (CallStartCycle p i owner token g task now) st =
     snd (start_claimed_mission_cycle X p i owner token g task now st)"
| "serve X (CallFailure p i owner token g cls evidence retry_at now) st =
     snd (record_mission_schedule_failure X p i owner token g cls evidence retry_at now st)"
| "serve X (CallTick key owner now) st = snd (run_due_mission_scheduler_once X key owner now st)"
| "serve X (CallBeginCheckpoint p i cid now) st = snd (begin_mission_checkpoint X p i cid now st)"
| "serve X (CallBeginVerification p i cid now) st = snd (begin_mission_checkpoint_verification X p i cid now st)"
| "serve X (CallCompleteCheckpoint p i cid completion) st =
     snd (complete_mission_checkpoint X p i cid completion st)"

text \<open>
  The services that are not modelled create and change missions too. A step of theirs is any
  change of the tables that leaves the schedules and the missions that wait as they are: no other
  mission starts or stops to wait in it.
\<close>

definition elsewhere :: "project_store \<Rightarrow> project_store \<Rightarrow> bool" where
  "elsewhere st st' \<longleftrightarrow> st_schedules st' = st_schedules st \<and>
     (\<forall>k m. waits m \<longrightarrow> (fmlookup (st_missions st') k = Some m \<longleftrightarrow> fmlookup (st_missions st) k = Some m))"

inductive service_step :: "'x store_ext_scheme \<Rightarrow> project_store \<Rightarrow> project_store \<Rightarrow> bool"
  for X :: "'x store_ext_scheme" where
  served: "service_step X st (serve X call st)"
| other: "elsewhere st st' \<Longrightarrow> service_step X st st'"

definition fresh_store :: "project_store \<Rightarrow> bool" where
  "fresh_store st \<longleftrightarrow> st_schedules st = fmempty \<and> (\<forall>k m. fmlookup (st_missions st) k = Some m \<longrightarrow> \<not> waits m)"

lemma serve_tx: "(pair_tx X)\<^sup>*\<^sup>* st (serve X call st)"
  using record_outcome_tx reconcile_tx signal_tx app_claim_tx heartbeat_tx start_cycle_tx record_failure_tx
    run_once_tx begin_checkpoint_tx begin_verification_tx complete_checkpoint_tx
  by (cases call) (simp_all add: leaves_def)

lemma elsewhere_ok:
  assumes "elsewhere st st'" and "waiting_ok st"
  shows "waiting_ok st'"
proof (rule waiting_okI)
  have same: "st_schedules st' = st_schedules st"
    and missions: "waits m \<Longrightarrow> fmlookup (st_missions st') k = Some m \<longleftrightarrow> fmlookup (st_missions st) k = Some m" for k m
    using assms(1) unfolding elsewhere_def by blast+
  show "k = schedule_key s \<and> sched_inv s" if "fmlookup (st_schedules st') k = Some s" for k s
    using waiting_okD(1,2) [OF assms(2)] same that by metis
  show "k = k'" if "fmlookup (st_schedules st') k = Some s" "fmlookup (st_schedules st') k' = Some t"
    "mission_key s = mission_key t" "sc_cycle s = sc_cycle t" for k s k' t
    using waiting_okD(3) [OF assms(2)] same that by metis
  show "\<exists>m. fmlookup (st_missions st') (mission_key s) = Some m \<and> awaits m s"
    if "fmlookup (st_schedules st') k = Some s" "sched_open s" for k s
    using waiting_okD(4) [OF assms(2)] that missions unfolding same awaits_def by blast
  show "\<exists>s. fmlookup (st_schedules st') (schedule_key s) = Some s \<and> sched_open s \<and> mission_key s = k"
    if "fmlookup (st_missions st') k = Some m" "waits m" for k m
    using waiting_okD(5) [OF assms(2)] that missions unfolding same by blast
qed

lemma serve_ok: "sha256_hex X \<Longrightarrow> waiting_ok st \<Longrightarrow> waiting_ok (serve X call st)"
  using serve_tx [of X st call] pairs.run_keeps [of X st "serve X call st"] by simp

interpretation services: stable "\<lambda>st st'. sha256_hex X \<and> service_step X st st'" waiting_ok
  for X :: "'x store_ext_scheme"
  by unfold_locales (auto elim!: service_step.cases intro: serve_ok elsewhere_ok)

lemma service_run_ok:
  assumes "sha256_hex X" and "fresh_store st" and "(service_step X)\<^sup>*\<^sup>* st st'"
  shows "waiting_ok st'"
proof -
  have "waiting_ok st"
    using assms(2) by (auto simp: fresh_store_def intro!: waiting_okI)
  then show ?thesis
    using services.run_keeps [of X st st'] assms(1,3) by simp
qed

text \<open>The services of the sample: the outcome is recorded, the next cycle is claimed and started.\<close>

lemma cycle_store_fresh: "fresh_store cycle_store"
  by (simp add: fresh_store_def cycle_store_def cycle_states cycle_mission_def)

lemma sample_waits:
  "\<exists>st. (service_step sample_sext)\<^sup>*\<^sup>* cycle_store st \<and> holds st waiting_cycle (Some cycle_schedule)"
proof -
  obtain st where "app_record_outcome sample_sext ''p'' ''m1'' ''o'' OutContinue fmempty (seconds 3000) cycle_store
      = (Ok waiting_cycle, st)" "holds st waiting_cycle (Some cycle_schedule)"
    using served_outcome [OF cycle_store_holds] by blast
  moreover from this(1) have "service_step sample_sext cycle_store st"
    using service_step.served [of sample_sext cycle_store "CallRecordOutcome ''p'' ''m1'' ''o'' OutContinue fmempty (seconds 3000)"]
    by simp
  ultimately show ?thesis by blast
qed

lemma sample_leased:
  "\<exists>st. (service_step sample_sext)\<^sup>*\<^sup>* cycle_store st \<and> holds st waiting_cycle (Some leased_schedule)"
proof -
  obtain st where st: "(service_step sample_sext)\<^sup>*\<^sup>* cycle_store st" "holds st waiting_cycle (Some cycle_schedule)"
    using sample_waits by blast
  obtain st' pj where "app_claim_due_mission_schedule sample_sext ''t'' (replicate 32 (CHR ''a'')) (seconds 60) (seconds 3700) st
      = (Ok (Some pj), st')" "holds st' waiting_cycle (Some leased_schedule)"
    using served_claim [OF st(2)] by blast
  moreover from this(1) have "service_step sample_sext st st'"
    using service_step.served [of sample_sext st "CallClaim ''t'' (replicate 32 (CHR ''a'')) (seconds 60) (seconds 3700)"]
    by simp
  ultimately show ?thesis
    using st(1) by (meson rtranclp.rtrancl_into_rtrancl)
qed

text \<open>
  C4: A mission waits for its next cycle exactly when one open schedule is going to wake it, in every
  store the scheduler and checkpoint services can reach, whatever they are called with, in
  whatever order and whether they succeed or fail half-way, and whatever else changes the
  missions that do not wait in between: no error leaves a waiting mission without its
  schedule, a schedule for a mission that has moved on, or two schedules for one mission. The
  schedule is for the cycle after the recorded outcomes and for the very revision at which the
  mission started to wait.
\<close>
theorem waiting_missions_paired:
  assumes "sha256_hex X" and "fresh_store st" and "(service_step X)\<^sup>*\<^sup>* st st'"
  shows "(\<forall>k. (\<exists>m. fmlookup (st_missions st') k = Some m \<and> waits m) \<longleftrightarrow>
       (\<exists>!s. fmlookup (st_schedules st') (schedule_key s) = Some s \<and> sched_open s \<and> mission_key s = k)) \<and>
    (\<forall>k s. fmlookup (st_schedules st') k = Some s \<and> sched_open s \<longrightarrow>
       (\<exists>m. fmlookup (st_missions st') (mission_key s) = Some m \<and> awaits m s))"
proof -
  have ok: "waiting_ok st'"
    using service_run_ok [OF assms] .
  have unique: "s = t" if "fmlookup (st_schedules st') (schedule_key s) = Some s" "sched_open s"
    "fmlookup (st_schedules st') (schedule_key t) = Some t" "sched_open t" "mission_key s = mission_key t" for s t
  proof -
    note eq = open_schedule_unique [OF ok that]
    from that(1) [unfolded eq] show ?thesis
      unfolding that(3) by simp
  qed
  show ?thesis
  proof (intro conjI allI impI iffI)
    fix k assume "\<exists>m. fmlookup (st_missions st') k = Some m \<and> waits m"
    then obtain s where "fmlookup (st_schedules st') (schedule_key s) = Some s \<and> sched_open s \<and> mission_key s = k"
      using waiting_okD(5) [OF ok] by blast
    then show "\<exists>!s. fmlookup (st_schedules st') (schedule_key s) = Some s \<and> sched_open s \<and> mission_key s = k"
      using unique by blast
  next
    fix k assume "\<exists>!s. fmlookup (st_schedules st') (schedule_key s) = Some s \<and> sched_open s \<and> mission_key s = k"
    then show "\<exists>m. fmlookup (st_missions st') k = Some m \<and> waits m"
      using waiting_okD(4) [OF ok] unfolding awaits_def by blast
  next
    fix k s assume "fmlookup (st_schedules st') k = Some s \<and> sched_open s"
    then show "\<exists>m. fmlookup (st_missions st') (mission_key s) = Some m \<and> awaits m s"
      using waiting_okD(4) [OF ok] by blast
  qed
qed

theorem waiting_missions_paired_witness:
  "\<exists>st m s. (service_step sample_sext)\<^sup>*\<^sup>* cycle_store st \<and> fmlookup (st_missions st) (''p'', ''m1'') = Some m \<and> waits m \<and>
     fmlookup (st_schedules st) (schedule_key s) = Some s \<and> sched_open s \<and> mission_key s = (''p'', ''m1'')"
proof -
  obtain st where st: "(service_step sample_sext)\<^sup>*\<^sup>* cycle_store st" "holds st waiting_cycle (Some cycle_schedule)"
    using sample_waits by blast
  have "fmlookup (st_missions st) (''p'', ''m1'') = Some waiting_cycle" "waits waiting_cycle"
    using st(2) by (simp_all add: holds_def cycle_states cycle_mission_def)
  then show ?thesis
    using waiting_missions_paired [OF sample_sext_sha256 cycle_store_fresh st(1)] st(1) by blast
qed

section \<open>Closed schedules\<close>

lemma pair_tx_closed:
  assumes "pair_tx X st st'" and "fmlookup (st_schedules st) k = Some s" and "\<not> sched_open s"
  shows "fmlookup (st_schedules st') k = Some s"
  using assms(1)
proof cases
  case (schedule_moved t now t')
  then show ?thesis
    using assms(2,3) sched_step_open [of X now t t'] by (cases "k = schedule_key t") simp_all
next
  case (closed t now t' row m)
  then show ?thesis
    using assms(2,3) sched_step_open [of X now t t'] by (cases "k = schedule_key t") simp_all
qed (use assms(2) in auto)

interpretation closed_rows: stable "pair_tx X" "\<lambda>st. fmlookup (st_schedules st) k = Some s \<and> \<not> sched_open s"
  for X :: "'x ext_scheme" and k s
  by unfold_locales (use pair_tx_closed in blast)

interpretation closed_services: stable "service_step X" "\<lambda>st. fmlookup (st_schedules st) k = Some s \<and> \<not> sched_open s"
  for X :: "'x store_ext_scheme" and k s
proof unfold_locales
  fix st st'
  assume "service_step X st st'" and "fmlookup (st_schedules st) k = Some s \<and> \<not> sched_open s"
  then show "fmlookup (st_schedules st') k = Some s \<and> \<not> sched_open s"
  proof (cases rule: service_step.cases)
    case (served call)
    then show ?thesis
      using closed_rows.run_keeps [OF serve_tx, of st k s X call]
        \<open>fmlookup (st_schedules st) k = Some s \<and> \<not> sched_open s\<close> by simp
  qed (simp add: elsewhere_def)
qed

lemma start_cycle_closes:
  assumes "start_claimed_mission_cycle X p i owner token g task now st = (Ok m, st')"
  shows "\<exists>s. fmlookup (st_schedules st') (p, i) = Some s \<and> sc_status s = SchedTriggered"
proof -
  obtain s and m0 :: mission and m' u' s' where load: "load_mission_schedule st p i = Ok s"
    and mark: "mark_triggered (sha256 X owner) (sha256 X token) g m' now s = (Ok u', s')"
    and commit: "trigger_mission_schedule_and_start_cycle_atomic X s' (sc_revision s) m' (ms_revision m0)
      [event_at ''mission.schedule_triggered'' now, event_at ''mission.cycle_started'' now] st = Ok st'"
    using assms unfolding start_claimed_mission_cycle_def service_Ok attempt_eq_Ok if_Err_state_eq_Ok by blast
  have "commit_pair X s' (sc_revision s) m' (ms_revision m0)
      [event_at ''mission.schedule_triggered'' now, event_at ''mission.cycle_started'' now] st = Ok st'"
    "ms_project_id m' = sc_project_id s'" "ms_id m' = sc_mission_id s'" "sc_status s' = SchedTriggered"
    using commit by (auto simp: trigger_mission_schedule_and_start_cycle_atomic_def split: if_splits)
  moreover have "schedule_key s' = (p, i)"
    using load mark mark_triggered_Ok [of "sha256 X owner" "sha256 X token" g m' now s s']
    by (auto simp: schedule_key_def load_mission_schedule_def load_schedule_Ok sched_touch_def)
  ultimately show ?thesis
    using commit_pair_Ok(2) by fastforce
qed

lemma closed_schedule_not_started:
  assumes "fmlookup (st_schedules st) (p, i) = Some s" and "\<not> sched_open s"
  shows "\<exists>e. start_claimed_mission_cycle X p i owner token g task now st = (Err e, st)"
proof -
  have "fst (mark_triggered (sha256 X owner) (sha256 X token) g m' now s) \<noteq> Ok ()" for m'
    using assms(2) mark_triggered_Ok [of "sha256 X owner" "sha256 X token" g m' now s]
    by (metis insertCI prod.collapse verify_lease_Ok)
  moreover have "load_mission_schedule st p i = Ok t \<Longrightarrow> t = s" for t
    using assms(1) by (simp add: load_mission_schedule_def load_schedule_Ok)
  ultimately show ?thesis
    unfolding start_claimed_mission_cycle_def stored_or_def locally_def attempt_def map_err_def
    by (auto split: sum.splits)
qed

text \<open>
  C5: No cycle of a mission is started twice: once a worker has started the cycle a schedule was
  for, every later attempt to start that cycle of that mission fails and changes nothing,
  whoever makes it, with whatever lease and under whatever schedule, and whatever the services
  have done in between.
\<close>
theorem cycle_started_once:
  assumes "sha256_hex X" and "fresh_store st0" and "(service_step X)\<^sup>*\<^sup>* st0 st"
    and "start_claimed_mission_cycle X p i owner token g task now st = (Ok m, st1)"
    and "(service_step X)\<^sup>*\<^sup>* st1 st2"
    and "fmlookup (st_schedules st1) (p, i) = Some s" and "fmlookup (st_schedules st2) (p, j) = Some t"
    and "mission_key t = mission_key s" "sc_cycle t = sc_cycle s"
  shows "\<exists>e. start_claimed_mission_cycle X p j owner' token' g' task' now' st2 = (Err e, st2)"
proof -
  have "\<not> sched_open s"
    using start_cycle_closes [OF assms(4)] assms(6) by auto
  then have closed: "fmlookup (st_schedules st2) (p, i) = Some s"
    using closed_services.run_keeps [OF assms(5)] assms(6) by blast
  have "service_step X st st1"
    using service_step.served [of X st "CallStartCycle p i owner token g task now"] assms(4) by simp
  then have "(service_step X)\<^sup>*\<^sup>* st0 st2"
    using assms(3,5) by (meson rtranclp.rtrancl_into_rtrancl rtranclp_trans)
  then have "waiting_ok st2"
    using service_run_ok assms(1,2) by blast
  then have "(p, j) = (p, i)"
    using waiting_okD(3) [OF _ assms(7) closed assms(8,9)] by blast
  then show ?thesis
    using closed_schedule_not_started closed \<open>\<not> sched_open s\<close> by blast
qed

theorem cycle_started_once_witness:
  "\<exists>st st1 m e. start_claimed_mission_cycle sample_sext ''p'' ''mission-schedule:m1:cycle:2'' ''t''
       (replicate 32 (CHR ''a'')) 1 cycle_task (seconds 3710) st = (Ok m, st1) \<and>
     start_claimed_mission_cycle sample_sext ''p'' ''mission-schedule:m1:cycle:2'' ''t''
       (replicate 32 (CHR ''a'')) 1 cycle_task (seconds 3711) st1 = (Err e, st1)"
proof -
  obtain st where st: "(service_step sample_sext)\<^sup>*\<^sup>* cycle_store st" "holds st waiting_cycle (Some leased_schedule)"
    using sample_leased by blast
  obtain st1 where start: "start_claimed_mission_cycle sample_sext ''p'' ''mission-schedule:m1:cycle:2'' ''t''
      (replicate 32 (CHR ''a'')) 1 cycle_task (seconds 3710) st = (Ok second_cycle, st1)"
    and st1: "holds st1 second_cycle (Some triggered_schedule)"
    using served_start [OF st(2)] by blast
  have row: "fmlookup (st_schedules st1) (''p'', ''mission-schedule:m1:cycle:2'') = Some triggered_schedule"
    using st1 by (simp add: holds_def)
  obtain e where "start_claimed_mission_cycle sample_sext ''p'' ''mission-schedule:m1:cycle:2'' ''t''
      (replicate 32 (CHR ''a'')) 1 cycle_task (seconds 3711) st1 = (Err e, st1)"
    using cycle_started_once [OF sample_sext_sha256 cycle_store_fresh st(1) start rtranclp.rtrancl_refl row row refl refl]
    by blast
  then show ?thesis
    using start by blast
qed

section \<open>Expired schedules\<close>

text \<open>Closing one expired schedule: what is stored for the pair, and that nothing else is touched.\<close>

definition expiry_closed :: "project_store \<Rightarrow> mission_schedule \<Rightarrow> bool" where
  "expiry_closed st s \<longleftrightarrow>
     (\<exists>s' m. fmlookup (st_schedules st) (schedule_key s) = Some s' \<and> sc_status s' = SchedExpired \<and>
        fmlookup (st_missions st) (mission_key s) = Some m \<and> ms_stage m = StageCompleted)"

lemma close_expired_Ok:
  assumes "close_expired X now s st = (Ok u, st')"
  shows "expiry_closed st' s"
    and "k \<noteq> schedule_key s \<Longrightarrow> fmlookup (st_schedules st') k = fmlookup (st_schedules st) k"
    and "k' \<noteq> mission_key s \<Longrightarrow> fmlookup (st_missions st') k' = fmlookup (st_missions st) k'"
proof -
  let ?events = "[event_at ''mission.schedule_expired'' now, event_at ''mission.completed'' now]"
  obtain m0 :: mission and u' s' m' where run: "sched_expire now s = (Ok u', s')"
    and commit: "expire_mission_schedule_and_complete_mission_atomic X s' (sc_revision s) m' (ms_revision m0)
       ?events st = Ok st'"
    using assms unfolding close_expired_def service_Ok if_Err_state_eq_Ok by blast
  have pair: "commit_pair X s' (sc_revision s) m' (ms_revision m0) ?events st = Ok st'"
    "ms_project_id m' = sc_project_id s'" "ms_id m' = sc_mission_id s'" "ms_stage m' = StageCompleted" "sc_status s' = SchedExpired"
    using commit by (auto simp: expire_mission_schedule_and_complete_mission_atomic_def split: if_splits)
  have keys: "schedule_key s' = schedule_key s" "mission_key s' = mission_key s"
    using run sched_expire_Ok [of now s s'] by (auto simp: sched_touch_def schedule_key_def mission_key_def)
  note tables = commit_pair_Ok [OF pair(1-3), unfolded keys]
  show "expiry_closed st' s"
    using tables pair(4,5) by (simp add: expiry_closed_def)
  show "k \<noteq> schedule_key s \<Longrightarrow> fmlookup (st_schedules st') k = fmlookup (st_schedules st) k"
    using tables by simp
  show "k' \<noteq> mission_key s \<Longrightarrow> fmlookup (st_missions st') k' = fmlookup (st_missions st) k'"
    using tables by simp
qed

lemma close_all_expired_Ok:
  assumes "close_all_expired X now ss report st = (Ok report', st')"
    and "distinct ss" "inj_on schedule_key (set ss)" "inj_on mission_key (set ss)"
  shows "(\<forall>s \<in> set ss. expiry_closed st' s) \<and>
    (\<forall>k. k \<notin> schedule_key ` set ss \<longrightarrow> fmlookup (st_schedules st') k = fmlookup (st_schedules st) k) \<and>
    (\<forall>k. k \<notin> mission_key ` set ss \<longrightarrow> fmlookup (st_missions st') k = fmlookup (st_missions st) k)"
  using assms
proof (induction ss arbitrary: report st)
  case (Cons s ss)
  obtain u st1 report1 where first: "close_expired X now s st = (Ok u, st1)"
    and rest: "close_all_expired X now ss report1 st1 = (Ok report', st')"
    using Cons.prems(1) by auto
  have ih: "\<forall>s \<in> set ss. expiry_closed st' s"
    "\<And>k. k \<notin> schedule_key ` set ss \<Longrightarrow> fmlookup (st_schedules st') k = fmlookup (st_schedules st1) k"
    "\<And>k. k \<notin> mission_key ` set ss \<Longrightarrow> fmlookup (st_missions st') k = fmlookup (st_missions st1) k"
    using Cons.IH [OF rest] Cons.prems(2-4) by auto
  have "schedule_key s \<notin> schedule_key ` set ss" "mission_key s \<notin> mission_key ` set ss"
    using Cons.prems(2-4) by (auto simp: inj_on_def)
  then have "expiry_closed st' s"
    using close_expired_Ok(1) [OF first] ih(2,3) by (simp add: expiry_closed_def)
  then show ?case
    using ih close_expired_Ok(2,3) [OF first] by auto
qed simp

text \<open>The list the reconciliation works through: the open schedules whose contract has ended.\<close>

lemma load_schedules_rows:
  assumes "load_schedules st (map schedule_key rows) = Ok ss"
    and "\<And>s. s \<in> set rows \<Longrightarrow> fmlookup (st_schedules st) (schedule_key s) = Some s"
  shows "ss = rows"
  using assms
proof (induction rows arbitrary: ss)
  case (Cons s rows)
  obtain t rest where "load_mission_schedule st (sc_project_id s) (sc_id s) = Ok t"
    and "load_schedules st (map schedule_key rows) = Ok rest" "ss = t # rest"
    using Cons.prems(1) by (auto simp: schedule_key_def [of s])
  moreover from this(1) have "t = s"
    using Cons.prems(2) [of s] by (simp add: load_mission_schedule_def load_schedule_Ok schedule_key_def)
  ultimately show ?case
    using Cons.IH Cons.prems(2) by simp
qed simp

lemma list_expired_Ok:
  assumes "waiting_ok st" and "list_expired_mission_schedules st now = Ok ss"
  shows "set ss = {s. fmlookup (st_schedules st) (schedule_key s) = Some s \<and> sched_open s \<and> sc_contract_valid_until s \<le> now}"
    and "distinct ss" and "inj_on schedule_key (set ss)" and "inj_on mission_key (set ss)"
proof -
  define rows where "rows = sort_key (\<lambda>s. (sc_contract_valid_until s, sc_created_at s, sc_project_id s, sc_mission_id s, sc_cycle s))
    (filter (\<lambda>s. sched_open s \<and> sc_contract_valid_until s \<le> now) (bt_values (st_schedules st)))"
  note keyed = waiting_okD(1) [OF assms(1)]
  have look: "fmlookup (st_schedules st) k = Some s \<Longrightarrow> fmlookup (st_schedules st) (schedule_key s) = Some s" for k s
    using keyed by metis
  have set_rows: "set rows = {s. fmlookup (st_schedules st) (schedule_key s) = Some s \<and> sched_open s \<and> sc_contract_valid_until s \<le> now}"
    using look by (auto simp only: rows_def set_bt_values set_sort set_filter mem_Collect_eq)
  have "map schedule_key (bt_values (st_schedules st)) = sorted_list_of_fset (fmdom (st_schedules st))"
    unfolding bt_values_alt map_map comp_def
    by (rule map_idI) (metis fmdomE keyed option.sel fset.set_map sorted_list_of_fset_simps(1))
  then have distinct: "distinct (map schedule_key (bt_values (st_schedules st)))"
    by (simp add: sorted_list_of_fset.rep_eq)
  then have "distinct rows"
    by (auto simp: rows_def distinct_map)
  moreover have rows: "ss = rows"
    using assms(2) set_rows
    by (intro load_schedules_rows [of st]) (auto simp: list_expired_mission_schedules_def rows_def)
  ultimately show "distinct ss" and
    "set ss = {s. fmlookup (st_schedules st) (schedule_key s) = Some s \<and> sched_open s \<and> sc_contract_valid_until s \<le> now}"
    using set_rows by simp_all
  show injective: "inj_on schedule_key (set ss)"
    using distinct unfolding rows distinct_map by (auto simp: rows_def intro: inj_on_subset)
  show "inj_on mission_key (set ss)"
  proof (rule inj_onI)
    fix s t
    assume st: "s \<in> set ss" "t \<in> set ss" and eq: "mission_key s = mission_key t"
    have "fmlookup (st_schedules st) (schedule_key s) = Some s" "sched_open s"
      "fmlookup (st_schedules st) (schedule_key t) = Some t" "sched_open t"
      using st unfolding rows set_rows by blast+
    then have "schedule_key s = schedule_key t"
      using open_schedule_unique [OF assms(1)] eq by blast
    then show "s = t"
      using injective st unfolding inj_on_def by blast
  qed
qed

lemma list_expired_key:
  assumes "waiting_ok st" and "list_expired_mission_schedules st now = Ok ss"
    and s: "fmlookup (st_schedules st) k = Some s"
  shows "k \<in> schedule_key ` set ss \<longleftrightarrow> sched_open s \<and> sc_contract_valid_until s \<le> now"
    and "sched_open s \<and> sc_contract_valid_until s \<le> now \<Longrightarrow> s \<in> set ss"
proof -
  note expired = list_expired_Ok(1) [OF assms(1,2)]
  have key: "k = schedule_key s"
    using waiting_okD(1) [OF assms(1) s] .
  show member: "sched_open s \<and> sc_contract_valid_until s \<le> now \<Longrightarrow> s \<in> set ss"
    unfolding expired using s key by simp
  have "t = s" if "t \<in> set ss" "k = schedule_key t" for t
    using that s unfolding expired by auto
  then show "k \<in> schedule_key ` set ss \<longleftrightarrow> sched_open s \<and> sc_contract_valid_until s \<le> now"
    using member key unfolding expired by blast
qed

text \<open>
  C11: A reconciliation that returns has closed every contract that had ended: in a store the services
  reached, each schedule still open past the end of its contract is stored as expired and its
  mission as completed, both in the store that is left, no other schedule and no other mission
  has changed, and every schedule that is still open has contract time left.
\<close>
theorem reconciliation_closes_expired:
  assumes "sha256_hex X" and "fresh_store st0" and "(service_step X)\<^sup>*\<^sup>* st0 st"
    and "reconcile_mission_schedules_on_startup X now st = (Ok report, st')"
  shows "(\<forall>k s. fmlookup (st_schedules st) k = Some s \<longrightarrow>
      (if sched_open s \<and> sc_contract_valid_until s \<le> now then expiry_closed st' s
       else fmlookup (st_schedules st') k = Some s)) \<and>
    (\<forall>k m. fmlookup (st_missions st) k = Some m \<and>
      \<not> (\<exists>s. fmlookup (st_schedules st) (schedule_key s) = Some s \<and> sched_open s \<and>
           sc_contract_valid_until s \<le> now \<and> mission_key s = k) \<longrightarrow> fmlookup (st_missions st') k = Some m) \<and>
    (\<forall>k s. fmlookup (st_schedules st') k = Some s \<and> sched_open s \<longrightarrow> now < sc_contract_valid_until s)"
proof -
  have ok: "waiting_ok st"
    using service_run_ok [OF assms(1-3)] .
  obtain ss report0 where list: "list_expired_mission_schedules st now = Ok ss"
    and run: "close_all_expired X now ss report0 st = (Ok report, st')"
    using assms(4) by (auto simp: reconcile_mission_schedules_on_startup_def)
  note expired = list_expired_Ok [OF ok list]
  note closed = close_all_expired_Ok [OF run expired(2-4)]
  have kept: "fmlookup (st_schedules st') k = fmlookup (st_schedules st) k" if "k \<notin> schedule_key ` set ss" for k
    using closed that by blast
  have "if sched_open s \<and> sc_contract_valid_until s \<le> now then expiry_closed st' s
      else fmlookup (st_schedules st') k = Some s" if s: "fmlookup (st_schedules st) k = Some s" for k s
    using closed kept [of k] list_expired_key [OF ok list s] s by auto
  moreover have "now < sc_contract_valid_until s" if s: "fmlookup (st_schedules st') k = Some s" "sched_open s" for k s
  proof -
    have "k \<notin> schedule_key ` set ss"
      using closed s unfolding expiry_closed_def by fastforce
    moreover from this have "fmlookup (st_schedules st) k = Some s"
      using kept s(1) by simp
    ultimately show ?thesis
      using list_expired_key(1) [OF ok list] s(2) by fastforce
  qed
  moreover have "fmlookup (st_missions st') k = Some m"
    if "fmlookup (st_missions st) k = Some m" "k \<notin> mission_key ` set ss" for k m
    using closed that by metis
  ultimately show ?thesis
    unfolding expired(1) by blast
qed

theorem reconciliation_closes_expired_witness:
  "\<exists>st st' report. reconcile_mission_schedules_on_startup sample_sext (seconds 2592000) st = (Ok report, st') \<and>
     fmlookup (st_schedules st) (schedule_key cycle_schedule) = Some cycle_schedule \<and> sched_open cycle_schedule \<and>
     expiry_closed st' cycle_schedule"
proof -
  obtain st where st: "(service_step sample_sext)\<^sup>*\<^sup>* cycle_store st" "holds st waiting_cycle (Some cycle_schedule)"
    using sample_waits by blast
  obtain st' report where run: "reconcile_mission_schedules_on_startup sample_sext (seconds 2592000) st = (Ok report, st')"
    using served_expiry [OF st(2)] by blast
  have row: "fmlookup (st_schedules st) (schedule_key cycle_schedule) = Some cycle_schedule" "sched_open cycle_schedule"
    "sc_contract_valid_until cycle_schedule \<le> seconds 2592000"
    using st(2) by (simp_all add: holds_def schedule_key_def cycle_states)
  then have "expiry_closed st' cycle_schedule"
    using reconciliation_closes_expired [OF sample_sext_sha256 cycle_store_fresh st(1) run] by meson
  then show ?thesis
    using run row(1,2) by blast
qed

section \<open>Claims near the end of a contract\<close>

text \<open>
  A due schedule whose contract ends before the lease would is selected all the same, and refused:
  while it is the first in the order of the query, the claim fails for the schedules behind it too.
\<close>

lemma claim_blocked_near_contract_end:
  assumes "sort_key claim_order (filter (\<lambda>s. claim_candidate s now) (bt_values (st_schedules st))) = s # rest"
    and "load_mission_schedule st (sc_project_id s) (sc_id s) = Ok s" and "sc_status s = SchedPending"
    and "is_sha256 owner" "is_sha256 token" "1 \<le> num_seconds d" "num_seconds d \<le> max_lease_seconds"
    and "checked_add (sc_lease_generation s) 1 = Some g"
    and "add_signed X now d = Some expires_at" and "sc_contract_valid_until s \<le> expires_at"
  shows "claim_due_mission_schedule X owner token d now st = Err (StScheduleError InvalidLease)"
proof -
  have candidate: "claim_candidate s now"
    using arg_cong [OF assms(1), of set] by auto
  have "schedule_validate s = Ok ()"
    using assms(2) by (auto simp: load_mission_schedule_def load_schedule_Ok validate_schedule_def)
  moreover have "is_due s now"
    using candidate assms(3) by (auto simp: claim_candidate_def is_due_def is_some_and_iff)
  ultimately have "claim X owner token d now s = (Err InvalidLease, s)"
    using assms(3-10) candidate by (auto simp: claim_def claim_candidate_def)
  then show ?thesis
    using assms(1,2) by (simp add: claim_due_mission_schedule_def)
qed
end
