(* ===== verification/Loop_Types.thy ===== *)
theory Loop_Types
  imports Mission_Types Interfaces
begin

text \<open>
  \<open>domain-kernel/src/mission_loop/mod.rs\<close>: the data of the long-running mission loop (policy, peers,
  todos, gates, claims, actions, the aggregate), its constructor, its accounting projection, and
  the text predicates it validates identifiers, digests and write scopes with. The loop digests
  JSON texts; the three serialisers are parameters, \<open>None\<close> where \<open>serde_json::to_vec\<close> fails.
\<close>

section \<open>Data\<close>

definition loop_schema_version :: u32 where
  "loop_schema_version = 1"

definition loop_history_limit :: nat where
  "loop_history_limit = 32"

definition loop_frontier_limit :: nat where
  "loop_frontier_limit = 512"

record loop_policy =
  lp_operator_id :: string
  lp_max_slots :: u32
  lp_max_parallel :: u16
  lp_lease_seconds :: u32
  lp_stall_limit :: u16

record loop_peer =
  pr_id :: string
  pr_capabilities :: "string fset"
  pr_workspace_digest :: string

record loop_host =
  ho_agent_id :: string
  ho_available_capabilities :: "string fset"
  ho_workspace_digest :: string

datatype loop_actor = Operator string | Agent string

datatype loop_work_kind = KindAdvancement | KindRepair | KindReplan | KindMonitor

record loop_monitor =
  mo_target_digest :: string
  mo_next_due_at :: time
  mo_interval_seconds :: u32
  mo_expires_at :: time

record loop_todo_spec =
  ts_id :: string
  ts_title :: string
  ts_task_id :: "string option"
  ts_capability :: "string option"
  ts_kind :: loop_work_kind
  ts_priority :: u16
  ts_depends_on :: "string fset"
  ts_eligible_agents :: "string fset"
  ts_required_decisions :: "string fset"
  ts_workspace_digest :: string
  ts_write_scopes :: "string fset"
  ts_monitor :: "loop_monitor option"

datatype loop_todo_status = TodoOpen | TodoClaimed | TodoUncertain | TodoCompleted | TodoCancelled

record loop_claim =
  lc_todo_id :: string
  lc_agent_id :: string
  lc_token_digest :: string
  lc_generation :: u64
  lc_steering_generation :: u64
  lc_authority_digest :: string
  lc_claimed_at :: time
  lc_expires_at :: time

definition is_renewal_of :: "loop_claim \<Rightarrow> loop_claim \<Rightarrow> bool" where
  "is_renewal_of c previous \<longleftrightarrow>
     lc_todo_id c = lc_todo_id previous
     \<and> lc_agent_id c = lc_agent_id previous
     \<and> lc_token_digest c = lc_token_digest previous
     \<and> lc_generation c = lc_generation previous
     \<and> lc_steering_generation c = lc_steering_generation previous
     \<and> lc_authority_digest c = lc_authority_digest previous
     \<and> lc_claimed_at c = lc_claimed_at previous
     \<and> lc_expires_at previous \<le> lc_expires_at c"

record loop_todo =
  lt_spec :: loop_todo_spec
  lt_status :: loop_todo_status
  lt_claim :: "loop_claim option"
  lt_execution_started :: bool
  lt_no_progress_attempts :: u16
  lt_last_observation_digest :: "string option"

datatype loop_gate_scope = GateMission | GateAgent string | GateTodo string | GateDecision string

record loop_user_gate =
  ug_id :: string
  ug_question :: string
  ug_scope :: loop_gate_scope

datatype loop_continuation = NextTodo string | UserGate string | ContReplan | NoFollowup

datatype loop_turn_result =
    Progress "string fset" loop_continuation
  | MonitorObservation string
  | NoProgress string
  | TurnFailed string bool

record loop_run_summary =
  ru_sequence :: u64
  ru_todo_id :: string
  ru_agent_id :: string
  ru_evidence_digest :: string
  ru_spent_slot :: bool
  ru_notify :: bool
  ru_continuation :: "loop_continuation option"
  ru_recorded_at :: time

datatype loop_action =
    RegisterPeer loop_peer
  | AddTodo loop_todo_spec
  | OpenGate loop_user_gate
  | ResolveGate string string
  | Pause bool
  | SetQuota u32
  | Steer string
  | Claim loop_host string string
  | BeginExecution loop_claim loop_host
  | Heartbeat loop_claim
  | Settle loop_claim loop_turn_result
  | ReconcileRetry string string
  | ReconcileSettlement loop_claim loop_turn_result string
  | CancelTodo string string
  | AcknowledgeNotice string

record loop_command =
  co_operation_id :: string
  co_expected_revision :: u64
  co_expected_mission_revision :: u64
  co_actor :: loop_actor
  co_action :: loop_action

record loop_receipt =
  re_revision :: u64
  re_claim :: "loop_claim option"
  re_run :: "loop_run_summary option"
  re_replayed :: bool

record loop_accounting =
  la_revision :: u64
  la_slot_limit :: u32
  la_spent_slots :: u32
  la_reserved_slots :: nat
  la_claimed_slices :: nat
  la_uncertain_slices :: nat
  la_open_slices :: nat
  la_open_gates :: nat
  la_paused :: bool

record loop_mission_facts =
  fa_mission :: mission
  fa_steering_digest :: string

record mission_loop =
  ml_schema_version :: u32
  ml_tenant_id :: string
  ml_project_id :: string
  ml_mission_id :: string
  ml_policy :: loop_policy
  ml_revision :: u64
  ml_steering_generation :: u64
  ml_claim_generation :: u64
  ml_paused :: bool
  ml_spent_slots :: u32
  ml_no_progress_streak :: u16
  ml_peers :: "(string, loop_peer) fmap"
  ml_todos :: "(string, loop_todo) fmap"
  ml_gates :: "(string, loop_user_gate) fmap"
  ml_accepted_evidence :: "string fset"
  ml_recent_runs :: "loop_run_summary list"
  ml_run_sequence :: u64
  ml_acknowledged_notices :: "string fset"
  ml_created_at :: time
  ml_updated_at :: time

datatype loop_mode =
    BoundedDelivery | MonitorPoll | ModeRepair | ModeReplan | UserActionRequired | ModeWait
  | QuotaExhausted | ModePaused | ReconcileRequired | CapabilityUnavailable | WorkspaceMismatch
  | ModeTerminal | ContractExpired

datatype (plugins only: code) loop_error =
    InvalidPolicy
  | InvalidState
  | ScopeMismatch
  | RevisionConflict
  | MissionUnavailable
  | UnknownAgent
  | OperatorRequired
  | ActorMismatch
  | InvalidTodo
  | InvalidGate
  | FrontierFull
  | NotRunnable loop_mode
  | ClaimLost
  | ExecutionAlreadyStarted
  | EvidenceRequired
  | InvalidContinuation
  | LoopOverflow
  | ClockRegression
  | LoopPanic

text \<open>The JSON texts the loop digests: the gates shown to a peer, the authority, the evidence.\<close>

record loop_ext = ext +
  json_gates :: "loop_user_gate list \<Rightarrow> string option"
  json_authority :: "string \<times> string \<times> string \<times> operating_contract \<times> string \<Rightarrow> string option"
  json_evidence :: "(string \<times> string \<times> time) list \<Rightarrow> string option"

section \<open>Text predicates\<close>

definition token :: "string \<Rightarrow> bool" where
  "token value \<longleftrightarrow>
     value \<noteq> [] \<and> length value \<le> 160
     \<and> list_all (\<lambda>b. is_ascii_alphanumeric b \<or> b \<in> set ''_-.:/'') value"

definition digest :: "string \<Rightarrow> bool" where
  "digest value \<longleftrightarrow>
     length value = 64
     \<and> list_all (\<lambda>b. is_ascii_digit b \<or> (97 \<le> byte b \<and> byte b \<le> 102)) value"

definition relative_scope :: "string \<Rightarrow> bool" where
  "relative_scope value \<longleftrightarrow>
     value = ''.'' \<or>
     (value \<noteq> [] \<and> length value \<le> 512
      \<and> \<not> list_ex (\<lambda>b. b = CHR 0x5C \<or> b = CHR 0x00 \<or> b = CHR '':'') value
      \<and> \<not> has_control value
      \<and> list_all (\<lambda>part. part \<noteq> [] \<and> part \<noteq> ''.'' \<and> part \<noteq> ''..'') (split_on (CHR ''/'') value))"

definition scopes_overlap :: "string \<Rightarrow> string \<Rightarrow> bool" where
  "scopes_overlap a b \<longleftrightarrow>
     a = ''.'' \<or> b = ''.'' \<or> a = b \<or> prefix (b @ ''/'') a \<or> prefix (a @ ''/'') b"

section \<open>Operations\<close>

definition loop_policy_validate :: "loop_policy \<Rightarrow> loop_error + unit" where
  "loop_policy_validate p =
     (if blank (lp_operator_id p)
         \<or> \<not> (1 \<le> lp_max_parallel p \<and> lp_max_parallel p \<le> 64)
         \<or> \<not> (1 \<le> lp_lease_seconds p \<and> lp_lease_seconds p \<le> 900)
         \<or> \<not> (1 \<le> lp_stall_limit p \<and> lp_stall_limit p \<le> 100)
      then Err InvalidPolicy else Ok ())"

definition loop_digest :: "'x ext_scheme \<Rightarrow> string option \<Rightarrow> loop_error + string" where
  "loop_digest X json = and_then (ok_or InvalidState json) (\<lambda>bytes. Ok (sha256 X bytes))"

definition authority_digest :: "'x loop_ext_scheme \<Rightarrow> loop_mission_facts \<Rightarrow> loop_error + string" where
  "authority_digest X facts =
     (if \<not> digest (fa_steering_digest facts) then Err InvalidState
      else loop_digest X (json_authority X
        (ms_tenant_id (fa_mission facts), ms_project_id (fa_mission facts), ms_id (fa_mission facts),
         ms_contract (fa_mission facts), fa_steering_digest facts)))"

definition accounting :: "mission_loop \<Rightarrow> loop_accounting" where
  "accounting l =
     \<lparr>la_revision = ml_revision l,
      la_slot_limit = lp_max_slots (ml_policy l),
      la_spent_slots = ml_spent_slots l,
      la_reserved_slots = length (filter (\<lambda>t. lt_claim t \<noteq> None \<and> ts_kind (lt_spec t) \<noteq> KindMonitor)
        (bt_values (ml_todos l))),
      la_claimed_slices = length (filter (\<lambda>t. lt_status t = TodoClaimed) (bt_values (ml_todos l))),
      la_uncertain_slices = length (filter (\<lambda>t. lt_status t = TodoUncertain) (bt_values (ml_todos l))),
      la_open_slices = length (filter (\<lambda>t. lt_status t = TodoOpen) (bt_values (ml_todos l))),
      la_open_gates = bt_len (ml_gates l),
      la_paused = (ml_paused l \<or> lp_max_slots (ml_policy l) = 0)\<rparr>"

definition loop_new :: "mission \<Rightarrow> loop_policy \<Rightarrow> time \<Rightarrow> loop_error + mission_loop" where
  "loop_new mission policy now =
     and_then (loop_policy_validate policy) (\<lambda>_.
       if stage_is_terminal (ms_stage mission) \<or> is_err (contract_validate (ms_contract mission) now)
       then Err MissionUnavailable
       else Ok
         \<lparr>ml_schema_version = loop_schema_version, ml_tenant_id = ms_tenant_id mission,
          ml_project_id = ms_project_id mission, ml_mission_id = ms_id mission,
          ml_policy = policy, ml_revision = 1, ml_steering_generation = 1,
          ml_claim_generation = 0, ml_paused = False, ml_spent_slots = 0,
          ml_no_progress_streak = 0, ml_peers = fmempty, ml_todos = fmempty, ml_gates = fmempty,
          ml_accepted_evidence = {||}, ml_recent_runs = [], ml_run_sequence = 0,
          ml_acknowledged_notices = {||}, ml_created_at = now, ml_updated_at = now\<rparr>)"

section \<open>Validation\<close>

definition validate_todo_spec :: "mission_loop \<Rightarrow> loop_todo_spec \<Rightarrow> loop_error + unit" where
  "validate_todo_spec l todo =
     (if \<not> token (ts_id todo)
         \<or> blank (ts_title todo)
         \<or> 4096 < length (ts_title todo)
         \<or> \<not> digest (ts_workspace_digest todo)
         \<or> is_some_and (\<lambda>cap. \<not> token cap) (ts_capability todo)
         \<or> (\<exists>scope |\<in>| ts_write_scopes todo. \<not> relative_scope scope)
         \<or> (\<exists>scope |\<in>| ts_required_decisions todo. \<not> token scope)
         \<or> ts_id todo |\<in>| ts_depends_on todo
         \<or> (\<exists>d |\<in>| ts_depends_on todo. \<not> contains_key (ml_todos l) d)
         \<or> (\<exists>a |\<in>| ts_eligible_agents todo. \<not> contains_key (ml_peers l) a)
         \<or> (ts_kind todo = KindMonitor) \<noteq> (ts_monitor todo \<noteq> None)
         \<or> (ts_kind todo \<in> {KindAdvancement, KindMonitor}
            \<and> (ts_task_id todo = None \<or> ts_capability todo = None))
         \<or> (ts_task_id todo \<noteq> None) \<noteq> (ts_capability todo \<noteq> None)
      then Err InvalidTodo
      else if is_some_and (\<lambda>monitor.
          \<not> digest (mo_target_digest monitor)
          \<or> \<not> (1 \<le> mo_interval_seconds monitor \<and> mo_interval_seconds monitor \<le> 2592000)
          \<or> mo_expires_at monitor \<le> ml_created_at l
          \<or> ts_write_scopes todo \<noteq> {||}) (ts_monitor todo)
      then Err InvalidTodo
      else Ok ())"

definition validate_gate :: "mission_loop \<Rightarrow> loop_user_gate \<Rightarrow> loop_error + unit" where
  "validate_gate l gate =
     (if \<not> token (ug_id gate) \<or> blank (ug_question gate) \<or> 4096 < length (ug_question gate)
      then Err InvalidGate
      else case ug_scope gate of
        GateAgent a \<Rightarrow> if \<not> contains_key (ml_peers l) a then Err InvalidGate else Ok ()
      | GateTodo t \<Rightarrow> if \<not> contains_key (ml_todos l) t then Err InvalidGate else Ok ()
      | GateDecision d \<Rightarrow> if \<not> token d then Err InvalidGate else Ok ()
      | GateMission \<Rightarrow> Ok ())"

definition peer_entry_ok :: "string \<times> loop_peer \<Rightarrow> loop_error + unit" where
  "peer_entry_ok = (\<lambda>(key, peer).
     if key \<noteq> pr_id peer \<or> \<not> token key \<or> \<not> digest (pr_workspace_digest peer)
        \<or> (\<exists>cap |\<in>| pr_capabilities peer. \<not> token cap)
     then Err InvalidState else Ok ())"

definition todo_entry_ok :: "mission_loop \<Rightarrow> string \<times> loop_todo \<Rightarrow> loop_error + unit" where
  "todo_entry_ok l = (\<lambda>(key, todo).
     if key \<noteq> ts_id (lt_spec todo) then Err InvalidState
     else and_then (validate_todo_spec l (lt_spec todo)) (\<lambda>_.
       if (lt_status todo \<in> {TodoClaimed, TodoUncertain}) \<noteq> (lt_claim todo \<noteq> None)
       then Err InvalidState
       else if lt_execution_started todo \<and> lt_claim todo = None then Err InvalidState
       else if is_some_and (\<lambda>claim.
           lc_todo_id claim \<noteq> key
           \<or> \<not> contains_key (ml_peers l) (lc_agent_id claim)
           \<or> \<not> digest (lc_token_digest claim)
           \<or> \<not> digest (lc_authority_digest claim)
           \<or> lc_generation claim = 0
           \<or> ml_claim_generation l < lc_generation claim
           \<or> ml_steering_generation l < lc_steering_generation claim
           \<or> lc_expires_at claim \<le> lc_claimed_at claim) (lt_claim todo)
       then Err InvalidState
       else Ok ()))"

definition gate_entry_ok :: "mission_loop \<Rightarrow> string \<times> loop_user_gate \<Rightarrow> loop_error + unit" where
  "gate_entry_ok l = (\<lambda>(key, gate).
     if key \<noteq> ug_id gate then Err InvalidState else validate_gate l gate)"

definition validate_for :: "mission_loop \<Rightarrow> mission \<Rightarrow> loop_error + unit" where
  "validate_for l mission =
     and_then (loop_policy_validate (ml_policy l)) (\<lambda>_.
       if ml_schema_version l \<noteq> loop_schema_version
          \<or> ml_revision l = 0
          \<or> ml_steering_generation l = 0
          \<or> ml_updated_at l < ml_created_at l
          \<or> loop_frontier_limit < bt_len (ml_todos l)
          \<or> loop_frontier_limit < bt_len (ml_gates l)
          \<or> 64 < bt_len (ml_peers l)
          \<or> loop_history_limit < length (ml_recent_runs l)
          \<or> bt_len (ml_peers l) < fcard (ml_acknowledged_notices l)
          \<or> (\<exists>notice |\<in>| ml_acknowledged_notices l. \<not> digest notice)
       then Err InvalidState
       else if ml_tenant_id l \<noteq> ms_tenant_id mission
          \<or> ml_project_id l \<noteq> ms_project_id mission
          \<or> ml_mission_id l \<noteq> ms_id mission
       then Err ScopeMismatch
       else and_then (for_each peer_entry_ok (sorted_list_of_fmap (ml_peers l))) (\<lambda>_.
         and_then (for_each (todo_entry_ok l) (sorted_list_of_fmap (ml_todos l))) (\<lambda>_.
           for_each (gate_entry_ok l) (sorted_list_of_fmap (ml_gates l)))))"

end
