(* ===== verification/Loop_Decision.thy ===== *)
theory Loop_Decision
  imports Loop_Types
begin

text \<open>
  \<open>domain-kernel/src/mission_loop/decision.rs\<close>: the read-only decision which todo a peer may run, the
  hard stops of the mission, eligibility of a todo, the user channel, and the checks that a claim
  still authorises work.
\<close>

section \<open>Data\<close>

datatype loop_wake = WakeNow | WakeAt time | OnStateChange | WakeStop

record loop_user_channel =
  uc_gate_ids :: "string list"
  uc_notification_digest :: "string option"
  uc_notify :: bool

record loop_decision =
  de_loop_revision :: u64
  de_mission_revision :: u64
  de_mode :: loop_mode
  de_selected_todo :: "string option"
  de_user :: loop_user_channel
  de_wake :: loop_wake
  de_remaining_slots :: u32
  de_reserved_slots :: u32
  de_reconciliation_required :: bool

section \<open>Eligibility\<close>

definition gate_blocks :: "loop_user_gate \<Rightarrow> string \<Rightarrow> loop_todo_spec \<Rightarrow> bool" where
  "gate_blocks gate agent todo =
     (case ug_scope gate of
        GateMission \<Rightarrow> True
      | GateAgent a \<Rightarrow> a = agent
      | GateTodo t \<Rightarrow> t = ts_id todo
      | GateDecision scope \<Rightarrow>
          (\<exists>required |\<in>| ts_required_decisions todo.
             required = scope \<or> prefix (scope @ '':'') required))"

definition hard_stop :: "mission_loop \<Rightarrow> mission \<Rightarrow> time \<Rightarrow> loop_mode option" where
  "hard_stop l mission now =
     (if stage_is_terminal (ms_stage mission) then Some ModeTerminal
      else if oc_valid_until (ms_contract mission) \<le> now then Some ContractExpired
      else if ml_paused l \<or> lp_max_slots (ml_policy l) = 0 then Some ModePaused
      else if ms_stage mission \<in> {StageWaitingUser, StageWaitingApproval}
      then Some UserActionRequired
      else if ms_stage mission \<notin> {StageReady, StageRunning, StageVerifying}
              \<or> is_err (contract_validate (ms_contract mission) now)
      then Some ModeWait
      else None)"

text \<open>\<open>mission.tasks.iter().any(..)\<close>: the bound task still accepts work of the todo's capability.\<close>

definition task_accepts :: "mission \<Rightarrow> loop_todo_spec \<Rightarrow> string \<Rightarrow> bool" where
  "task_accepts mission todo task_id \<longleftrightarrow>
     list_ex (\<lambda>task. tk_id task = task_id \<and> tk_status task \<in> {TaskReady, TaskRunning}
       \<and> ts_capability todo = Some (tk_capability task)) (ms_tasks mission)"

definition ineligible_reason ::
  "mission_loop \<Rightarrow> mission \<Rightarrow> loop_peer \<Rightarrow> loop_host \<Rightarrow> loop_todo \<Rightarrow> loop_mode option" where
  "ineligible_reason l mission peer host todo =
     (if ts_eligible_agents (lt_spec todo) \<noteq> {||}
         \<and> pr_id peer |\<notin>| ts_eligible_agents (lt_spec todo)
      then Some ModeWait
      else if (\<exists>d |\<in>| ts_depends_on (lt_spec todo).
          is_none_or (\<lambda>item. lt_status item \<noteq> TodoCompleted) (fmlookup (ml_todos l) d))
      then Some ModeWait
      else if list_ex (\<lambda>gate. gate_blocks gate (pr_id peer) (lt_spec todo)) (bt_values (ml_gates l))
      then Some UserActionRequired
      else if ts_workspace_digest (lt_spec todo) \<noteq> ho_workspace_digest host
      then Some WorkspaceMismatch
      else if is_some_and (\<lambda>capability.
          capability |\<notin>| pr_capabilities peer
          \<or> capability |\<notin>| ho_available_capabilities host
          \<or> capability |\<notin>| oc_enabled_capabilities (ms_contract mission)
          \<or> capability |\<in>| oc_forbidden_capabilities (ms_contract mission))
          (ts_capability (lt_spec todo))
      then Some CapabilityUnavailable
      else if is_some_and (\<lambda>task_id. \<not> task_accepts mission (lt_spec todo) task_id)
          (ts_task_id (lt_spec todo))
      then Some ModeReplan
      else if list_ex (\<lambda>other.
          ts_id (lt_spec other) \<noteq> ts_id (lt_spec todo)
          \<and> lt_claim other \<noteq> None
          \<and> ts_workspace_digest (lt_spec other) = ts_workspace_digest (lt_spec todo)
          \<and> (\<exists>a |\<in>| ts_write_scopes (lt_spec other). \<exists>b |\<in>| ts_write_scopes (lt_spec todo).
               scopes_overlap a b)) (bt_values (ml_todos l))
      then Some ModeWait
      else None)"

definition user_channel ::
  "'x loop_ext_scheme \<Rightarrow> mission_loop \<Rightarrow> string \<Rightarrow> loop_error + loop_user_channel" where
  "user_channel X l agent =
     (let gates = filter (\<lambda>gate.
            (case ug_scope gate of
               GateAgent a \<Rightarrow> a = agent
             | GateTodo t \<Rightarrow> is_some_and (\<lambda>todo. ts_eligible_agents (lt_spec todo) = {||}
                   \<or> agent |\<in>| ts_eligible_agents (lt_spec todo)) (fmlookup (ml_todos l) t)
             | GateMission \<Rightarrow> True
             | GateDecision _ \<Rightarrow> True)) (bt_values (ml_gates l))
      in and_then (if gates = [] then Ok None
                   else and_then (loop_digest X (json_gates X gates)) (\<lambda>d. Ok (Some d)))
        (\<lambda>notification_digest. Ok
          \<lparr>uc_gate_ids = map ug_id gates, uc_notification_digest = notification_digest,
           uc_notify = is_some_and (\<lambda>d. d |\<notin>| ml_acknowledged_notices l) notification_digest\<rparr>))"

section \<open>The decision\<close>

definition kind_mode :: "loop_work_kind \<Rightarrow> loop_mode" where
  "kind_mode k = (case k of
       KindAdvancement \<Rightarrow> BoundedDelivery
     | KindRepair \<Rightarrow> ModeRepair
     | KindReplan \<Rightarrow> ModeReplan
     | KindMonitor \<Rightarrow> MonitorPoll)"

text \<open>
  The loop over the sorted candidates: it stops at the first todo that may run, and otherwise
  collects the reasons why none may and the earliest due time of the monitors that are not due.
\<close>

fun scan_candidates ::
  "mission_loop \<Rightarrow> mission \<Rightarrow> loop_peer \<Rightarrow> loop_host \<Rightarrow> u32 \<Rightarrow> time \<Rightarrow> loop_todo list
     \<Rightarrow> loop_mode list \<Rightarrow> time option \<Rightarrow> loop_todo + loop_mode list \<times> time option" where
  "scan_candidates l mission peer host remaining now [] reasons next_due = Inr (reasons, next_due)"
| "scan_candidates l mission peer host remaining now (todo # rest) reasons next_due =
     (if lt_status todo \<noteq> TodoOpen
      then scan_candidates l mission peer host remaining now rest reasons next_due
      else if is_some_and (\<lambda>monitor. mo_expires_at monitor \<le> now) (ts_monitor (lt_spec todo))
      then scan_candidates l mission peer host remaining now rest reasons next_due
      else if is_some_and (\<lambda>monitor. now < mo_next_due_at monitor) (ts_monitor (lt_spec todo))
      then scan_candidates l mission peer host remaining now rest reasons
        (case (ts_monitor (lt_spec todo), next_due) of
           (Some monitor, None) \<Rightarrow> Some (mo_next_due_at monitor)
         | (Some monitor, Some at) \<Rightarrow> Some (min at (mo_next_due_at monitor))
         | (None, _) \<Rightarrow> next_due)
      else (case ineligible_reason l mission peer host todo of
         Some reason \<Rightarrow>
           scan_candidates l mission peer host remaining now rest (reasons @ [reason]) next_due
       | None \<Rightarrow>
           if ts_kind (lt_spec todo) \<in> {KindRepair, KindReplan}
              \<and> lp_stall_limit (ml_policy l) \<le> lt_no_progress_attempts todo
           then scan_candidates l mission peer host remaining now rest (reasons @ [ModeReplan]) next_due
           else if lp_stall_limit (ml_policy l) \<le> ml_no_progress_streak l
              \<and> ts_kind (lt_spec todo) \<notin> {KindRepair, KindReplan}
           then scan_candidates l mission peer host remaining now rest (reasons @ [ModeRepair]) next_due
           else if remaining = 0 \<and> ts_kind (lt_spec todo) \<noteq> KindMonitor
           then scan_candidates l mission peer host remaining now rest (reasons @ [QuotaExhausted]) next_due
           else Inl todo))"

definition claimed_todos :: "mission_loop \<Rightarrow> loop_todo list" where
  "claimed_todos l = filter (\<lambda>todo. lt_claim todo \<noteq> None) (bt_values (ml_todos l))"

definition claim_stale :: "string \<Rightarrow> time \<Rightarrow> loop_todo \<Rightarrow> bool" where
  "claim_stale authority now todo \<longleftrightarrow>
     lt_status todo = TodoUncertain
     \<or> is_some_and (\<lambda>claim. lc_expires_at claim \<le> now \<or> lc_authority_digest claim \<noteq> authority)
         (lt_claim todo)"

definition earliest :: "time list \<Rightarrow> loop_wake" where
  "earliest ts = (case ts of [] \<Rightarrow> OnStateChange | t # ts' \<Rightarrow> WakeAt (fold min ts' t))"

definition candidates_for :: "mission_loop \<Rightarrow> string option \<Rightarrow> loop_todo list" where
  "candidates_for l selected =
     sort_key (\<lambda>todo. (ts_priority (lt_spec todo), ts_id (lt_spec todo)))
       (filter (\<lambda>todo. is_none_or (\<lambda>s. ts_id (lt_spec todo) = s) selected) (bt_values (ml_todos l)))"

definition decision ::
  "'x loop_ext_scheme \<Rightarrow> mission_loop \<Rightarrow> loop_mission_facts \<Rightarrow> loop_host \<Rightarrow> string option \<Rightarrow> time
     \<Rightarrow> loop_error + loop_decision" where
  "decision X l facts host selected now =
     and_then (validate_for l (fa_mission facts)) (\<lambda>_.
     if now < ml_updated_at l then Err ClockRegression
     else
     and_then (ok_or UnknownAgent (fmlookup (ml_peers l) (ho_agent_id host))) (\<lambda>peer.
     and_then (authority_digest X facts) (\<lambda>authority.
     let claims = claimed_todos l in
     and_then (ok_or LoopOverflow (usize_to_u32
         (length (filter (\<lambda>todo. ts_kind (lt_spec todo) \<noteq> KindMonitor) claims)))) (\<lambda>reserved_slots.
     and_then (user_channel X l (ho_agent_id host)) (\<lambda>user.
     let result =
       \<lparr>de_loop_revision = ml_revision l, de_mission_revision = ms_revision (fa_mission facts),
        de_mode = ModeWait, de_selected_todo = None, de_user = user, de_wake = OnStateChange,
        de_remaining_slots =
          saturating_sub (saturating_sub (lp_max_slots (ml_policy l)) (ml_spent_slots l)) reserved_slots,
        de_reserved_slots = reserved_slots,
        de_reconciliation_required = list_ex (claim_stale authority now) claims\<rparr>
     in case hard_stop l (fa_mission facts) now of
       Some mode \<Rightarrow> Ok (result\<lparr>de_mode := mode,
           de_user := (if mode \<noteq> UserActionRequired then user\<lparr>uc_notify := False\<rparr> else user),
           de_wake := (if mode \<in> {ModeTerminal, ContractExpired} then WakeStop else OnStateChange)\<rparr>)
     | None \<Rightarrow>
       if ho_workspace_digest host \<noteq> pr_workspace_digest peer
       then Ok (result\<lparr>de_mode := WorkspaceMismatch\<rparr>)
       else case find (\<lambda>todo. is_some_and (\<lambda>claim. lc_agent_id claim = ho_agent_id host) (lt_claim todo)) claims of
         Some todo \<Rightarrow>
           and_then (ok_or InvalidState (lt_claim todo)) (\<lambda>claim.
             if lt_status todo = TodoUncertain \<or> lc_expires_at claim \<le> now
                \<or> lc_authority_digest claim \<noteq> authority
             then Ok (result\<lparr>de_mode := ReconcileRequired\<rparr>)
             else Ok (result\<lparr>de_mode := ModeWait, de_wake := WakeAt (lc_expires_at claim)\<rparr>))
       | None \<Rightarrow>
         if unat (lp_max_parallel (ml_policy l)) \<le> length claims
         then Ok (result\<lparr>de_wake := earliest (filter (\<lambda>at. now < at)
                (map lc_expires_at (List.map_filter lt_claim claims)))\<rparr>)
         else case scan_candidates l (fa_mission facts) peer host (de_remaining_slots result) now
               (candidates_for l selected) [] None of
           Inl todo \<Rightarrow> Ok (result\<lparr>de_mode := kind_mode (ts_kind (lt_spec todo)),
               de_selected_todo := Some (ts_id (lt_spec todo)), de_wake := WakeNow\<rparr>)
         | Inr (reasons, next_due) \<Rightarrow> Ok (result\<lparr>
               de_mode := (if UserActionRequired \<in> set reasons then UserActionRequired
                           else if reasons \<noteq> [] then hd reasons
                           else if next_due \<noteq> None \<or> claims \<noteq> [] then ModeWait
                           else if uc_gate_ids user \<noteq> [] then UserActionRequired
                           else ModeReplan),
               de_wake := (case next_due of None \<Rightarrow> OnStateChange | Some at \<Rightarrow> WakeAt at)\<rparr>))))))"

definition should_run ::
  "'x loop_ext_scheme \<Rightarrow> mission_loop \<Rightarrow> loop_mission_facts \<Rightarrow> loop_host \<Rightarrow> time
     \<Rightarrow> loop_error + loop_decision" where
  "should_run X l facts host now = decision X l facts host None now"

definition decision_for_todo ::
  "'x loop_ext_scheme \<Rightarrow> mission_loop \<Rightarrow> loop_mission_facts \<Rightarrow> loop_host \<Rightarrow> string \<Rightarrow> time
     \<Rightarrow> loop_error + loop_decision" where
  "decision_for_todo X l facts host todo_id now =
     (if \<not> contains_key (ml_todos l) todo_id then Err InvalidTodo
      else decision X l facts host (Some todo_id) now)"

definition spend_after_validation :: "loop_decision \<Rightarrow> bool" where
  "spend_after_validation d \<longleftrightarrow> de_selected_todo d \<noteq> None \<and> de_mode d \<noteq> MonitorPoll"

section \<open>Claims\<close>

definition require_claim ::
  "'x loop_ext_scheme \<Rightarrow> mission_loop \<Rightarrow> loop_mission_facts \<Rightarrow> loop_claim \<Rightarrow> time
     \<Rightarrow> loop_error + unit" where
  "require_claim X l facts claim now =
     and_then (validate_for l (fa_mission facts)) (\<lambda>_.
     and_then (ok_or ClaimLost (fmlookup (ml_todos l) (lc_todo_id claim))) (\<lambda>todo.
       if lt_status todo \<noteq> TodoClaimed
          \<or> lt_claim todo \<noteq> Some claim
          \<or> lc_expires_at claim \<le> now
          \<or> now < ml_updated_at l
          \<or> now < lc_claimed_at claim
          \<or> lc_steering_generation claim \<noteq> ml_steering_generation l
       then Err ClaimLost
       else and_then (authority_digest X facts) (\<lambda>authority.
         if lc_authority_digest claim \<noteq> authority
            \<or> hard_stop l (fa_mission facts) now \<noteq> None
            \<or> list_ex (\<lambda>gate. gate_blocks gate (lc_agent_id claim) (lt_spec todo)) (bt_values (ml_gates l))
         then Err ClaimLost
         else Ok ())))"

definition require_execution ::
  "'x loop_ext_scheme \<Rightarrow> mission_loop \<Rightarrow> loop_mission_facts \<Rightarrow> loop_claim \<Rightarrow> time
     \<Rightarrow> loop_error + unit" where
  "require_execution X l facts claim now =
     and_then (require_claim X l facts claim now) (\<lambda>_.
     and_then (ok_or ClaimLost (fmlookup (ml_todos l) (lc_todo_id claim))) (\<lambda>todo.
       if \<not> lt_execution_started todo
          \<or> is_some_and (\<lambda>task_id. \<not> task_accepts (fa_mission facts) (lt_spec todo) task_id)
              (ts_task_id (lt_spec todo))
       then Err ClaimLost else Ok ()))"

end
