(* ===== verification/Loop_Transition.thy ===== *)
theory Loop_Transition
  imports Loop_Decision
begin

text \<open>
  \<open>domain-kernel/src/mission_loop/transition.rs\<close>: the command table of the loop. \<open>apply\<close> works on a
  copy and replaces the aggregate only on success, so that a transition is a function to an error
  or the next aggregate with its receipt.
\<close>

section \<open>Guards and helpers\<close>

definition require_operator :: "mission_loop \<Rightarrow> loop_actor \<Rightarrow> loop_error + unit" where
  "require_operator l actor =
     (if actor = Operator (lp_operator_id (ml_policy l)) then Ok () else Err OperatorRequired)"

definition require_agent :: "loop_actor \<Rightarrow> string \<Rightarrow> loop_error + unit" where
  "require_agent actor agent = (if actor = Agent agent then Ok () else Err ActorMismatch)"

definition validate_actor :: "mission_loop \<Rightarrow> loop_actor \<Rightarrow> loop_error + unit" where
  "validate_actor l actor =
     (case actor of
        Operator _ \<Rightarrow> require_operator l actor
      | Agent a \<Rightarrow> if contains_key (ml_peers l) a then Ok () else Err UnknownAgent)"

definition validate_task_binding :: "loop_todo_spec \<Rightarrow> mission \<Rightarrow> loop_error + unit" where
  "validate_task_binding todo mission =
     (if is_some_and (\<lambda>task_id.
          \<not> list_ex (\<lambda>task. tk_id task = task_id \<and> ts_capability todo = Some (tk_capability task))
              (ms_tasks mission)
          \<or> is_none_or (\<lambda>cap.
              cap |\<notin>| oc_enabled_capabilities (ms_contract mission)
              \<or> cap |\<in>| oc_forbidden_capabilities (ms_contract mission)) (ts_capability todo))
        (ts_task_id todo)
      then Err InvalidTodo else Ok ())"

definition validate_continuation ::
  "mission_loop \<Rightarrow> string \<Rightarrow> loop_continuation \<Rightarrow> loop_error + unit" where
  "validate_continuation l current continuation =
     (case continuation of
        NextTodo t \<Rightarrow>
          if t = current
             \<or> is_none_or (\<lambda>todo. lt_status todo \<notin> {TodoOpen, TodoClaimed}) (fmlookup (ml_todos l) t)
          then Err InvalidContinuation else Ok ()
      | UserGate g \<Rightarrow> if \<not> contains_key (ml_gates l) g then Err InvalidContinuation else Ok ()
      | _ \<Rightarrow> Ok ())"

definition invalidate_claims :: "mission_loop \<Rightarrow> loop_error + mission_loop" where
  "invalidate_claims l =
     and_then (ok_or LoopOverflow (checked_add (ml_steering_generation l) 1)) (\<lambda>generation.
       Ok (l\<lparr>ml_steering_generation := generation,
             ml_todos := fmmap (\<lambda>todo. if lt_claim todo \<noteq> None then todo\<lparr>lt_status := TodoUncertain\<rparr>
                                       else todo) (ml_todos l)\<rparr>))"

fun current_notices ::
  "'x loop_ext_scheme \<Rightarrow> mission_loop \<Rightarrow> string list \<Rightarrow> string fset \<Rightarrow> loop_error + string fset" where
  "current_notices X l [] current = Ok current"
| "current_notices X l (agent # agents) current =
     and_then (user_channel X l agent) (\<lambda>channel.
       current_notices X l agents
         (case uc_notification_digest channel of Some d \<Rightarrow> finsert d current | None \<Rightarrow> current))"

definition prune_notice_acknowledgements ::
  "'x loop_ext_scheme \<Rightarrow> mission_loop \<Rightarrow> loop_error + mission_loop" where
  "prune_notice_acknowledgements X l =
     and_then (current_notices X l (bt_keys (ml_peers l)) {||}) (\<lambda>current.
       Ok (l\<lparr>ml_acknowledged_notices := ffilter (\<lambda>d. d |\<in>| current) (ml_acknowledged_notices l)\<rparr>))"

text \<open>\<open>now + lease\<close>, cut off at the end of the contract and of the monitor.\<close>

definition lease_expiry ::
  "'x ext_scheme \<Rightarrow> mission_loop \<Rightarrow> mission \<Rightarrow> loop_todo \<Rightarrow> time \<Rightarrow> loop_error + time" where
  "lease_expiry X l mission todo now =
     and_then (ok_or LoopPanic (dur_seconds X (uint (lp_lease_seconds (ml_policy l))))) (\<lambda>lease.
     and_then (ok_or LoopOverflow (add_signed X now lease)) (\<lambda>at.
       let expires_at = min at (oc_valid_until (ms_contract mission)) in
       Ok (case ts_monitor (lt_spec todo) of
             Some monitor \<Rightarrow> min expires_at (mo_expires_at monitor)
           | None \<Rightarrow> expires_at)))"

section \<open>Settlement\<close>

text \<open>The loop over the evidence of a progress report: every item must be fresh and confirmed.\<close>

fun collect_evidence ::
  "mission_loop \<Rightarrow> mission \<Rightarrow> loop_claim \<Rightarrow> time \<Rightarrow> string list
     \<Rightarrow> loop_error + (string \<times> string \<times> time) list" where
  "collect_evidence l mission claim now [] = Ok []"
| "collect_evidence l mission claim now (e # es) =
     and_then (ok_or EvidenceRequired (find (\<lambda>item. ev_id item = e) (ms_evidence mission))) (\<lambda>item.
       if ev_status item \<noteq> EvConfirmed
          \<or> e |\<in>| ml_accepted_evidence l
          \<or> ev_observed_at item < lc_claimed_at claim
          \<or> now < ev_observed_at item
          \<or> \<not> digest (ev_content_digest item)
       then Err EvidenceRequired
       else and_then (collect_evidence l mission claim now es) (\<lambda>rest.
         Ok ((ev_id item, ev_content_digest item, ev_observed_at item) # rest)))"

text \<open>The match of \<open>settle\<close> on the result: the loop, the todo and the run it leaves.\<close>

definition settle_result ::
  "'x loop_ext_scheme \<Rightarrow> mission_loop \<Rightarrow> loop_mission_facts \<Rightarrow> loop_claim \<Rightarrow> loop_turn_result \<Rightarrow> time
     \<Rightarrow> loop_todo \<Rightarrow> loop_run_summary \<Rightarrow> loop_error + mission_loop \<times> loop_todo \<times> loop_run_summary" where
  "settle_result X l facts claim result now todo run =
     (case result of
        Progress evidence_ids continuation \<Rightarrow>
          if ts_kind (lt_spec todo) = KindMonitor then Err InvalidState
          else and_then (validate_continuation l (ts_id (lt_spec todo)) continuation) (\<lambda>_.
            if evidence_ids = {||} then Err EvidenceRequired
            else and_then (collect_evidence l (fa_mission facts) claim now
                             (sorted_list_of_fset evidence_ids)) (\<lambda>evidence.
              and_then (loop_digest X (json_evidence X evidence)) (\<lambda>d.
              and_then (ok_or LoopOverflow (checked_add (ml_spent_slots l) 1)) (\<lambda>spent.
                Ok (l\<lparr>ml_spent_slots := spent,
                      ml_accepted_evidence := ml_accepted_evidence l |\<union>| evidence_ids,
                      ml_no_progress_streak := 0\<rparr>,
                    todo\<lparr>lt_status := TodoCompleted\<rparr>,
                    run\<lparr>ru_evidence_digest := d, ru_spent_slot := True, ru_notify := True,
                        ru_continuation := Some continuation\<rparr>)))))
      | MonitorObservation observation_digest \<Rightarrow>
          if \<not> digest observation_digest then Err InvalidState
          else and_then (ok_or InvalidState (ts_monitor (lt_spec todo))) (\<lambda>monitor.
            let interval = uint (mo_interval_seconds monitor);
                elapsed = max (num_seconds (now - mo_next_due_at monitor)) 0
            in if interval = 0 then Err LoopPanic
            else and_then (ok_or LoopOverflow (Option.bind (checked_i64 (elapsed div interval + 1))
                (\<lambda>ticks. checked_i64 (ticks * interval)))) (\<lambda>advance.
            and_then (ok_or LoopPanic (dur_seconds X advance)) (\<lambda>d.
            and_then (ok_or LoopOverflow (add_signed X (mo_next_due_at monitor) d)) (\<lambda>next_due_at.
              let monitor = monitor\<lparr>mo_next_due_at := next_due_at\<rparr> in
              Ok (l,
                  todo\<lparr>lt_spec := (lt_spec todo)\<lparr>ts_monitor := Some monitor\<rparr>,
                       lt_last_observation_digest := Some observation_digest,
                       lt_status := (if mo_expires_at monitor \<le> next_due_at then TodoCompleted
                                     else TodoOpen)\<rparr>,
                  run\<lparr>ru_evidence_digest := observation_digest,
                      ru_notify := is_some_and (\<lambda>previous. previous \<noteq> observation_digest)
                        (lt_last_observation_digest todo)\<rparr>)))))
      | NoProgress reason_digest \<Rightarrow>
          if \<not> digest reason_digest \<or> ts_kind (lt_spec todo) = KindMonitor then Err InvalidState
          else Ok (l\<lparr>ml_no_progress_streak := saturating_add (ml_no_progress_streak l) 1\<rparr>,
                   todo\<lparr>lt_no_progress_attempts := saturating_add (lt_no_progress_attempts todo) 1,
                        lt_status := TodoOpen\<rparr>,
                   run\<lparr>ru_evidence_digest := reason_digest\<rparr>)
      | TurnFailed evidence_digest uncertain \<Rightarrow>
          if \<not> digest evidence_digest then Err InvalidState
          else Ok (l\<lparr>ml_no_progress_streak := saturating_add (ml_no_progress_streak l) 1\<rparr>,
                   todo\<lparr>lt_no_progress_attempts := saturating_add (lt_no_progress_attempts todo) 1,
                        lt_status := (if uncertain then TodoUncertain else TodoOpen)\<rparr>,
                   run\<lparr>ru_evidence_digest := evidence_digest, ru_notify := True\<rparr>))"

definition is_uncertain_failure :: "loop_turn_result \<Rightarrow> bool" where
  "is_uncertain_failure r = (case r of TurnFailed _ uncertain \<Rightarrow> uncertain | _ \<Rightarrow> False)"

definition is_failure :: "loop_turn_result \<Rightarrow> bool" where
  "is_failure r = (case r of TurnFailed _ _ \<Rightarrow> True | _ \<Rightarrow> False)"

text \<open>\<open>push_back\<close>, then \<open>pop_front\<close> while the history is too long.\<close>

definition push_run :: "loop_run_summary list \<Rightarrow> loop_run_summary \<Rightarrow> loop_run_summary list" where
  "push_run runs run = drop (Suc (length runs) - loop_history_limit) (runs @ [run])"

definition settle ::
  "'x loop_ext_scheme \<Rightarrow> mission_loop \<Rightarrow> loop_mission_facts \<Rightarrow> loop_claim \<Rightarrow> loop_turn_result \<Rightarrow> bool
     \<Rightarrow> time \<Rightarrow> loop_error + mission_loop \<times> loop_run_summary" where
  "settle X l facts claim result reconciled now =
     and_then
       (if reconciled \<or> is_uncertain_failure result
        then (if Option.bind (fmlookup (ml_todos l) (lc_todo_id claim)) lt_claim \<noteq> Some claim
              then Err ClaimLost else Ok ())
        else require_claim X l facts claim now) (\<lambda>_.
     and_then (ok_or ClaimLost (fmlookup (ml_todos l) (lc_todo_id claim))) (\<lambda>todo.
       if \<not> lt_execution_started todo \<and> \<not> is_failure result then Err ClaimLost
       else and_then (ok_or LoopOverflow (checked_add (ml_run_sequence l) 1)) (\<lambda>sequence.
         let run = \<lparr>ru_sequence = sequence, ru_todo_id = lc_todo_id claim,
                    ru_agent_id = lc_agent_id claim, ru_evidence_digest = [],
                    ru_spent_slot = False, ru_notify = False, ru_continuation = None,
                    ru_recorded_at = now\<rparr>
         in and_then (settle_result X l facts claim result now todo run) (\<lambda>(l, todo, run).
           let todo = (if lt_status todo \<noteq> TodoUncertain
                       then todo\<lparr>lt_claim := None, lt_execution_started := False\<rparr> else todo)
           in Ok (l\<lparr>ml_todos := fmupd (ts_id (lt_spec todo)) todo (ml_todos l),
                    ml_run_sequence := sequence,
                    ml_recent_runs := push_run (ml_recent_runs l) run\<rparr>, run)))))"

section \<open>The command table\<close>

definition transition_claim ::
  "'x loop_ext_scheme \<Rightarrow> mission_loop \<Rightarrow> loop_mission_facts \<Rightarrow> loop_actor \<Rightarrow> loop_host \<Rightarrow> string
     \<Rightarrow> string \<Rightarrow> loop_receipt \<Rightarrow> time \<Rightarrow> loop_error + mission_loop \<times> loop_receipt" where
  "transition_claim X l facts actor host todo_id token_digest receipt now =
     and_then (require_agent actor (ho_agent_id host)) (\<lambda>_.
       if \<not> digest token_digest then Err InvalidState
       else and_then (decision_for_todo X l facts host todo_id now) (\<lambda>decision.
         if de_selected_todo decision \<noteq> Some todo_id then Err (NotRunnable (de_mode decision))
         else and_then (ok_or LoopOverflow (checked_add (ml_claim_generation l) 1)) (\<lambda>generation.
           and_then (ok_or InvalidTodo (fmlookup (ml_todos l) todo_id)) (\<lambda>todo.
           and_then (lease_expiry X l (fa_mission facts) todo now) (\<lambda>expires_at.
           and_then (authority_digest X facts) (\<lambda>authority.
             let claim =
               \<lparr>lc_todo_id = todo_id, lc_agent_id = ho_agent_id host,
                lc_token_digest = token_digest, lc_generation = generation,
                lc_steering_generation = ml_steering_generation l,
                lc_authority_digest = authority, lc_claimed_at = now, lc_expires_at = expires_at\<rparr>
             in Ok (l\<lparr>ml_claim_generation := generation,
                      ml_todos := fmupd todo_id (todo\<lparr>lt_status := TodoClaimed,
                        lt_claim := Some claim, lt_execution_started := False\<rparr>) (ml_todos l)\<rparr>,
                    receipt\<lparr>re_claim := Some claim\<rparr>)))))))"

definition transition_begin ::
  "'x loop_ext_scheme \<Rightarrow> mission_loop \<Rightarrow> loop_mission_facts \<Rightarrow> loop_actor \<Rightarrow> loop_claim \<Rightarrow> loop_host
     \<Rightarrow> loop_receipt \<Rightarrow> time \<Rightarrow> loop_error + mission_loop \<times> loop_receipt" where
  "transition_begin X l facts actor claim host receipt now =
     and_then (require_agent actor (lc_agent_id claim)) (\<lambda>_.
       if ho_agent_id host \<noteq> lc_agent_id claim then Err ActorMismatch
       else and_then (require_claim X l facts claim now) (\<lambda>_.
         and_then (ok_or UnknownAgent (fmlookup (ml_peers l) (lc_agent_id claim))) (\<lambda>peer.
           if ho_workspace_digest host \<noteq> pr_workspace_digest peer
           then Err (NotRunnable WorkspaceMismatch)
           else and_then (ok_or ClaimLost (fmlookup (ml_todos l) (lc_todo_id claim))) (\<lambda>todo.
             if lt_execution_started todo then Err ExecutionAlreadyStarted
             else case ineligible_reason l (fa_mission facts) peer host todo of
               Some reason \<Rightarrow> Err (NotRunnable reason)
             | None \<Rightarrow>
                 Ok (l\<lparr>ml_todos := fmupd (lc_todo_id claim) (todo\<lparr>lt_execution_started := True\<rparr>)
                         (ml_todos l)\<rparr>,
                     receipt\<lparr>re_claim := Some claim\<rparr>)))))"

definition transition_heartbeat ::
  "'x loop_ext_scheme \<Rightarrow> mission_loop \<Rightarrow> loop_mission_facts \<Rightarrow> loop_actor \<Rightarrow> loop_claim
     \<Rightarrow> loop_receipt \<Rightarrow> time \<Rightarrow> loop_error + mission_loop \<times> loop_receipt" where
  "transition_heartbeat X l facts actor claim receipt now =
     and_then (require_agent actor (lc_agent_id claim)) (\<lambda>_.
     and_then (require_claim X l facts claim now) (\<lambda>_.
     and_then (ok_or ClaimLost (fmlookup (ml_todos l) (lc_todo_id claim))) (\<lambda>todo.
     and_then (lease_expiry X l (fa_mission facts) todo now) (\<lambda>expires_at.
       let renewed = claim\<lparr>lc_expires_at := expires_at\<rparr>
       in Ok (l\<lparr>ml_todos := fmupd (lc_todo_id claim) (todo\<lparr>lt_claim := Some renewed\<rparr>) (ml_todos l)\<rparr>,
              receipt\<lparr>re_claim := Some renewed\<rparr>)))))"

definition transition_acknowledge ::
  "'x loop_ext_scheme \<Rightarrow> mission_loop \<Rightarrow> loop_actor \<Rightarrow> string \<Rightarrow> loop_error + mission_loop" where
  "transition_acknowledge X l actor notification_digest =
     (if \<not> digest notification_digest then Err InvalidState
      else and_then
        (case actor of
           Agent agent \<Rightarrow> and_then (user_channel X l agent) (\<lambda>channel.
             Ok (uc_notification_digest channel = Some notification_digest))
         | Operator _ \<Rightarrow> Ok (list_ex (\<lambda>agent.
             (case user_channel X l agent of
                Inr channel \<Rightarrow> uc_notification_digest channel = Some notification_digest
              | Inl _ \<Rightarrow> False)) (bt_keys (ml_peers l))))
        (\<lambda>known. if \<not> known then Err InvalidGate
           else Ok (l\<lparr>ml_acknowledged_notices :=
                  finsert notification_digest (ml_acknowledged_notices l)\<rparr>)))"

fun transition ::
  "'x loop_ext_scheme \<Rightarrow> mission_loop \<Rightarrow> loop_mission_facts \<Rightarrow> loop_actor \<Rightarrow> loop_action
     \<Rightarrow> loop_receipt \<Rightarrow> time \<Rightarrow> loop_error + mission_loop \<times> loop_receipt" where
  "transition X l facts actor (RegisterPeer peer) receipt now =
     and_then (require_operator l actor) (\<lambda>_.
       if 64 \<le> bt_len (ml_peers l) then Err FrontierFull
       else if \<not> token (pr_id peer) \<or> \<not> digest (pr_workspace_digest peer)
          \<or> (\<exists>cap |\<in>| pr_capabilities peer. \<not> token cap) \<or> contains_key (ml_peers l) (pr_id peer)
       then Err InvalidState
       else Ok (l\<lparr>ml_peers := fmupd (pr_id peer) peer (ml_peers l)\<rparr>, receipt))"
| "transition X l facts actor (AddTodo todo) receipt now =
     (if loop_frontier_limit \<le> bt_len (ml_todos l) then Err FrontierFull
      else if contains_key (ml_todos l) (ts_id todo) then Err InvalidTodo
      else and_then (validate_todo_spec l todo) (\<lambda>_.
        and_then (validate_task_binding todo (fa_mission facts)) (\<lambda>_.
          Ok (l\<lparr>ml_todos := fmupd (ts_id todo)
                  \<lparr>lt_spec = todo, lt_status = TodoOpen, lt_claim = None,
                   lt_execution_started = False, lt_no_progress_attempts = 0,
                   lt_last_observation_digest = None\<rparr> (ml_todos l)\<rparr>, receipt))))"
| "transition X l facts actor (OpenGate gate) receipt now =
     (if loop_frontier_limit \<le> bt_len (ml_gates l) then Err FrontierFull
      else and_then (validate_gate l gate) (\<lambda>_.
        if contains_key (ml_gates l) (ug_id gate) then Err InvalidGate
        else and_then
          (case actor of
             Agent agent \<Rightarrow>
               (case ug_scope gate of
                  GateMission \<Rightarrow> Err OperatorRequired
                | GateAgent a \<Rightarrow> if a \<noteq> agent then Err ActorMismatch else Ok ()
                | _ \<Rightarrow> Ok ())
           | Operator _ \<Rightarrow> Ok ()) (\<lambda>_.
          and_then (prune_notice_acknowledgements X
              (l\<lparr>ml_gates := fmupd (ug_id gate) gate (ml_gates l)\<rparr>)) (\<lambda>l. Ok (l, receipt)))))"
| "transition X l facts actor (ResolveGate gate_id decision_digest) receipt now =
     and_then (require_operator l actor) (\<lambda>_.
       if \<not> digest decision_digest \<or> \<not> contains_key (ml_gates l) gate_id then Err InvalidGate
       else and_then (prune_notice_acknowledgements X (l\<lparr>ml_gates := fmdrop gate_id (ml_gates l)\<rparr>))
         (\<lambda>l. Ok (l, receipt)))"
| "transition X l facts actor (Pause paused) receipt now =
     and_then (require_operator l actor) (\<lambda>_.
       let l = l\<lparr>ml_paused := paused\<rparr> in
       and_then (if paused then invalidate_claims l else Ok l) (\<lambda>l. Ok (l, receipt)))"
| "transition X l facts actor (SetQuota max_slots) receipt now =
     and_then (require_operator l actor) (\<lambda>_.
       and_then (if max_slots < lp_max_slots (ml_policy l) then invalidate_claims l else Ok l) (\<lambda>l.
         Ok (l\<lparr>ml_policy := (ml_policy l)\<lparr>lp_max_slots := max_slots\<rparr>\<rparr>, receipt)))"
| "transition X l facts actor (Steer rationale_digest) receipt now =
     and_then (require_operator l actor) (\<lambda>_.
       if \<not> digest rationale_digest then Err InvalidState
       else and_then (invalidate_claims l) (\<lambda>l. Ok (l, receipt)))"
| "transition X l facts actor (Claim host todo_id token_digest) receipt now =
     transition_claim X l facts actor host todo_id token_digest receipt now"
| "transition X l facts actor (BeginExecution claim host) receipt now =
     transition_begin X l facts actor claim host receipt now"
| "transition X l facts actor (Heartbeat claim) receipt now =
     transition_heartbeat X l facts actor claim receipt now"
| "transition X l facts actor (Settle claim result) receipt now =
     and_then (require_agent actor (lc_agent_id claim)) (\<lambda>_.
       and_then (settle X l facts claim result False now) (\<lambda>(l, run).
         Ok (l, receipt\<lparr>re_run := Some run\<rparr>)))"
| "transition X l facts actor (ReconcileSettlement claim result readback_digest) receipt now =
     and_then (require_operator l actor) (\<lambda>_.
       if \<not> digest readback_digest then Err EvidenceRequired
       else if lc_steering_generation claim \<noteq> ml_steering_generation l then Err ClaimLost
       else and_then (authority_digest X facts) (\<lambda>authority.
         if lc_authority_digest claim \<noteq> authority then Err ClaimLost
         else and_then (settle X l facts claim result True now) (\<lambda>(l, run).
           Ok (l, receipt\<lparr>re_run := Some run\<rparr>))))"
| "transition X l facts actor (ReconcileRetry todo_id evidence_digest) receipt now =
     and_then (require_operator l actor) (\<lambda>_.
       if \<not> digest evidence_digest then Err EvidenceRequired
       else and_then (ok_or InvalidTodo (fmlookup (ml_todos l) todo_id)) (\<lambda>todo.
         and_then (ok_or ClaimLost (lt_claim todo)) (\<lambda>claim.
           and_then (if lt_status todo \<noteq> TodoUncertain \<and> now < lc_expires_at claim
                     then and_then (authority_digest X facts) (\<lambda>authority.
                       Ok (lc_authority_digest claim = authority))
                     else Ok False) (\<lambda>live.
             if live then Err ClaimLost
             else Ok (l\<lparr>ml_todos := fmupd todo_id (todo\<lparr>lt_claim := None,
                          lt_execution_started := False, lt_status := TodoOpen\<rparr>) (ml_todos l)\<rparr>,
                      receipt)))))"
| "transition X l facts actor (CancelTodo todo_id rationale_digest) receipt now =
     and_then (require_operator l actor) (\<lambda>_.
       if \<not> digest rationale_digest then Err InvalidState
       else and_then (ok_or InvalidTodo (fmlookup (ml_todos l) todo_id)) (\<lambda>todo.
         if lt_status todo \<noteq> TodoOpen \<or> lt_claim todo \<noteq> None then Err ClaimLost
         else Ok (l\<lparr>ml_todos := fmupd todo_id (todo\<lparr>lt_status := TodoCancelled\<rparr>) (ml_todos l)\<rparr>,
                  receipt)))"
| "transition X l facts actor (AcknowledgeNotice notification_digest) receipt now =
     and_then (transition_acknowledge X l actor notification_digest) (\<lambda>l. Ok (l, receipt))"

definition loop_apply ::
  "'x loop_ext_scheme \<Rightarrow> loop_mission_facts \<Rightarrow> loop_command \<Rightarrow> time \<Rightarrow> mission_loop
     \<Rightarrow> loop_error + mission_loop \<times> loop_receipt" where
  "loop_apply X facts command now l =
     and_then (validate_for l (fa_mission facts)) (\<lambda>_.
       if \<not> token (co_operation_id command) then Err InvalidState
       else if co_expected_revision command \<noteq> ml_revision l
          \<or> co_expected_mission_revision command \<noteq> ms_revision (fa_mission facts)
       then Err RevisionConflict
       else if now < ml_updated_at l then Err ClockRegression
       else and_then (validate_actor l (co_actor command)) (\<lambda>_.
         and_then (ok_or LoopOverflow (checked_add (ml_revision l) 1)) (\<lambda>revision.
         and_then (transition X l facts (co_actor command) (co_action command)
             \<lparr>re_revision = revision, re_claim = None, re_run = None, re_replayed = False\<rparr> now)
           (\<lambda>(next, receipt).
             let next = next\<lparr>ml_revision := re_revision receipt, ml_updated_at := now\<rparr> in
             and_then (validate_for next (fa_mission facts)) (\<lambda>_. Ok (next, receipt))))))"

end
