(* ===== verification/Loop_Spec.thy ===== *)
theory Loop_Spec
  imports Loop_Types
begin

text \<open>
  The abstract specification of the loop: its core is the todo map, the two generations, the slot
  account and the two limits, and a command changes it in one of seven ways. The safety properties
  of the loop are invariants of this relation; that the commands implement it is shown in
  \<open>Loop_Refine\<close>.
\<close>

section \<open>The core\<close>

record loop_core =
  k_todos :: "(string, loop_todo) fmap"
  k_steering :: u64
  k_claims :: u64
  k_spent :: u32
  k_evidence :: "string fset"
  k_slots :: u32
  k_parallel :: u16

abbreviation has_claim :: "loop_todo \<Rightarrow> bool" where
  "has_claim t \<equiv> lt_claim t \<noteq> None"

definition reserves :: "loop_todo \<Rightarrow> bool" where
  "reserves t \<longleftrightarrow> has_claim t \<and> ts_kind (lt_spec t) \<noteq> KindMonitor"

text \<open>A reservation of the current steering generation.\<close>

definition live :: "u64 \<Rightarrow> loop_todo \<Rightarrow> bool" where
  "live generation t \<longleftrightarrow>
     reserves t \<and> is_some_and (\<lambda>c. lc_steering_generation c = generation) (lt_claim t)"

definition same_work :: "loop_todo_spec \<Rightarrow> loop_todo_spec \<Rightarrow> bool" where
  "same_work s s' \<longleftrightarrow> (\<exists>monitor. s' = s\<lparr>ts_monitor := monitor\<rparr>)"

definition same_claim :: "loop_claim \<Rightarrow> loop_claim \<Rightarrow> bool" where
  "same_claim c c' \<longleftrightarrow> (\<exists>expires_at. c' = c\<lparr>lc_expires_at := expires_at\<rparr>)"

definition overlapping :: "loop_todo_spec \<Rightarrow> loop_todo_spec \<Rightarrow> bool" where
  "overlapping s s' \<longleftrightarrow>
     ts_workspace_digest s = ts_workspace_digest s' \<and>
     (\<exists>a b. a |\<in>| ts_write_scopes s \<and> b |\<in>| ts_write_scopes s' \<and> scopes_overlap a b)"

definition completed :: "(string, loop_todo) fmap \<Rightarrow> string \<Rightarrow> bool" where
  "completed todos k \<longleftrightarrow> is_some_and (\<lambda>t. lt_status t = TodoCompleted) (fmlookup todos k)"

definition mark_uncertain :: "loop_todo \<Rightarrow> loop_todo" where
  "mark_uncertain t = (if has_claim t then t\<lparr>lt_status := TodoUncertain\<rparr> else t)"

section \<open>Steps of the core\<close>

inductive core_step :: "loop_core \<Rightarrow> loop_core \<Rightarrow> bool" where
  quiet: "k_slots s \<le> slots \<Longrightarrow> core_step s (s\<lparr>k_slots := slots\<rparr>)"
| added: "fmlookup (k_todos s) k = None \<Longrightarrow> ts_id (lt_spec t) = k \<Longrightarrow> lt_status t = TodoOpen \<Longrightarrow>
    lt_claim t = None \<Longrightarrow>
    (\<And>d. d |\<in>| ts_depends_on (lt_spec t) \<Longrightarrow> contains_key (k_todos s) d) \<Longrightarrow>
    core_step s (s\<lparr>k_todos := fmupd k t (k_todos s)\<rparr>)"
| invalidated: "checked_add (k_steering s) 1 = Some steering \<Longrightarrow>
    core_step s (s\<lparr>k_steering := steering, k_slots := slots,
                  k_todos := fmmap mark_uncertain (k_todos s)\<rparr>)"
| claimed: "fmlookup (k_todos s) k = Some t \<Longrightarrow> lt_status t = TodoOpen \<Longrightarrow>
    t' = t\<lparr>lt_status := TodoClaimed, lt_claim := Some c, lt_execution_started := False\<rparr> \<Longrightarrow>
    checked_add (k_claims s) 1 = Some (lc_generation c) \<Longrightarrow>
    lc_steering_generation c = k_steering s \<Longrightarrow> lc_todo_id c = k \<Longrightarrow>
    (\<And>d. d |\<in>| ts_depends_on (lt_spec t) \<Longrightarrow> completed (k_todos s) d) \<Longrightarrow>
    (\<And>k' u c'. fmlookup (k_todos s) k' = Some u \<Longrightarrow> lt_claim u = Some c' \<Longrightarrow>
       lc_agent_id c' \<noteq> lc_agent_id c) \<Longrightarrow>
    (\<And>k' u. fmlookup (k_todos s) k' = Some u \<Longrightarrow> has_claim u \<Longrightarrow>
       \<not> overlapping (lt_spec u) (lt_spec t)) \<Longrightarrow>
    card (key_set has_claim (k_todos s)) < unat (k_parallel s) \<Longrightarrow>
    (ts_kind (lt_spec t) \<noteq> KindMonitor \<Longrightarrow>
       unat (k_spent s) + card (key_set reserves (k_todos s)) < unat (k_slots s)) \<Longrightarrow>
    core_step s (s\<lparr>k_claims := lc_generation c, k_todos := fmupd k t' (k_todos s)\<rparr>)"
| kept: "fmlookup (k_todos s) k = Some t \<Longrightarrow> lt_claim t = Some c \<Longrightarrow> lt_claim t' = Some c' \<Longrightarrow>
    same_claim c c' \<Longrightarrow> lt_spec t' = lt_spec t \<Longrightarrow> lt_status t' \<in> {TodoClaimed, TodoUncertain} \<Longrightarrow>
    core_step s (s\<lparr>k_todos := fmupd k t' (k_todos s)\<rparr>)"
| released: "fmlookup (k_todos s) k = Some t \<Longrightarrow> has_claim t \<Longrightarrow> lt_claim t' = None \<Longrightarrow>
    same_work (lt_spec t) (lt_spec t') \<Longrightarrow> lt_status t' \<in> {TodoOpen, TodoCompleted} \<Longrightarrow>
    core_step s (s\<lparr>k_todos := fmupd k t' (k_todos s)\<rparr>)"
| progressed: "fmlookup (k_todos s) k = Some t \<Longrightarrow> lt_claim t = Some c \<Longrightarrow>
    lc_steering_generation c = k_steering s \<Longrightarrow> ts_kind (lt_spec t) \<noteq> KindMonitor \<Longrightarrow>
    lt_claim t' = None \<Longrightarrow> lt_spec t' = lt_spec t \<Longrightarrow> lt_status t' = TodoCompleted \<Longrightarrow>
    checked_add (k_spent s) 1 = Some spent \<Longrightarrow> evidence \<noteq> {||} \<Longrightarrow>
    evidence |\<inter>| k_evidence s = {||} \<Longrightarrow>
    core_step s (s\<lparr>k_spent := spent, k_evidence := k_evidence s |\<union>| evidence,
                  k_todos := fmupd k t' (k_todos s)\<rparr>)"
| cancelled: "fmlookup (k_todos s) k = Some t \<Longrightarrow> lt_status t = TodoOpen \<Longrightarrow> lt_claim t = None \<Longrightarrow>
    core_step s (s\<lparr>k_todos := fmupd k (t\<lparr>lt_status := TodoCancelled\<rparr>) (k_todos s)\<rparr>)"

inductive_cases core_stepE: "core_step s s'"

section \<open>Invariants\<close>

text \<open>Every todo sits under its own id, and holds a claim exactly while claimed or uncertain.\<close>

definition todos_wf :: "loop_core \<Rightarrow> bool" where
  "todos_wf s \<longleftrightarrow>
     (\<forall>k t. fmlookup (k_todos s) k = Some t \<longrightarrow>
        ts_id (lt_spec t) = k \<and>
        (lt_status t \<in> {TodoClaimed, TodoUncertain} \<longleftrightarrow> has_claim t) \<and>
        (\<forall>c. lt_claim t = Some c \<longrightarrow> lc_todo_id c = k \<and> lc_generation c \<le> k_claims s \<and>
              lc_steering_generation c \<le> k_steering s))"

text \<open>Claimed todos of one workspace never write to overlapping scopes.\<close>

definition writes_exclusive :: "loop_core \<Rightarrow> bool" where
  "writes_exclusive s \<longleftrightarrow>
     (\<forall>k k' t t'. fmlookup (k_todos s) k = Some t \<longrightarrow> fmlookup (k_todos s) k' = Some t' \<longrightarrow>
        k \<noteq> k' \<longrightarrow> has_claim t \<longrightarrow> has_claim t' \<longrightarrow> \<not> overlapping (lt_spec t) (lt_spec t'))"

definition one_claim_per_agent :: "loop_core \<Rightarrow> bool" where
  "one_claim_per_agent s \<longleftrightarrow>
     (\<forall>k k' t t' c c'. fmlookup (k_todos s) k = Some t \<longrightarrow> fmlookup (k_todos s) k' = Some t' \<longrightarrow>
        lt_claim t = Some c \<longrightarrow> lt_claim t' = Some c' \<longrightarrow> lc_agent_id c = lc_agent_id c' \<longrightarrow> k = k')"

definition parallel_bounded :: "loop_core \<Rightarrow> bool" where
  "parallel_bounded s \<longleftrightarrow> card (key_set has_claim (k_todos s)) \<le> unat (k_parallel s)"

text \<open>While a current reservation exists, every slot spent or reserved is inside the quota.\<close>

definition quota_kept :: "loop_core \<Rightarrow> bool" where
  "quota_kept s \<longleftrightarrow>
     (let reserved = card (key_set (live (k_steering s)) (k_todos s)) in
      reserved \<noteq> 0 \<longrightarrow> unat (k_spent s) + reserved \<le> unat (k_slots s))"

definition dependencies_done :: "loop_core \<Rightarrow> bool" where
  "dependencies_done s \<longleftrightarrow>
     (\<forall>k t d. fmlookup (k_todos s) k = Some t \<longrightarrow> has_claim t \<or> lt_status t = TodoCompleted \<longrightarrow>
        d |\<in>| ts_depends_on (lt_spec t) \<longrightarrow> completed (k_todos s) d)"

definition spent_backed :: "loop_core \<Rightarrow> bool" where
  "spent_backed s \<longleftrightarrow> unat (k_spent s) \<le> fcard (k_evidence s)"

definition depends :: "loop_core \<Rightarrow> (string \<times> string) set" where
  "depends s = {(d, k). \<exists>t. fmlookup (k_todos s) k = Some t \<and> d |\<in>| ts_depends_on (lt_spec t)}"

definition dependencies_wf :: "loop_core \<Rightarrow> bool" where
  "dependencies_wf s \<longleftrightarrow>
     acyclic (depends s) \<and> (\<forall>d k. (d, k) \<in> depends s \<longrightarrow> contains_key (k_todos s) d)"

definition core_inv :: "loop_core \<Rightarrow> bool" where
  "core_inv s \<longleftrightarrow>
     todos_wf s \<and> writes_exclusive s \<and> one_claim_per_agent s \<and> parallel_bounded s \<and>
     quota_kept s \<and> dependencies_done s \<and> spent_backed s \<and> dependencies_wf s"

section \<open>Preservation\<close>

lemmas core_specs = same_work_def same_claim_def reserves_def live_def mark_uncertain_def

lemma scopes_overlap_sym: "scopes_overlap a b \<longleftrightarrow> scopes_overlap b a"
  by (auto simp: scopes_overlap_def)

lemma overlapping_sym: "overlapping s s' \<longleftrightarrow> overlapping s' s"
  by (auto simp: overlapping_def) (metis scopes_overlap_sym)+

lemma todos_wfD:
  assumes "todos_wf s" and "fmlookup (k_todos s) k = Some t"
  shows "ts_id (lt_spec t) = k" and "lt_status t \<in> {TodoClaimed, TodoUncertain} \<longleftrightarrow> has_claim t"
    and "lt_claim t = Some c \<Longrightarrow>
      lc_todo_id c = k \<and> lc_generation c \<le> k_claims s \<and> lc_steering_generation c \<le> k_steering s"
  using assms unfolding todos_wf_def by blast+

text \<open>One todo replaced, the counters not lowered.\<close>

lemma todos_wf_update:
  assumes "todos_wf s" and "k_claims s \<le> k_claims s'" and "k_steering s \<le> k_steering s'"
    and "k_todos s' = fmupd k t (k_todos s)"
    and "ts_id (lt_spec t) = k" and "lt_status t \<in> {TodoClaimed, TodoUncertain} \<longleftrightarrow> has_claim t"
    and "\<And>c. lt_claim t = Some c \<Longrightarrow>
      lc_todo_id c = k \<and> lc_generation c \<le> k_claims s' \<and> lc_steering_generation c \<le> k_steering s'"
  shows "todos_wf s'"
  unfolding todos_wf_def
proof (intro allI impI)
  fix k' t'
  assume look: "fmlookup (k_todos s') k' = Some t'"
  show "ts_id (lt_spec t') = k' \<and> (lt_status t' \<in> {TodoClaimed, TodoUncertain} \<longleftrightarrow> has_claim t') \<and>
      (\<forall>c. lt_claim t' = Some c \<longrightarrow> lc_todo_id c = k' \<and> lc_generation c \<le> k_claims s' \<and>
         lc_steering_generation c \<le> k_steering s')"
  proof (cases "k' = k")
    case True
    then have "t' = t"
      using look by (simp add: assms(4))
    with True assms(5-7) show ?thesis
      by blast
  next
    case False
    then have look': "fmlookup (k_todos s) k' = Some t'"
      using look by (simp add: assms(4))
    show ?thesis
      using todos_wfD [OF assms(1) look'] assms(2,3) by (meson order_trans)
  qed
qed

lemma todos_wf_step: "core_step s s' \<Longrightarrow> todos_wf s \<Longrightarrow> todos_wf s'"
proof (induction rule: core_step.induct)
  case (quiet s slots)
  then show ?case
    by (simp add: todos_wf_def)
next
  case (added s k t)
  then show ?case
    by (intro todos_wf_update [OF added.prems, where k = k and t = t]) simp_all
next
  case (claimed s k t t' c)
  then show ?case
    using checked_add_one_Some(4) [OF claimed(4)] todos_wfD(1) [OF claimed.prems claimed(1)]
    by (intro todos_wf_update [OF claimed.prems, where k = k and t = t']) auto
next
  case (invalidated s steering slots)
  have le: "k_steering s \<le> steering"
    using checked_add_one_Some(4) [OF invalidated(1)] by simp
  show ?case
    unfolding todos_wf_def
  proof (intro allI impI)
    fix k t'
    assume "fmlookup (k_todos (s\<lparr>k_steering := steering, k_slots := slots,
                  k_todos := fmmap mark_uncertain (k_todos s)\<rparr>)) k = Some t'"
    then obtain t where t: "fmlookup (k_todos s) k = Some t" "t' = mark_uncertain t"
      by auto
    with todos_wfD [OF invalidated.prems t(1)] le
    show "ts_id (lt_spec t') = k \<and> (lt_status t' \<in> {TodoClaimed, TodoUncertain} \<longleftrightarrow> has_claim t') \<and>
      (\<forall>c. lt_claim t' = Some c \<longrightarrow> lc_todo_id c = k \<and>
         lc_generation c \<le> k_claims (s\<lparr>k_steering := steering, k_slots := slots,
                  k_todos := fmmap mark_uncertain (k_todos s)\<rparr>) \<and>
         lc_steering_generation c \<le> k_steering (s\<lparr>k_steering := steering, k_slots := slots,
                  k_todos := fmmap mark_uncertain (k_todos s)\<rparr>))"
      by (auto simp: mark_uncertain_def)
  qed
next
  case (kept s k t c t' c')
  then show ?case
    using todos_wfD [OF kept.prems kept(1)]
    by (intro todos_wf_update [OF kept.prems, where k = k and t = t']) (auto simp: same_claim_def)
next
  case (released s k t t')
  then show ?case
    using todos_wfD(1) [OF released.prems released(1)]
    by (intro todos_wf_update [OF released.prems, where k = k and t = t']) (auto simp: same_work_def)
next
  case (progressed s k t c t' spent evidence)
  then show ?case
    using todos_wfD(1) [OF progressed.prems progressed(1)]
    by (intro todos_wf_update [OF progressed.prems, where k = k and t = t']) auto
next
  case (cancelled s k t)
  then show ?case
    using todos_wfD(1) [OF cancelled.prems cancelled(1)]
    by (intro todos_wf_update [OF cancelled.prems, where k = k and t = "t\<lparr>lt_status := TodoCancelled\<rparr>"]) auto
qed

lemma writes_exclusive_step: "core_step s s' \<Longrightarrow> writes_exclusive s \<Longrightarrow> writes_exclusive s'"
proof (induction rule: core_step.induct)
  case (claimed s k t t' c)
  have sym: "\<not> overlapping (lt_spec t) (lt_spec u)"
    if "fmlookup (k_todos s) k' = Some u" "has_claim u" for k' u
    using claimed(9) [OF that] overlapping_sym by metis
  show ?case
    unfolding writes_exclusive_def
  proof (intro allI impI)
    fix k1 k2 t1 t2
    assume *: "fmlookup (k_todos (s\<lparr>k_claims := lc_generation c, k_todos := fmupd k t' (k_todos s)\<rparr>)) k1 = Some t1"
      "fmlookup (k_todos (s\<lparr>k_claims := lc_generation c, k_todos := fmupd k t' (k_todos s)\<rparr>)) k2 = Some t2"
      "k1 \<noteq> k2" "has_claim t1" "has_claim t2"
    have spec: "lt_spec t' = lt_spec t"
      by (simp add: claimed(3))
    show "\<not> overlapping (lt_spec t1) (lt_spec t2)"
    proof (cases "k1 = k")
      case True
      with * have "t1 = t'" "fmlookup (k_todos s) k2 = Some t2"
        by auto
      with * sym spec show ?thesis
        by metis
    next
      case k1: False
      then have 1: "fmlookup (k_todos s) k1 = Some t1"
        using *(1) by simp
      show ?thesis
      proof (cases "k2 = k")
        case True
        with * have "t2 = t'" by simp
        with claimed(9) [OF 1 *(4)] spec show ?thesis by simp
      next
        case False
        with * 1 claimed.prems show ?thesis
          by (auto simp: writes_exclusive_def)
      qed
    qed
  qed
next
  case (invalidated s steering slots)
  then show ?case
    by (auto simp: writes_exclusive_def mark_uncertain_def split: if_splits)
next
  case (kept s k t c t' c')
  then show ?case
    by (auto simp: writes_exclusive_def split: if_splits)
next
  case (released s k t t')
  then show ?case
    by (auto simp: writes_exclusive_def split: if_splits)
next
  case (progressed s k t c t' spent evidence)
  then show ?case
    by (auto simp: writes_exclusive_def split: if_splits)
qed (auto simp: writes_exclusive_def split: if_splits)

lemma one_claim_per_agent_step:
  "core_step s s' \<Longrightarrow> one_claim_per_agent s \<Longrightarrow> one_claim_per_agent s'"
proof (induction rule: core_step.induct)
  case (claimed s k t t' c)
  show ?case
    unfolding one_claim_per_agent_def
  proof (intro allI impI)
    fix k1 k2 t1 t2 c1 c2
    assume *: "fmlookup (k_todos (s\<lparr>k_claims := lc_generation c, k_todos := fmupd k t' (k_todos s)\<rparr>)) k1 = Some t1"
      "fmlookup (k_todos (s\<lparr>k_claims := lc_generation c, k_todos := fmupd k t' (k_todos s)\<rparr>)) k2 = Some t2"
      "lt_claim t1 = Some c1" "lt_claim t2 = Some c2" "lc_agent_id c1 = lc_agent_id c2"
    show "k1 = k2"
    proof (cases "k1 = k \<or> k2 = k")
      case True
      with * claimed(8) [of k1 t1 c1] claimed(8) [of k2 t2 c2] show ?thesis
        by (auto simp: claimed(3) split: if_splits)
    next
      case False
      then have "fmlookup (k_todos s) k1 = Some t1" "fmlookup (k_todos s) k2 = Some t2"
        using *(1,2) by (simp_all split: if_splits)
      with *(3-5) claimed.prems show ?thesis
        unfolding one_claim_per_agent_def by blast
    qed
  qed
next
  case (invalidated s steering slots)
  then show ?case
    by (auto simp: one_claim_per_agent_def mark_uncertain_def split: if_splits)
next
  case (kept s k t c t' c')
  then show ?case
    by (auto simp: one_claim_per_agent_def same_claim_def split: if_splits)
qed (auto simp: one_claim_per_agent_def split: if_splits)

lemma key_set_fmmap: "key_set P (fmmap f m) = key_set (P \<circ> f) m"
  by auto

lemma card_key_set_release:
  assumes "fmlookup m k = Some t" and "P t' \<Longrightarrow> P t"
  shows "card (key_set P (fmupd k t' m)) \<le> card (key_set P m)"
  using assms by (intro card_mono) (auto split: if_splits)

lemma parallel_bounded_step: "core_step s s' \<Longrightarrow> parallel_bounded s \<Longrightarrow> parallel_bounded s'"
proof (induction rule: core_step.induct)
  case (claimed s k t t' c)
  have "card (key_set has_claim (fmupd k t' (k_todos s))) \<le> Suc (card (key_set has_claim (k_todos s)))"
    by (simp add: key_set_fmupd claimed(3) card_insert_if)
  with claimed(10) show ?case
    by (simp add: parallel_bounded_def)
next
  case (added s k t)
  then show ?case
    by (simp add: parallel_bounded_def key_set_fmupd)
next
  case (invalidated s steering slots)
  have "has_claim \<circ> mark_uncertain = has_claim"
    by (auto simp: fun_eq_iff mark_uncertain_def)
  with invalidated show ?case
    by (simp add: parallel_bounded_def key_set_fmmap)
next
  case (kept s k t c t' c')
  then have "card (key_set has_claim (fmupd k t' (k_todos s))) \<le> card (key_set has_claim (k_todos s))"
    by (intro card_key_set_release) auto
  with kept show ?case
    by (simp add: parallel_bounded_def)
next
  case (released s k t t')
  then have "card (key_set has_claim (fmupd k t' (k_todos s))) \<le> card (key_set has_claim (k_todos s))"
    by (intro card_key_set_release) auto
  with released show ?case
    by (simp add: parallel_bounded_def)
next
  case (progressed s k t c t' spent evidence)
  then have "card (key_set has_claim (fmupd k t' (k_todos s))) \<le> card (key_set has_claim (k_todos s))"
    by (intro card_key_set_release) auto
  with progressed show ?case
    by (simp add: parallel_bounded_def)
next
  case (cancelled s k t)
  then have "card (key_set has_claim (fmupd k (t\<lparr>lt_status := TodoCancelled\<rparr>) (k_todos s)))
      \<le> card (key_set has_claim (k_todos s))"
    by (intro card_key_set_release) auto
  with cancelled show ?case
    by (simp add: parallel_bounded_def)
qed (simp add: parallel_bounded_def)

lemma live_implies_reserves: "live g t \<Longrightarrow> reserves t"
  by (simp add: live_def)

lemma quota_kept_step: "core_step s s' \<Longrightarrow> todos_wf s \<Longrightarrow> quota_kept s \<Longrightarrow> quota_kept s'"
proof (induction rule: core_step.induct)
  case (quiet s slots)
  then show ?case
    by (auto simp: quota_kept_def Let_def word_le_nat_alt)
next
  case (added s k t)
  then show ?case
    by (simp add: quota_kept_def key_set_fmupd live_def reserves_def)
next
  case (invalidated s steering slots)
  have "\<not> live steering (mark_uncertain t)" if "fmlookup (k_todos s) k = Some t" for k t
    using that invalidated(2) checked_add_one_Some(4) [OF invalidated(1)]
    by (fastforce simp: live_def mark_uncertain_def todos_wf_def is_some_and_iff)
  then have "key_set (live steering) (fmmap mark_uncertain (k_todos s)) = {}"
    by auto
  then show ?case
    by (simp add: quota_kept_def)
next
  case (claimed s k t t' c)
  let ?live = "key_set (live (k_steering s))"
  have wf: "\<not> has_claim t"
    using todos_wfD(2) [OF claimed.prems(1) claimed(1)] claimed(2) by simp
  show ?case
  proof (cases "ts_kind (lt_spec t) = KindMonitor")
    case True
    then have "\<not> live (k_steering s) t'" "\<not> live (k_steering s) t"
      using wf by (simp_all add: claimed(3) live_def reserves_def)
    then have "?live (fmupd k t' (k_todos s)) = ?live (k_todos s)"
      using claimed(1) by (auto simp: key_set_fmupd)
    with claimed.prems(2) show ?thesis
      by (simp add: quota_kept_def)
  next
    case False
    have "card (?live (k_todos s)) \<le> card (key_set reserves (k_todos s))"
      by (intro card_mono key_set_mono) (simp_all add: live_implies_reserves)
    moreover have "card (?live (fmupd k t' (k_todos s))) \<le> Suc (card (?live (k_todos s)))"
      unfolding key_set_fmupd
      using card_insert_le_m1 card_Diff1_le [of "?live (k_todos s)" k]
      by (auto simp: card_insert_if simp del: card_Diff_insert)
    ultimately show ?thesis
      using claimed(11) [OF False] by (simp add: quota_kept_def)
  qed
next
  case (kept s k t c t' c')
  then have "live (k_steering s) t' = live (k_steering s) t"
    by (auto simp: live_def reserves_def same_claim_def)
  then have "key_set (live (k_steering s)) (fmupd k t' (k_todos s)) = key_set (live (k_steering s)) (k_todos s)"
    using kept(1) by (auto simp: key_set_fmupd)
  with kept.prems(2) show ?case
    by (simp add: quota_kept_def)
next
  case (released s k t t')
  have "card (key_set (live (k_steering s)) (fmupd k t' (k_todos s)))
      \<le> card (key_set (live (k_steering s)) (k_todos s))"
    using released(1,3) by (intro card_key_set_release) (auto simp: live_def)
  with released.prems(2) show ?case
    by (auto simp: quota_kept_def Let_def)
next
  case (progressed s k t c t' spent evidence)
  let ?live = "key_set (live (k_steering s))"
  have "live (k_steering s) t"
    using progressed by (simp add: live_def reserves_def)
  then have mem: "k \<in> ?live (k_todos s)"
    using progressed(1) by simp
  have "?live (fmupd k t' (k_todos s)) = ?live (k_todos s) - {k}"
    using progressed(5) by (simp add: key_set_fmupd live_def reserves_def)
  then have "Suc (card (?live (fmupd k t' (k_todos s)))) = card (?live (k_todos s))"
    using card_Suc_Diff1 [OF finite_key_set mem] by metis
  moreover have "unat spent = Suc (unat (k_spent s))"
    using checked_add_SomeD(1) [OF progressed(8)] by simp
  ultimately show ?case
    using progressed.prems(2) by (simp add: quota_kept_def Let_def)
next
  case (cancelled s k t)
  then have "key_set (live (k_steering s)) (fmupd k (t\<lparr>lt_status := TodoCancelled\<rparr>) (k_todos s))
      = key_set (live (k_steering s)) (k_todos s)"
    by (auto simp: key_set_fmupd live_def reserves_def)
  with cancelled.prems(2) show ?case
    by (simp add: quota_kept_def)
qed

text \<open>Completed todos stay completed.\<close>

lemma completed_step:
  assumes "core_step s s'" and "todos_wf s" and "completed (k_todos s) d"
  shows "completed (k_todos s') d"
proof -
  obtain u where u: "fmlookup (k_todos s) d = Some u" "lt_status u = TodoCompleted"
    using assms(3) by (auto simp: completed_def is_some_and_iff)
  then have "\<not> has_claim u"
    using todos_wfD(2) [OF assms(2) u(1)] by simp
  with assms(1) u show ?thesis
    by (induction rule: core_step.induct)
       (auto simp: completed_def mark_uncertain_def)
qed

text \<open>A todo that is claimed or completed after a step was so before it, or is claimed by it.\<close>

lemma dependencies_source:
  assumes "core_step s s'" and "fmlookup (k_todos s') k = Some u"
    and "has_claim u \<or> lt_status u = TodoCompleted"
  shows "(\<exists>t. fmlookup (k_todos s) k = Some t \<and> (has_claim t \<or> lt_status t = TodoCompleted) \<and>
      ts_depends_on (lt_spec u) = ts_depends_on (lt_spec t)) \<or>
    (\<forall>d. d |\<in>| ts_depends_on (lt_spec u) \<longrightarrow> completed (k_todos s) d)"
  using assms
proof (induction rule: core_step.induct)
  case (invalidated s steering slots)
  then show ?case
    by (auto simp: mark_uncertain_def split: if_splits)
next
  case (claimed s k' t t' c)
  show ?case
  proof (cases "k = k'")
    case True
    then have "lt_spec u = lt_spec t"
      using claimed.prems(1) by (auto simp: claimed(3))
    with claimed(7) show ?thesis
      by simp
  next
    case False
    with claimed.prems show ?thesis
      by simp
  qed
next
  case (released s k' t t')
  then show ?case
    by (auto simp: same_work_def split: if_splits)
qed (auto split: if_splits)

lemma dependencies_done_step:
  assumes "core_step s s'" and "todos_wf s" and "dependencies_done s"
  shows "dependencies_done s'"
  unfolding dependencies_done_def
proof (intro allI impI)
  fix k u d
  assume u: "fmlookup (k_todos s') k = Some u" "has_claim u \<or> lt_status u = TodoCompleted"
    and d: "d |\<in>| ts_depends_on (lt_spec u)"
  have "completed (k_todos s) d"
    using dependencies_source [OF assms(1) u] assms(3) d unfolding dependencies_done_def by metis
  then show "completed (k_todos s') d"
    by (rule completed_step [OF assms(1,2)])
qed

lemma spent_backed_step: "core_step s s' \<Longrightarrow> spent_backed s \<Longrightarrow> spent_backed s'"
proof (induction rule: core_step.induct)
  case (progressed s k t c t' spent evidence)
  have "fcard (k_evidence s |\<union>| evidence) = fcard (k_evidence s) + fcard evidence"
    using progressed(10) by (intro fcard_funion_disjoint) (simp add: inf_commute)
  moreover have "0 < fcard evidence"
    using progressed(9) by (simp add: fcard.rep_eq card_gt_0_iff) (metis bot_fset.rep_eq fset_inject)
  ultimately show ?case
    using progressed.prems checked_add_SomeD(1) [OF progressed(8)] by (simp add: spent_backed_def)
qed (simp_all add: spent_backed_def)

lemma in_depends:
  "(d, k) \<in> depends s \<longleftrightarrow>
     is_some_and (\<lambda>t. d |\<in>| ts_depends_on (lt_spec t)) (fmlookup (k_todos s) k)"
  by (simp add: depends_def is_some_and_iff)

text \<open>Replacing a todo by one with the same dependencies leaves the graph alone.\<close>

lemma depends_update:
  assumes "fmlookup (k_todos s) k = Some t" and "k_todos s' = fmupd k t' (k_todos s)"
    and "ts_depends_on (lt_spec t') = ts_depends_on (lt_spec t)"
  shows "depends s' = depends s"
proof -
  have "(d, y) \<in> depends s' \<longleftrightarrow> (d, y) \<in> depends s" for d y
    using assms by (cases "y = k") (simp_all add: in_depends)
  then show ?thesis
    by auto
qed

lemma dependencies_wf_frame:
  assumes "dependencies_wf s" and "depends s' = depends s"
    and "\<And>d. contains_key (k_todos s) d \<Longrightarrow> contains_key (k_todos s') d"
  shows "dependencies_wf s'"
  using assms by (auto simp: dependencies_wf_def)

lemma acyclic_insert_sink:
  assumes "acyclic r" and "\<And>y. (k, y) \<notin> r" and "k \<notin> D"
  shows "acyclic (r \<union> {(d, k) |d. d \<in> D})"
proof -
  define r' where "r' = r \<union> {(d, k) |d. d \<in> D}"
  have sink: "(k, y) \<notin> r'" for y
    using assms(2,3) unfolding r'_def by blast
  have old: "(x, y) \<in> r' \<Longrightarrow> y \<noteq> k \<Longrightarrow> (x, y) \<in> r" for x y
    unfolding r'_def by blast
  have path: "(x, y) \<in> r'\<^sup>+ \<Longrightarrow> y \<noteq> k \<Longrightarrow> (x, y) \<in> r\<^sup>+" for x y
  proof (induction rule: trancl_induct)
    case (base y)
    then show ?case
      using old by (simp add: r_into_trancl')
  next
    case (step y z)
    have "y \<noteq> k"
      using step.hyps(2) sink by blast
    then have "(x, y) \<in> r\<^sup>+"
      by (rule step.IH)
    moreover have "(y, z) \<in> r"
      using step.hyps(2) step.prems by (rule old)
    ultimately show ?case
      by (rule trancl_into_trancl)
  qed
  have "(x, x) \<notin> r'\<^sup>+" for x
  proof
    assume cycle: "(x, x) \<in> r'\<^sup>+"
    then obtain z where "(x, z) \<in> r'"
      by (meson tranclD)
    then have "x \<noteq> k"
      using sink by blast
    with path [OF cycle] assms(1) show False
      unfolding acyclic_def by blast
  qed
  then show ?thesis
    unfolding acyclic_def r'_def by blast
qed

lemma dependencies_wf_step: "core_step s s' \<Longrightarrow> dependencies_wf s \<Longrightarrow> dependencies_wf s'"
proof (induction rule: core_step.induct)
  case (quiet s slots)
  then show ?case
    by (simp add: dependencies_wf_def depends_def)
next
  case (added s k t)
  let ?s = "s\<lparr>k_todos := fmupd k t (k_todos s)\<rparr>"
  let ?D = "fset (ts_depends_on (lt_spec t))"
  have ac: "acyclic (depends s)" and closed: "\<And>d y. (d, y) \<in> depends s \<Longrightarrow> contains_key (k_todos s) d"
    using added.prems unfolding dependencies_wf_def by blast+
  have fresh: "\<not> contains_key (k_todos s) k"
    using added(1) by (simp add: contains_key_def)
  have in_iff: "(d, y) \<in> depends ?s \<longleftrightarrow> (d, y) \<in> depends s \<union> {(d, k) |d. d \<in> ?D}" for d y
    using added(1) by (cases "y = k") (simp_all add: in_depends)
  have "acyclic (depends s \<union> {(d, k) |d. d \<in> ?D})"
  proof (rule acyclic_insert_sink [OF ac])
    show "(k, y) \<notin> depends s" for y
      using closed [of k y] fresh by blast
    show "k \<notin> ?D"
      using added(5) [of k] fresh by blast
  qed
  moreover have "depends ?s = depends s \<union> {(d, k) |d. d \<in> ?D}"
  proof (rule set_eqI)
    fix p
    show "p \<in> depends ?s \<longleftrightarrow> p \<in> depends s \<union> {(d, k) |d. d \<in> ?D}"
      using in_iff [of "fst p" "snd p"] by (simp only: prod.collapse)
  qed
  moreover have "contains_key (k_todos ?s) d" if "(d, y) \<in> depends ?s" for d y
  proof -
    have "(d, y) \<in> depends s \<or> d |\<in>| ts_depends_on (lt_spec t)"
      using that in_iff [of d y] by blast
    then have "contains_key (k_todos s) d"
      using closed added(5) by blast
    then show ?thesis
      by simp
  qed
  ultimately show ?case
    by (simp add: dependencies_wf_def)
next
  case (invalidated s steering slots)
  have "(d, y) \<in> depends (s\<lparr>k_steering := steering, k_slots := slots,
        k_todos := fmmap mark_uncertain (k_todos s)\<rparr>) \<longleftrightarrow> (d, y) \<in> depends s" for d y
    by (cases "fmlookup (k_todos s) y") (simp_all add: in_depends mark_uncertain_def)
  then have "depends (s\<lparr>k_steering := steering, k_slots := slots,
        k_todos := fmmap mark_uncertain (k_todos s)\<rparr>) = depends s"
    by (intro set_eqI) (metis surj_pair)
  then show ?case
    by (rule dependencies_wf_frame [OF invalidated(2)]) (simp add: contains_key_def)
next
  case (claimed s k t t' c)
  show ?case
    by (rule dependencies_wf_frame [OF claimed.prems depends_update [OF claimed(1), where t' = t']])
       (simp_all add: claimed(3))
next
  case (kept s k t c t' c')
  show ?case
    by (rule dependencies_wf_frame [OF kept.prems depends_update [OF kept(1), where t' = t']])
       (simp_all add: kept(5))
next
  case (released s k t t')
  then have "ts_depends_on (lt_spec t') = ts_depends_on (lt_spec t)"
    by (auto simp: same_work_def)
  then show ?case
    by (intro dependencies_wf_frame [OF released.prems depends_update [OF released(1), where t' = t']]) simp_all
next
  case (progressed s k t c t' spent evidence)
  show ?case
    by (rule dependencies_wf_frame [OF progressed.prems depends_update [OF progressed(1), where t' = t']])
       (simp_all add: progressed(6))
next
  case (cancelled s k t)
  show ?case
    by (rule dependencies_wf_frame [OF cancelled.prems depends_update [OF cancelled(1), where t' = "t\<lparr>lt_status := TodoCancelled\<rparr>"]]) simp_all
qed

lemma core_inv_step:
  assumes "core_step s s'" and "core_inv s"
  shows "core_inv s'"
proof -
  have inv: "todos_wf s" "writes_exclusive s" "one_claim_per_agent s" "parallel_bounded s"
    "quota_kept s" "dependencies_done s" "spent_backed s" "dependencies_wf s"
    using assms(2) by (simp_all add: core_inv_def)
  show ?thesis
    unfolding core_inv_def
    by (intro conjI todos_wf_step [OF assms(1)] writes_exclusive_step [OF assms(1)]
        one_claim_per_agent_step [OF assms(1)] parallel_bounded_step [OF assms(1)]
        quota_kept_step [OF assms(1)] dependencies_done_step [OF assms(1)]
        spent_backed_step [OF assms(1)] dependencies_wf_step [OF assms(1)] inv)
qed

end
