(* ===== verification/Loop_Refine.thy ===== *)
theory Loop_Refine
  imports Loop_Transition Loop_Spec
begin

text \<open>
  The command table of the loop implements the specification of \<open>Loop_Spec\<close>: every command that
  commits is one step of the core, so that the invariants of the core hold of every loop reached
  from \<open>loop_new\<close>. Also here: what the decision procedure selects, and that the revision, the clock,
  the steering generation and the claim generation only move forwards.
\<close>

section \<open>What validation establishes\<close>

lemma validate_for_todo:
  assumes "validate_for l mission = Ok ()" and "fmlookup (ml_todos l) k = Some t"
  shows "todo_entry_ok l (k, t) = Ok ()"
proof -
  have "(k, t) \<in> set (sorted_list_of_fmap (ml_todos l))"
    using assms(2) by (simp add: sorted_list_of_fmap_def fmlookup_dom_iff image_iff fmdomI)
  then show ?thesis
    using assms(1) by (simp add: validate_for_def)
qed

lemma todo_entry_okD:
  assumes "todo_entry_ok l (k, t) = Ok ()"
  shows "ts_id (lt_spec t) = k" and "validate_todo_spec l (lt_spec t) = Ok ()"
    and "lt_status t \<in> {TodoClaimed, TodoUncertain} \<longleftrightarrow> has_claim t"
    and "lt_claim t = Some c \<Longrightarrow> lc_todo_id c = k \<and> lc_generation c \<le> ml_claim_generation l \<and>
      lc_steering_generation c \<le> ml_steering_generation l"
  using assms by (auto simp: todo_entry_ok_def not_less)

lemma validate_for_id:
  "validate_for l mission = Ok () \<Longrightarrow> fmlookup (ml_todos l) k = Some t \<Longrightarrow> ts_id (lt_spec t) = k"
  using validate_for_todo todo_entry_okD(1) by blast

section \<open>What a decision selects\<close>

text \<open>The conditions under which the scan stops at a todo.\<close>

definition runnable ::
  "mission_loop \<Rightarrow> mission \<Rightarrow> loop_peer \<Rightarrow> loop_host \<Rightarrow> u32 \<Rightarrow> time \<Rightarrow> loop_todo \<Rightarrow> bool" where
  "runnable l mission peer host remaining now t \<longleftrightarrow>
     lt_status t = TodoOpen
     \<and> is_none_or (\<lambda>monitor. now < mo_expires_at monitor \<and> mo_next_due_at monitor \<le> now)
         (ts_monitor (lt_spec t))
     \<and> ineligible_reason l mission peer host t = None
     \<and> (ts_kind (lt_spec t) \<in> {KindRepair, KindReplan} \<longrightarrow>
          lt_no_progress_attempts t < lp_stall_limit (ml_policy l))
     \<and> (ts_kind (lt_spec t) \<notin> {KindRepair, KindReplan} \<longrightarrow>
          ml_no_progress_streak l < lp_stall_limit (ml_policy l))
     \<and> (ts_kind (lt_spec t) \<noteq> KindMonitor \<longrightarrow> remaining \<noteq> 0)"

lemma scan_candidates_Inl:
  "scan_candidates l mission peer host remaining now ts reasons due = Inl t \<longleftrightarrow>
     find (runnable l mission peer host remaining now) ts = Some t"
proof (induction ts arbitrary: reasons due remaining)
  case (Cons u ts)
  show ?case
  proof (cases "runnable l mission peer host remaining now u")
    case True
    then have "lt_status u = TodoOpen" "ineligible_reason l mission peer host u = None"
      "\<not> is_some_and (\<lambda>monitor. mo_expires_at monitor \<le> now) (ts_monitor (lt_spec u))"
      "\<not> is_some_and (\<lambda>monitor. now < mo_next_due_at monitor) (ts_monitor (lt_spec u))"
      "\<not> (ts_kind (lt_spec u) \<in> {KindRepair, KindReplan}
          \<and> lp_stall_limit (ml_policy l) \<le> lt_no_progress_attempts u)"
      "\<not> (lp_stall_limit (ml_policy l) \<le> ml_no_progress_streak l
          \<and> ts_kind (lt_spec u) \<notin> {KindRepair, KindReplan})"
      "\<not> (remaining = 0 \<and> ts_kind (lt_spec u) \<noteq> KindMonitor)"
      unfolding runnable_def by (auto simp: is_none_or_iff is_some_and_iff)
    then have "scan_candidates l mission peer host remaining now (u # ts) reasons due = Inl u"
      by (simp only: scan_candidates.simps if_False not_not simp_thms option.case)
    with True show ?thesis
      by (simp del: scan_candidates.simps)
  next
    case False
    then consider "lt_status u \<noteq> TodoOpen"
      | "is_some_and (\<lambda>monitor. mo_expires_at monitor \<le> now) (ts_monitor (lt_spec u))"
      | "is_some_and (\<lambda>monitor. now < mo_next_due_at monitor) (ts_monitor (lt_spec u))"
      | reason where "ineligible_reason l mission peer host u = Some reason"
      | "ineligible_reason l mission peer host u = None"
        "ts_kind (lt_spec u) \<in> {KindRepair, KindReplan}
          \<and> lp_stall_limit (ml_policy l) \<le> lt_no_progress_attempts u"
      | "ineligible_reason l mission peer host u = None"
        "lp_stall_limit (ml_policy l) \<le> ml_no_progress_streak l
          \<and> ts_kind (lt_spec u) \<notin> {KindRepair, KindReplan}"
      | "ineligible_reason l mission peer host u = None"
        "remaining = 0 \<and> ts_kind (lt_spec u) \<noteq> KindMonitor"
      unfolding runnable_def by (fastforce simp: is_none_or_iff is_some_and_iff not_less not_le)
    then have "scan_candidates l mission peer host remaining now (u # ts) reasons due = Inl t \<longleftrightarrow>
        find (runnable l mission peer host remaining now) ts = Some t"
      by cases (simp_all add: Cons.IH split: option.split)
    with False show ?thesis
      by (simp del: scan_candidates.simps)
  qed
qed simp

text \<open>The slots a decision may still hand out.\<close>

definition free_slots :: "mission_loop \<Rightarrow> u32" where
  "free_slots l = saturating_sub (saturating_sub (lp_max_slots (ml_policy l)) (ml_spent_slots l))
     (of_nat (card (key_set reserves (ml_todos l))))"

lemma reserved_count:
  "length (filter (\<lambda>todo. ts_kind (lt_spec todo) \<noteq> KindMonitor) (claimed_todos l)) =
     card (key_set reserves (ml_todos l))"
  by (simp add: claimed_todos_def length_filter_bt_values [symmetric] reserves_def [abs_def] conj_commute)

lemma claimed_count: "length (claimed_todos l) = card (key_set has_claim (ml_todos l))"
  by (simp add: claimed_todos_def length_filter_bt_values)

lemma find_own_claim:
  "find (\<lambda>t. is_some_and (\<lambda>c. lc_agent_id c = agent) (lt_claim t)) (claimed_todos l) = None \<longleftrightarrow>
     (\<forall>k t c. fmlookup (ml_todos l) k = Some t \<longrightarrow> lt_claim t = Some c \<longrightarrow> lc_agent_id c \<noteq> agent)"
  by (auto simp: find_eq_None_iff claimed_todos_def is_some_and_iff set_bt_values)

lemma usize_to_u32_eq: "usize_to_u32 n = Some w \<longleftrightarrow> n < 2 ^ 32 \<and> w = of_nat n"
  by (auto simp: usize_to_u32_def)

text \<open>
  Nothing stops the peer of a host from being given the first runnable candidate.
\<close>

definition unstopped :: "mission_loop \<Rightarrow> loop_mission_facts \<Rightarrow> loop_host \<Rightarrow> loop_peer \<Rightarrow> time \<Rightarrow> bool" where
  "unstopped l facts host peer now \<longleftrightarrow>
     validate_for l (fa_mission facts) = Ok () \<and> ml_updated_at l \<le> now \<and>
     fmlookup (ml_peers l) (ho_agent_id host) = Some peer \<and>
     hard_stop l (fa_mission facts) now = None \<and>
     ho_workspace_digest host = pr_workspace_digest peer \<and>
     (\<forall>k t c. fmlookup (ml_todos l) k = Some t \<longrightarrow> lt_claim t = Some c \<longrightarrow>
        lc_agent_id c \<noteq> ho_agent_id host) \<and>
     card (key_set has_claim (ml_todos l)) < unat (lp_max_parallel (ml_policy l))"

lemma decision_selects:
  assumes "decision X l facts host selected now = Ok d" and "de_selected_todo d = Some k"
  shows "\<exists>peer t. unstopped l facts host peer now \<and> ts_id (lt_spec t) = k \<and>
    find (runnable l (fa_mission facts) peer host (free_slots l) now) (candidates_for l selected)
      = Some t \<and> is_ok (authority_digest X facts) \<and> is_ok (user_channel X l (ho_agent_id host))"
  using assms
  unfolding decision_def Let_def reserved_count claimed_count unstopped_def free_slots_def
    scan_candidates_Inl [symmetric, where reasons = "[]" and due = None] find_own_claim [symmetric]
  apply (simp only: and_then_eq_Ok ok_or_eq_Ok if_Err_eq_Ok usize_to_u32_eq)
  apply (elim exE conjE)
  apply (simp only: and_then_eq_Ok ok_or_eq_Ok if_Err_eq_Ok split: option.splits if_splits sum.splits prod.splits)
  apply (auto simp: not_le not_less)
  done

lemma decision_run:
  assumes "unstopped l facts host peer now"
    and "find (runnable l (fa_mission facts) peer host (free_slots l) now) (candidates_for l selected)
      = Some t"
    and "authority_digest X facts = Ok authority" and "user_channel X l (ho_agent_id host) = Ok user"
  shows "\<exists>d. decision X l facts host selected now = Ok d \<and> de_selected_todo d = Some (ts_id (lt_spec t))"
proof -
  have "bt_len (ml_todos l) \<le> loop_frontier_limit"
    using assms(1) by (simp add: unstopped_def validate_for_def)
  then have "card (key_set reserves (ml_todos l)) < 2 ^ 32"
    using card_key_set_le_len [of reserves "ml_todos l"] by (simp add: loop_frontier_limit_def)
  then have "usize_to_u32 (card (key_set reserves (ml_todos l))) =
      Some (of_nat (card (key_set reserves (ml_todos l))))"
    by (simp add: usize_to_u32_eq)
  with assms show ?thesis
    unfolding decision_def Let_def reserved_count claimed_count unstopped_def free_slots_def
      scan_candidates_Inl [symmetric, where reasons = "[]" and due = None] find_own_claim [symmetric]
    by simp
qed

lemma candidates_for_iff:
  "t \<in> set (candidates_for l selected) \<longleftrightarrow>
     (\<exists>k. fmlookup (ml_todos l) k = Some t) \<and> is_none_or (\<lambda>s. ts_id (lt_spec t) = s) selected"
  by (auto simp: candidates_for_def set_bt_values)

lemma candidates_for_single:
  assumes "validate_for l mission = Ok ()" and "fmlookup (ml_todos l) k = Some t"
  shows "candidates_for l (Some k) = [t]"
proof -
  let ?ts = "filter (\<lambda>t. ts_id (lt_spec t) = k) (bt_values (ml_todos l))"
  have "key_set (\<lambda>t. ts_id (lt_spec t) = k) (ml_todos l) = {k}"
    using assms validate_for_id [OF assms(1)] by auto
  then have "length ?ts = 1"
    by (simp add: length_filter_bt_values)
  moreover have "u = t" if "u \<in> set ?ts" for u
    using that assms(2) validate_for_id [OF assms(1)] by (auto simp: set_bt_values)
  ultimately have "?ts = [t]"
    by (cases ?ts) auto
  then show ?thesis
    by (simp add: candidates_for_def)
qed

lemma free_slots_unat:
  assumes "validate_for l mission = Ok ()"
  shows "unat (free_slots l) =
    unat (lp_max_slots (ml_policy l)) - unat (ml_spent_slots l) - card (key_set reserves (ml_todos l))"
proof -
  have "bt_len (ml_todos l) \<le> loop_frontier_limit"
    using assms by (simp add: validate_for_def)
  then have "card (key_set reserves (ml_todos l)) < 2 ^ 32"
    using card_key_set_le_len [of reserves "ml_todos l"] by (simp add: loop_frontier_limit_def)
  then show ?thesis
    by (simp add: free_slots_def saturating_sub_unat unat_of_nat)
qed

section \<open>The projection onto the core\<close>

definition core :: "mission_loop \<Rightarrow> loop_core" where
  "core l =
     \<lparr>k_todos = ml_todos l, k_steering = ml_steering_generation l, k_claims = ml_claim_generation l,
      k_spent = ml_spent_slots l, k_evidence = ml_accepted_evidence l,
      k_slots = lp_max_slots (ml_policy l), k_parallel = lp_max_parallel (ml_policy l)\<rparr>"

lemma core_simps [simp]:
  "k_todos (core l) = ml_todos l" "k_steering (core l) = ml_steering_generation l"
  "k_claims (core l) = ml_claim_generation l" "k_spent (core l) = ml_spent_slots l"
  "k_evidence (core l) = ml_accepted_evidence l" "k_slots (core l) = lp_max_slots (ml_policy l)"
  "k_parallel (core l) = lp_max_parallel (ml_policy l)"
  by (simp_all add: core_def)

lemma core_quiet:
  assumes "core l' = core l"
  shows "core_step (core l) (core l')"
proof -
  have "core_step (core l) ((core l)\<lparr>k_slots := k_slots (core l)\<rparr>)"
    by (rule core_step.quiet) simp
  moreover have "(core l)\<lparr>k_slots := k_slots (core l)\<rparr> = core l"
    by (simp add: core_def)
  ultimately show ?thesis
    using assms by metis
qed

lemma require_claimD:
  assumes "require_claim X l facts claim now = Ok ()"
  shows "validate_for l (fa_mission facts) = Ok ()"
    and "\<exists>t. fmlookup (ml_todos l) (lc_todo_id claim) = Some t \<and> lt_status t = TodoClaimed \<and>
      lt_claim t = Some claim \<and>
      (\<forall>k gate. fmlookup (ml_gates l) k = Some gate \<longrightarrow> \<not> gate_blocks gate (lc_agent_id claim) (lt_spec t))"
    and "lc_steering_generation claim = ml_steering_generation l"
    and "now < lc_expires_at claim" and "hard_stop l (fa_mission facts) now = None"
    and "authority_digest X facts = Ok (lc_authority_digest claim)"
  using assms by (auto simp: require_claim_def not_le)

lemma runnableD:
  assumes "runnable l mission peer host remaining now t"
  shows "lt_status t = TodoOpen" and "ts_kind (lt_spec t) \<noteq> KindMonitor \<Longrightarrow> remaining \<noteq> 0"
    and "d |\<in>| ts_depends_on (lt_spec t) \<Longrightarrow> completed (ml_todos l) d"
    and "fmlookup (ml_todos l) k = Some u \<Longrightarrow> ts_id (lt_spec u) \<noteq> ts_id (lt_spec t) \<Longrightarrow> has_claim u \<Longrightarrow>
      \<not> overlapping (lt_spec u) (lt_spec t)"
    and "fmlookup (ml_gates l) g = Some gate \<Longrightarrow> \<not> gate_blocks gate (pr_id peer) (lt_spec t)"
proof -
  have e: "ineligible_reason l mission peer host t = None"
    using assms by (simp add: runnable_def)
  show "lt_status t = TodoOpen" "ts_kind (lt_spec t) \<noteq> KindMonitor \<Longrightarrow> remaining \<noteq> 0"
    using assms by (simp_all add: runnable_def)
  show "d |\<in>| ts_depends_on (lt_spec t) \<Longrightarrow> completed (ml_todos l) d"
    using e by (cases "fmlookup (ml_todos l) d") (auto simp: ineligible_reason_def completed_def split: if_splits)
  show "fmlookup (ml_todos l) k = Some u \<Longrightarrow> ts_id (lt_spec u) \<noteq> ts_id (lt_spec t) \<Longrightarrow> has_claim u \<Longrightarrow>
      \<not> overlapping (lt_spec u) (lt_spec t)"
    using e unfolding ineligible_reason_def overlapping_def list_ex_bt_values
    by (simp split: if_splits) fastforce
  show "fmlookup (ml_gates l) g = Some gate \<Longrightarrow> \<not> gate_blocks gate (pr_id peer) (lt_spec t)"
    using e unfolding ineligible_reason_def list_ex_bt_values by (simp split: if_splits)
qed

section \<open>Commands implement core steps\<close>

lemma transition_claim_Ok:
  assumes "transition_claim X l facts actor host k token_digest receipt now = Ok (l', receipt')"
  obtains d t c where "decision X l facts host (Some k) now = Ok d" "de_selected_todo d = Some k"
    "fmlookup (ml_todos l) k = Some t"
    "checked_add (ml_claim_generation l) 1 = Some (lc_generation c)" "lc_todo_id c = k"
    "lc_steering_generation c = ml_steering_generation l" "lc_agent_id c = ho_agent_id host"
    "receipt' = receipt\<lparr>re_claim := Some c\<rparr>" "actor = Agent (ho_agent_id host)"
    "l' = l\<lparr>ml_claim_generation := lc_generation c, ml_todos := fmupd k (t\<lparr>lt_status := TodoClaimed,
        lt_claim := Some c, lt_execution_started := False\<rparr>) (ml_todos l)\<rparr>"
proof -
  from assms obtain d generation t expires_at authority where
    *: "decision X l facts host (Some k) now = Ok d" "de_selected_todo d = Some k"
      "fmlookup (ml_todos l) k = Some t" "checked_add (ml_claim_generation l) 1 = Some generation"
      "actor = Agent (ho_agent_id host)"
    and c: "Ok (l\<lparr>ml_claim_generation := generation, ml_todos := fmupd k (t\<lparr>lt_status := TodoClaimed,
        lt_claim := Some \<lparr>lc_todo_id = k, lc_agent_id = ho_agent_id host,
                lc_token_digest = token_digest, lc_generation = generation,
                lc_steering_generation = ml_steering_generation l,
                lc_authority_digest = authority, lc_claimed_at = now, lc_expires_at = expires_at\<rparr>,
        lt_execution_started := False\<rparr>) (ml_todos l)\<rparr>,
      receipt\<lparr>re_claim := Some \<lparr>lc_todo_id = k, lc_agent_id = ho_agent_id host,
                lc_token_digest = token_digest, lc_generation = generation,
                lc_steering_generation = ml_steering_generation l,
                lc_authority_digest = authority, lc_claimed_at = now, lc_expires_at = expires_at\<rparr>\<rparr>)
      = (Ok (l', receipt') :: loop_error + mission_loop \<times> loop_receipt)"
    unfolding transition_claim_def decision_for_todo_def Let_def require_agent_def
    by (auto split: if_splits)
  show thesis
    by (rule that [OF *(1-3), of "\<lparr>lc_todo_id = k, lc_agent_id = ho_agent_id host,
                lc_token_digest = token_digest, lc_generation = generation,
                lc_steering_generation = ml_steering_generation l,
                lc_authority_digest = authority, lc_claimed_at = now, lc_expires_at = expires_at\<rparr>"])
      (use * c in auto)
qed

lemma refine_claim:
  assumes "transition_claim X l facts actor host k token_digest receipt now = Ok (l', receipt')"
  shows "core_step (core l) (core l')"
proof -
  obtain d t c where d: "decision X l facts host (Some k) now = Ok d" "de_selected_todo d = Some k"
    and t: "fmlookup (ml_todos l) k = Some t"
    and c: "checked_add (ml_claim_generation l) 1 = Some (lc_generation c)" "lc_todo_id c = k"
      "lc_steering_generation c = ml_steering_generation l" "lc_agent_id c = ho_agent_id host"
    and l': "l' = l\<lparr>ml_claim_generation := lc_generation c, ml_todos := fmupd k (t\<lparr>lt_status := TodoClaimed,
        lt_claim := Some c, lt_execution_started := False\<rparr>) (ml_todos l)\<rparr>"
    using assms by (rule transition_claim_Ok)
  from decision_selects [OF d] obtain peer u where
    free: "unstopped l facts host peer now" and u: "ts_id (lt_spec u) = k"
    and found: "find (runnable l (fa_mission facts) peer host (free_slots l) now)
      (candidates_for l (Some k)) = Some u"
    by blast
  have valid: "validate_for l (fa_mission facts) = Ok ()"
    using free by (simp add: unstopped_def)
  have run: "runnable l (fa_mission facts) peer host (free_slots l) now u"
    and "u \<in> set (candidates_for l (Some k))"
    using find_SomeD [OF found] by blast+
  then have "u = t"
    using t u validate_for_id [OF valid] by (auto simp: candidates_for_iff)
  note run = run [unfolded \<open>u = t\<close>] and u = u [unfolded \<open>u = t\<close>]
  have other: "\<not> overlapping (lt_spec v) (lt_spec t)"
    if "fmlookup (ml_todos l) k' = Some v" "has_claim v" for k' v
  proof -
    have "\<not> has_claim t"
      using todo_entry_okD(3) [OF validate_for_todo [OF valid t]] runnableD(1) [OF run] by simp
    then have "k' \<noteq> k"
      using that t by auto
    then show ?thesis
      using runnableD(4) [OF run that(1) _ that(2)] validate_for_id [OF valid that(1)] u by simp
  qed
  have quota: "unat (ml_spent_slots l) + card (key_set reserves (ml_todos l)) < unat (lp_max_slots (ml_policy l))"
    if "ts_kind (lt_spec t) \<noteq> KindMonitor"
    using runnableD(2) [OF run that] free_slots_unat [OF valid] by (metis less_diff_conv2 unat_eq_zero
      add.commute diff_diff_left less_diff_conv zero_less_diff gr0I)
  have "core_step (core l) ((core l)\<lparr>k_claims := lc_generation c,
      k_todos := fmupd k (t\<lparr>lt_status := TodoClaimed, lt_claim := Some c, lt_execution_started := False\<rparr>)
        (k_todos (core l))\<rparr>)"
    using t c free other quota runnableD [OF run]
    by (intro core_step.claimed [where t = t]) (auto simp: unstopped_def)
  then show ?thesis
    by (simp add: l' core_def)
qed

text \<open>What the match of \<open>settle\<close> leaves of a todo, for each kind of result.\<close>

lemma collect_evidence_fresh:
  assumes "collect_evidence l mission claim now es = Ok evidence" and "e \<in> set es"
  shows "e |\<notin>| ml_accepted_evidence l"
  using assms by (induction es arbitrary: evidence) auto

lemma same_work_refl [simp]: "same_work w w"
  unfolding same_work_def by (rule exI [of _ "ts_monitor w"]) simp

lemma same_work_monitor [simp]: "same_work w (w\<lparr>ts_monitor := m\<rparr>)"
  unfolding same_work_def by blast

lemma same_claim_refl [simp]: "same_claim c c"
  unfolding same_claim_def by (rule exI [of _ "lc_expires_at c"]) simp

lemma settle_result_cases:
  assumes "settle_result X l facts claim result now todo run = Ok (l', todo', run')"
  obtains
    (progress) evidence spent where "ts_kind (lt_spec todo) \<noteq> KindMonitor" "evidence \<noteq> {||}"
      "evidence |\<inter>| ml_accepted_evidence l = {||}" "checked_add (ml_spent_slots l) 1 = Some spent"
      "l' = l\<lparr>ml_spent_slots := spent, ml_accepted_evidence := ml_accepted_evidence l |\<union>| evidence,
             ml_no_progress_streak := 0\<rparr>"
      "todo' = todo\<lparr>lt_status := TodoCompleted\<rparr>" "\<not> is_failure result"
  | (finished) "core l' = core l" "ml_todos l' = ml_todos l" "same_work (lt_spec todo) (lt_spec todo')"
      "lt_status todo' \<in> {TodoOpen, TodoCompleted}" "\<not> is_uncertain_failure result"
  | (uncertain) "core l' = core l" "ml_todos l' = ml_todos l" "lt_spec todo' = lt_spec todo"
      "lt_claim todo' = lt_claim todo" "lt_status todo' = TodoUncertain"
proof (cases result)
  case (Progress evidence_ids continuation)
  with assms obtain spent evidence where *: "ts_kind (lt_spec todo) \<noteq> KindMonitor" "evidence_ids \<noteq> {||}"
    "collect_evidence l (fa_mission facts) claim now (sorted_list_of_fset evidence_ids) = Ok evidence"
    "checked_add (ml_spent_slots l) 1 = Some spent"
    "l' = l\<lparr>ml_spent_slots := spent, ml_accepted_evidence := ml_accepted_evidence l |\<union>| evidence_ids,
           ml_no_progress_streak := 0\<rparr>"
    "todo' = todo\<lparr>lt_status := TodoCompleted\<rparr>"
    by (auto simp: settle_result_def)
  have "evidence_ids |\<inter>| ml_accepted_evidence l = {||}"
    using collect_evidence_fresh [OF *(3)] by auto
  moreover have "\<not> is_failure result"
    by (simp add: Progress is_failure_def)
  ultimately show ?thesis
    using * by (intro progress)
next
  case (MonitorObservation d)
  with assms have "l' = l" "\<exists>m. lt_spec todo' = (lt_spec todo)\<lparr>ts_monitor := m\<rparr>"
    "lt_status todo' \<in> {TodoOpen, TodoCompleted}"
    by (auto simp: settle_result_def Let_def split: if_splits)
  then show ?thesis
    by (intro finished) (auto simp: MonitorObservation is_uncertain_failure_def)
next
  case (NoProgress d)
  with assms have "core l' = core l" "ml_todos l' = ml_todos l" "lt_spec todo' = lt_spec todo"
    "lt_status todo' = TodoOpen"
    by (auto simp: settle_result_def core_def)
  then show ?thesis
    by (intro finished) (simp_all add: NoProgress is_uncertain_failure_def)
next
  case (TurnFailed d u)
  with assms have "core l' = core l" "ml_todos l' = ml_todos l" "lt_spec todo' = lt_spec todo"
    "lt_claim todo' = lt_claim todo" "lt_status todo' = (if u then TodoUncertain else TodoOpen)"
    by (auto simp: settle_result_def core_def)
  note * = this
  show ?thesis
  proof (cases u)
    case True
    with * show ?thesis
      by (intro uncertain) simp_all
  next
    case False
    with * TurnFailed show ?thesis
      by (intro finished) (simp_all add: is_uncertain_failure_def)
  qed
qed

definition after_settlement :: "loop_todo \<Rightarrow> loop_todo" where
  "after_settlement t = (if lt_status t \<noteq> TodoUncertain
     then t\<lparr>lt_claim := None, lt_execution_started := False\<rparr> else t)"

lemma settle_Ok:
  assumes "settle X l facts claim result reconciled now = Ok (l', run)"
  obtains t l1 t1 run0 sequence where
    "fmlookup (ml_todos l) (lc_todo_id claim) = Some t" "lt_claim t = Some claim"
    "settle_result X l facts claim result now t run0 = Ok (l1, t1, run)"
    "l' = l1\<lparr>ml_todos := fmupd (ts_id (lt_spec t1)) (after_settlement t1) (ml_todos l1),
             ml_run_sequence := sequence, ml_recent_runs := push_run (ml_recent_runs l1) run\<rparr>"
    "reconciled \<or> is_uncertain_failure result \<or> require_claim X l facts claim now = Ok ()"
proof -
  define run0 where "run0 sequence = \<lparr>ru_sequence = sequence, ru_todo_id = lc_todo_id claim,
      ru_agent_id = lc_agent_id claim, ru_evidence_digest = [], ru_spent_slot = False,
      ru_notify = False, ru_continuation = None, ru_recorded_at = now\<rparr>" for sequence
  obtain u t sequence r where
    *: "(if reconciled \<or> is_uncertain_failure result
        then (if Option.bind (fmlookup (ml_todos l) (lc_todo_id claim)) lt_claim \<noteq> Some claim
              then Err ClaimLost else Ok ())
        else require_claim X l facts claim now) = Ok u"
    "fmlookup (ml_todos l) (lc_todo_id claim) = Some t"
    and r: "settle_result X l facts claim result now t (run0 sequence) = Ok r"
    "(case r of (l, t, run) \<Rightarrow>
       Ok (l\<lparr>ml_todos := fmupd (ts_id (lt_spec (after_settlement t))) (after_settlement t) (ml_todos l),
             ml_run_sequence := sequence, ml_recent_runs := push_run (ml_recent_runs l) run\<rparr>, run))
      = (Ok (l', run) :: loop_error + mission_loop \<times> loop_run_summary)"
    using assms unfolding settle_def Let_def after_settlement_def [symmetric] run0_def [symmetric]
      and_then_eq_Ok ok_or_eq_Ok if_Err_eq_Ok by blast
  obtain l1 t1 where run: "settle_result X l facts claim result now t (run0 sequence) = Ok (l1, t1, run)"
    and l': "l' = l1\<lparr>ml_todos := fmupd (ts_id (lt_spec t1)) (after_settlement t1) (ml_todos l1),
             ml_run_sequence := sequence, ml_recent_runs := push_run (ml_recent_runs l1) run\<rparr>"
    using r by (cases r) (auto simp: after_settlement_def split: if_splits)
  have held: "lt_claim t = Some claim"
  proof (cases "reconciled \<or> is_uncertain_failure result")
    case True
    with * show ?thesis
      by (simp split: if_splits)
  next
    case False
    with *(1) have "require_claim X l facts claim now = Ok ()"
      by (simp split: if_splits)
    from require_claimD(2) [OF this] *(2) show ?thesis
      by simp
  qed
  show thesis
    by (rule that [OF *(2) held run l']) (use *(1) in \<open>auto split: if_splits\<close>)
qed

lemma refine_settle:
  assumes "settle X l facts claim result reconciled now = Ok (l', run)"
    and "validate_for l (fa_mission facts) = Ok ()"
    and "reconciled \<Longrightarrow> lc_steering_generation claim = ml_steering_generation l"
  shows "core_step (core l) (core l')"
proof -
  from settle_Ok [OF assms(1)] obtain t l1 t1 run0 sequence where
    t: "fmlookup (ml_todos l) (lc_todo_id claim) = Some t" "lt_claim t = Some claim"
    and run: "settle_result X l facts claim result now t run0 = Ok (l1, t1, run)"
    and l': "l' = l1\<lparr>ml_todos := fmupd (ts_id (lt_spec t1)) (after_settlement t1) (ml_todos l1),
             ml_run_sequence := sequence, ml_recent_runs := push_run (ml_recent_runs l1) run\<rparr>"
    and guard: "reconciled \<or> is_uncertain_failure result \<or> require_claim X l facts claim now = Ok ()" .
  define k where "k = lc_todo_id claim"
  have k: "fmlookup (k_todos (core l)) k = Some t" "ts_id (lt_spec t) = k"
    using t(1) validate_for_id [OF assms(2) t(1)] by (simp_all add: k_def)
  from run show ?thesis
  proof (cases rule: settle_result_cases)
    case (progress evidence spent)
    have gen: "lc_steering_generation claim = k_steering (core l)"
      using guard assms(3) require_claimD(3) progress(7)
      by (auto simp: is_failure_def is_uncertain_failure_def split: loop_turn_result.splits)
    have "core_step (core l) ((core l)\<lparr>k_spent := spent, k_evidence := k_evidence (core l) |\<union>| evidence,
        k_todos := fmupd k (after_settlement t1) (k_todos (core l))\<rparr>)"
      using k gen progress t(2)
      by (intro core_step.progressed [where t = t and c = claim]) (simp_all add: after_settlement_def)
    moreover have "core l' = (core l)\<lparr>k_spent := spent, k_evidence := k_evidence (core l) |\<union>| evidence,
        k_todos := fmupd k (after_settlement t1) (k_todos (core l))\<rparr>"
      using k(2) by (simp add: l' core_def progress(5,6))
    ultimately show ?thesis
      by simp
  next
    case finished
    have core: "core l' = (core l)\<lparr>k_todos := fmupd k (after_settlement t1) (k_todos (core l))\<rparr>"
      using finished(1-3) k(2) by (auto simp: l' core_def same_work_def)
    show ?thesis
      unfolding core using k(1) t(2) finished
      by (intro core_step.released [where t = t]) (auto simp: after_settlement_def)
  next
    case uncertain
    have core: "core l' = (core l)\<lparr>k_todos := fmupd k t1 (k_todos (core l))\<rparr>"
      using uncertain k(2) by (auto simp: l' core_def after_settlement_def)
    show ?thesis
      unfolding core using k(1) t(2) uncertain
      by (intro core_step.kept [where t = t and c = claim and c' = claim]) simp_all
  qed
qed

lemma refine_begin:
  assumes "transition_begin X l facts actor claim host receipt now = Ok (l', receipt')"
  shows "core_step (core l) (core l')"
proof -
  from assms obtain t where req: "require_claim X l facts claim now = Ok ()"
    and t: "fmlookup (ml_todos l) (lc_todo_id claim) = Some t"
    and l': "l' = l\<lparr>ml_todos := fmupd (lc_todo_id claim) (t\<lparr>lt_execution_started := True\<rparr>) (ml_todos l)\<rparr>"
    unfolding transition_begin_def and_then_eq_Ok ok_or_eq_Ok if_Err_eq_Ok
    by (auto split: option.splits)
  have "core_step (core l) ((core l)\<lparr>k_todos := fmupd (lc_todo_id claim) (t\<lparr>lt_execution_started := True\<rparr>)
      (k_todos (core l))\<rparr>)"
    using t require_claimD(2) [OF req]
    by (intro core_step.kept [where t = t and c = claim and c' = claim]) auto
  then show ?thesis
    by (simp add: l' core_def)
qed

lemma refine_heartbeat:
  assumes "transition_heartbeat X l facts actor claim receipt now = Ok (l', receipt')"
  shows "core_step (core l) (core l')"
proof -
  from assms obtain t expires_at where req: "require_claim X l facts claim now = Ok ()"
    and t: "fmlookup (ml_todos l) (lc_todo_id claim) = Some t"
    and l': "l' = l\<lparr>ml_todos := fmupd (lc_todo_id claim)
        (t\<lparr>lt_claim := Some (claim\<lparr>lc_expires_at := expires_at\<rparr>)\<rparr>) (ml_todos l)\<rparr>"
    unfolding transition_heartbeat_def and_then_eq_Ok ok_or_eq_Ok Let_def by auto
  have "core_step (core l) ((core l)\<lparr>k_todos := fmupd (lc_todo_id claim)
      (t\<lparr>lt_claim := Some (claim\<lparr>lc_expires_at := expires_at\<rparr>)\<rparr>) (k_todos (core l))\<rparr>)"
    using t require_claimD(2) [OF req]
    by (intro core_step.kept [where t = t and c = claim and c' = "claim\<lparr>lc_expires_at := expires_at\<rparr>"])
      (auto simp: same_claim_def)
  then show ?thesis
    by (simp add: l' core_def)
qed

lemma invalidate_claims_Ok:
  assumes "invalidate_claims l = Ok l'"
  shows "checked_add (ml_steering_generation l) 1 = Some (ml_steering_generation l')"
    and "l' = l\<lparr>ml_steering_generation := ml_steering_generation l',
      ml_todos := fmmap mark_uncertain (ml_todos l)\<rparr>"
  using assms by (auto simp: invalidate_claims_def mark_uncertain_def [abs_def] split: if_splits)

lemma refine_invalidate:
  assumes "invalidate_claims l = Ok l'"
  shows "core_step (core l) (core (l'\<lparr>ml_policy := (ml_policy l)\<lparr>lp_max_slots := slots\<rparr>\<rparr>))"
proof -
  have "core_step (core l) ((core l)\<lparr>k_steering := ml_steering_generation l', k_slots := slots,
      k_todos := fmmap mark_uncertain (k_todos (core l))\<rparr>)"
    using invalidate_claims_Ok(1) [OF assms] by (intro core_step.invalidated) simp
  then show ?thesis
    by (subst invalidate_claims_Ok(2) [OF assms]) (simp add: core_def)
qed

lemma refine_add:
  assumes "transition X l facts actor (AddTodo todo) receipt now = Ok (l', receipt')"
  shows "core_step (core l) (core l')"
proof -
  let ?t = "\<lparr>lt_spec = todo, lt_status = TodoOpen, lt_claim = None, lt_execution_started = False,
    lt_no_progress_attempts = 0, lt_last_observation_digest = None\<rparr>"
  from assms have *: "\<not> contains_key (ml_todos l) (ts_id todo)" "validate_todo_spec l todo = Ok ()"
    and l': "l' = l\<lparr>ml_todos := fmupd (ts_id todo) ?t (ml_todos l)\<rparr>"
    by auto
  have "contains_key (ml_todos l) d" if "d |\<in>| ts_depends_on todo" for d
    using *(2) that by (auto simp: validate_todo_spec_def)
  with *(1) have "core_step (core l) ((core l)\<lparr>k_todos := fmupd (ts_id todo) ?t (k_todos (core l))\<rparr>)"
    by (intro core_step.added) (auto simp: contains_key_def)
  then show ?thesis
    by (simp add: l' core_def)
qed

lemma prune_notice_core:
  assumes "prune_notice_acknowledgements X l = Ok l'"
  shows "core l' = core l" and "ml_gates l' = ml_gates l"
  using assms by (auto simp: prune_notice_acknowledgements_def core_def)

lemma refine_reconcile_retry:
  assumes "transition X l facts actor (ReconcileRetry k evidence) receipt now = Ok (l', receipt')"
  shows "core_step (core l) (core l')"
proof -
  from assms obtain t where t: "fmlookup (ml_todos l) k = Some t" "has_claim t"
    and l': "l' = l\<lparr>ml_todos := fmupd k (t\<lparr>lt_claim := None, lt_execution_started := False,
        lt_status := TodoOpen\<rparr>) (ml_todos l)\<rparr>"
    by auto
  have "core_step (core l) ((core l)\<lparr>k_todos := fmupd k (t\<lparr>lt_claim := None, lt_execution_started := False,
        lt_status := TodoOpen\<rparr>) (k_todos (core l))\<rparr>)"
    using t by (intro core_step.released [where t = t]) simp_all
  then show ?thesis
    by (simp add: l' core_def)
qed

lemma refine_cancel:
  assumes "transition X l facts actor (CancelTodo k rationale) receipt now = Ok (l', receipt')"
  shows "core_step (core l) (core l')"
proof -
  from assms obtain t where t: "fmlookup (ml_todos l) k = Some t" "lt_status t = TodoOpen" "lt_claim t = None"
    and l': "l' = l\<lparr>ml_todos := fmupd k (t\<lparr>lt_status := TodoCancelled\<rparr>) (ml_todos l)\<rparr>"
    by auto
  have "core_step (core l) ((core l)\<lparr>k_todos := fmupd k (t\<lparr>lt_status := TodoCancelled\<rparr>) (k_todos (core l))\<rparr>)"
    using t by (intro core_step.cancelled) simp_all
  then show ?thesis
    by (simp add: l' core_def)
qed

lemma refine_quota:
  assumes "transition X l facts actor (SetQuota slots) receipt now = Ok (l', receipt')"
  shows "core_step (core l) (core l')"
proof (cases "slots < lp_max_slots (ml_policy l)")
  case True
  with assms obtain m where m: "invalidate_claims l = Ok m"
    "l' = m\<lparr>ml_policy := (ml_policy m)\<lparr>lp_max_slots := slots\<rparr>\<rparr>"
    by auto
  moreover have "ml_policy m = ml_policy l"
    by (subst invalidate_claims_Ok(2) [OF m(1)]) simp
  ultimately show ?thesis
    using refine_invalidate [OF m(1), of slots] by simp
next
  case False
  then have "core_step (core l) ((core l)\<lparr>k_slots := slots\<rparr>)"
    by (intro core_step.quiet) simp
  moreover have "core l' = (core l)\<lparr>k_slots := slots\<rparr>"
    using assms False by (auto simp: core_def)
  ultimately show ?thesis
    by simp
qed

lemma refine_invalidate_plain:
  assumes "invalidate_claims l = Ok l'"
  shows "core_step (core l) (core l')"
proof -
  have "l' = l'\<lparr>ml_policy := (ml_policy l)\<lparr>lp_max_slots := lp_max_slots (ml_policy l)\<rparr>\<rparr>"
    by (subst (1 2) invalidate_claims_Ok(2) [OF assms]) simp
  then show ?thesis
    using refine_invalidate [OF assms, of "lp_max_slots (ml_policy l)"] by metis
qed

lemma refine_pause:
  assumes "transition X l facts actor (Pause paused) receipt now = Ok (l', receipt')"
  shows "core_step (core l) (core l')"
proof -
  have same: "core (l\<lparr>ml_paused := paused\<rparr>) = core l"
    by (simp add: core_def)
  show ?thesis
  proof (cases paused)
    case True
    with assms have "invalidate_claims (l\<lparr>ml_paused := paused\<rparr>) = Ok l'"
      by (auto simp: Let_def)
    from refine_invalidate_plain [OF this] show ?thesis
      by (simp only: same)
  next
    case False
    with assms have "l' = l\<lparr>ml_paused := paused\<rparr>"
      by (auto simp: Let_def)
    with same show ?thesis
      by (intro core_quiet) simp
  qed
qed

text \<open>Every command that commits is a step of the specification.\<close>

lemma transition_refines:
  assumes "transition X l facts actor action receipt now = Ok (l', receipt')"
    and "validate_for l (fa_mission facts) = Ok ()"
  shows "core_step (core l) (core l')"
proof (cases action)
  case (RegisterPeer peer)
  with assms(1) show ?thesis
    by (intro core_quiet) (auto simp: core_def)
next
  case (OpenGate gate)
  with assms(1) show ?thesis
    by (intro core_quiet) (auto dest!: prune_notice_core(1) simp: core_def)
next
  case (ResolveGate gate decision)
  with assms(1) show ?thesis
    by (intro core_quiet) (auto dest!: prune_notice_core(1) simp: core_def)
next
  case (Steer rationale)
  with assms(1) show ?thesis
    by (auto intro: refine_invalidate_plain)
next
  case (Settle claim result)
  with assms show ?thesis
    by (auto intro: refine_settle)
next
  case (ReconcileSettlement claim result readback)
  with assms show ?thesis
    by (auto intro: refine_settle)
next
  case (AcknowledgeNotice notice)
  with assms(1) show ?thesis
    by (intro core_quiet) (auto simp: transition_acknowledge_def core_def split: loop_actor.splits)
qed (use assms(1) refine_add refine_pause refine_quota refine_claim refine_begin refine_heartbeat
    refine_reconcile_retry refine_cancel in \<open>simp_all del: transition.simps
      add: transition.simps(8-10)\<close>)

section \<open>Runs\<close>

text \<open>One committed command, whatever the mission looks like when it is applied.\<close>

definition loop_next :: "'x loop_ext_scheme \<Rightarrow> mission_loop \<Rightarrow> mission_loop \<Rightarrow> bool" where
  "loop_next X l l' \<longleftrightarrow>
     (\<exists>facts command now receipt. loop_apply X facts command now l = Ok (l', receipt))"

lemma loop_apply_Ok:
  assumes "loop_apply X facts command now l = Ok (l', receipt)"
  obtains l1 revision where "validate_for l (fa_mission facts) = Ok ()"
    "co_expected_revision command = ml_revision l" "ml_updated_at l \<le> now"
    "co_expected_mission_revision command = ms_revision (fa_mission facts)"
    "checked_add (ml_revision l) 1 = Some revision"
    "transition X l facts (co_actor command) (co_action command)
       \<lparr>re_revision = revision, re_claim = None, re_run = None, re_replayed = False\<rparr> now = Ok (l1, receipt)"
    "l' = l1\<lparr>ml_revision := re_revision receipt, ml_updated_at := now\<rparr>"
    "validate_for l' (fa_mission facts) = Ok ()" "validate_actor l (co_actor command) = Ok ()"
proof -
  obtain u v w revision r where
    *: "validate_for l (fa_mission facts) = Ok u"
      "\<not> (co_expected_revision command \<noteq> ml_revision l
          \<or> co_expected_mission_revision command \<noteq> ms_revision (fa_mission facts))"
      "\<not> now < ml_updated_at l" "validate_actor l (co_actor command) = Ok v"
      "checked_add (ml_revision l) 1 = Some revision"
      "transition X l facts (co_actor command) (co_action command)
       \<lparr>re_revision = revision, re_claim = None, re_run = None, re_replayed = False\<rparr> now = Ok r"
      "(case r of (next, receipt) \<Rightarrow>
         and_then (validate_for (next\<lparr>ml_revision := re_revision receipt, ml_updated_at := now\<rparr>)
           (fa_mission facts)) (\<lambda>_. Ok (next\<lparr>ml_revision := re_revision receipt, ml_updated_at := now\<rparr>,
             receipt))) = Ok (l', receipt)"
    using assms unfolding loop_apply_def Let_def and_then_eq_Ok [of _ _ "(l', receipt)"] ok_or_eq_Ok
      if_Err_eq_Ok by blast
  show thesis
    by (rule that [of revision "fst r"]) (use * in \<open>auto split: prod.splits\<close>)
qed

lemma transition_receipt:
  assumes "transition X l facts actor action receipt now = Ok (l', receipt')"
  shows "re_revision receipt' = re_revision receipt"
proof (cases action)
  case (Claim host k token_digest)
  with assms show ?thesis
    by (auto elim: transition_claim_Ok)
next
  case (BeginExecution claim host)
  with assms show ?thesis
    by (auto simp: transition_begin_def split: option.splits)
next
  case (Heartbeat claim)
  with assms show ?thesis
    by (auto simp: transition_heartbeat_def Let_def)
qed (use assms in \<open>auto simp: Let_def\<close>)

lemma loop_apply_revision:
  assumes "loop_apply X facts command now l = Ok (l', receipt)"
  shows "checked_add (ml_revision l) 1 = Some (ml_revision l')" and "ml_updated_at l \<le> ml_updated_at l'"
    and "core_step (core l) (core l')"
proof -
  from assms obtain l1 revision where
    *: "validate_for l (fa_mission facts) = Ok ()" "ml_updated_at l \<le> now"
      "checked_add (ml_revision l) 1 = Some revision"
    and tr: "transition X l facts (co_actor command) (co_action command)
       \<lparr>re_revision = revision, re_claim = None, re_run = None, re_replayed = False\<rparr> now = Ok (l1, receipt)"
    and l': "l' = l1\<lparr>ml_revision := re_revision receipt, ml_updated_at := now\<rparr>"
    by (rule loop_apply_Ok)
  show "checked_add (ml_revision l) 1 = Some (ml_revision l')" "ml_updated_at l \<le> ml_updated_at l'"
    using * transition_receipt [OF tr] by (simp_all add: l')
  show "core_step (core l) (core l')"
    using transition_refines [OF tr *(1)] by (simp add: l' core_def)
qed

interpretation loop_rev: revisioned_clock ml_revision "loop_next X" ml_updated_at
  for X :: "'x loop_ext_scheme"
  by unfold_locales (auto simp: loop_next_def dest: loop_apply_revision)

interpretation loop_core: stable "loop_next X" "\<lambda>l. core_inv (core l)"
  for X :: "'x loop_ext_scheme"
  by unfold_locales (auto simp: loop_next_def dest: loop_apply_revision(3) intro: core_inv_step)

lemma loop_new_inv:
  assumes "loop_new mission policy now = Ok l"
  shows "core_inv (core l)"
proof -
  have "ml_todos l = fmempty" "ml_spent_slots l = 0"
    using assms by (auto simp: loop_new_def split: if_splits)
  then show ?thesis
    by (simp add: core_inv_def todos_wf_def writes_exclusive_def one_claim_per_agent_def
        parallel_bounded_def quota_kept_def dependencies_done_def spent_backed_def dependencies_wf_def
        depends_def key_set_def acyclic_def)
qed

lemma loop_reachable_inv:
  assumes "loop_new mission policy now = Ok l0" and "(loop_next X)\<^sup>*\<^sup>* l0 l"
  shows "core_inv (core l)"
  using loop_core.run_keeps [OF assms(2)] loop_new_inv [OF assms(1)] by blast

end
