(* ===== verification/Loop_Sample.thy ===== *)
theory Loop_Sample
  imports Loop_Refine
begin

text \<open>
  A concrete run of the loop, computed by the model: a loop is opened, a peer registers, a todo is
  added, claimed, started and settled with fresh evidence; from the claimed state the operator
  steers instead, and after the settlement a todo that depends on the first one is added and
  claimed. The properties of the loop are shown to apply to these states.
\<close>

definition sample_lext :: loop_ext where
  "sample_lext = ext.extend sample_ext
     \<lparr>json_gates = (\<lambda>_. Some ''g''), json_authority = (\<lambda>_. Some ''a''), json_evidence = (\<lambda>_. Some ''e'')\<rparr>"

lemma sample_lext_simps [simp]:
  "sha256 sample_lext = (\<lambda>_. replicate 64 (CHR ''0''))" "json_gates sample_lext = (\<lambda>_. Some ''g'')"
  "json_authority sample_lext = (\<lambda>_. Some ''a'')" "json_evidence sample_lext = (\<lambda>_. Some ''e'')"
  "add_signed sample_lext t d = Some (t + d)" "dur_seconds sample_lext 60 = Some (seconds 60)"
  by (simp_all add: sample_lext_def ext.defs sample_ext_def)

lemma sample_lext_chrono: "chrono_exact sample_lext" "chrono_total sample_lext"
  by (simp_all add: sample_lext_def ext.defs sample_ext_def chrono_exact_def chrono_total_def)

definition sample_policy :: loop_policy where
  "sample_policy = \<lparr>lp_operator_id = ''op'', lp_max_slots = 2, lp_max_parallel = 2,
     lp_lease_seconds = 60, lp_stall_limit = 3\<rparr>"

definition sample_facts :: loop_mission_facts where
  "sample_facts = \<lparr>fa_mission = sample_mission\<lparr>ms_stage := StageRunning,
       ms_tasks := [\<lparr>tk_id = ''k'', tk_title = ''T'', tk_status = TaskReady, tk_capability = ''c''\<rparr>],
       ms_evidence := [\<lparr>ev_id = ''e'', ev_title = ''T'', ev_source_uri = ''u'',
         ev_observed_at = seconds 4020, ev_confidence = 0, ev_status = EvConfirmed,
         ev_content_digest = sample_digest\<rparr>]\<rparr>,
     fa_steering_digest = sample_digest\<rparr>"

definition sample_peer :: loop_peer where
  "sample_peer = \<lparr>pr_id = ''a'', pr_capabilities = {|''c''|}, pr_workspace_digest = sample_digest\<rparr>"

definition sample_host :: loop_host where
  "sample_host = \<lparr>ho_agent_id = ''a'', ho_available_capabilities = {|''c''|},
     ho_workspace_digest = sample_digest\<rparr>"

definition sample_todo :: loop_todo_spec where
  "sample_todo = \<lparr>ts_id = ''w'', ts_title = ''T'', ts_task_id = Some ''k'', ts_capability = Some ''c'',
     ts_kind = KindAdvancement, ts_priority = 1, ts_depends_on = {||}, ts_eligible_agents = {||},
     ts_required_decisions = {||}, ts_workspace_digest = sample_digest, ts_write_scopes = {|''src''|},
     ts_monitor = None\<rparr>"

definition sample_claimed :: loop_claim where
  "sample_claimed = \<lparr>lc_todo_id = ''w'', lc_agent_id = ''a'', lc_token_digest = sample_digest,
     lc_generation = 1, lc_steering_generation = 1, lc_authority_digest = replicate 64 (CHR ''0''),
     lc_claimed_at = seconds 4010, lc_expires_at = seconds 4070\<rparr>"

definition sample_command :: "u64 \<Rightarrow> loop_actor \<Rightarrow> loop_action \<Rightarrow> loop_command" where
  "sample_command revision actor action = \<lparr>co_operation_id = ''o'', co_expected_revision = revision,
     co_expected_mission_revision = 7, co_actor = actor, co_action = action\<rparr>"

definition sample_entry :: loop_todo where
  "sample_entry = \<lparr>lt_spec = sample_todo, lt_status = TodoOpen, lt_claim = None,
     lt_execution_started = False, lt_no_progress_attempts = 0, lt_last_observation_digest = None\<rparr>"

section \<open>The states\<close>

definition loop_0 :: mission_loop where
  "loop_0 = \<lparr>ml_schema_version = 1, ml_tenant_id = ''t'', ml_project_id = ''p'', ml_mission_id = ''m1'',
     ml_policy = sample_policy, ml_revision = 1, ml_steering_generation = 1, ml_claim_generation = 0,
     ml_paused = False, ml_spent_slots = 0, ml_no_progress_streak = 0, ml_peers = fmempty,
     ml_todos = fmempty, ml_gates = fmempty, ml_accepted_evidence = {||}, ml_recent_runs = [],
     ml_run_sequence = 0, ml_acknowledged_notices = {||}, ml_created_at = seconds 4000,
     ml_updated_at = seconds 4000\<rparr>"

definition loop_1 :: mission_loop where
  "loop_1 = loop_0\<lparr>ml_peers := fmupd ''a'' sample_peer fmempty, ml_revision := 2,
     ml_updated_at := seconds 4001\<rparr>"

definition loop_2 :: mission_loop where
  "loop_2 = loop_1\<lparr>ml_todos := fmupd ''w'' sample_entry fmempty, ml_revision := 3,
     ml_updated_at := seconds 4002\<rparr>"

definition loop_3 :: mission_loop where
  "loop_3 = loop_2\<lparr>ml_claim_generation := 1, ml_todos := fmupd ''w'' (sample_entry\<lparr>lt_status := TodoClaimed,
     lt_claim := Some sample_claimed\<rparr>) fmempty, ml_revision := 4, ml_updated_at := seconds 4010\<rparr>"

definition loop_4 :: mission_loop where
  "loop_4 = loop_3\<lparr>ml_todos := fmupd ''w'' (sample_entry\<lparr>lt_status := TodoClaimed,
     lt_claim := Some sample_claimed, lt_execution_started := True\<rparr>) fmempty, ml_revision := 5,
     ml_updated_at := seconds 4015\<rparr>"

definition loop_steered :: mission_loop where
  "loop_steered = loop_4\<lparr>ml_steering_generation := 2, ml_todos := fmupd ''w''
     (sample_entry\<lparr>lt_status := TodoUncertain, lt_claim := Some sample_claimed,
        lt_execution_started := True\<rparr>) fmempty, ml_revision := 6, ml_updated_at := seconds 4020\<rparr>"

definition sample_run :: loop_run_summary where
  "sample_run = \<lparr>ru_sequence = 1, ru_todo_id = ''w'', ru_agent_id = ''a'',
     ru_evidence_digest = replicate 64 (CHR ''0''), ru_spent_slot = True, ru_notify = True,
     ru_continuation = Some NoFollowup, ru_recorded_at = seconds 4030\<rparr>"

definition loop_5 :: mission_loop where
  "loop_5 = loop_4\<lparr>ml_spent_slots := 1, ml_accepted_evidence := {|''e''|}, ml_run_sequence := 1,
     ml_recent_runs := [sample_run], ml_todos := fmupd ''w'' (sample_entry\<lparr>lt_status := TodoCompleted\<rparr>)
       fmempty, ml_revision := 6, ml_updated_at := seconds 4030\<rparr>"

text \<open>A second peer claims a second todo, which writes elsewhere.\<close>

definition sample_peer_b :: loop_peer where
  "sample_peer_b = \<lparr>pr_id = ''b'', pr_capabilities = {|''c''|}, pr_workspace_digest = sample_digest\<rparr>"

definition sample_host_b :: loop_host where
  "sample_host_b = \<lparr>ho_agent_id = ''b'', ho_available_capabilities = {|''c''|},
     ho_workspace_digest = sample_digest\<rparr>"

definition sample_todo_v :: loop_todo_spec where
  "sample_todo_v = sample_todo\<lparr>ts_id := ''v'', ts_write_scopes := {|''docs''|}\<rparr>"

definition sample_entry_v :: loop_todo where
  "sample_entry_v = sample_entry\<lparr>lt_spec := sample_todo_v\<rparr>"

definition sample_claimed_v :: loop_claim where
  "sample_claimed_v = sample_claimed\<lparr>lc_todo_id := ''v'', lc_agent_id := ''b'', lc_generation := 2,
     lc_claimed_at := seconds 4013, lc_expires_at := seconds 4073\<rparr>"

definition loop_6 :: mission_loop where
  "loop_6 = loop_3\<lparr>ml_peers := fmupd ''b'' sample_peer_b (ml_peers loop_3), ml_revision := 5,
     ml_updated_at := seconds 4011\<rparr>"

definition loop_7 :: mission_loop where
  "loop_7 = loop_6\<lparr>ml_todos := fmupd ''v'' sample_entry_v (ml_todos loop_3), ml_revision := 6,
     ml_updated_at := seconds 4012\<rparr>"

definition loop_8 :: mission_loop where
  "loop_8 = loop_7\<lparr>ml_claim_generation := 2, ml_todos := fmupd ''v''
     (sample_entry_v\<lparr>lt_status := TodoClaimed, lt_claim := Some sample_claimed_v\<rparr>) (ml_todos loop_3),
     ml_revision := 7, ml_updated_at := seconds 4013\<rparr>"

text \<open>After the first todo is completed, one that depends on it is added and claimed.\<close>

definition sample_todo_d :: loop_todo_spec where
  "sample_todo_d = sample_todo_v\<lparr>ts_depends_on := {|''w''|}\<rparr>"

definition sample_entry_d :: loop_todo where
  "sample_entry_d = sample_entry\<lparr>lt_spec := sample_todo_d\<rparr>"

definition sample_claimed_d :: loop_claim where
  "sample_claimed_d = sample_claimed\<lparr>lc_todo_id := ''v'', lc_generation := 2,
     lc_claimed_at := seconds 4050, lc_expires_at := seconds 4110\<rparr>"

definition loop_9 :: mission_loop where
  "loop_9 = loop_5\<lparr>ml_todos := fmupd ''v'' sample_entry_d (ml_todos loop_5), ml_revision := 7,
     ml_updated_at := seconds 4040\<rparr>"

definition loop_10 :: mission_loop where
  "loop_10 = loop_9\<lparr>ml_claim_generation := 2, ml_todos := fmupd ''v''
     (sample_entry_d\<lparr>lt_status := TodoClaimed, lt_claim := Some sample_claimed_d\<rparr>) (ml_todos loop_5),
     ml_revision := 8, ml_updated_at := seconds 4050\<rparr>"

section \<open>The run\<close>

lemma sample_texts:
  "digest sample_digest" "digest (replicate 64 (CHR ''0''))" "token ''a''" "token ''c''" "token ''w''"
  "token ''o''" "token ''b''" "token ''v''" "relative_scope ''docs''" "\<not> blank ''op''" "relative_scope ''src''"
  unfolding sample_digest_def by code_simp+

lemma for_each_map_Ok:
  "for_each f (sorted_list_of_fmap m) = Ok () \<longleftrightarrow> (\<forall>k v. fmlookup m k = Some v \<longrightarrow> f (k, v) = Ok ())"
  by (auto simp: sorted_list_of_fmap_def fmlookup_dom_iff) (metis fmdomI option.sel)

lemma bt_fmempty [simp]: "bt_len fmempty = 0" "bt_values fmempty = []" "bt_keys fmempty = []"
  "\<not> contains_key fmempty k"
  by (simp_all add: bt_len_def bt_values_alt bt_keys_def contains_key_def sorted_list_of_fset.rep_eq)

lemma sample_facts_simps [simp]:
  "fa_steering_digest sample_facts = sample_digest" "ms_contract (fa_mission sample_facts) = sample_contract"
  "ms_stage (fa_mission sample_facts) = StageRunning" "ms_tenant_id (fa_mission sample_facts) = ''t''"
  "ms_project_id (fa_mission sample_facts) = ''p''" "ms_id (fa_mission sample_facts) = ''m1''"
  "ms_revision (fa_mission sample_facts) = 7"
  by (simp_all add: sample_facts_def sample_mission_def)

lemmas sample_states = loop_0_def loop_1_def loop_2_def loop_3_def loop_4_def loop_5_def loop_steered_def
  sample_policy_def sample_peer_def sample_host_def sample_claimed_def sample_entry_def
  sample_command_def sample_run_def

lemma sample_peer_ok: "peer_entry_ok (''a'', sample_peer) = Ok ()"
  by (simp add: peer_entry_ok_def sample_states sample_texts)

lemma sample_spec_v_ok:
  "ml_created_at l = seconds 4000 \<Longrightarrow> validate_todo_spec l sample_todo_v = Ok ()"
  by (simp add: validate_todo_spec_def sample_todo_v_def sample_todo_def sample_texts sample_names)

lemma sample_spec_ok:
  "ml_created_at l = seconds 4000 \<Longrightarrow> validate_todo_spec l sample_todo = Ok ()"
  by (simp add: validate_todo_spec_def sample_todo_def sample_texts sample_names)

lemma sample_todo_simps [simp]: "ts_id sample_todo = ''w''" "ts_monitor sample_todo = None"
  "ts_kind sample_todo = KindAdvancement" "ts_priority sample_todo = 1"
  by (simp_all add: sample_todo_def)

lemma validate_for_sample:
  assumes "\<forall>k p. fmlookup (ml_peers l) k = Some p \<longrightarrow> peer_entry_ok (k, p) = Ok ()" "bt_len (ml_peers l) \<le> 2"
    and "\<forall>k t. fmlookup (ml_todos l) k = Some t \<longrightarrow> todo_entry_ok l (k, t) = Ok ()" "bt_len (ml_todos l) \<le> 2"
    and "ml_policy l = sample_policy" "ml_schema_version l = 1" "ml_revision l \<noteq> 0"
    "ml_steering_generation l \<noteq> 0" "ml_created_at l \<le> ml_updated_at l" "length (ml_recent_runs l) \<le> 1"
    "ml_gates l = fmempty" "ml_acknowledged_notices l = {||}" "ml_tenant_id l = ''t''"
    "ml_project_id l = ''p''" "ml_mission_id l = ''m1''"
  shows "validate_for l (fa_mission sample_facts) = Ok ()"
proof -
  have "loop_policy_validate (ml_policy l) = Ok ()"
    using assms(5) by (simp add: loop_policy_validate_def sample_policy_def sample_texts)
  then show ?thesis
    using assms
    by (auto simp: validate_for_def for_each_map_Ok loop_schema_version_def loop_frontier_limit_def
        loop_history_limit_def fcard_fempty simp del: for_each_Ok split: if_splits)
qed

lemma sample_valid:
  "validate_for loop_0 (fa_mission sample_facts) = Ok ()" "validate_for loop_1 (fa_mission sample_facts) = Ok ()"
  "validate_for loop_2 (fa_mission sample_facts) = Ok ()" "validate_for loop_3 (fa_mission sample_facts) = Ok ()"
  "validate_for loop_4 (fa_mission sample_facts) = Ok ()" "validate_for loop_5 (fa_mission sample_facts) = Ok ()"
  "validate_for loop_steered (fa_mission sample_facts) = Ok ()"
  by (rule validate_for_sample; simp add: sample_states todo_entry_ok_def sample_texts sample_spec_ok
      bt_len_fmupd sample_peer_ok [unfolded sample_peer_def])+

lemma sample_new: "loop_new (fa_mission sample_facts) sample_policy (seconds 4000) = Ok loop_0"
  using sample_contract_valid [of "seconds 4000"]
  by (simp add: loop_new_def loop_policy_validate_def sample_states sample_texts stage_is_terminal_def
      loop_schema_version_def)

lemma sample_step_1:
  "loop_apply sample_lext sample_facts (sample_command 1 (Operator ''op'') (RegisterPeer sample_peer))
     (seconds 4001) loop_0 = Ok (loop_1, \<lparr>re_revision = 2, re_claim = None, re_run = None, re_replayed = False\<rparr>)"
  unfolding loop_apply_def sample_valid
  using sample_valid(2)
  by (simp add: sample_states sample_texts validate_actor_def require_operator_def checked_add_def
      fmlookup_dom_iff)

lemma sample_step_2:
  "loop_apply sample_lext sample_facts (sample_command 2 (Operator ''op'') (AddTodo sample_todo))
     (seconds 4002) loop_1 = Ok (loop_2, \<lparr>re_revision = 3, re_claim = None, re_run = None, re_replayed = False\<rparr>)"
proof -
  have "validate_task_binding sample_todo (fa_mission sample_facts) = Ok ()"
    by (simp add: validate_task_binding_def sample_todo_def sample_facts_def sample_mission_def
        sample_contract_def)
  moreover have "ml_created_at loop_1 = seconds 4000"
    by (simp add: sample_states)
  ultimately show ?thesis
    unfolding loop_apply_def sample_valid
    using sample_valid(3) sample_spec_ok [of loop_1]
    by (simp add: sample_states sample_texts validate_actor_def require_operator_def checked_add_def
        loop_frontier_limit_def)
qed

lemma sample_authority: "authority_digest sample_lext sample_facts = Ok (replicate 64 (CHR ''0''))"
  by (simp add: authority_digest_def sample_texts loop_digest_def)

lemma sample_channel: "ml_gates l = fmempty \<Longrightarrow>
  user_channel sample_lext l agent = Ok \<lparr>uc_gate_ids = [], uc_notification_digest = None, uc_notify = False\<rparr>"
  by (simp add: user_channel_def)

lemma sample_no_stop:
  assumes "0 \<le> now" and "now < seconds 2592000" and "\<not> ml_paused l" and "ml_policy l = sample_policy"
  shows "hard_stop l (fa_mission sample_facts) now = None"
  using assms sample_contract_valid [of now]
  by (simp add: hard_stop_def stage_is_terminal_def sample_policy_def sample_selectors not_le)

lemma sample_eligible: "ineligible_reason l (fa_mission sample_facts) sample_peer sample_host t = None"
  if "lt_spec t = sample_todo" "ml_gates l = fmempty" "ml_todos l = fmupd ''w'' t fmempty"
  using that by (simp add: ineligible_reason_def sample_todo_def sample_host_def sample_peer_def
      sample_contract_def sample_facts_def sample_mission_def task_accepts_def split: if_splits)

lemma fmupd_single: "fmupd k v (fmupd k u m) = fmupd k v m"
  by (rule fmap_ext) simp

lemma bt_single [simp]: "bt_values (fmupd k v fmempty) = [v]"
  by (simp add: bt_values_alt sorted_list_of_fset.rep_eq)

lemma sample_unstopped: "unstopped loop_2 sample_facts sample_host sample_peer (seconds 4010)"
  using sample_valid(3)
  by (simp add: unstopped_def sample_no_stop sample_states key_set_fmupd)
    (simp add: key_set_def)

lemma sample_free: "free_slots loop_2 = 2"
proof -
  have "card (key_set reserves (ml_todos loop_2)) = 0"
    by (simp add: sample_states key_set_def reserves_def)
  then show ?thesis
    by (simp add: free_slots_def sample_states saturating_sub_def)
qed

lemma sample_found:
  assumes "selected = None \<or> selected = Some ''w''"
  shows "find (runnable loop_2 (fa_mission sample_facts) sample_peer sample_host (free_slots loop_2) (seconds 4010))
     (candidates_for loop_2 selected) = Some sample_entry"
proof -
  have "candidates_for loop_2 selected = [sample_entry]"
    using assms by (auto simp: candidates_for_def sample_states)
  moreover have "runnable loop_2 (fa_mission sample_facts) sample_peer sample_host 2 (seconds 4010) sample_entry"
    unfolding runnable_def
    using sample_eligible [of sample_entry loop_2] by (simp add: sample_states)
  ultimately show ?thesis
    by (simp add: sample_free)
qed

lemma sample_decision:
  assumes "selected = None \<or> selected = Some ''w''"
  obtains d where "decision sample_lext loop_2 sample_facts sample_host selected (seconds 4010) = Ok d"
    "de_selected_todo d = Some ''w''"
  using decision_run [OF sample_unstopped sample_found [OF assms] sample_authority sample_channel]
  by (auto simp: sample_states)

lemma sample_step_3:
  "loop_apply sample_lext sample_facts (sample_command 3 (Agent ''a'') (Claim sample_host ''w'' sample_digest))
     (seconds 4010) loop_2 =
   Ok (loop_3, \<lparr>re_revision = 4, re_claim = Some sample_claimed, re_run = None, re_replayed = False\<rparr>)"
proof -
  obtain d where d: "decision sample_lext loop_2 sample_facts sample_host (Some ''w'') (seconds 4010) = Ok d"
    "de_selected_todo d = Some ''w''"
    by (rule sample_decision [of "Some ''w''"]) simp_all
  have "transition_claim sample_lext loop_2 sample_facts (Agent ''a'') sample_host ''w'' sample_digest
      \<lparr>re_revision = 4, re_claim = None, re_run = None, re_replayed = False\<rparr> (seconds 4010) =
    Ok (loop_2\<lparr>ml_claim_generation := 1, ml_todos := fmupd ''w'' (sample_entry\<lparr>lt_status := TodoClaimed,
      lt_claim := Some sample_claimed\<rparr>) fmempty\<rparr>,
      \<lparr>re_revision = 4, re_claim = Some sample_claimed, re_run = None, re_replayed = False\<rparr>)"
    using d by (simp add: transition_claim_def decision_for_todo_def sample_authority require_agent_def
        sample_states sample_texts checked_add_def lease_expiry_def sample_selectors Let_def
        fmupd_single)
  then show ?thesis
    unfolding loop_apply_def sample_valid
    using sample_valid(4)
    by (simp add: sample_states sample_texts validate_actor_def checked_add_def)
qed

lemma sample_claim_held:
  assumes "l = loop_3 \<or> l = loop_4" and "seconds 4015 \<le> now" and "now < seconds 4070"
  shows "require_claim sample_lext l sample_facts sample_claimed now = Ok ()"
proof -
  have "0 \<le> now" "now < seconds 2592000"
    using assms(2,3) by (simp_all add: seconds_def nanos_per_second_def)
  then have "hard_stop l (fa_mission sample_facts) now = None"
    using assms(1) by (intro sample_no_stop) (auto simp: sample_states)
  moreover have "seconds 4010 < now"
    using assms(2) by (simp add: seconds_def nanos_per_second_def)
  moreover have "validate_for l (fa_mission sample_facts) = Ok ()"
    using assms(1) sample_valid by blast
  moreover have "lc_todo_id sample_claimed = ''w''" "lc_expires_at sample_claimed = seconds 4070"
    "lc_claimed_at sample_claimed = seconds 4010" "lc_steering_generation sample_claimed = 1"
    "lc_authority_digest sample_claimed = replicate 64 (CHR ''0'')"
    by (simp_all add: sample_claimed_def)
  moreover have "ml_steering_generation l = 1" "ml_gates l = fmempty" "ml_updated_at l \<le> seconds 4015"
    "\<exists>t. fmlookup (ml_todos l) ''w'' = Some t \<and> lt_status t = TodoClaimed \<and> lt_claim t = Some sample_claimed"
    using assms(1) by (auto simp: loop_4_def loop_3_def loop_2_def loop_1_def loop_0_def)
  ultimately show ?thesis
    using assms(2,3) by (auto simp: require_claim_def sample_authority)
qed

lemma sample_step_4:
  "loop_apply sample_lext sample_facts (sample_command 4 (Agent ''a'') (BeginExecution sample_claimed sample_host))
     (seconds 4015) loop_3 =
   Ok (loop_4, \<lparr>re_revision = 5, re_claim = Some sample_claimed, re_run = None, re_replayed = False\<rparr>)"
proof -
  let ?t = "sample_entry\<lparr>lt_status := TodoClaimed, lt_claim := Some sample_claimed\<rparr>"
  have "ineligible_reason loop_3 (fa_mission sample_facts) sample_peer sample_host ?t = None"
    by (rule sample_eligible) (simp_all add: sample_states)
  moreover have "fmlookup (ml_todos loop_3) ''w'' = Some ?t" "ml_todos loop_3 = fmupd ''w'' ?t fmempty"
    "fmlookup (ml_peers loop_3) ''a'' = Some sample_peer"
    by (simp_all add: loop_3_def loop_2_def loop_1_def)
  moreover have "lc_todo_id sample_claimed = ''w''" "lc_agent_id sample_claimed = ''a''"
    "ho_agent_id sample_host = ''a''" "ho_workspace_digest sample_host = pr_workspace_digest sample_peer"
    "\<not> lt_execution_started sample_entry"
    by (simp_all add: sample_states)
  ultimately have "transition_begin sample_lext loop_3 sample_facts (Agent ''a'') sample_claimed sample_host
      \<lparr>re_revision = 5, re_claim = None, re_run = None, re_replayed = False\<rparr> (seconds 4015) =
    Ok (loop_3\<lparr>ml_todos := fmupd ''w'' (?t\<lparr>lt_execution_started := True\<rparr>) fmempty\<rparr>,
      \<lparr>re_revision = 5, re_claim = Some sample_claimed, re_run = None, re_replayed = False\<rparr>)"
    by (simp add: transition_begin_def require_agent_def sample_claim_held fmupd_single)
  then show ?thesis
    unfolding loop_apply_def sample_valid
    using sample_valid(5)
    by (simp add: sample_states sample_texts validate_actor_def checked_add_def)
qed

lemma sample_step_steer:
  "loop_apply sample_lext sample_facts (sample_command 5 (Operator ''op'') (Steer sample_digest))
     (seconds 4020) loop_4 =
   Ok (loop_steered, \<lparr>re_revision = 6, re_claim = None, re_run = None, re_replayed = False\<rparr>)"
proof -
  have "fmmap f (fmupd ''w'' t fmempty) = fmupd ''w'' (f t) fmempty" for f :: "loop_todo \<Rightarrow> loop_todo" and t
    by (rule fmap_ext) simp
  then show ?thesis
    unfolding loop_apply_def sample_valid
    using sample_valid(7)
    by (simp add: sample_states sample_texts validate_actor_def require_operator_def checked_add_def
        invalidate_claims_def)
qed

lemma sample_step_5:
  "loop_apply sample_lext sample_facts (sample_command 5 (Agent ''a'')
      (Settle sample_claimed (Progress {|''e''|} NoFollowup))) (seconds 4030) loop_4 =
   Ok (loop_5, \<lparr>re_revision = 6, re_claim = None, re_run = Some sample_run, re_replayed = False\<rparr>)"
proof -
  let ?t = "sample_entry\<lparr>lt_status := TodoClaimed, lt_claim := Some sample_claimed, lt_execution_started := True\<rparr>"
  have t: "fmlookup (ml_todos loop_4) ''w'' = Some ?t" "ml_todos loop_4 = fmupd ''w'' ?t fmempty"
    by (simp_all add: loop_4_def)
  have ids: "lc_todo_id sample_claimed = ''w''" "lc_agent_id sample_claimed = ''a''"
    "lc_claimed_at sample_claimed = seconds 4010"
    by (simp_all add: sample_states)
  have "collect_evidence loop_4 (fa_mission sample_facts) sample_claimed (seconds 4030) [''e''] =
      Ok [(''e'', sample_digest, seconds 4020)]"
    by (simp add: sample_facts_def sample_texts ids loop_4_def loop_3_def loop_2_def loop_1_def loop_0_def)
  then have "settle sample_lext loop_4 sample_facts sample_claimed (Progress {|''e''|} NoFollowup) False
      (seconds 4030) =
    Ok (loop_4\<lparr>ml_spent_slots := 1, ml_accepted_evidence := {|''e''|}, ml_run_sequence := 1,
     ml_recent_runs := [sample_run], ml_todos := fmupd ''w'' (sample_entry\<lparr>lt_status := TodoCompleted\<rparr>)
       fmempty\<rparr>, sample_run)"
    using t sample_claim_held [of loop_4 "seconds 4030"]
    by (auto simp: settle_def is_uncertain_failure_def ids settle_result_def
        validate_continuation_def sorted_list_of_fset.rep_eq loop_digest_def sample_states checked_add_def
        push_run_def loop_history_limit_def fmupd_single)
  then show ?thesis
    unfolding loop_apply_def sample_valid
    using sample_valid(6)
    by (simp add: sample_states sample_texts validate_actor_def checked_add_def require_agent_def)
qed

lemma sample_v_simps [simp]: "ts_id sample_todo_v = ''v''" "ts_monitor sample_todo_v = None"
  "ts_kind sample_todo_v = KindAdvancement" "ts_depends_on sample_todo_v = {||}"
  "ts_eligible_agents sample_todo_v = {||}" "ts_write_scopes sample_todo_v = {|''docs''|}"
  "ts_workspace_digest sample_todo_v = sample_digest" "ts_capability sample_todo_v = Some ''c''"
  "ts_task_id sample_todo_v = Some ''k''" "ts_write_scopes sample_todo = {|''src''|}"
  by (simp_all add: sample_todo_v_def sample_todo_def)

lemmas sample_states_v = loop_6_def loop_7_def loop_8_def sample_peer_b_def sample_host_b_def
  sample_entry_v_def sample_claimed_v_def

lemma sample_valid_v:
  "validate_for loop_6 (fa_mission sample_facts) = Ok ()" "validate_for loop_7 (fa_mission sample_facts) = Ok ()"
  "validate_for loop_8 (fa_mission sample_facts) = Ok ()"
  by (rule validate_for_sample; auto simp: sample_states sample_states_v todo_entry_ok_def sample_texts
      sample_spec_ok sample_spec_v_ok bt_len_fmupd peer_entry_ok_def split: if_splits)+

lemma sample_step_6:
  "loop_apply sample_lext sample_facts (sample_command 4 (Operator ''op'') (RegisterPeer sample_peer_b))
     (seconds 4011) loop_3 = Ok (loop_6, \<lparr>re_revision = 5, re_claim = None, re_run = None, re_replayed = False\<rparr>)"
  unfolding loop_apply_def sample_valid
  using sample_valid_v(1)
  by (simp add: sample_states sample_states_v sample_texts validate_actor_def require_operator_def
      checked_add_def bt_len_fmupd)

lemma sample_step_7:
  "loop_apply sample_lext sample_facts (sample_command 5 (Operator ''op'') (AddTodo sample_todo_v))
     (seconds 4012) loop_6 = Ok (loop_7, \<lparr>re_revision = 6, re_claim = None, re_run = None, re_replayed = False\<rparr>)"
proof -
  have "validate_task_binding sample_todo_v (fa_mission sample_facts) = Ok ()"
    by (simp add: validate_task_binding_def sample_facts_def sample_mission_def sample_contract_def)
  moreover have "ml_created_at loop_6 = seconds 4000"
    by (simp add: sample_states sample_states_v)
  ultimately show ?thesis
    unfolding loop_apply_def sample_valid_v
    using sample_valid_v(2) sample_spec_v_ok [of loop_6]
    by (simp add: sample_states sample_states_v sample_texts validate_actor_def require_operator_def
        checked_add_def loop_frontier_limit_def bt_len_fmupd)
qed

lemma sample_unstopped_v: "unstopped loop_7 sample_facts sample_host_b sample_peer_b (seconds 4013)"
proof -
  have "key_set has_claim (ml_todos loop_7) = {''w''}"
    by (auto simp: sample_states sample_states_v split: if_splits)
  then show ?thesis
    using sample_valid_v(2)
    by (auto simp: unstopped_def sample_no_stop sample_states sample_states_v split: if_splits)
qed

lemma sample_runnable_v:
  "runnable loop_7 (fa_mission sample_facts) sample_peer_b sample_host_b (free_slots loop_7) (seconds 4013)
     sample_entry_v"
proof -
  have "key_set reserves (ml_todos loop_7) = {''w''}"
    by (auto simp: sample_states sample_states_v reserves_def split: if_splits)
  then have free: "free_slots loop_7 = 1"
    by (simp add: free_slots_def sample_states sample_states_v saturating_sub_def)
  have "\<not> scopes_overlap ''src'' ''docs''"
    by (simp add: scopes_overlap_def)
  then have "ineligible_reason loop_7 (fa_mission sample_facts) sample_peer_b sample_host_b sample_entry_v = None"
    by (simp add: ineligible_reason_def sample_states sample_states_v sample_facts_def sample_mission_def
        sample_contract_def task_accepts_def)
  then show ?thesis
    by (simp add: runnable_def free) (simp add: sample_states sample_states_v)
qed

lemma sample_step_8:
  "loop_apply sample_lext sample_facts (sample_command 6 (Agent ''b'') (Claim sample_host_b ''v'' sample_digest))
     (seconds 4013) loop_7 =
   Ok (loop_8, \<lparr>re_revision = 7, re_claim = Some sample_claimed_v, re_run = None, re_replayed = False\<rparr>)"
proof -
  have look: "fmlookup (ml_todos loop_7) ''v'' = Some sample_entry_v"
    by (simp add: loop_7_def)
  have "find (runnable loop_7 (fa_mission sample_facts) sample_peer_b sample_host_b (free_slots loop_7)
      (seconds 4013)) (candidates_for loop_7 (Some ''v'')) = Some sample_entry_v"
    by (simp add: candidates_for_single [OF sample_valid_v(2) look] sample_runnable_v)
  from decision_run [OF sample_unstopped_v this sample_authority sample_channel]
  obtain d where d: "decision sample_lext loop_7 sample_facts sample_host_b (Some ''v'') (seconds 4013) = Ok d"
    "de_selected_todo d = Some ''v''"
    by (auto simp: sample_states sample_states_v)
  have "transition_claim sample_lext loop_7 sample_facts (Agent ''b'') sample_host_b ''v'' sample_digest
      \<lparr>re_revision = 7, re_claim = None, re_run = None, re_replayed = False\<rparr> (seconds 4013) =
    Ok (loop_7\<lparr>ml_claim_generation := 2, ml_todos := fmupd ''v'' (sample_entry_v\<lparr>lt_status := TodoClaimed,
      lt_claim := Some sample_claimed_v\<rparr>) (ml_todos loop_3)\<rparr>,
      \<lparr>re_revision = 7, re_claim = Some sample_claimed_v, re_run = None, re_replayed = False\<rparr>)"
    using d by (simp add: transition_claim_def decision_for_todo_def sample_authority require_agent_def
        sample_states sample_states_v sample_texts checked_add_def lease_expiry_def sample_selectors Let_def
        fmupd_single)
  then show ?thesis
    unfolding loop_apply_def sample_valid_v
    using sample_valid_v(3)
    by (simp add: sample_states sample_states_v sample_texts validate_actor_def checked_add_def)
qed

text \<open>The dependent todo.\<close>

lemma sample_d_simps [simp]: "ts_id sample_todo_d = ''v''" "ts_monitor sample_todo_d = None"
  "ts_kind sample_todo_d = KindAdvancement" "ts_depends_on sample_todo_d = {|''w''|}"
  "ts_eligible_agents sample_todo_d = {||}" "ts_write_scopes sample_todo_d = {|''docs''|}"
  "ts_workspace_digest sample_todo_d = sample_digest" "ts_capability sample_todo_d = Some ''c''"
  "ts_task_id sample_todo_d = Some ''k''"
  by (simp_all add: sample_todo_d_def)

lemmas sample_states_d = loop_9_def loop_10_def sample_entry_d_def sample_claimed_d_def

lemma sample_spec_d_ok:
  "ml_created_at l = seconds 4000 \<Longrightarrow> contains_key (ml_todos l) ''w'' \<Longrightarrow> validate_todo_spec l sample_todo_d = Ok ()"
  by (simp add: validate_todo_spec_def sample_todo_d_def sample_todo_v_def sample_todo_def sample_texts sample_names)

lemma sample_valid_d:
  "validate_for loop_9 (fa_mission sample_facts) = Ok ()" "validate_for loop_10 (fa_mission sample_facts) = Ok ()"
  by (rule validate_for_sample; auto simp: sample_states sample_states_d todo_entry_ok_def sample_texts
      sample_spec_ok sample_spec_d_ok contains_key_def bt_len_fmupd peer_entry_ok_def split: if_splits)+

lemma sample_step_9:
  "loop_apply sample_lext sample_facts (sample_command 6 (Operator ''op'') (AddTodo sample_todo_d))
     (seconds 4040) loop_5 = Ok (loop_9, \<lparr>re_revision = 7, re_claim = None, re_run = None, re_replayed = False\<rparr>)"
proof -
  have "validate_task_binding sample_todo_d (fa_mission sample_facts) = Ok ()"
    by (simp add: validate_task_binding_def sample_facts_def sample_mission_def sample_contract_def)
  moreover have "ml_created_at loop_5 = seconds 4000" "contains_key (ml_todos loop_5) ''w''"
    by (simp_all add: sample_states contains_key_def)
  ultimately show ?thesis
    unfolding loop_apply_def sample_valid
    using sample_valid_d(1) sample_spec_d_ok [of loop_5]
    by (simp add: sample_states sample_states_d sample_texts validate_actor_def require_operator_def
        checked_add_def loop_frontier_limit_def bt_len_fmupd contains_key_def)
qed

lemma sample_unstopped_d: "unstopped loop_9 sample_facts sample_host sample_peer (seconds 4050)"
proof -
  have "key_set has_claim (ml_todos loop_9) = {}"
    by (auto simp: sample_states sample_states_d split: if_splits)
  then show ?thesis
    using sample_valid_d(1)
    by (auto simp: unstopped_def sample_no_stop sample_states sample_states_d split: if_splits)
qed

lemma sample_runnable_d:
  "runnable loop_9 (fa_mission sample_facts) sample_peer sample_host (free_slots loop_9) (seconds 4050)
     sample_entry_d"
proof -
  have "key_set reserves (ml_todos loop_9) = {}"
    by (auto simp: sample_states sample_states_d reserves_def split: if_splits)
  then have free: "free_slots loop_9 = 1"
    by (simp add: free_slots_def sample_states sample_states_d saturating_sub_def)
  have "ineligible_reason loop_9 (fa_mission sample_facts) sample_peer sample_host sample_entry_d = None"
    by (simp add: ineligible_reason_def sample_states sample_states_d sample_facts_def sample_mission_def
        sample_contract_def task_accepts_def)
  then show ?thesis
    by (simp add: runnable_def free) (simp add: sample_states sample_states_d)
qed

lemma sample_step_10:
  "loop_apply sample_lext sample_facts (sample_command 7 (Agent ''a'') (Claim sample_host ''v'' sample_digest))
     (seconds 4050) loop_9 =
   Ok (loop_10, \<lparr>re_revision = 8, re_claim = Some sample_claimed_d, re_run = None, re_replayed = False\<rparr>)"
proof -
  have look: "fmlookup (ml_todos loop_9) ''v'' = Some sample_entry_d"
    by (simp add: loop_9_def)
  have "find (runnable loop_9 (fa_mission sample_facts) sample_peer sample_host (free_slots loop_9)
      (seconds 4050)) (candidates_for loop_9 (Some ''v'')) = Some sample_entry_d"
    by (simp add: candidates_for_single [OF sample_valid_d(1) look] sample_runnable_d)
  from decision_run [OF sample_unstopped_d this sample_authority sample_channel]
  obtain d where d: "decision sample_lext loop_9 sample_facts sample_host (Some ''v'') (seconds 4050) = Ok d"
    "de_selected_todo d = Some ''v''"
    by (auto simp: sample_states sample_states_d)
  have "transition_claim sample_lext loop_9 sample_facts (Agent ''a'') sample_host ''v'' sample_digest
      \<lparr>re_revision = 8, re_claim = None, re_run = None, re_replayed = False\<rparr> (seconds 4050) =
    Ok (loop_9\<lparr>ml_claim_generation := 2, ml_todos := fmupd ''v'' (sample_entry_d\<lparr>lt_status := TodoClaimed,
      lt_claim := Some sample_claimed_d\<rparr>) (ml_todos loop_5)\<rparr>,
      \<lparr>re_revision = 8, re_claim = Some sample_claimed_d, re_run = None, re_replayed = False\<rparr>)"
    using d by (simp add: transition_claim_def decision_for_todo_def sample_authority require_agent_def
        sample_states sample_states_d sample_texts checked_add_def lease_expiry_def sample_selectors Let_def
        fmupd_single)
  then show ?thesis
    unfolding loop_apply_def sample_valid_d
    using sample_valid_d(2)
    by (simp add: sample_states sample_states_d sample_texts validate_actor_def checked_add_def)
qed

lemma sample_next:
  "loop_next sample_lext loop_0 loop_1" "loop_next sample_lext loop_1 loop_2"
  "loop_next sample_lext loop_2 loop_3" "loop_next sample_lext loop_3 loop_4"
  "loop_next sample_lext loop_4 loop_5" "loop_next sample_lext loop_4 loop_steered"
  "loop_next sample_lext loop_3 loop_6" "loop_next sample_lext loop_6 loop_7"
  "loop_next sample_lext loop_7 loop_8" "loop_next sample_lext loop_5 loop_9"
  "loop_next sample_lext loop_9 loop_10"
  unfolding loop_next_def
  using sample_step_1 sample_step_2 sample_step_3 sample_step_4 sample_step_5 sample_step_steer
    sample_step_6 sample_step_7 sample_step_8 sample_step_9 sample_step_10 by blast+

lemma sample_reach:
  "(loop_next sample_lext)\<^sup>*\<^sup>* loop_0 loop_2" "(loop_next sample_lext)\<^sup>*\<^sup>* loop_0 loop_3"
  "(loop_next sample_lext)\<^sup>*\<^sup>* loop_0 loop_4" "(loop_next sample_lext)\<^sup>*\<^sup>* loop_0 loop_5"
  "(loop_next sample_lext)\<^sup>*\<^sup>* loop_0 loop_steered" "(loop_next sample_lext)\<^sup>*\<^sup>* loop_0 loop_8"
  "(loop_next sample_lext)\<^sup>*\<^sup>* loop_0 loop_10"
  by (meson rtranclp.rtrancl_refl rtranclp.rtrancl_into_rtrancl sample_next)+

end
