(* ===== verification/Loop_Props.thy ===== *)
theory Loop_Props
  imports Loop_Sample
begin

text \<open>
  What the mission loop guarantees: exclusive write scopes, bounded and accounted work, revocation
  of claims by steering, and a decision procedure whose suggestion can be claimed.
\<close>

section \<open>Refinement\<close>

text \<open>
  C2: The command table implements its specification: every command that commits changes the todos,
  the generations, the slot account and the limits by exactly one step of the abstract loop, and
  the invariant of the abstract loop holds in every reachable state.
\<close>

theorem loop_refines_core:
  assumes "loop_new mission policy now = Ok l0" and "(loop_next X)\<^sup>*\<^sup>* l0 l"
    and "loop_apply X facts command now' l = Ok (l', receipt)"
  shows "core_step (core l) (core l') \<and> core_inv (core l) \<and> core_inv (core l')"
  using loop_apply_revision(3) [OF assms(3)] loop_reachable_inv [OF assms(1,2)] core_inv_step by blast

theorem loop_refines_core_witness:
  "core_step (core loop_4) (core loop_5) \<and> core_inv (core loop_5)"
  using loop_refines_core [OF sample_new sample_reach(3) sample_step_5] by blast

section \<open>Exclusive work\<close>

text \<open>A scope covers its own path and everything below it; the scope \<open>.\<close> is the whole workspace.\<close>

definition covers :: "string \<Rightarrow> string \<Rightarrow> bool" where
  "covers scope path \<longleftrightarrow> scope = ''.'' \<or> path = scope \<or> prefix (scope @ ''/'') path"

lemma covers_overlap:
  assumes "covers a path" and "covers b path"
  shows "scopes_overlap a b"
proof -
  have step: "a = b \<or> prefix (a @ ''/'') b \<or> prefix (b @ ''/'') a"
    if "prefix (a @ ''/'') path" "prefix (b @ ''/'') path" for a b
  proof -
    from that have "prefix (a @ ''/'') (b @ ''/'') \<or> prefix (b @ ''/'') (a @ ''/'')"
      using prefix_same_cases by blast
    then show ?thesis
      by (auto simp: prefix_snoc)
  qed
  show ?thesis
    using assms step [of a b] by (auto simp: covers_def scopes_overlap_def)
qed

text \<open>
  C10: Two claimed todos of one workspace never write to the same path: in every loop reached from
  its creation by committed commands, no path lies under write scopes of two different todos that
  hold claims, whoever holds them and whether or not the claims have become uncertain.
\<close>

theorem write_scopes_exclusive:
  assumes "loop_new mission policy now = Ok l0" and "(loop_next X)\<^sup>*\<^sup>* l0 l"
    and "fmlookup (ml_todos l) k = Some t" and "fmlookup (ml_todos l) k' = Some t'" and "k \<noteq> k'"
    and "lt_claim t \<noteq> None" and "lt_claim t' \<noteq> None"
    and "ts_workspace_digest (lt_spec t) = ts_workspace_digest (lt_spec t')"
    and "a |\<in>| ts_write_scopes (lt_spec t)" and "b |\<in>| ts_write_scopes (lt_spec t')"
    and "covers a path"
  shows "\<not> covers b path"
proof -
  have "writes_exclusive (core l)"
    using loop_reachable_inv [OF assms(1,2)] by (simp add: core_inv_def)
  then have "\<not> overlapping (lt_spec t) (lt_spec t')"
    using assms(3-7) unfolding writes_exclusive_def core_simps by blast
  then show ?thesis
    using assms(8-11) covers_overlap unfolding overlapping_def by blast
qed

theorem write_scopes_exclusive_witness:
  "lt_claim (the (fmlookup (ml_todos loop_8) ''w'')) = Some sample_claimed \<and>
   lt_claim (the (fmlookup (ml_todos loop_8) ''v'')) = Some sample_claimed_v \<and>
   covers ''src'' ''src/lib.rs'' \<and> \<not> covers ''docs'' ''src/lib.rs''"
proof -
  have *: "fmlookup (ml_todos loop_8) ''w'' =
      Some (sample_entry\<lparr>lt_status := TodoClaimed, lt_claim := Some sample_claimed\<rparr>)"
    "fmlookup (ml_todos loop_8) ''v'' =
      Some (sample_entry_v\<lparr>lt_status := TodoClaimed, lt_claim := Some sample_claimed_v\<rparr>)"
    by (simp_all add: loop_8_def loop_3_def)
  have "lt_spec sample_entry = sample_todo" "lt_spec sample_entry_v = sample_todo_v"
    "ts_workspace_digest sample_todo = ts_workspace_digest sample_todo_v" "covers ''src'' ''src/lib.rs''"
    by (simp_all add: sample_entry_def sample_entry_v_def sample_todo_v_def covers_def)
  then show ?thesis
    using * write_scopes_exclusive [OF sample_new sample_reach(6) *, of "''src''" "''docs''" "''src/lib.rs''"]
    by simp
qed

text \<open>
  C15: The loop stays inside its limits: no agent ever holds claims on two todos, the number of
  claims never exceeds the parallelism of the policy, and every slot ever spent is backed by its
  own piece of accepted evidence.
\<close>

theorem loop_limits_kept:
  assumes "loop_new mission policy now = Ok l0" and "(loop_next X)\<^sup>*\<^sup>* l0 l"
  shows "card (key_set has_claim (ml_todos l)) \<le> unat (lp_max_parallel (ml_policy l)) \<and>
    unat (ml_spent_slots l) \<le> fcard (ml_accepted_evidence l) \<and>
    (\<forall>k k' t t' c c'. fmlookup (ml_todos l) k = Some t \<longrightarrow> fmlookup (ml_todos l) k' = Some t' \<longrightarrow>
       lt_claim t = Some c \<longrightarrow> lt_claim t' = Some c' \<longrightarrow> lc_agent_id c = lc_agent_id c' \<longrightarrow> k = k')"
  using loop_reachable_inv [OF assms]
  unfolding core_inv_def parallel_bounded_def spent_backed_def one_claim_per_agent_def core_simps
  by blast

theorem loop_limits_kept_witness:
  "unat (ml_spent_slots loop_5) \<le> fcard (ml_accepted_evidence loop_5) \<and> ml_spent_slots loop_5 = 1 \<and>
   card (key_set has_claim (ml_todos loop_8)) \<le> 2"
proof -
  have "ml_policy loop_8 = sample_policy" "ml_spent_slots loop_5 = 1"
    by (simp_all add: loop_5_def loop_8_def loop_7_def loop_6_def loop_3_def loop_2_def loop_1_def loop_0_def)
  then show ?thesis
    using loop_limits_kept [OF sample_new sample_reach(4)] loop_limits_kept [OF sample_new sample_reach(6)]
    unfolding sample_policy_def by simp
qed

section \<open>Accounting\<close>

lemma spent_step:
  assumes "core_step s s'" and "core_inv s" and "k_spent s' \<noteq> k_spent s"
  shows "unat (k_spent s') = Suc (unat (k_spent s)) \<and> unat (k_spent s') \<le> unat (k_slots s') \<and>
    k_evidence s |\<subset>| k_evidence s'"
  using assms
proof (cases rule: core_step.cases)
  case (progressed k t c t' spent evidence)
  have "k \<in> key_set (live (k_steering s)) (k_todos s)"
    using progressed by (simp add: live_def reserves_def)
  then have "0 < card (key_set (live (k_steering s)) (k_todos s))"
    by (metis card_gt_0_iff empty_iff finite_key_set)
  moreover have "quota_kept s"
    using assms(2) by (simp add: core_inv_def)
  ultimately have "Suc (unat (k_spent s)) \<le> unat (k_slots s)"
    unfolding quota_kept_def Let_def by linarith
  moreover have "unat spent = Suc (unat (k_spent s))"
    using checked_add_SomeD(1) [OF progressed(9)] by simp
  moreover have "k_evidence s |\<subset>| k_evidence s |\<union>| evidence"
    using progressed(10,11) by auto
  ultimately show ?thesis
    by (simp add: progressed(1))
qed simp_all

text \<open>
  C16: The quota is never overrun: a command that changes the number of spent slots raises it by
  one, to a value within the quota in force after the command, and accepts new evidence with it.
\<close>

theorem spending_within_quota:
  assumes "loop_new mission policy now = Ok l0" and "(loop_next X)\<^sup>*\<^sup>* l0 l"
    and "loop_next X l l'" and "ml_spent_slots l' \<noteq> ml_spent_slots l"
  shows "unat (ml_spent_slots l') = Suc (unat (ml_spent_slots l)) \<and>
    ml_spent_slots l' \<le> lp_max_slots (ml_policy l') \<and>
    ml_accepted_evidence l |\<subset>| ml_accepted_evidence l'"
proof -
  have "core_step (core l) (core l')"
    using assms(3) loop_apply_revision(3) unfolding loop_next_def by blast
  from spent_step [OF this loop_reachable_inv [OF assms(1,2)]] assms(4) show ?thesis
    by (simp add: word_le_nat_alt)
qed

theorem spending_within_quota_witness:
  "loop_next sample_lext loop_4 loop_5 \<and> ml_spent_slots loop_5 = 1 \<and>
   ml_spent_slots loop_5 \<le> lp_max_slots (ml_policy loop_5)"
proof -
  have "ml_spent_slots loop_4 = 0" "ml_spent_slots loop_5 = 1"
    by (simp_all add: loop_5_def loop_4_def loop_3_def loop_2_def loop_1_def loop_0_def)
  then show ?thesis
    using spending_within_quota [OF sample_new sample_reach(3) sample_next(5)] sample_next(5) by simp
qed

text \<open>
  C17: Dependencies are respected and cannot be circular: every dependency of a todo is a todo of the
  loop, every dependency of a claimed or completed todo is completed, and no todo depends on
  itself through any chain of todos.
\<close>

theorem dependencies_respected:
  assumes "loop_new mission policy now = Ok l0" and "(loop_next X)\<^sup>*\<^sup>* l0 l"
  shows "(\<forall>k t d. fmlookup (ml_todos l) k = Some t \<longrightarrow> d |\<in>| ts_depends_on (lt_spec t) \<longrightarrow>
      (\<exists>u. fmlookup (ml_todos l) d = Some u \<and>
         (has_claim t \<or> lt_status t = TodoCompleted \<longrightarrow> lt_status u = TodoCompleted))) \<and>
    acyclic {(d, k). \<exists>t. fmlookup (ml_todos l) k = Some t \<and> d |\<in>| ts_depends_on (lt_spec t)}"
proof -
  have wf: "dependencies_wf (core l)" and "dependencies_done (core l)"
    using loop_reachable_inv [OF assms] by (simp_all add: core_inv_def)
  then have "\<exists>u. fmlookup (ml_todos l) d = Some u \<and> lt_status u = TodoCompleted"
    if "fmlookup (ml_todos l) k = Some t" "d |\<in>| ts_depends_on (lt_spec t)" "has_claim t \<or> lt_status t = TodoCompleted"
    for k t d
    using that unfolding dependencies_done_def completed_def is_some_and_iff core_simps by blast
  moreover have "\<exists>u. fmlookup (ml_todos l) d = Some u"
    if "fmlookup (ml_todos l) k = Some t" "d |\<in>| ts_depends_on (lt_spec t)" for k t d
    using wf that unfolding dependencies_wf_def depends_def contains_key_def core_simps by auto
  moreover have "acyclic (depends (core l))"
    using wf by (simp add: dependencies_wf_def)
  ultimately show ?thesis
    unfolding depends_def core_simps by blast
qed

theorem dependencies_respected_witness:
  "fmlookup (ml_todos loop_10) ''v'' = Some (sample_entry_d\<lparr>lt_status := TodoClaimed, lt_claim := Some sample_claimed_d\<rparr>) \<and>
   ''w'' |\<in>| ts_depends_on (lt_spec sample_entry_d) \<and>
   (\<exists>u. fmlookup (ml_todos loop_10) ''w'' = Some u \<and> lt_status u = TodoCompleted)"
proof -
  let ?t = "sample_entry_d\<lparr>lt_status := TodoClaimed, lt_claim := Some sample_claimed_d\<rparr>"
  have t: "fmlookup (ml_todos loop_10) ''v'' = Some ?t" "''w'' |\<in>| ts_depends_on (lt_spec ?t)" "has_claim ?t"
    by (simp_all add: loop_10_def sample_entry_d_def)
  then have "\<exists>u. fmlookup (ml_todos loop_10) ''w'' = Some u \<and> lt_status u = TodoCompleted"
    using dependencies_respected [OF sample_new sample_reach(7)] by blast
  with t show ?thesis
    by simp
qed

section \<open>Revocation\<close>

lemma generations_step:
  assumes "core_step s s'"
  shows "k_steering s \<le> k_steering s'" and "k_claims s \<le> k_claims s'"
  using assms by (cases rule: core_step.cases; auto dest: checked_add_one_Some(4))+

lemma generations_run:
  assumes "(loop_next X)\<^sup>*\<^sup>* l l'"
  shows "ml_steering_generation l \<le> ml_steering_generation l'" and "ml_claim_generation l \<le> ml_claim_generation l'"
proof -
  have step: "ml_steering_generation l \<le> ml_steering_generation l' \<and> ml_claim_generation l \<le> ml_claim_generation l'"
    if "loop_next X l l'" for l l'
    using that generations_step [of "core l" "core l'"] loop_apply_revision(3)
    unfolding loop_next_def core_simps by blast
  show "ml_steering_generation l \<le> ml_steering_generation l'" "ml_claim_generation l \<le> ml_claim_generation l'"
    using assms by (induction rule: rtranclp_induct) (auto dest: step)
qed

lemma stale_claim_refused:
  assumes "lc_steering_generation c < ml_steering_generation l"
  shows "is_err (require_claim X l facts c now)"
  using assms require_claimD(3) [of X l facts c now] by (cases "require_claim X l facts c now") auto

text \<open>
  C20: Steering, pausing and lowering the quota revoke every claim for ever: after one of them has
  committed, no claim handed out before can start, renew, or settle anything in any later
  state, not even through reconciliation; only an uncertain failure can still be reported with it.
\<close>

theorem steering_revokes_claims:
  assumes "loop_apply X facts command now l = Ok (l', receipt)"
    and "co_action command = Steer rationale \<or> co_action command = Pause True \<or>
      (co_action command = SetQuota slots \<and> slots < lp_max_slots (ml_policy l))"
    and "lc_steering_generation c \<le> ml_steering_generation l" and "(loop_next X)\<^sup>*\<^sup>* l' l2"
  shows "is_err (transition X l2 facts2 actor (BeginExecution c host) receipt2 now2) \<and>
    is_err (transition X l2 facts2 actor (Heartbeat c) receipt2 now2) \<and>
    is_err (transition X l2 facts2 actor (ReconcileSettlement c result readback) receipt2 now2) \<and>
    (is_uncertain_failure result \<or> is_err (transition X l2 facts2 actor (Settle c result) receipt2 now2))"
proof -
  from assms(1) obtain l1 revision where
    tr: "transition X l facts (co_actor command) (co_action command)
       \<lparr>re_revision = revision, re_claim = None, re_run = None, re_replayed = False\<rparr> now = Ok (l1, receipt)"
    and l': "l' = l1\<lparr>ml_revision := re_revision receipt, ml_updated_at := now\<rparr>"
    by (rule loop_apply_Ok)
  obtain m m' where m: "invalidate_claims m = Ok m'" "ml_steering_generation m = ml_steering_generation l"
    "ml_steering_generation m' = ml_steering_generation l1"
    using tr assms(2) by (auto simp: Let_def)
  have "lc_steering_generation c < ml_steering_generation l1"
    using checked_add_one_Some(4) [OF invalidate_claims_Ok(1) [OF m(1)]] m(2,3) assms(3) by simp
  then have stale: "lc_steering_generation c < ml_steering_generation l2"
    using generations_run(1) [OF assms(4)] by (simp add: l')
  show ?thesis
    using stale stale_claim_refused [OF stale, of X facts2 now2]
    by (auto simp: is_ok_iff transition_begin_def transition_heartbeat_def settle_def split: if_splits)
qed

theorem steering_revokes_claims_witness:
  "is_err (transition sample_lext loop_steered sample_facts (Agent ''a'') (Heartbeat sample_claimed)
     \<lparr>re_revision = 7, re_claim = None, re_run = None, re_replayed = False\<rparr> (seconds 4030)) \<and>
   is_err (transition sample_lext loop_steered sample_facts (Agent ''a'')
     (Settle sample_claimed (Progress {|''e''|} NoFollowup))
     \<lparr>re_revision = 7, re_claim = None, re_run = None, re_replayed = False\<rparr> (seconds 4030))"
proof -
  have "co_action (sample_command 5 (Operator ''op'') (Steer sample_digest)) = Steer sample_digest"
    "lc_steering_generation sample_claimed \<le> ml_steering_generation loop_4"
    by (simp_all add: sample_command_def sample_claimed_def loop_4_def loop_3_def loop_2_def loop_1_def loop_0_def)
  moreover have "\<not> is_uncertain_failure (Progress {|''e''|} NoFollowup)"
    by (simp add: is_uncertain_failure_def)
  ultimately show ?thesis
    using steering_revokes_claims [OF sample_step_steer, of sample_digest, OF _ _ rtranclp.rtrancl_refl]
    by blast
qed






section \<open>Decisions\<close>

lemma find_sorted_least:
  assumes "find P zs = Some x" and "sorted (map f zs)" and "y \<in> set zs" and "P y"
  shows "f x \<le> f y"
  using assms by (induction zs) (auto split: if_splits)

lemma decision_todo:
  assumes "decision X l facts host selected now = Ok d" and "de_selected_todo d = Some k"
  obtains peer t where "unstopped l facts host peer now" "fmlookup (ml_todos l) k = Some t"
    "find (runnable l (fa_mission facts) peer host (free_slots l) now) (candidates_for l selected) = Some t"
    "runnable l (fa_mission facts) peer host (free_slots l) now t"
    "is_ok (authority_digest X facts)" "is_ok (user_channel X l (ho_agent_id host))"
proof -
  from decision_selects [OF assms] obtain peer t where
    *: "unstopped l facts host peer now" "ts_id (lt_spec t) = k"
      "find (runnable l (fa_mission facts) peer host (free_slots l) now) (candidates_for l selected) = Some t"
      "is_ok (authority_digest X facts)" "is_ok (user_channel X l (ho_agent_id host))"
    by blast
  have valid: "validate_for l (fa_mission facts) = Ok ()"
    using *(1) by (simp add: unstopped_def)
  have t: "t \<in> set (candidates_for l selected)" "runnable l (fa_mission facts) peer host (free_slots l) now t"
    using find_SomeD [OF *(3)] by blast+
  then obtain k' where "fmlookup (ml_todos l) k' = Some t"
    by (auto simp: candidates_for_iff)
  with validate_for_id [OF valid this] *(2) have "fmlookup (ml_todos l) k = Some t"
    by simp
  then show thesis
    using that * t(2) by blast
qed

text \<open>
  C23: The suggestion is the best runnable todo: whatever the loop suggests to a host may be run by
  it now, and no other todo it may run has a smaller priority number or, at the same priority, a
  smaller id.
\<close>

theorem suggestion_is_best:
  assumes "should_run X l facts host now = Ok d" and "de_selected_todo d = Some k"
  shows "\<exists>peer t. fmlookup (ml_peers l) (ho_agent_id host) = Some peer \<and>
    fmlookup (ml_todos l) k = Some t \<and>
    runnable l (fa_mission facts) peer host (free_slots l) now t \<and>
    (\<forall>k' u. fmlookup (ml_todos l) k' = Some u \<longrightarrow>
       runnable l (fa_mission facts) peer host (free_slots l) now u \<longrightarrow>
       (ts_priority (lt_spec t), k) \<le> (ts_priority (lt_spec u), k'))"
proof -
  from assms have "decision X l facts host None now = Ok d"
    by (simp add: should_run_def)
  then obtain peer t where *: "unstopped l facts host peer now" "fmlookup (ml_todos l) k = Some t"
    "find (runnable l (fa_mission facts) peer host (free_slots l) now) (candidates_for l None) = Some t"
    "runnable l (fa_mission facts) peer host (free_slots l) now t"
    using assms(2) by (rule decision_todo)
  have valid: "validate_for l (fa_mission facts) = Ok ()"
    using *(1) by (simp add: unstopped_def)
  have "(ts_priority (lt_spec t), k) \<le> (ts_priority (lt_spec u), k')"
    if "fmlookup (ml_todos l) k' = Some u" "runnable l (fa_mission facts) peer host (free_slots l) now u" for k' u
  proof -
    let ?key = "\<lambda>todo. (ts_priority (lt_spec todo), ts_id (lt_spec todo))"
    have "sorted (map ?key (candidates_for l None))" "u \<in> set (candidates_for l None)"
      using that(1) by (simp add: candidates_for_def, auto simp: candidates_for_iff)
    from find_sorted_least [OF *(3) this that(2)]
    have "?key t \<le> ?key u" .
    then show ?thesis
      using validate_for_id [OF valid that(1)] validate_for_id [OF valid *(2)] by simp
  qed
  then show ?thesis
    using * by (auto simp: unstopped_def)
qed

theorem suggestion_is_best_witness:
  "\<exists>d. should_run sample_lext loop_2 sample_facts sample_host (seconds 4010) = Ok d \<and>
     de_selected_todo d = Some ''w'' \<and>
     (\<exists>peer t. fmlookup (ml_todos loop_2) ''w'' = Some t \<and>
        runnable loop_2 (fa_mission sample_facts) peer sample_host (free_slots loop_2) (seconds 4010) t)"
proof -
  obtain d where "decision sample_lext loop_2 sample_facts sample_host None (seconds 4010) = Ok d"
    "de_selected_todo d = Some ''w''"
    by (rule sample_decision [of None]) simp_all
  then have d: "should_run sample_lext loop_2 sample_facts sample_host (seconds 4010) = Ok d"
    "de_selected_todo d = Some ''w''"
    by (simp_all add: should_run_def)
  from suggestion_is_best [OF this] d show ?thesis
    by blast
qed

section \<open>A suggestion can be claimed\<close>

lemma todo_entry_ok_frame:
  assumes "todo_entry_ok l (k, t) = Ok ()" and "ml_peers l' = ml_peers l"
    and "\<And>d. contains_key (ml_todos l) d \<Longrightarrow> contains_key (ml_todos l') d"
    and "ml_created_at l' = ml_created_at l" and "ml_claim_generation l \<le> ml_claim_generation l'"
    and "ml_steering_generation l' = ml_steering_generation l"
  shows "todo_entry_ok l' (k, t) = Ok ()"
  using assms unfolding todo_entry_ok_def validate_todo_spec_def
  by (cases "lt_claim t") (auto simp: not_less)

lemma validate_for_update:
  assumes valid: "validate_for l mission = Ok ()" and k: "fmlookup (ml_todos l) k = Some t"
    and l': "l' = l\<lparr>ml_claim_generation := g, ml_todos := fmupd k t' (ml_todos l), ml_revision := r,
      ml_updated_at := now\<rparr>"
    and "ml_claim_generation l \<le> g" "r \<noteq> 0" "ml_updated_at l \<le> now" "todo_entry_ok l' (k, t') = Ok ()"
  shows "validate_for l' mission = Ok ()"
proof -
  have keys: "contains_key (ml_todos l') d \<longleftrightarrow> contains_key (ml_todos l) d" for d
    using k by (auto simp: l' contains_key_def)
  have peers: "ml_peers l' = ml_peers l"
    by (simp add: l')
  have len: "bt_len (ml_todos l') = bt_len (ml_todos l)"
    using k by (simp add: l' bt_len_fmupd contains_keyI)
  have todos: "todo_entry_ok l' (k', u) = Ok ()" if "fmlookup (ml_todos l') k' = Some u" for k' u
  proof (cases "k' = k")
    case True
    with that assms(7) show ?thesis
      by (simp add: l')
  next
    case False
    with that have "fmlookup (ml_todos l) k' = Some u"
      by (simp add: l')
    from validate_for_todo [OF valid this] show ?thesis
      by (rule todo_entry_ok_frame) (use keys assms(4) in \<open>auto simp: l'\<close>)
  qed
  have gates: "gate_entry_ok l' e = gate_entry_ok l e" for e
    unfolding gate_entry_ok_def validate_gate_def keys peers ..
  show ?thesis
    using valid todos len gates assms(5,6)
    unfolding validate_for_def for_each_map_Ok
    by (simp add: l' for_each_map_Ok del: for_each_Ok)
qed

lemma lease_expiry_fresh:
  assumes "chrono_exact X" and "chrono_total X"
    and "unstopped l facts host peer now" and "runnable l (fa_mission facts) peer host remaining now t"
    and "add_signed X now (seconds (uint (lp_lease_seconds (ml_policy l)))) \<noteq> None"
  obtains expires_at where "lease_expiry X l (fa_mission facts) t now = Ok expires_at" "now < expires_at"
proof -
  let ?s = "uint (lp_lease_seconds (ml_policy l))"
  have "loop_policy_validate (ml_policy l) = Ok ()"
    using assms(3) by (simp add: unstopped_def validate_for_def)
  then have "1 \<le> ?s" "?s \<le> 900"
    by (auto simp: loop_policy_validate_def word_le_def split: if_splits)
  obtain d where d: "dur_seconds X ?s = Some d"
    using chrono_totalD [OF assms(2), of ?s] \<open>1 \<le> ?s\<close> \<open>?s \<le> 900\<close> by auto
  then have d': "d = seconds ?s"
    using chrono_exactD(2) [OF assms(1)] by blast
  obtain at where at: "add_signed X now d = Some at"
    using assms(5) d' by auto
  then have "now < at"
    using chrono_exactD(1) [OF assms(1) at] \<open>1 \<le> ?s\<close> by (simp add: d' seconds_def nanos_per_second_def)
  moreover have "now < oc_valid_until (ms_contract (fa_mission facts))"
    using assms(3) by (auto simp: unstopped_def hard_stop_def split: if_splits)
  moreover have "is_none_or (\<lambda>m. now < mo_expires_at m) (ts_monitor (lt_spec t))"
    using assms(4) by (cases "ts_monitor (lt_spec t)") (auto simp: runnable_def)
  ultimately show thesis
    using d at by (intro that [of "case ts_monitor (lt_spec t) of
          Some m \<Rightarrow> min (min at (oc_valid_until (ms_contract (fa_mission facts)))) (mo_expires_at m)
        | None \<Rightarrow> min at (oc_valid_until (ms_contract (fa_mission facts)))"])
      (auto simp: lease_expiry_def Let_def split: option.split)
qed

lemma claim_validates:
  assumes "unstopped l facts host peer now" and "fmlookup (ml_todos l) k = Some t"
    and "checked_add (ml_claim_generation l) 1 = Some g" and "checked_add (ml_revision l) 1 = Some r"
    and "digest token_digest" and "digest authority" and "now < expires_at"
  shows "validate_for (l\<lparr>ml_claim_generation := g, ml_todos := fmupd k (t\<lparr>lt_status := TodoClaimed,
      lt_claim := Some \<lparr>lc_todo_id = k, lc_agent_id = ho_agent_id host, lc_token_digest = token_digest,
        lc_generation = g, lc_steering_generation = ml_steering_generation l,
        lc_authority_digest = authority, lc_claimed_at = now, lc_expires_at = expires_at\<rparr>,
      lt_execution_started := False\<rparr>) (ml_todos l), ml_revision := r, ml_updated_at := now\<rparr>)
    (fa_mission facts) = Ok ()"
proof -
  have valid: "validate_for l (fa_mission facts) = Ok ()" and now: "ml_updated_at l \<le> now"
    and peer: "contains_key (ml_peers l) (ho_agent_id host)"
    using assms(1) by (auto simp: unstopped_def intro: contains_keyI)
  have g: "ml_claim_generation l \<le> g" "g \<noteq> 0" "r \<noteq> 0"
    using checked_add_one_Some [OF assms(3)] checked_add_one_Some(3) [OF assms(4)] by simp_all
  have entry: "todo_entry_ok l (k, t) = Ok ()"
    by (rule validate_for_todo [OF valid assms(2)])
  have spec: "validate_todo_spec l' (lt_spec t) = Ok ()"
    if "ml_peers l' = ml_peers l" "ml_created_at l' = ml_created_at l"
      "\<And>d. contains_key (ml_todos l) d \<Longrightarrow> contains_key (ml_todos l') d" for l'
    using todo_entry_okD(2) [OF entry] that unfolding validate_todo_spec_def by auto
  show ?thesis
    by (rule validate_for_update [OF valid assms(2) refl g(1,3) now])
      (use assms(5-7) peer g spec todo_entry_okD(1) [OF entry] in \<open>simp add: todo_entry_ok_def\<close>)
qed

lemma decision_revisions:
  assumes "decision X l facts host selected now = Ok d"
  shows "de_loop_revision d = ml_revision l \<and> de_mission_revision d = ms_revision (fa_mission facts)"
  using assms unfolding decision_def Let_def
  apply (simp only: and_then_eq_Ok ok_or_eq_Ok if_Err_eq_Ok)
  apply (elim exE conjE)
  apply (simp only: and_then_eq_Ok ok_or_eq_Ok if_Err_eq_Ok split: option.splits if_splits sum.splits prod.splits)
  apply auto
  done

text \<open>
  C22: A suggestion can be acted upon: if the loop suggests a todo to a host, then the claim command
  the host sends back, carrying the two revisions of the decision, commits and returns a claim on
  that todo which has not yet expired, as long as the counters and the calendar have room.
\<close>

theorem suggestion_claimable:
  assumes "chrono_exact X" and "chrono_total X" and "\<forall>m. digest (sha256 X m)"
    and "should_run X l facts host now = Ok d" and "de_selected_todo d = Some k"
    and "token operation" and "digest token_digest"
    and "checked_add (ml_revision l) 1 = Some r" and "checked_add (ml_claim_generation l) 1 = Some g"
    and "add_signed X now (seconds (uint (lp_lease_seconds (ml_policy l)))) \<noteq> None"
  shows "\<exists>l' receipt c. loop_apply X facts
      \<lparr>co_operation_id = operation, co_expected_revision = de_loop_revision d,
       co_expected_mission_revision = de_mission_revision d, co_actor = Agent (ho_agent_id host),
       co_action = Claim host k token_digest\<rparr> now l = Ok (l', receipt) \<and>
    re_claim receipt = Some c \<and> lc_todo_id c = k \<and> now < lc_expires_at c"
proof -
  have dec: "decision X l facts host None now = Ok d"
    using assms(4) by (simp add: should_run_def)
  obtain peer t where *: "unstopped l facts host peer now" "fmlookup (ml_todos l) k = Some t"
    "runnable l (fa_mission facts) peer host (free_slots l) now t"
    "is_ok (authority_digest X facts)" "is_ok (user_channel X l (ho_agent_id host))"
    using dec assms(5) by (rule decision_todo)
  have valid: "validate_for l (fa_mission facts) = Ok ()" "ml_updated_at l \<le> now"
    "contains_key (ml_peers l) (ho_agent_id host)"
    using *(1) by (auto simp: unstopped_def intro: contains_keyI)
  obtain authority user where au: "authority_digest X facts = Ok authority"
    "user_channel X l (ho_agent_id host) = Ok user"
    using *(4,5) by (auto simp: is_ok_iff)
  then have "digest authority"
    using assms(3) by (auto simp: authority_digest_def loop_digest_def split: if_splits)
  have "find (runnable l (fa_mission facts) peer host (free_slots l) now) (candidates_for l (Some k)) = Some t"
    by (simp add: candidates_for_single [OF valid(1) *(2)] *(3))
  from decision_run [OF *(1) this au] validate_for_id [OF valid(1) *(2)]
  obtain d' where d': "decision X l facts host (Some k) now = Ok d'" "de_selected_todo d' = Some k"
    by auto
  obtain expires_at where lease: "lease_expiry X l (fa_mission facts) t now = Ok expires_at" "now < expires_at"
    using lease_expiry_fresh [OF assms(1,2) *(1,3) assms(10)] .
  show ?thesis
    using claim_validates [OF *(1,2) assms(9,8,7) \<open>digest authority\<close> lease(2)] valid d' au lease assms(6-9)
      decision_revisions [OF dec] *(2)
    by (simp add: loop_apply_def validate_actor_def transition_claim_def decision_for_todo_def
        require_agent_def contains_keyI Let_def)
qed

theorem suggestion_claimable_witness:
  "\<exists>d l' receipt c. should_run sample_lext loop_2 sample_facts sample_host (seconds 4010) = Ok d \<and>
     loop_apply sample_lext sample_facts
      \<lparr>co_operation_id = ''o'', co_expected_revision = de_loop_revision d,
       co_expected_mission_revision = de_mission_revision d, co_actor = Agent ''a'',
       co_action = Claim sample_host ''w'' sample_digest\<rparr> (seconds 4010) loop_2 = Ok (l', receipt) \<and>
    re_claim receipt = Some c \<and> seconds 4010 < lc_expires_at c"
proof -
  obtain d where "decision sample_lext loop_2 sample_facts sample_host None (seconds 4010) = Ok d"
    and d: "de_selected_todo d = Some ''w''"
    by (rule sample_decision [of None]) simp_all
  then have run: "should_run sample_lext loop_2 sample_facts sample_host (seconds 4010) = Ok d"
    by (simp add: should_run_def)
  have "\<forall>m. digest (sha256 sample_lext m)" "checked_add (ml_revision loop_2) 1 = Some 4"
    "checked_add (ml_claim_generation loop_2) 1 = Some 1" "ho_agent_id sample_host = ''a''"
    by (simp_all add: sample_texts sample_states checked_add_def)
  then show ?thesis
    using suggestion_claimable [OF sample_lext_chrono _ run d sample_texts(6,1), of 4 1] run by auto
qed

section \<open>Monitors and gates\<close>

lemma next_tick:
  fixes due now interval :: int
  assumes "0 < interval"
  defines "n \<equiv> max (num_seconds (now - due)) 0 div interval + 1"
  shows "now < due + seconds (n * interval)" and "1 \<le> n"
    and "n = 1 \<or> due + seconds (n * interval) - seconds interval \<le> now"
proof -
  define e where "e = max (num_seconds (now - due)) 0"
  have n: "n = e div interval + 1"
    by (simp add: n_def e_def)
  have "0 \<le> e"
    by (simp add: e_def)
  then show "1 \<le> n"
    using assms(1) by (simp add: n pos_imp_zdiv_nonneg_iff)
  have "e < n * interval"
    using assms(1) by (simp add: n distrib_right) (metis add.commute div_mod_decomp_int
        pos_mod_bound add_less_cancel_left)
  then have "seconds (e + 1) \<le> seconds (n * interval)"
    by simp
  moreover have "now - due < seconds (e + 1)"
  proof (cases "0 \<le> now - due")
    case True
    then have "(now - due) div nanos_per_second \<le> e"
      by (simp add: e_def num_seconds_def)
    then show ?thesis
      by (simp add: seconds_def nanos_per_second_def)
  next
    case False
    then show ?thesis
      using \<open>0 \<le> e\<close> by (simp add: seconds_def nanos_per_second_def)
  qed
  ultimately show "now < due + seconds (n * interval)"
    by linarith
  show "n = 1 \<or> due + seconds (n * interval) - seconds interval \<le> now"
  proof (cases "e = 0")
    case False
    then have d: "0 \<le> now - due" "e = (now - due) div nanos_per_second"
      by (auto simp: e_def num_seconds_def nanos_per_second_def max_def split: if_splits)
    have "(n - 1) * interval \<le> e"
      using assms(1) \<open>0 \<le> e\<close> by (simp add: n) (metis div_mod_decomp_int pos_mod_sign le_add_same_cancel1)
    then have "seconds ((n - 1) * interval) \<le> seconds e"
      by simp
    also have "seconds e \<le> now - due"
      by (simp add: d(2) seconds_def nanos_per_second_def)
    finally show ?thesis
      by (simp add: seconds_def algebra_simps)
  qed (simp add: n)
qed

text \<open>
  C28: An observation moves a monitor to its next tick: the new due time is strictly in the future,
  lies a whole number of intervals after the old one, and no tick after the old due time that is
  still in the future was skipped.
\<close>

theorem monitor_next_tick:
  assumes "chrono_exact X" and "settle X l facts claim (MonitorObservation observation) reconciled now = Ok (l', run)"
    and "fmlookup (ml_todos l) (lc_todo_id claim) = Some t" and "ts_monitor (lt_spec t) = Some monitor"
    and "ts_id (lt_spec t) = lc_todo_id claim"
  shows "\<exists>t' monitor' n. fmlookup (ml_todos l') (lc_todo_id claim) = Some t' \<and>
    ts_monitor (lt_spec t') = Some monitor' \<and> lt_claim t' = None \<and>
    mo_next_due_at monitor' = mo_next_due_at monitor + seconds (n * uint (mo_interval_seconds monitor)) \<and>
    now < mo_next_due_at monitor' \<and> 1 \<le> n \<and>
    (n = 1 \<or> mo_next_due_at monitor' - seconds (uint (mo_interval_seconds monitor)) \<le> now) \<and>
    lt_status t' = (if mo_expires_at monitor \<le> mo_next_due_at monitor' then TodoCompleted else TodoOpen)"
proof -
  from settle_Ok [OF assms(2)] obtain l1 t1 run0 sequence where
    run: "settle_result X l facts claim (MonitorObservation observation) now t run0 = Ok (l1, t1, run)"
    and l': "l' = l1\<lparr>ml_todos := fmupd (ts_id (lt_spec t1)) (after_settlement t1) (ml_todos l1),
             ml_run_sequence := sequence, ml_recent_runs := push_run (ml_recent_runs l1) run\<rparr>"
    by (metis assms(3) option.inject)
  let ?i = "uint (mo_interval_seconds monitor)"
  let ?n = "max (num_seconds (now - mo_next_due_at monitor)) 0 div ?i + 1"
  from run assms(4) obtain d due where i: "?i \<noteq> 0"
    and "dur_seconds X (?n * ?i) = Some d" "add_signed X (mo_next_due_at monitor) d = Some due"
    and t1: "t1 = t\<lparr>lt_spec := (lt_spec t)\<lparr>ts_monitor := Some (monitor\<lparr>mo_next_due_at := due\<rparr>)\<rparr>,
        lt_last_observation_digest := Some observation,
        lt_status := (if mo_expires_at monitor \<le> due then TodoCompleted else TodoOpen)\<rparr>"
    by (auto simp: settle_result_def Let_def bind_eq_Some_conv)
  then have due: "due = mo_next_due_at monitor + seconds (?n * ?i)"
    using chrono_exactD [OF assms(1)] by blast
  have pos: "0 < ?i"
    using i by (simp add: order_less_le)
  have "fmlookup (ml_todos l') (lc_todo_id claim) = Some (after_settlement t1)"
    using assms(5) by (simp add: l' t1)
  then show ?thesis
    using next_tick [OF pos, of now "mo_next_due_at monitor"]
    by (intro exI [of _ "after_settlement t1"] exI [of _ "monitor\<lparr>mo_next_due_at := due\<rparr>"] exI [of _ ?n])
      (auto simp: due t1 after_settlement_def)
qed

definition sample_monitor :: loop_monitor where
  "sample_monitor = \<lparr>mo_target_digest = sample_digest, mo_next_due_at = seconds 4005,
     mo_interval_seconds = 10, mo_expires_at = seconds 9000\<rparr>"

definition sample_monitored :: mission_loop where
  "sample_monitored = loop_4\<lparr>ml_todos := fmupd ''w'' (sample_entry\<lparr>lt_spec := sample_todo\<lparr>ts_kind := KindMonitor,
     ts_write_scopes := {||}, ts_monitor := Some sample_monitor\<rparr>, lt_status := TodoClaimed,
     lt_claim := Some sample_claimed, lt_execution_started := True\<rparr>) fmempty\<rparr>"

theorem monitor_next_tick_witness:
  "\<exists>l' run t' monitor'.
     settle sample_lext sample_monitored sample_facts sample_claimed (MonitorObservation sample_digest) True
       (seconds 4032) = Ok (l', run) \<and>
     fmlookup (ml_todos l') ''w'' = Some t' \<and> ts_monitor (lt_spec t') = Some monitor' \<and>
     seconds 4032 < mo_next_due_at monitor'"
proof -
  let ?t = "sample_entry\<lparr>lt_spec := sample_todo\<lparr>ts_kind := KindMonitor,
     ts_write_scopes := {||}, ts_monitor := Some sample_monitor\<rparr>, lt_status := TodoClaimed,
     lt_claim := Some sample_claimed, lt_execution_started := True\<rparr>"
  have t: "fmlookup (ml_todos sample_monitored) (lc_todo_id sample_claimed) = Some ?t"
    "ts_monitor (lt_spec ?t) = Some sample_monitor" "ts_id (lt_spec ?t) = lc_todo_id sample_claimed"
    by (simp_all add: sample_monitored_def sample_claimed_def)
  have seq: "ml_run_sequence sample_monitored = 0"
    by (simp add: sample_monitored_def loop_4_def loop_3_def loop_2_def loop_1_def loop_0_def)
  have "dur_seconds sample_lext 30 = Some (seconds 30)"
    by (simp add: sample_lext_def ext.defs sample_ext_def)
  then obtain l' run where settled: "settle sample_lext sample_monitored sample_facts sample_claimed
      (MonitorObservation sample_digest) True (seconds 4032) = Ok (l', run)"
    using t(1) seq
    by (simp add: settle_def settle_result_def sample_texts checked_add_def sample_monitor_def
        num_seconds_def seconds_def nanos_per_second_def checked_i64_def in_i64_def)
  have "lc_todo_id sample_claimed = ''w''"
    by (simp add: sample_claimed_def)
  with monitor_next_tick [OF sample_lext_chrono(1) settled t] settled show ?thesis
    by auto
qed

text \<open>
  C31: An open gate holds work back: while a gate applies to a todo and an agent, the loop never
  suggests that todo to that agent, and every command of the agent on it is refused: claiming it,
  starting it, renewing a claim on it, and settling it with any result other than an uncertain
  failure. (The reconciliation of a settlement is a command of the operator and not subject to it.)
\<close>

theorem open_gate_blocks:
  assumes "fmlookup (ml_gates l) g = Some gate" and "fmlookup (ml_todos l) k = Some t"
    and "gate_blocks gate agent (lt_spec t)"
    and "ho_agent_id host = agent" and "lc_agent_id claim = agent" and "lc_todo_id claim = k"
  shows "\<not> (\<exists>d selected. decision X l facts host selected now = Ok d \<and> de_selected_todo d = Some k) \<and>
    is_err (transition X l facts actor (Claim host k token_digest) receipt now) \<and>
    is_err (transition X l facts actor (BeginExecution claim host') receipt now) \<and>
    is_err (transition X l facts actor (Heartbeat claim) receipt now) \<and>
    (is_uncertain_failure result \<or> is_err (transition X l facts actor (Settle claim result) receipt now))"
proof -
  have unselected: "\<not> (decision X l facts host selected now = Ok d \<and> de_selected_todo d = Some k)" for d selected
  proof (rule notI, elim conjE)
    assume "decision X l facts host selected now = Ok d" "de_selected_todo d = Some k"
    then obtain peer u where *: "unstopped l facts host peer now" "fmlookup (ml_todos l) k = Some u"
      "runnable l (fa_mission facts) peer host (free_slots l) now u"
      by (rule decision_todo)
    have "peer_entry_ok (agent, peer) = Ok ()"
      using *(1) assms(4) unfolding unstopped_def validate_for_def
      by (auto simp: for_each_map_Ok simp del: for_each_Ok)
    then have "pr_id peer = agent"
      by (auto simp: peer_entry_ok_def)
    then show False
      using runnableD(5) [OF *(3) assms(1)] assms(2,3) *(2) by simp
  qed
  then have "is_err (transition X l facts actor (Claim host k token_digest) receipt now)"
    by (auto simp: is_ok_iff transition_claim_def decision_for_todo_def split: if_splits)
  moreover have "is_err (require_claim X l facts claim now)"
    using require_claimD(2) [of X l facts claim now] assms
    by (cases "require_claim X l facts claim now") auto
  ultimately show ?thesis
    using unselected
    by (auto simp: is_ok_iff settle_def transition_heartbeat_def transition_begin_def split: if_splits)
qed

definition sample_gate :: loop_user_gate where
  "sample_gate = \<lparr>ug_id = ''g'', ug_question = ''q'', ug_scope = GateDecision ''launch''\<rparr>"

definition sample_gated_entry :: loop_todo where
  "sample_gated_entry = sample_entry\<lparr>lt_spec := sample_todo\<lparr>ts_required_decisions := {|''launch:eu''|}\<rparr>,
     lt_status := TodoClaimed, lt_claim := Some sample_claimed, lt_execution_started := True\<rparr>"

definition loop_ungated :: mission_loop where
  "loop_ungated = loop_4\<lparr>ml_todos := fmupd ''w'' sample_gated_entry fmempty\<rparr>"

lemma sample_ungated: "require_claim sample_lext loop_ungated sample_facts sample_claimed (seconds 4020) = Ok ()"
proof -
  have "\<not> blank ''launch:eu''" "token ''launch:eu''"
    by code_simp+
  then have "todo_entry_ok loop_ungated (''w'', sample_gated_entry) = Ok ()"
    by (simp add: todo_entry_ok_def sample_gated_entry_def validate_todo_spec_def sample_todo_def sample_texts
        sample_names loop_ungated_def sample_states)
  then have "validate_for loop_ungated (fa_mission sample_facts) = Ok ()"
    using sample_peer_ok
    by (intro validate_for_sample) (auto simp: loop_ungated_def loop_4_def loop_3_def loop_2_def loop_1_def
        loop_0_def bt_len_fmupd split: if_splits)
  moreover have "hard_stop loop_ungated (fa_mission sample_facts) (seconds 4020) = None"
    by (intro sample_no_stop) (simp_all add: loop_ungated_def sample_states)
  ultimately show ?thesis
    by (simp add: require_claim_def sample_authority loop_ungated_def sample_gated_entry_def sample_states)
qed

theorem open_gate_blocks_witness:
  "let l = loop_ungated\<lparr>ml_gates := fmupd ''g'' sample_gate fmempty\<rparr>;
       receipt = \<lparr>re_revision = 6, re_claim = None, re_run = None, re_replayed = False\<rparr> in
   require_claim sample_lext loop_ungated sample_facts sample_claimed (seconds 4020) = Ok () \<and>
   gate_blocks sample_gate ''a'' (lt_spec sample_gated_entry) \<and>
   is_err (transition sample_lext l sample_facts (Agent ''a'') (Heartbeat sample_claimed) receipt (seconds 4020)) \<and>
   is_err (transition sample_lext l sample_facts (Agent ''a'')
     (Settle sample_claimed (Progress {|''e''|} NoFollowup)) receipt (seconds 4020))"
proof -
  let ?l = "loop_ungated\<lparr>ml_gates := fmupd ''g'' sample_gate fmempty\<rparr>"
  have *: "fmlookup (ml_gates ?l) ''g'' = Some sample_gate"
    "fmlookup (ml_todos ?l) ''w'' = Some sample_gated_entry" "gate_blocks sample_gate ''a'' (lt_spec sample_gated_entry)"
    "ho_agent_id sample_host = ''a''" "lc_agent_id sample_claimed = ''a''" "lc_todo_id sample_claimed = ''w''"
    by (simp_all add: gate_blocks_def sample_gate_def sample_gated_entry_def loop_ungated_def sample_host_def
        sample_claimed_def)
  have "\<not> is_uncertain_failure (Progress {|''e''|} NoFollowup)"
    by (simp add: is_uncertain_failure_def)
  with open_gate_blocks [OF *, of sample_lext sample_facts "seconds 4020" "Agent ''a''" _
      "\<lparr>re_revision = 6, re_claim = None, re_run = None, re_replayed = False\<rparr>" _ "Progress {|''e''|} NoFollowup"]
  show ?thesis
    unfolding Let_def using sample_ungated *(3) by blast
qed

section \<open>Concurrency\<close>

text \<open>
  The loop is changed by compare and swap: a command commits only on the revision it names, raises
  the revision by one and never moves the clock back; and a loop read earlier that still has the
  revision of the current one is the current one.
\<close>

lemma loop_compare_and_swap:
  assumes "loop_apply X facts command now l = Ok (l', receipt)" and "(loop_next X)\<^sup>*\<^sup>* l' l2"
  shows "co_expected_revision command = ml_revision l \<and>
    unat (ml_revision l') = Suc (unat (ml_revision l)) \<and> ml_updated_at l \<le> ml_updated_at l2 \<and>
    ml_revision l < ml_revision l2 \<and> (ml_revision l2 = ml_revision l' \<longrightarrow> l2 = l')"
proof -
  have step: "loop_next X l l'"
    using assms(1) unfolding loop_next_def by blast
  have "co_expected_revision command = ml_revision l"
    using assms(1) by (rule loop_apply_Ok)
  moreover have "ml_updated_at l \<le> ml_updated_at l2"
    using loop_rev.run_clock step assms(2) by (metis converse_rtranclp_into_rtranclp)
  moreover have "ml_revision l < ml_revision l2"
    using loop_rev.run_strict [of X l l2] step assms(2) by (metis rtranclp_into_tranclp2)
  ultimately show ?thesis
    using loop_rev.step_unat [OF step] loop_rev.compare_and_swap [OF assms(2)] by auto
qed

end
