(* ===== verification/Mission_Props.thy ===== *)
theory Mission_Props
  imports Mission_Sample
begin

text \<open>
  The properties of the mission commands: authorisation and life of effects, revisions, outcomes,
  records and terminal missions.
\<close>

section \<open>Effects\<close>

lemma compiled_effects_ok: "compiled X m \<Longrightarrow> effects_ok X m"
  by (simp add: effects_ok_def compiled_empty(1))

interpretation mission_effects: stable "mission_next X" "effects_ok X" for X :: "'x effect_ext_scheme"
  by unfold_locales (rule effects_ok_next)

text \<open>
  C3: The mission commands implement the life of an effect: whatever command is called on whatever
  mission, successful or not, the owner and the contract of the mission stay the same and its
  effects are unchanged, or gain one validated proposal at the end, or one of them makes one
  step of the effect relation.
\<close>
theorem mission_refines_effect_machine:
  "identity (snd (mission_apply X cmd m)) = identity m \<and> effects_move X m (ms_effects (snd (mission_apply X cmd m)))"
  using mission_apply_moves [of X m cmd] by (simp add: mission_moves_def)

text \<open>
  C1: No effect is ever executed without authority: after any sequence of calls on a compiled
  mission, failed calls included, an effect that is or was being executed carries an approval
  that was granted for exactly its content and for a window inside its own expiry and the
  operating contract; its receipt answers that content; a verified effect has been confirmed
  independently for the receipt it holds; and no two effects share an idempotency key.
\<close>
theorem effects_authorised:
  assumes "compiled X m0" and "(mission_next X)\<^sup>*\<^sup>* m0 m"
  shows "(\<forall>e \<in> set (ms_effects m). ef_status e \<notin> {EffProposed, EffRejected, EffCancelled} \<longrightarrow>
      (\<exists>a. ef_approval e = Some a \<and> ap_decision a = DecApproved \<and> ap_scope_digest a = approval_digest X e
        \<and> ap_decided_at a < ap_valid_until a \<and> ap_valid_until a \<le> es_expires_at e
        \<and> ap_valid_until a \<le> oc_valid_until (ms_contract m)))
    \<and> (\<forall>e \<in> set (ms_effects m). \<forall>r. ef_receipt e = Some r \<longrightarrow>
         rc_request_digest r = approval_digest X e \<and> rc_accepted_at r < es_expires_at e)
    \<and> (\<forall>e \<in> set (ms_effects m). ef_status e = EffVerified \<longrightarrow> (\<exists>v r. verified_by e v r))
    \<and> distinct (map es_idempotency_key (ms_effects m))"
proof -
  have ok: "effects_ok X m"
    using mission_effects.run_keeps [OF assms(2) compiled_effects_ok [OF assms(1)]] .
  then have each: "\<forall>e \<in> set (ms_effects m). effect_ok X (contract_end m) e"
    by (simp add: effects_ok_def)
  show ?thesis
    using ok each
    unfolding effects_ok_def effect_ok_def approved_for_def receipt_for_def contract_end_def
    by (intro conjI) blast+
qed

theorem effects_authorised_witness:
  "ms_effects mission_8 = [effect_4] \<and> ef_status effect_4 = EffVerified \<and>
   (\<exists>a v r. ef_approval effect_4 = Some a \<and> ap_decision a = DecApproved \<and> verified_by effect_4 v r)"
proof -
  have "(mission_commits sample_eext)\<^sup>*\<^sup>* mission_0 mission_8"
    by (rule commits_run [OF mission_step_8 commits_run [OF mission_step_7 commits_run [OF mission_step_6 sample_run_5]]])
  then have run: "(mission_next sample_eext)\<^sup>*\<^sup>* mission_0 mission_8"
    by (rule commits_next_run)
  have effects: "ms_effects mission_8 = [effect_4]"
    by (simp add: mission_8_def)
  show ?thesis
    using effects_authorised [OF sample_compiled run] effects by auto
qed

lemma effect_at_begun:
  assumes "begin_effect X eid now m = (Ok (), m1)"
  obtains e where "effect_at m1 eid = Some e" and "ef_status e = EffExecuting"
proof -
  obtain e0 where "find (\<lambda>e. es_id e = eid) (ms_effects m) = Some e0"
    and m1: "m1 = touch now ((set_effect eid (e0\<lparr>ef_status := EffExecuting\<rparr>) m)\<lparr>ms_stage := StageRunning\<rparr>)"
    using assms by (auto simp: begin_effect_def effect_of_def split: if_splits)
  then have "effect_at m1 eid = Some (e0\<lparr>ef_status := EffExecuting\<rparr>)"
    using find_update_first [of "\<lambda>e. es_id e = eid" "ms_effects m" e0 "\<lambda>_. e0\<lparr>ef_status := EffExecuting\<rparr>"]
      find_SomeD [of "\<lambda>e. es_id e = eid" "ms_effects m" e0]
    by (simp add: effect_at_def touch_def set_effect_def)
  then show ?thesis
    using that by simp
qed

lemma effect_rank_run: "(effect_step X until)\<^sup>*\<^sup>* e e' \<Longrightarrow> effect_rank (ef_status e) \<le> effect_rank (ef_status e')"
  by (induction rule: rtranclp_induct) (auto dest: effect_step_rank)

lemma effect_commands_need_rank:
  assumes "effect_at m eid = Some e" and "2 \<le> effect_rank (ef_status e)"
  shows "is_err (fst (begin_effect X eid now m))" and "is_err (fst (approve_effect X eid a m))"
    and "is_err (fst (cancel_effect eid now m))"
  using assms
  by (auto simp: is_ok_iff begin_effect_def approve_effect_def cancel_effect_def effect_of_def effect_at_def
      attempt_def split: sum.splits if_splits)

text \<open>
  C7: An effect is dispatched at most once: after it has begun to execute, no later state of the
  mission, whatever calls lead there, lets it begin again, be decided again or be cancelled.
\<close>
theorem effect_dispatched_once:
  assumes "begin_effect X eid now m = (Ok (), m1)" and "(mission_next X)\<^sup>*\<^sup>* m1 m2"
  shows "is_err (fst (begin_effect X eid now2 m2)) \<and> is_err (fst (approve_effect X eid a m2)) \<and>
    is_err (fst (cancel_effect eid now2 m2))"
proof -
  obtain e where e: "effect_at m1 eid = Some e" "ef_status e = EffExecuting"
    using effect_at_begun [OF assms(1)] .
  obtain e' where e': "effect_at m2 eid = Some e'" "(effect_step X (contract_end m1))\<^sup>*\<^sup>* e e'"
    using effect_at_run [OF assms(2) e(1)] by blast
  have "2 \<le> effect_rank (ef_status e')"
    using effect_rank_run [OF e'(2)] e(2) by simp
  then show ?thesis
    using effect_commands_need_rank [OF e'(1)] by blast
qed

theorem effect_dispatched_once_witness:
  "is_err (fst (begin_effect sample_eext ''e1'' 250 mission_9))"
proof -
  have "begin_effect sample_eext ''e1'' 200 mission_5 = (Ok (), mission_6)"
    using mission_step_6 by simp
  from effect_dispatched_once [OF this commits_next_run [OF sample_run_6_9]] show ?thesis
    by blast
qed

lemma final_run: "(effect_step X until)\<^sup>*\<^sup>* e e' \<Longrightarrow> effect_final (ef_status e) \<Longrightarrow> e' = e"
  by (induction rule: rtranclp_induct) (auto dest: effect_final_stuck)

lemma approval_run:
  "(effect_step X until)\<^sup>*\<^sup>* e e' \<Longrightarrow> effect_ok X until e \<Longrightarrow>
   effect_ok X until e' \<and> content e' = content e \<and> (\<forall>a. ef_approval e = Some a \<longrightarrow> ef_approval e' = Some a)"
  by (induction rule: rtranclp_induct)
    (auto dest: effect_step_ok effect_step_content effect_step_approval)

lemma content_digest: "content e = content e' \<Longrightarrow> approval_digest X e = approval_digest X e'"
  by (simp add: content_def approval_digest_def approval_fields_def effect_spec.defs)

text \<open>
  C9: What has been proposed and approved stays as it is: whatever happens to the mission later, an
  effect keeps every part of its content and its digest, keeps the decision once it has one, and
  does not change at all after it has reached a final state.
\<close>
theorem effect_content_fixed:
  assumes "compiled X m0" and "(mission_next X)\<^sup>*\<^sup>* m0 m" and "(mission_next X)\<^sup>*\<^sup>* m m'"
    and "effect_at m eid = Some e"
  shows "\<exists>e'. effect_at m' eid = Some e' \<and> effect_spec.truncate e' = effect_spec.truncate e \<and>
    approval_digest X e' = approval_digest X e \<and>
    (\<forall>a. ef_approval e = Some a \<longrightarrow> ef_approval e' = Some a) \<and>
    (effect_final (ef_status e) \<longrightarrow> e' = e)"
proof -
  have "effects_ok X m"
    using mission_effects.run_keeps [OF assms(2) compiled_effects_ok [OF assms(1)]] .
  moreover have "e \<in> set (ms_effects m)"
    using find_SomeD [of "\<lambda>e. es_id e = eid" "ms_effects m" e] assms(4) by (simp add: effect_at_def)
  ultimately have ok: "effect_ok X (contract_end m) e"
    by (simp add: effects_ok_def)
  obtain e' where e': "effect_at m' eid = Some e'" "(effect_step X (contract_end m))\<^sup>*\<^sup>* e e'"
    using effect_at_run [OF assms(3,4)] by blast
  note keeps = approval_run [OF e'(2) ok]
  have "effect_spec.truncate e' = effect_spec.truncate e"
    using keeps by (simp add: content_def)
  then show ?thesis
    using e'(1) keeps content_digest [of e' e X] final_run [OF e'(2)] by blast
qed

theorem effect_content_fixed_witness:
  "\<exists>e'. effect_at mission_9 ''e1'' = Some e' \<and> ef_approval e' = Some sample_approval \<and>
     effect_spec.truncate e' = effect_spec.truncate effect_2"
proof -
  have at: "effect_at mission_6 ''e1'' = Some effect_2"
    by (simp add: effect_at_def mission_6_def)
  have "(mission_next sample_eext)\<^sup>*\<^sup>* mission_0 mission_6"
    by (rule commits_next_run [OF commits_run [OF mission_step_6 sample_run_5]])
  from effect_content_fixed [OF sample_compiled this commits_next_run [OF sample_run_6_9] at] show ?thesis
    by auto
qed

section \<open>Revisions\<close>

text \<open>
  C32: The revision of a mission identifies its state: successful commands never lower it, and a
  mission read earlier that still has the current revision is the current mission, so that a
  store which compares revisions never overwrites a change it has not seen.
\<close>
theorem mission_compare_and_swap:
  assumes "(mission_commits X)\<^sup>*\<^sup>* m m'"
  shows "ms_revision m \<le> ms_revision m' \<and> (ms_revision m' = ms_revision m \<longrightarrow> m' = m)"
  using mission_rev.run_mono [OF assms] mission_rev.compare_and_swap [OF assms] by auto

theorem mission_compare_and_swap_witness:
  "ms_revision mission_0 \<le> ms_revision mission_9 \<and> mission_9 \<noteq> mission_0"
  using mission_compare_and_swap [OF sample_run_9] by (simp add: mission_states sample_state_def)

section \<open>Outcomes\<close>

lemma outcomes_run:
  assumes "(mission_next X)\<^sup>*\<^sup>* m m'" and "outcomes_ok (outcomes m)"
  shows "outcomes_ok (outcomes m') \<and> prefix (ms_outcome_history m) (ms_outcome_history m')"
  using assms
proof (induction rule: rtranclp_induct)
  case base
  then show ?case by simp
next
  case (step m1 m2)
  then show ?case
    using outcomes_ok_next [OF step(2)] by (meson prefix_order.trans)
qed

text \<open>
  C30: The outcome history is append-only: along any calls the history only grows at its end, its
  entries are strictly ordered by their observation times, each has a summary, and the latest
  outcome shown to clients is the last entry.
\<close>
theorem outcome_history_append_only:
  assumes "compiled X m0" and "(mission_next X)\<^sup>*\<^sup>* m0 m" and "(mission_next X)\<^sup>*\<^sup>* m m'"
  shows "prefix (ms_outcome_history m) (ms_outcome_history m') \<and>
    sorted_wrt (<) (map ou_observed_at (ms_outcome_history m')) \<and>
    (\<forall>out \<in> set (ms_outcome_history m'). \<not> blank (ou_summary out)) \<and>
    ms_outcome m' = (if ms_outcome_history m' = [] then None else Some (last (ms_outcome_history m')))"
proof -
  have "outcomes_ok (outcomes m0)"
    using compiled_empty [OF assms(1)] by (simp add: outcomes_ok_def outcomes_def)
  then have "outcomes_ok (outcomes m)"
    using outcomes_run [OF assms(2)] by blast
  from outcomes_run [OF assms(3) this] show ?thesis
    by (auto simp: outcomes_ok_def outcomes_def)
qed

theorem outcome_history_append_only_witness:
  "ms_outcome_history mission_9 = [sample_outcome] \<and> ms_outcome mission_9 = Some sample_outcome"
proof -
  have "ms_outcome_history mission_9 = [sample_outcome]"
    by (simp add: mission_9_def)
  then show ?thesis
    using outcome_history_append_only [OF sample_compiled rtranclp.rtrancl_refl
        commits_next_run [OF sample_run_9]] by simp
qed

section \<open>Records\<close>

text \<open>
  C34: The records of a mission are well formed at all times: evidence ids and work product ids are
  unique, every work product validates, has left the draft state and cites only evidence that is
  recorded, evidence is never removed, and every work product lives on in a version that follows
  from it.
\<close>
theorem mission_records_well_formed:
  assumes "compiled X m0" and "(mission_next X)\<^sup>*\<^sup>* m0 m" and "(mission_next X)\<^sup>*\<^sup>* m m'"
  shows "distinct (map ev_id (ms_evidence m')) \<and> distinct (map wp_id (ms_work_products m')) \<and>
    (\<forall>w \<in> set (ms_work_products m'). wp_validate X w = Ok () \<and> wp_status w \<noteq> WpDraft
       \<and> fset (wp_evidence_ids w) \<subseteq> ev_id ` set (ms_evidence m')) \<and>
    prefix (ms_evidence m) (ms_evidence m') \<and>
    (\<forall>w \<in> set (ms_work_products m). \<exists>w' \<in> set (ms_work_products m'). (wp_step X)\<^sup>*\<^sup>* w w')"
proof -
  have "records_ok X (records m0)"
    using compiled_empty [OF assms(1)] by (simp add: records_ok_def records_def)
  then have "records_ok X (records m)"
    using records_run [OF assms(2)] by blast
  from records_run [OF assms(3) this] show ?thesis
    by (simp add: records_ok_def records_def)
qed

theorem mission_records_well_formed_witness:
  "ms_work_products mission_9 = [sample_product\<lparr>wp_status := WpReadyForReview\<rparr>] \<and>
   wp_validate sample_eext (sample_product\<lparr>wp_status := WpReadyForReview\<rparr>) = Ok ()"
proof -
  have "ms_work_products mission_9 = [sample_product\<lparr>wp_status := WpReadyForReview\<rparr>]"
    by (simp add: mission_9_def)
  then show ?thesis
    using mission_records_well_formed [OF sample_compiled rtranclp.rtrancl_refl
        commits_next_run [OF sample_run_9]] by simp
qed

section \<open>Terminal missions\<close>

lemma require_stage_terminal:
  "stage_is_terminal (ms_stage m) \<Longrightarrow> \<not> list_ex stage_is_terminal expected \<Longrightarrow>
   require_stage m expected = Err (InvalidMissionStage (ms_stage m) expected)"
  by (auto simp: require_stage_def list_ex_iff)

lemma terminal_complete:
  assumes "stage_is_terminal (ms_stage m)"
  shows "complete_checkpoint_validated X cid completion m =
    (Err (InvalidMissionStage (ms_stage m) [StageVerifying]), m)"
  using assms by (simp add: complete_checkpoint_validated_def require_stage_terminal stage_is_terminal_def)

definition refuses :: "mission \<Rightarrow> (mission_error + 'a) \<times> mission \<Rightarrow> bool" where
  "refuses m rs \<longleftrightarrow> is_err (fst rs) \<and> snd rs = m"

lemma terminal_commands_refuse:
  assumes "stage_is_terminal (ms_stage m)" and "plain_command cmd"
  shows "refuses m (mission_apply X cmd m)"
proof -
  have stages: "require_stage m expected = Err (InvalidMissionStage (ms_stage m) expected)"
    if "set expected \<subseteq> {StageReady, StageScheduled, StageRunning, StageVerifying, StageWaitingUser,
      StageWaitingApproval, StageBlocked, StageCycleReviewed}" for expected
    using assms(1) that by (intro require_stage_terminal) (auto simp: list_ex_iff stage_is_terminal_def)
  show ?thesis
    using assms(2)
    by (cases cmd)
      (auto simp: refuses_def stages assms(1) terminal_complete [OF assms(1)] start_research_def
        start_scheduled_cycle_def record_evidence_def record_work_product_def revise_work_product_def
        begin_checkpoint_def begin_checkpoint_with_task_def begin_checkpoint_transition_def
        begin_checkpoint_verification_def complete_checkpoint_def
        complete_vm04_channel_rebalance_terminal_def complete_vm07_replan_or_terminal_terminal_def
        complete_vm11_candidate_learning_terminal_def complete_typed_terminal_def committed_def
        replace_with_def complete_vm11_next_contract_resolution_def resolved_vm11_next_contract_mission_def
        block_checkpoint_def continue_after_verified_effect_def record_outcome_def block_mission_def
        resume_def terminate_def attempt_def split: option.split sum.split)
qed

definition effect_ids :: "mission \<Rightarrow> string list" where
  "effect_ids m = map es_id (ms_effects m)"

interpretation ids: mission_frame effect_ids
  by unfold_locales (simp_all add: effect_ids_def touch_def)

lemma set_effect_ids:
  assumes "effect_of m eid = Ok e" and "es_id e' = es_id e"
  shows "effect_ids (set_effect eid e' m) = effect_ids m"
proof -
  have "map es_id (update_first (\<lambda>e. es_id e = eid) (\<lambda>_. e') es) = map es_id es"
    if "find (\<lambda>e. es_id e = eid) es = Some e" for es :: "effect list"
    using that assms(2) by (induction es) (auto split: if_splits)
  then show ?thesis
    using assms(1) by (simp add: effect_of_def set_effect_def effect_ids_def)
qed

lemma effect_operations_ids:
  "effect_ids (snd (approve_effect X eid a m)) = effect_ids m"
  "effect_ids (snd (cancel_effect eid now m)) = effect_ids m"
  "effect_ids (snd (begin_effect X eid now m)) = effect_ids m"
  "effect_ids (snd (record_receipt X eid r m)) = effect_ids m"
  "effect_ids (snd (reconcile_durable_receipt X eid r now m)) = effect_ids m"
  "effect_ids (snd (reconcile_durable_provider_state X eid state started_at now m)) = effect_ids m"
  "effect_ids (snd (mark_effect_uncertain eid now m)) = effect_ids m"
  "effect_ids (snd (mark_effect_failed eid now m)) = effect_ids m"
  "effect_ids (snd (record_verification eid v m)) = effect_ids m"
  unfolding approve_effect_def cancel_effect_def begin_effect_def record_receipt_def
    reconcile_durable_receipt_def reconcile_durable_provider_state_def mark_effect_uncertain_def
    mark_effect_failed_def record_verification_def Let_def
  by (intro ids.frame_rules; simp add: set_effect_ids)+

lemma effect_commands_ids:
  assumes "\<not> plain_command cmd" and "\<nexists>spec now. cmd = ProposeEffect spec now"
  shows "effect_ids (snd (mission_apply X cmd m)) = effect_ids m"
  using assms by (cases cmd) (simp_all add: effect_operations_ids)

lemma effect_commands_frame:
  assumes "\<not> plain_command cmd"
  shows "records (snd (mission_apply X cmd m)) = records m \<and> outcomes (snd (mission_apply X cmd m)) = outcomes m"
proof (cases cmd)
  case (ProposeEffect spec now)
  then show ?thesis
    by (simp only: propose_apply_snd recs_eff.propose_effect_frame outc_eff.propose_effect_frame simp_thms)
qed (use assms in simp_all)

text \<open>
  C25: A terminal mission takes no new work: every command that starts, records, reviews, blocks,
  resumes, terminates or proposes something fails on it with an error and leaves it exactly as it
  is, and no command of any kind gives it new evidence, work products, outcomes or effects or
  changes its identity or contract. The commands on an effect that was proposed before are
  exempt from the first part.
\<close>
theorem terminal_mission_refuses:
  assumes "stage_is_terminal (ms_stage m)"
  shows "(plain_command cmd \<or> (\<exists>spec now. cmd = ProposeEffect spec now) \<longrightarrow>
      is_err (fst (mission_apply X cmd m)) \<and> snd (mission_apply X cmd m) = m) \<and>
    ms_evidence (snd (mission_apply X cmd m)) = ms_evidence m \<and>
    ms_work_products (snd (mission_apply X cmd m)) = ms_work_products m \<and>
    ms_outcome_history (snd (mission_apply X cmd m)) = ms_outcome_history m \<and>
    map es_id (ms_effects (snd (mission_apply X cmd m))) = map es_id (ms_effects m) \<and>
    identity (snd (mission_apply X cmd m)) = identity m"
proof -
  have "refuses m (mission_apply X (ProposeEffect spec now) m)" for spec now
    using assms by (simp add: refuses_def propose_effect_def require_stage_terminal stage_is_terminal_def)
  then have refused: "is_err (fst (mission_apply X cmd m)) \<and> snd (mission_apply X cmd m) = m"
    if "plain_command cmd \<or> (\<exists>spec now. cmd = ProposeEffect spec now)"
    using that terminal_commands_refuse [OF assms] unfolding refuses_def by blast
  show ?thesis
  proof (cases "plain_command cmd \<or> (\<exists>spec now. cmd = ProposeEffect spec now)")
    case True
    then show ?thesis
      using refused by simp
  next
    case False
    then have "records (snd (mission_apply X cmd m)) = records m" "outcomes (snd (mission_apply X cmd m)) = outcomes m"
      "effect_ids (snd (mission_apply X cmd m)) = effect_ids m"
      using effect_commands_frame effect_commands_ids by blast+
    moreover have "identity (snd (mission_apply X cmd m)) = identity m"
      using mission_apply_moves [of X m cmd] by (simp add: mission_moves_def)
    ultimately show ?thesis
      using False by (simp add: records_def outcomes_def effect_ids_def)
  qed
qed

theorem terminal_mission_refuses_witness:
  "let m = mission_5\<lparr>ms_stage := StageCancelled\<rparr> in
   is_err (fst (mission_apply sample_eext (Resume 150) m)) \<and>
   fst (mission_apply sample_eext (BeginEffect ''e1'' 200) m) = Ok () \<and>
   map es_id (ms_effects (snd (mission_apply sample_eext (BeginEffect ''e1'' 200) m))) = [''e1'']"
proof -
  let ?m = "mission_5\<lparr>ms_stage := StageCancelled\<rparr>"
  have terminal: "stage_is_terminal (ms_stage ?m)"
    by (simp add: stage_is_terminal_def)
  have "fst (mission_apply sample_eext (BeginEffect ''e1'' 200) ?m) = Ok ()" "map es_id (ms_effects ?m) = [''e1'']"
    by (simp_all add: mission_5_def begin_effect_def effect_of_def touch_sample sample_approval_def set_effect_sample)
  then show ?thesis
    using terminal_mission_refuses [OF terminal, of "Resume 150" sample_eext]
      terminal_mission_refuses [OF terminal, of "BeginEffect ''e1'' 200" sample_eext]
    unfolding Let_def by (metis plain_command.simps)
qed

text \<open>
  The commands on effects have no guard on the stage: a mission that was terminated while an effect
  was approved lets the effect begin and is running again.
\<close>

lemma terminated_mission_dispatches:
  "\<exists>m. mission_apply sample_eext (Terminate TermCancelled 150) mission_5 = (Ok (), m) \<and>
     stage_is_terminal (ms_stage m) \<and>
     (\<exists>m'. mission_apply sample_eext (BeginEffect ''e1'' 200) m = (Ok (), m') \<and> ms_stage m' = StageRunning)"
  by (simp add: terminate_def manifest_is_def mission_5_def stage_is_terminal_def begin_effect_def
      effect_of_def touch_sample sample_approval_def set_effect_sample)

text \<open>
  A contract that validates may allow approvals of any positive number of seconds; a number outside
  the range of durations makes the computation of the deadline panic.
\<close>

lemma approval_policy_panics:
  fixes c :: operating_contract
  defines "c \<equiv> sample_contract\<lparr>oc_approval_policy := (oc_approval_policy sample_contract)\<lparr>validity_seconds := 2 ^ 60\<rparr>\<rparr>"
  shows "contract_validate c 0 = Ok ()"
    and "approval_valid_until sample_eext (mission_5\<lparr>ms_contract := c\<rparr>) ''e1'' 100 = Err MissionPanic"
proof -
  show "contract_validate c 0 = Ok ()"
    using sample_contract_valid [of 0]
    by (simp add: c_def contract_validate_def sample_contract_def seconds_def nanos_per_second_def split: if_splits)
  show "approval_valid_until sample_eext (mission_5\<lparr>ms_contract := c\<rparr>) ''e1'' 100 = Err MissionPanic"
    by (simp add: c_def approval_valid_until_def effect_of_def mission_5_def sample_contract_def u64_to_i64_def
        checked_i64_def in_i64_def sample_ext_def)
qed

end
