(* ===== verification/Checkpoint_Order.thy ===== *)
theory Checkpoint_Order
  imports Mission_Sample
begin

text \<open>
  The checkpoints of a catalog mission are worked off in their order. The shape of the graph never
  changes, and the states of its checkpoints are always a row of finished ones, at most one that is
  ready or being worked on, and a row of pending ones.
\<close>

section \<open>Rows of states\<close>

fun lined_up :: "mission_checkpoint_status list \<Rightarrow> bool" where
  "lined_up [] = True"
| "lined_up (s # ss) = (if cp_is_terminal s then lined_up ss else list_all (\<lambda>s. s = CpPending) ss)"

definition cp_is_open :: "mission_checkpoint_status \<Rightarrow> bool" where
  "cp_is_open s \<longleftrightarrow> \<not> cp_is_terminal s \<and> s \<noteq> CpPending"

lemma cp_is_terminal_simps [simp]:
  "cp_is_terminal CpCompleted" "cp_is_terminal CpSkipped" "\<not> cp_is_terminal CpPending"
  "\<not> cp_is_terminal CpReady" "\<not> cp_is_terminal CpRunning" "\<not> cp_is_terminal CpVerifying"
  by (simp_all add: cp_is_terminal_def)

lemma cp_is_open_simps [simp]:
  "cp_is_open CpReady" "cp_is_open CpRunning" "cp_is_open CpVerifying" "cp_is_active s \<Longrightarrow> cp_is_open s"
  by (auto simp: cp_is_open_def cp_is_active_def cp_is_terminal_def)

lemma lined_up_pending: "list_all (\<lambda>s. s = CpPending) ss \<Longrightarrow> lined_up ss"
  by (cases ss) auto

lemma lined_up_append:
  "lined_up (xs @ s # ys) \<Longrightarrow> cp_is_open s \<Longrightarrow> list_all cp_is_terminal xs \<and> list_all (\<lambda>s. s = CpPending) ys"
  by (induction xs) (auto simp: cp_is_open_def list_all_iff split: if_splits)

lemma lined_up_intro:
  "list_all cp_is_terminal xs \<Longrightarrow> list_all (\<lambda>s. s = CpPending) ys \<Longrightarrow> lined_up (xs @ s # ys)"
  by (induction xs) (auto simp: lined_up_pending)

lemma lined_up_replace: "lined_up (xs @ s # ys) \<Longrightarrow> cp_is_open s \<Longrightarrow> lined_up (xs @ s' # ys)"
  using lined_up_append lined_up_intro by blast

lemma lined_up_terminal_pending:
  "lined_up (xs @ t # CpPending # ys) \<Longrightarrow> cp_is_terminal t \<Longrightarrow>
   list_all cp_is_terminal xs \<and> list_all (\<lambda>s. s = CpPending) ys"
  by (induction xs) (auto split: if_splits)

text \<open>What a row of this form means for two of its positions.\<close>

lemma lined_up_nth:
  "lined_up ss \<Longrightarrow> j < i \<Longrightarrow> i < length ss \<Longrightarrow> ss ! i \<noteq> CpPending \<Longrightarrow> cp_is_terminal (ss ! j)"
proof (induction ss arbitrary: i j)
  case Nil
  then show ?case by simp
next
  case (Cons s ss)
  then obtain k where i: "i = Suc k"
    by (cases i) auto
  then have k: "k < length ss" "ss ! k \<noteq> CpPending"
    using Cons.prems by auto
  have s: "cp_is_terminal s"
    using Cons.prems(1) k by (auto simp: list_all_length split: if_splits)
  show ?case
    using Cons.IH [of _ k] Cons.prems(1,2) i k s by (cases j) auto
qed

section \<open>The shape of a definition\<close>

definition skeleton :: "mission_definition \<Rightarrow> (string \<times> string fset) list" where
  "skeleton d = map (\<lambda>c. (cp_id c, cp_depends_on c)) (md_checkpoints d)"

fun chained :: "string option \<Rightarrow> (string \<times> string fset) list \<Rightarrow> bool" where
  "chained previous [] = True"
| "chained previous ((cid, deps) # rest) =
     (deps = (case previous of None \<Rightarrow> {||} | Some p \<Rightarrow> {|p|}) \<and> chained (Some cid) rest)"

definition in_line :: "(string \<times> string fset) list \<Rightarrow> mission_definition \<Rightarrow> bool" where
  "in_line K d \<longleftrightarrow> skeleton d = K \<and> lined_up (map cp_status (md_checkpoints d))"

lemma chain_checkpoints_chained:
  "chained previous (map (\<lambda>c. (cp_id c, cp_depends_on c)) (chain_checkpoints previous routes))"
  by (induction previous routes rule: chain_checkpoints.induct) simp_all

lemma chain_checkpoints_pending:
  "list_all (\<lambda>s. s = CpPending) (map cp_status (chain_checkpoints (Some p) routes))"
  by (induction routes arbitrary: p) auto

lemma chain_checkpoints_lined: "lined_up (map cp_status (chain_checkpoints None routes))"
  by (cases routes) (auto simp: chain_checkpoints_pending)

lemma chained_dependency:
  "chained previous (xs @ (cid, deps) # ys) \<Longrightarrow>
   deps = (if xs = [] then (case previous of None \<Rightarrow> {||} | Some p \<Rightarrow> {|p|}) else {|fst (last xs)|})"
proof (induction xs arbitrary: previous)
  case Nil
  then show ?case by simp
next
  case (Cons x xs)
  then have "chained (Some (fst x)) (xs @ (cid, deps) # ys)"
    by (cases x) simp
  from Cons.IH [OF this] show ?case
    by (simp split: if_splits)
qed

section \<open>Writes to one checkpoint\<close>

lemma update_open_in_line:
  assumes line: "in_line K d" and found: "find p (md_checkpoints d) = Some c"
    and "cp_is_open (cp_status c)" and "cp_id c' = cp_id c" and "cp_depends_on c' = cp_depends_on c"
  shows "in_line K (d\<lparr>md_checkpoints := update_first p (\<lambda>_. c') (md_checkpoints d)\<rparr>)"
proof -
  obtain xs ys where split: "md_checkpoints d = xs @ c # ys"
    "update_first p (\<lambda>_. c') (md_checkpoints d) = xs @ c' # ys"
    using update_first_split [OF found, of "\<lambda>_. c'"] by metis
  then show ?thesis
    using line assms(3-5) by (auto simp: in_line_def skeleton_def intro: lined_up_replace)
qed

lemma set_checkpoint_in_line:
  assumes "in_line K d" and "checkpoint_named d cid = Some c" and "cp_is_open (cp_status c)"
    and "cp_id c' = cp_id c" and "cp_depends_on c' = cp_depends_on c"
  shows "in_line K (set_checkpoint cid c' d)"
  using update_open_in_line [OF assms(1) _ assms(3-5)] assms(2)
  by (simp add: checkpoint_named_def set_checkpoint_def)

text \<open>Releasing the next checkpoint: its one dependency, the checkpoint before it, is completed.\<close>

lemma release_in_line:
  assumes line: "in_line K d" and chain: "chained None K" and distinct: "distinct (map fst K)"
    and found: "find (releasable (completed_ids d)) (md_checkpoints d) = Some c"
    and "cp_id c' = cp_id c" and "cp_depends_on c' = cp_depends_on c"
  shows "in_line K (d\<lparr>md_checkpoints :=
    update_first (releasable (completed_ids d)) (\<lambda>_. c') (md_checkpoints d)\<rparr>)"
proof -
  obtain xs ys where split: "md_checkpoints d = xs @ c # ys"
    "update_first (releasable (completed_ids d)) (\<lambda>_. c') (md_checkpoints d) = xs @ c' # ys"
    using update_first_split [OF found, of "\<lambda>_. c'"] by metis
  have pending: "cp_status c = CpPending" and deps: "cp_depends_on c |\<subseteq>| completed_ids d"
    using find_SomeD [OF found] by (auto simp: releasable_def)
  let ?k = "\<lambda>c. (cp_id c, cp_depends_on c)"
  have K: "K = map ?k xs @ ?k c # map ?k ys"
    using line split(1) by (simp add: in_line_def skeleton_def)
  have row: "list_all cp_is_terminal (map cp_status xs) \<and> list_all (\<lambda>s. s = CpPending) (map cp_status ys)"
  proof (cases xs rule: rev_cases)
    case Nil
    then show ?thesis
      using line split(1) pending by (simp add: in_line_def)
  next
    case (snoc zs b)
    have "cp_depends_on c = {|cp_id b|}"
      using chained_dependency [of None "map ?k xs" "cp_id c" "cp_depends_on c"] chain K snoc by simp
    with deps obtain b' where b': "b' \<in> set (md_checkpoints d)" "cp_status b' = CpCompleted" "cp_id b' = cp_id b"
      by (auto simp: completed_ids_def fset_of_list_elem)
    have "map fst K = map cp_id (md_checkpoints d)"
      unfolding K split(1) by (simp add: comp_def)
    then have "distinct (map cp_id (md_checkpoints d))"
      using distinct by simp
    moreover have "b \<in> set (md_checkpoints d)"
      unfolding split(1) snoc by simp
    ultimately have "b' = b"
      using b'(1,3) by (metis distinct_map inj_onD)
    then show ?thesis
      using lined_up_terminal_pending [of "map cp_status zs" "cp_status b" "map cp_status ys"] line split(1)
        pending snoc b'(2) by (simp add: in_line_def)
  qed
  then show ?thesis
    using split K assms(5,6) lined_up_intro [of "map cp_status xs" "map cp_status ys" "cp_status c'"]
    by (simp add: in_line_def skeleton_def)
qed

section \<open>Operations on the definition\<close>

lemma start_first_in_line:
  assumes "start_first_checkpoint d now = (Ok u, d')" and "in_line K d"
  shows "in_line K d'"
  using assms lined_up_replace [of "[]" CpReady _ CpRunning]
  by (auto simp: start_first_checkpoint_def in_line_def skeleton_def Let_def split: list.splits if_splits)

lemma reset_checkpoints_line:
  "reset_checkpoints first cs = (Ok u, cs') \<Longrightarrow>
   map (\<lambda>c. (cp_id c, cp_depends_on c)) cs' = map (\<lambda>c. (cp_id c, cp_depends_on c)) cs \<and>
   map cp_status cs' = (case cs of [] \<Rightarrow> [] | c # cs \<Rightarrow>
     (if first then CpReady else CpPending) # map (\<lambda>_. CpPending) cs)"
proof (induction cs arbitrary: first cs' u)
  case Nil
  then show ?case by simp
next
  case (Cons c cs)
  obtain r ds where rest: "reset_checkpoints False cs = (r, ds)"
    by (cases "reset_checkpoints False cs")
  with Cons.prems obtain revision where "r = Ok u" and cs': "cs' = c\<lparr>cp_status := (if first then CpReady else CpPending),
      cp_revision := revision, cp_attempt := 0, cp_started_at := None, cp_block := None, cp_completion := None\<rparr> # ds"
    by (auto simp: Let_def)
  with Cons.IH [of False u ds] rest have "map cp_status ds = map (\<lambda>_. CpPending) cs"
    "map (\<lambda>c. (cp_id c, cp_depends_on c)) ds = map (\<lambda>c. (cp_id c, cp_depends_on c)) cs"
    by (cases cs; simp)+
  then show ?case
    unfolding cs' by simp
qed

lemma reset_in_line:
  assumes "reset_for_next_cycle X d cycle = (Ok u, d')" and "in_line K d"
  shows "in_line K d'"
proof -
  obtain r cs where reset: "reset_checkpoints True (md_checkpoints d) = (r, cs)"
    by (cases "reset_checkpoints True (md_checkpoints d)")
  with assms(1) obtain v where "r = Ok v" and d': "d' = d\<lparr>md_checkpoints := cs, md_cycle := cycle\<rparr>"
    by (auto simp: reset_for_next_cycle_def Let_def split: if_splits)
  with reset_checkpoints_line [of True "md_checkpoints d" v cs] reset
  have "lined_up (map cp_status cs)" "map (\<lambda>c. (cp_id c, cp_depends_on c)) cs = skeleton d"
    by (auto simp: skeleton_def list_all_iff split: list.splits)
  then show ?thesis
    using assms(2) d' by (simp add: in_line_def skeleton_def)
qed

lemma set_active_in_line:
  assumes "set_active_status d status block = (Ok u, d')" and "in_line K d"
  shows "in_line K d'"
proof -
  obtain c r where c: "find (\<lambda>c. cp_is_active (cp_status c)) (md_checkpoints d) = Some c"
    and d': "d' = d\<lparr>md_checkpoints := update_first (\<lambda>c. cp_is_active (cp_status c))
      (\<lambda>_. c\<lparr>cp_status := status, cp_block := block, cp_revision := r\<rparr>) (md_checkpoints d)\<rparr>"
    using assms(1) by (auto simp: set_active_status_def Let_def split: option.splits)
  have "cp_is_open (cp_status c)"
    using find_SomeD [OF c] by simp
  then show ?thesis
    unfolding d' using assms(2) c by (intro update_open_in_line) simp_all
qed

section \<open>Commands\<close>

definition mission_in_line :: "(string \<times> string fset) list \<Rightarrow> mission \<Rightarrow> bool" where
  "mission_in_line K m \<longleftrightarrow> (\<exists>d. ms_definition m = Some d \<and> in_line K d)"

lemma in_line_updates [simp]:
  "mission_in_line K (m\<lparr>ms_stage := s\<rparr>) = mission_in_line K m"
  "mission_in_line K (m\<lparr>ms_tasks := ts\<rparr>) = mission_in_line K m"
  "mission_in_line K (m\<lparr>ms_block := b\<rparr>) = mission_in_line K m"
  "mission_in_line K (m\<lparr>ms_effects := es\<rparr>) = mission_in_line K m"
  "mission_in_line K (m\<lparr>ms_evidence := evs\<rparr>) = mission_in_line K m"
  "mission_in_line K (m\<lparr>ms_work_products := ws\<rparr>) = mission_in_line K m"
  "mission_in_line K (m\<lparr>ms_outcome_history := os\<rparr>) = mission_in_line K m"
  "mission_in_line K (m\<lparr>ms_outcome := out\<rparr>) = mission_in_line K m"
  "mission_in_line K (touch now m) = mission_in_line K m"
  "mission_in_line K (start_tasks tasks now m) = mission_in_line K m"
  "mission_in_line K (set_effect eid e m) = mission_in_line K m"
  "mission_in_line K (m\<lparr>ms_definition := Some d\<rparr>) = in_line K d"
  by (simp_all add: mission_in_line_def touch_def start_tasks_def set_effect_def)

lemma durable_stage_in_line [simp]: "mission_in_line K (durable_stage state eid now m) = mission_in_line K m"
  by (cases state) simp_all

lemma catalog_in_line:
  "set_catalog_checkpoint_status status block m = (Ok u, m') \<Longrightarrow> mission_in_line K m \<Longrightarrow> mission_in_line K m'"
  by (auto simp: set_catalog_checkpoint_status_def mission_in_line_def split: prod.splits)
    (blast intro: set_active_in_line)

lemma after_decision_in_line: "mission_in_line K m \<Longrightarrow> ok_post (mission_in_line K) (after_decision now m)"
  unfolding after_decision_def Let_def
  by (intro post_rules post_Ok) (auto dest!: catalog_in_line [where K = K] split: if_splits)

lemma require_checkpoint_in_line:
  assumes "require_checkpoint m cid = Ok (d, c)" and "mission_in_line K m"
    and "cp_is_open (cp_status c)" and "cp_id c' = cp_id c" and "cp_depends_on c' = cp_depends_on c"
  shows "in_line K (set_checkpoint cid c' d)"
  using assms by (auto simp: require_checkpoint_def mission_in_line_def intro: set_checkpoint_in_line)

lemma start_research_in_line:
  assumes "mission_in_line K m"
  shows "ok_post (mission_in_line K) (start_research tasks now m)"
proof -
  obtain d where d: "ms_definition m = Some d" "in_line K d"
    using assms by (auto simp: mission_in_line_def)
  show ?thesis
    unfolding start_research_def d(1) option.case Let_def
    by (intro post_rules post_Ok) (auto split: prod.splits, blast intro: start_first_in_line d(2))
qed

lemma start_scheduled_cycle_in_line:
  assumes "mission_in_line K m"
  shows "ok_post (mission_in_line K) (start_scheduled_cycle X cycle tasks now m)"
proof -
  obtain d where d: "ms_definition m = Some d" "in_line K d"
    using assms by (auto simp: mission_in_line_def)
  show ?thesis
    unfolding start_scheduled_cycle_def d(1) option.case Let_def
    by (intro post_rules post_Ok)
      (auto split: prod.splits, blast intro: start_first_in_line reset_in_line d(2))
qed

lemma checkpoint_commands_in_line:
  assumes "mission_in_line K m"
  shows "ok_post (mission_in_line K) (begin_checkpoint_transition cid now m)"
    and "ok_post (mission_in_line K) (begin_checkpoint_verification cid now m)"
    and "ok_post (mission_in_line K) (block_checkpoint cid block stage m)"
proof -
  show "ok_post (mission_in_line K) (begin_checkpoint_transition cid now m)"
    unfolding begin_checkpoint_transition_def Let_def
    by (intro post_rules post_Ok) (simp add: require_checkpoint_in_line [OF _ assms])
  show "ok_post (mission_in_line K) (begin_checkpoint_verification cid now m)"
    unfolding begin_checkpoint_verification_def Let_def
    by (intro post_rules post_Ok) (simp add: require_checkpoint_in_line [OF _ assms])
  show "ok_post (mission_in_line K) (block_checkpoint cid block stage m)"
    unfolding block_checkpoint_def Let_def
    by (intro post_rules post_Ok) (auto simp: require_checkpoint_in_line [OF _ assms])
qed

lemma derived_begin_in_line:
  assumes "mission_in_line K m"
  shows "ok_post (mission_in_line K) (begin_checkpoint cid now m)"
    and "ok_post (mission_in_line K) (begin_checkpoint_with_task cid tk now m)"
proof -
  show "ok_post (mission_in_line K) (begin_checkpoint cid now m)"
    unfolding begin_checkpoint_def by (intro post_rules checkpoint_commands_in_line assms)
  show "ok_post (mission_in_line K) (begin_checkpoint_with_task cid tk now m)"
    unfolding begin_checkpoint_with_task_def
    by (intro post_rules post_Ok) (auto dest: ok_postD [OF checkpoint_commands_in_line(1) [OF assms]])
qed

lemma release_next_in_line:
  assumes "in_line K d" and "chained None K" and "distinct (map fst K)" and "release_next m d = (Ok u, m')"
  shows "mission_in_line K m'"
proof (cases "find (releasable (completed_ids d)) (md_checkpoints d)")
  case None
  then show ?thesis
    using assms(1,4) by (auto simp: release_next_def Let_def)
next
  case (Some c)
  show ?thesis
    using assms(4) Some release_in_line [OF assms(1-3) Some] by (auto simp: release_next_def Let_def)
qed

lemma complete_in_line:
  assumes "mission_in_line K m" and "chained None K" and "distinct (map fst K)"
  shows "ok_post (mission_in_line K) (complete_checkpoint_validated X cid completion m)"
  unfolding complete_checkpoint_validated_def Let_def
  apply (intro post_rules post_Ok)
  apply (clarsimp, drule release_next_in_line [rotated 3])
  apply (rule require_checkpoint_in_line [OF _ assms(1)], assumption)
  apply (simp_all add: assms(2,3))
  done

lemma effect_commands_in_line:
  assumes "mission_in_line K m"
  shows "ok_post (mission_in_line K) (propose_effect spec now m)"
    "ok_post (mission_in_line K) (approve_effect X eid a m)"
    "ok_post (mission_in_line K) (cancel_effect eid now m)"
    "ok_post (mission_in_line K) (begin_effect X eid now m)"
    "ok_post (mission_in_line K) (record_receipt X eid r m)"
    "ok_post (mission_in_line K) (reconcile_durable_receipt X eid r started_at m)"
    "ok_post (mission_in_line K) (reconcile_durable_provider_state X eid state started_at recorded_at m)"
    "ok_post (mission_in_line K) (mark_effect_uncertain eid now m)"
    "ok_post (mission_in_line K) (mark_effect_failed eid now m)"
    "ok_post (mission_in_line K) (record_verification eid v m)"
    "ok_post (mission_in_line K) (continue_after_verified_effect eid now m)"
  unfolding propose_effect_def approve_effect_def cancel_effect_def begin_effect_def record_receipt_def
    reconcile_durable_receipt_def reconcile_durable_provider_state_def mark_effect_uncertain_def
    mark_effect_failed_def record_verification_def continue_after_verified_effect_def Let_def
  by (intro post_rules post_pair after_decision_in_line;
      auto simp: assms dest!: catalog_in_line [where K = K] split: if_splits)+

lemma other_commands_in_line:
  assumes "mission_in_line K m"
  shows "ok_post (mission_in_line K) (record_evidence evidence now m)"
    "ok_post (mission_in_line K) (record_work_product X w now m)"
    "ok_post (mission_in_line K) (revise_work_product X w now m)"
    "ok_post (mission_in_line K) (record_outcome X out m)"
    "ok_post (mission_in_line K) (block_mission block stage m)"
    "ok_post (mission_in_line K) (resume now m)"
    "ok_post (mission_in_line K) (terminate disposition now m)"
  unfolding record_evidence_def record_work_product_def revise_work_product_def record_outcome_def
    block_mission_def resume_def terminate_def Let_def
  by (intro post_rules post_pair;
      auto simp: assms dest!: catalog_in_line [where K = K] split: if_splits)+

lemma committed_in_line: "committed rs = Ok m' \<Longrightarrow> ok_post (mission_in_line K) rs \<Longrightarrow> mission_in_line K m'"
  by (auto dest!: committed_OkD simp: ok_post_def)

lemma skip_vm11_in_line:
  assumes "skip_vm11_candidate_learning m = Ok m'" and "mission_in_line K m"
  shows "mission_in_line K m'"
  using assms by (auto simp: skip_vm11_candidate_learning_def require_checkpoint_in_line split: prod.splits)

lemma typed_terminal_in_line:
  assumes "mission_in_line K m" and "chained None K" and "distinct (map fst K)"
  shows "ok_post (mission_in_line K) (complete_typed_terminal X cid typed e completion m)"
  unfolding complete_typed_terminal_def
  by (intro post_rules, unfold and_then_eq_Ok if_Err_eq_Ok)
    (blast intro: committed_in_line complete_in_line assms other_commands_in_line(7))

lemma vm11_resolution_in_line:
  assumes "mission_in_line K m" and "chained None K" and "distinct (map fst K)"
  shows "ok_post (mission_in_line K) (complete_vm11_next_contract_resolution X r completion m)"
proof -
  have "mission_in_line K m'" if ok: "resolved_vm11_next_contract_mission X m r completion = Ok m'" for m'
  proof -
    obtain resolved where resolved:
      "committed (complete_checkpoint_validated X ''next_contract_or_valid_terminal'' completion m) = Ok resolved"
      and cases: "resolved = m' \<or> (\<exists>skipped. skip_vm11_candidate_learning resolved = Ok skipped \<and>
        committed (terminate TermCompleted (nr_resolved_at r) skipped) = Ok m')"
      using ok by (auto simp: resolved_vm11_next_contract_mission_def split: if_splits)
    have "mission_in_line K resolved"
      using committed_in_line [OF resolved complete_in_line [OF assms]] .
    then show ?thesis
      using cases by (blast intro: committed_in_line skip_vm11_in_line other_commands_in_line(7))
  qed
  then show ?thesis
    unfolding complete_vm11_next_contract_resolution_def by (intro post_rules)
qed

lemma mission_apply_in_line:
  assumes "mission_in_line K m" and "chained None K" and "distinct (map fst K)"
  shows "ok_post (mission_in_line K) (mission_apply X cmd m)"
proof (cases cmd)
  case (ProposeEffect spec now)
  then show ?thesis
    using effect_commands_in_line(1) [OF assms(1), of spec now]
    by (auto simp: ok_post_def then_with_def split: sum.splits)
next
  case (CompleteCheckpoint cid completion)
  then show ?thesis
    by (simp add: complete_checkpoint_def complete_in_line [OF assms] post_Err)
qed (simp_all add: assms start_research_in_line start_scheduled_cycle_in_line derived_begin_in_line
    checkpoint_commands_in_line effect_commands_in_line other_commands_in_line typed_terminal_in_line
    vm11_resolution_in_line complete_vm04_channel_rebalance_terminal_def
    complete_vm07_replan_or_terminal_terminal_def complete_vm11_candidate_learning_terminal_def)

section \<open>The property\<close>

lemma fcard_distinct: "fcard (fset_of_list xs) = length xs \<Longrightarrow> distinct xs"
  by (simp add: fcard.rep_eq fset_of_list.rep_eq card_distinct)

lemma manifest_in_line:
  assumes "from_manifest_parts X manifest_id version catalog_digest mode caps artifacts oracles routes = Ok d"
  shows "in_line (skeleton d) d" and "chained None (skeleton d)" and "distinct (map fst (skeleton d))"
    and "map fst (skeleton d) = map fst routes"
proof -
  have cps: "md_checkpoints d = chain_checkpoints None routes" and valid: "definition_validate X d = Ok ()"
    using assms by (auto simp: from_manifest_parts_def Let_def)
  show "in_line (skeleton d) d"
    by (simp add: in_line_def cps chain_checkpoints_lined)
  show "chained None (skeleton d)"
    by (simp add: skeleton_def cps chain_checkpoints_chained)
  have ids: "map fst (skeleton d) = map cp_id (md_checkpoints d)"
    by (simp add: skeleton_def comp_def)
  then show "distinct (map fst (skeleton d))"
    using valid by (auto simp: definition_validate_def intro: fcard_distinct split: if_splits)
  have "map cp_id (chain_checkpoints previous routes) = map fst routes" for previous
    by (induction previous routes rule: chain_checkpoints.induct) simp_all
  then show "map fst (skeleton d) = map fst routes"
    by (simp add: ids cps)
qed

lemma in_line_run:
  assumes "(mission_commits X)\<^sup>*\<^sup>* m m'" and "mission_in_line K m" and "chained None K" and "distinct (map fst K)"
  shows "mission_in_line K m'"
  using assms(1,2)
proof (induction rule: rtranclp_induct)
  case (step m1 m2)
  then obtain cmd where "mission_apply X cmd m1 = (Ok (), m2)"
    by (auto simp: mission_commits_def)
  then show ?case
    using ok_postD [OF mission_apply_in_line [OF _ assms(3,4)]] step by blast
qed

text \<open>
  C36: The checkpoints of a catalog mission are worked off in the order of the manifest: after any
  successful commands the mission still has exactly the checkpoints of its manifest, in order, and
  a checkpoint that is not pending has only finished checkpoints before it, so that at most one
  checkpoint is ready or being worked on at a time.
\<close>
theorem checkpoints_in_order:
  assumes "from_manifest_parts X manifest_id version catalog_digest mode caps artifacts oracles routes = Ok d0"
    and "compile_catalog X tenant mid project title contract d0 now = Ok m0"
    and "(mission_commits X)\<^sup>*\<^sup>* m0 m"
  shows "\<exists>d. ms_definition m = Some d \<and> map cp_id (md_checkpoints d) = map fst routes \<and>
    (\<forall>i j. j < i \<longrightarrow> i < length (md_checkpoints d) \<longrightarrow> cp_status (md_checkpoints d ! i) \<noteq> CpPending \<longrightarrow>
       cp_is_terminal (cp_status (md_checkpoints d ! j)))"
proof -
  note manifest = manifest_in_line [OF assms(1)]
  obtain m1 where "m0 = m1\<lparr>ms_definition := Some d0\<rparr>"
    using compile_catalog_OkD [OF assms(2)] by metis
  then have "mission_in_line (skeleton d0) m0"
    by (simp add: manifest(1))
  from in_line_run [OF assms(3) this manifest(2,3)] obtain d where d: "ms_definition m = Some d"
    "skeleton d = skeleton d0" "lined_up (map cp_status (md_checkpoints d))"
    by (auto simp: mission_in_line_def in_line_def)
  have "map cp_id (md_checkpoints d) = map fst (skeleton d)"
    by (simp add: skeleton_def comp_def)
  then show ?thesis
    using d manifest(4) lined_up_nth [OF d(3)] by auto
qed

definition line_0 :: mission_definition where
  "line_0 = \<lparr>md_manifest_id = ''m'', md_manifest_version = 1, md_catalog_digest = sample_digest,
     md_operating_mode = ContinuousOperator, md_capability_ids = {|''c''|},
     md_required_artifact_types = {|''a''|}, md_oracle_ids = {|''g''|},
     md_checkpoints = chain_checkpoints None [(''p'', None), (''s'', None)], md_cycle = 1\<rparr>"

definition sample_completion :: mission_checkpoint_completion where
  "sample_completion = \<lparr>cc_oracle_ids = {|''g''|}, cc_work_product_ids = {||}, cc_effect_ids = {||},
     cc_application_evidence = None, cc_evidence_digest = sample_digest, cc_verified_at = 30\<rparr>"

definition line_run :: "mission_command list" where
  "line_run = [StartResearch [] 10, BeginCheckpointVerification ''p'' 20, CompleteCheckpoint ''p'' sample_completion]"

fun apply_all :: "'x effect_ext_scheme \<Rightarrow> mission_command list \<Rightarrow> mission \<Rightarrow> (mission_error + unit) \<times> mission" where
  "apply_all X [] m = (Ok (), m)"
| "apply_all X (c # cs) m = then_with (mission_apply X c m) (\<lambda>_. apply_all X cs)"

lemma apply_all_run: "apply_all X cs m = (Ok (), m') \<Longrightarrow> (mission_commits X)\<^sup>*\<^sup>* m m'"
proof (induction cs arbitrary: m)
  case (Cons c cs)
  then obtain m1 where "mission_apply X c m = (Ok (), m1)" "apply_all X cs m1 = (Ok (), m')"
    by auto
  then show ?case
    using Cons.IH [of m1] by (auto simp: mission_commits_def intro: converse_rtranclp_into_rtranclp)
qed simp

lemma line_manifest:
  "from_manifest_parts sample_eext ''m'' 1 sample_digest ContinuousOperator [''c''] [''a''] [''g'']
     [(''p'', None), (''s'', None)] = Ok line_0"
proof -
  have "checkpoint_is_valid sample_eext d \<lparr>cp_id = i, cp_depends_on = ds, cp_route = None, cp_status = st,
      cp_revision = 1, cp_attempt = 0, cp_started_at = None, cp_block = None, cp_completion = None\<rparr> seen"
    if "i \<in> {''p'', ''s''}" "i |\<notin>| ds" "ds |\<subseteq>| seen" "st \<in> {CpReady, CpPending}" for d i ds st seen
    using that by (auto simp: checkpoint_is_valid_def sample_names)
  moreover have "fcard {|''p'', ''s''|} = 2"
    by (simp add: fcard_finsert_disjoint)
  ultimately show ?thesis
    by (simp add: from_manifest_parts_def definition_validate_def line_0_def sample_names sample_digest_hex
        cp_is_active_def Let_def)
qed

definition line_state :: "mission_stage \<Rightarrow> mission_checkpoint list \<Rightarrow> time \<Rightarrow> u64 \<Rightarrow> mission" where
  "line_state stage cs now n =
     (sample_state stage [] [] [] [] now n)\<lparr>ms_definition := Some (line_0\<lparr>md_checkpoints := cs\<rparr>)\<rparr>"

lemma line_compile:
  "compile_catalog sample_eext ''t'' ''m1'' ''p'' ''T'' sample_contract line_0 0 =
     Ok (line_state StageReady (md_checkpoints line_0) 0 1)"
proof -
  have "definition_validate sample_eext line_0 = Ok ()"
    using line_manifest by (auto simp: from_manifest_parts_def Let_def)
  moreover have "md_operating_mode line_0 = oc_mode sample_contract"
    "md_capability_ids line_0 = oc_enabled_capabilities sample_contract"
    "oc_forbidden_capabilities sample_contract = {||}"
    by (simp_all add: line_0_def sample_contract_def)
  ultimately show ?thesis
    using sample_compile by (simp add: compile_catalog_def line_state_def mission_0_def)
qed

lemma line_commands:
  obtains m where "apply_all sample_eext line_run (line_state StageReady (md_checkpoints line_0) 0 1) = (Ok (), m)"
    and "map_option (\<lambda>d. map cp_status (md_checkpoints d)) (ms_definition m) = Some [CpCompleted, CpReady]"
proof -
  have "is_sha256 sample_digest" by (rule sample_digest_hex)
  then show ?thesis
    using that
    by (simp add: line_run_def line_state_def line_0_def start_research_def require_stage_def
        validate_first_checkpoint_tasks_def ensure_touchable_def start_first_checkpoint_def checked_add_def
        start_tasks_def touch_def begin_checkpoint_verification_def any_effect_def require_checkpoint_def
        checkpoint_named_def set_checkpoint_def complete_checkpoint_def manifest_is_def
        complete_checkpoint_validated_def validated_checkpoint_completion_route_def sample_completion_def
        release_next_def releasable_def completed_ids_def complete_tasks_def Let_def)
qed

theorem checkpoints_in_order_witness:
  "\<exists>m d. (mission_commits sample_eext)\<^sup>*\<^sup>* (line_state StageReady (md_checkpoints line_0) 0 1) m \<and>
     ms_definition m = Some d \<and> map cp_status (md_checkpoints d) = [CpCompleted, CpReady] \<and>
     map cp_id (md_checkpoints d) = [''p'', ''s'']"
proof -
  obtain m where run: "apply_all sample_eext line_run (line_state StageReady (md_checkpoints line_0) 0 1) = (Ok (), m)"
    and row: "map_option (\<lambda>d. map cp_status (md_checkpoints d)) (ms_definition m) = Some [CpCompleted, CpReady]"
    by (rule line_commands)
  from checkpoints_in_order [OF line_manifest line_compile apply_all_run [OF run]]
  obtain d where "ms_definition m = Some d" "map cp_id (md_checkpoints d) = [''p'', ''s'']"
    by auto
  then show ?thesis
    using row apply_all_run [OF run] by auto
qed

end
