(* ===== verification/Checkpoint_Props.thy ===== *)
theory Checkpoint_Props
  imports Checkpoint
begin

text \<open>
  Properties of checkpoint definitions and of application evidence that do not depend on the mission
  commands: the validation loop against a declarative reading of what a valid definition is, the
  names of routes, and the digest that binds an application's evidence.
\<close>

section \<open>Validation\<close>

text \<open>
  What a valid definition is, written without the checks of the code: conditions on the parts of the
  definition, where the code's own tests are replaced by what they are meant to establish. Some of
  the tests follow from others and do not occur: that a checkpoint does not depend on itself,
  that the oracles of routes are not blank, that a completed route is contracted, that
  the sources of evidence name only oracles of the route.
\<close>

definition well_formed_route :: "mission_definition \<Rightarrow> mission_checkpoint_route \<Rightarrow> bool" where
  "well_formed_route d r \<longleftrightarrow>
     \<not> blank (rt_capability_id r) \<and> rt_capability_id r |\<in>| md_capability_ids d
     \<and> rt_oracle_ids r |\<subseteq>| md_oracle_ids d
     \<and> (case rt_completion_policy r of
          None \<Rightarrow> rt_oracle_ids r = {||}
        | Some policy \<Rightarrow> rt_oracle_ids r \<noteq> {||} \<and> (rt_executor r, policy) \<in>
            {(ExApplication, DeterministicEvidence), (ExRuntime, WorkProductPolicy), (ExEffectBroker, VerifiedEffect),
             (ExEffectBroker, EffectReadbackV2), (ExHuman, HumanConfirmation)})"

definition well_formed_source :: "mission_checkpoint_oracle_source \<Rightarrow> bool" where
  "well_formed_source s \<longleftrightarrow>
     \<not> blank (os_source_kind s) \<and> \<not> blank (os_source_id s) \<and> os_source_revision s \<noteq> 0
     \<and> is_sha256 (os_projection_digest s) \<and> os_oracle_ids s \<noteq> {||}"

definition well_formed_evidence ::
  "'x ext_scheme \<Rightarrow> mission_definition \<Rightarrow> mission_checkpoint \<Rightarrow> mission_checkpoint_route
     \<Rightarrow> mission_checkpoint_completion \<Rightarrow> mission_checkpoint_application_evidence \<Rightarrow> bool" where
  "well_formed_evidence X d c r k e \<longleftrightarrow>
     ae_schema_version e = 1
     \<and> (\<forall>v \<in> {ae_handler_id e, ae_tenant_id e, ae_project_id e, ae_mission_id e}. \<not> blank v)
     \<and> (ae_manifest_id e, ae_manifest_version e, ae_catalog_digest e, ae_cycle e) =
         (md_manifest_id d, md_manifest_version d, md_catalog_digest d, md_cycle d)
     \<and> ae_checkpoint_id e = cp_id c
     \<and> 1 \<le> ae_dispatch_mission_revision e \<and> ae_dispatch_mission_revision e \<le> ae_verification_mission_revision e
     \<and> 1 \<le> ae_dispatch_checkpoint_revision e
     \<and> ae_dispatch_checkpoint_revision e \<le> ae_verification_checkpoint_revision e
     \<and> unat (cp_revision c) = Suc (unat (ae_verification_checkpoint_revision e))
     \<and> (ae_capability_id e, ae_executor e, Some (ae_completion_policy e)) =
         (rt_capability_id r, rt_executor r, rt_completion_policy r)
     \<and> ae_observed_at e = cc_verified_at k
     \<and> (\<forall>s |\<in>| ae_sources e. well_formed_source s)
     \<and> (\<Union>s \<in> fset (ae_sources e). fset (os_oracle_ids s)) = fset (rt_oracle_ids r)
     \<and> cc_evidence_digest k = sha256 X (hash_stream (evidence_fields X e))"

definition well_formed_completion ::
  "'x ext_scheme \<Rightarrow> mission_definition \<Rightarrow> mission_checkpoint \<Rightarrow> mission_checkpoint_completion \<Rightarrow> bool" where
  "well_formed_completion X d c k \<longleftrightarrow>
     cc_oracle_ids k \<noteq> {||} \<and> cc_oracle_ids k |\<subseteq>| md_oracle_ids d \<and> is_sha256 (cc_evidence_digest k)
     \<and> (\<exists>started_at. cp_started_at c = Some started_at \<and> started_at \<le> cc_verified_at k)
     \<and> (\<forall>r. cp_route c = Some r \<longrightarrow>
          cc_oracle_ids k = rt_oracle_ids r
          \<and> rt_completion_policy r \<noteq> Some EffectReadbackV2
          \<and> (rt_executor r = ExApplication \<longleftrightarrow> cc_application_evidence k \<noteq> None)
          \<and> (\<forall>e. cc_application_evidence k = Some e \<longrightarrow> well_formed_evidence X d c r k e)
          \<and> (''work_product'' |\<in>| rt_oracle_ids r \<longrightarrow> cc_work_product_ids k \<noteq> {||})
          \<and> (rt_completion_policy r = Some VerifiedEffect \<longrightarrow> cc_effect_ids k \<noteq> {||}))"

text \<open>What a checkpoint carries in each of its states.\<close>

fun status_shape :: "mission_checkpoint_status \<Rightarrow> time option \<Rightarrow> bool \<Rightarrow> bool \<Rightarrow> bool" where
  "status_shape CpPending started_at blocked complete \<longleftrightarrow> started_at = None \<and> \<not> blocked \<and> \<not> complete"
| "status_shape CpBlocked started_at blocked complete \<longleftrightarrow> blocked \<and> \<not> complete"
| "status_shape CpWaitingUser started_at blocked complete \<longleftrightarrow> blocked \<and> \<not> complete"
| "status_shape CpWaitingApproval started_at blocked complete \<longleftrightarrow> blocked \<and> \<not> complete"
| "status_shape CpCompleted started_at blocked complete \<longleftrightarrow> \<not> blocked \<and> complete"
| "status_shape _ started_at blocked complete \<longleftrightarrow> \<not> blocked \<and> \<not> complete"

definition well_formed_checkpoint :: "'x ext_scheme \<Rightarrow> mission_definition \<Rightarrow> nat \<Rightarrow> bool" where
  "well_formed_checkpoint X d i \<longleftrightarrow>
     (let c = md_checkpoints d ! i in
      \<not> blank (cp_id c) \<and> cp_revision c \<noteq> 0
      \<and> (\<forall>r. cp_route c = Some r \<longrightarrow> well_formed_route d r)
      \<and> (\<forall>p |\<in>| cp_depends_on c. \<exists>j < i. cp_id (md_checkpoints d ! j) = p)
      \<and> (cp_attempt c = 0 \<longrightarrow> cp_started_at c = None)
      \<and> status_shape (cp_status c) (cp_started_at c) (cp_block c \<noteq> None) (cp_completion c \<noteq> None)
      \<and> (\<forall>k. cp_completion c = Some k \<longrightarrow> well_formed_completion X d c k))"

definition routes_of :: "mission_definition \<Rightarrow> mission_checkpoint_route set" where
  "routes_of d = {r. \<exists>c \<in> set (md_checkpoints d). cp_route c = Some r}"

definition well_routed :: "mission_definition \<Rightarrow> bool" where
  "well_routed d \<longleftrightarrow>
     (\<forall>c \<in> set (md_checkpoints d). cp_route c = None) \<or>
     (\<forall>c \<in> set (md_checkpoints d). cp_route c \<noteq> None)
     \<and> rt_capability_id ` routes_of d = fset (md_capability_ids d)
     \<and> ((\<forall>r \<in> routes_of d. rt_completion_policy r = None) \<or>
        (\<forall>r \<in> routes_of d. rt_completion_policy r \<noteq> None)
        \<and> (\<Union>r \<in> routes_of d. fset (rt_oracle_ids r)) = fset (md_oracle_ids d))"

definition well_formed_definition :: "'x ext_scheme \<Rightarrow> mission_definition \<Rightarrow> bool" where
  "well_formed_definition X d \<longleftrightarrow>
     \<not> blank (md_manifest_id d) \<and> md_manifest_version d \<noteq> 0 \<and> is_sha256 (md_catalog_digest d) \<and> md_cycle d \<noteq> 0
     \<and> (\<forall>V \<in> {md_capability_ids d, md_required_artifact_types d, md_oracle_ids d}.
          V \<noteq> {||} \<and> (\<forall>v |\<in>| V. \<not> blank v))
     \<and> md_checkpoints d \<noteq> [] \<and> distinct (map cp_id (md_checkpoints d))
     \<and> well_routed d
     \<and> (\<forall>i < length (md_checkpoints d). well_formed_checkpoint X d i)
     \<and> card {i. i < length (md_checkpoints d) \<and> cp_status (md_checkpoints d ! i) = CpReady} \<le> 1
     \<and> card {i. i < length (md_checkpoints d) \<and> cp_status (md_checkpoints d ! i)
          \<in> {CpRunning, CpBlocked, CpWaitingUser, CpWaitingApproval, CpVerifying}} \<le> 1"

text \<open>The loop with its running counters, without the loop.\<close>

lemma validate_checkpoints_eq:
  "validate_checkpoints X d seen r a cs =
     (if (\<forall>i < length cs. checkpoint_is_valid X d (cs ! i) (seen |\<union>| fset_of_list (map cp_id (take i cs))))
        \<and> r + length (filter (\<lambda>c. cp_status c = CpReady) cs) \<le> 1
        \<and> a + length (filter (\<lambda>c. cp_is_active (cp_status c)) cs) \<le> 1
      then Ok () else Err InvalidMissionDefinition)"
proof (induction X d seen r a cs rule: validate_checkpoints.induct)
  case (1 X d seen r a)
  then show ?case by auto
next
  case (2 X d seen r a c cs)
  have "(\<forall>i < length (c # cs). checkpoint_is_valid X d ((c # cs) ! i)
       (seen |\<union>| fset_of_list (map cp_id (take i (c # cs))))) \<longleftrightarrow>
     checkpoint_is_valid X d c seen \<and>
     (\<forall>i < length cs. checkpoint_is_valid X d (cs ! i)
        (finsert (cp_id c) seen |\<union>| fset_of_list (map cp_id (take i cs))))"
    by (simp add: All_less_Suc2)
  then show ?case
    using 2 by simp
qed

lemma fcard_fset_of_list: "fcard (fset_of_list xs) = length xs \<longleftrightarrow> distinct xs"
  by (auto simp: fcard.rep_eq fset_of_list.rep_eq card_distinct distinct_card)

lemma length_filter_card: "length (filter p cs) = card {i. i < length cs \<and> p (cs ! i)}"
  by (rule length_filter_conv_card)

lemma filter_length_all: "length (filter p cs) = length cs \<longleftrightarrow> (\<forall>c \<in> set cs. p c)"
  by (induction cs) (auto simp: le_imp_less_Suc less_imp_neq)

lemma filter_length_none: "length (filter p cs) = 0 \<longleftrightarrow> (\<forall>c \<in> set cs. \<not> p c)"
  by (induction cs) auto

text \<open>The guards of \<open>validate\<close> in one condition, with the loop replaced by what it computes.\<close>

definition checks_pass :: "'x ext_scheme \<Rightarrow> mission_definition \<Rightarrow> bool" where
  "checks_pass X d \<longleftrightarrow>
     \<not> blank (md_manifest_id d) \<and> md_manifest_version d \<noteq> 0 \<and> is_sha256 (md_catalog_digest d) \<and> md_cycle d \<noteq> 0
     \<and> md_capability_ids d \<noteq> {||} \<and> md_required_artifact_types d \<noteq> {||} \<and> md_oracle_ids d \<noteq> {||}
     \<and> md_checkpoints d \<noteq> []
     \<and> (\<forall>v |\<in>| md_capability_ids d |\<union>| md_required_artifact_types d |\<union>| md_oracle_ids d. \<not> blank v)
     \<and> distinct (map cp_id (md_checkpoints d))
     \<and> ((\<forall>c \<in> set (md_checkpoints d). cp_route c = None) \<or>
        (\<forall>c \<in> set (md_checkpoints d). cp_route c \<noteq> None) \<and> routes_ok d)
     \<and> (\<forall>i < length (md_checkpoints d). checkpoint_is_valid X d (md_checkpoints d ! i)
          (fset_of_list (map cp_id (take i (md_checkpoints d)))))
     \<and> card {i. i < length (md_checkpoints d) \<and> cp_status (md_checkpoints d ! i) = CpReady} \<le> 1
     \<and> card {i. i < length (md_checkpoints d) \<and> cp_is_active (cp_status (md_checkpoints d ! i))} \<le> 1"

lemma definition_validate_eq:
  "definition_validate X d = (if checks_pass X d then Ok () else Err InvalidMissionDefinition)"
proof -
  let ?cs = "md_checkpoints d"
  have routed: "length (filter (\<lambda>c. cp_route c \<noteq> None) ?cs) = length ?cs \<longleftrightarrow> (\<forall>c \<in> set ?cs. cp_route c \<noteq> None)"
    "length (filter (\<lambda>c. cp_route c \<noteq> None) ?cs) = 0 \<longleftrightarrow> (\<forall>c \<in> set ?cs. cp_route c = None)"
    by (simp_all only: filter_length_all filter_length_none not_not)
  have exclusive: "?cs \<noteq> [] \<Longrightarrow> \<not> ((\<forall>c \<in> set ?cs. cp_route c \<noteq> None) \<and> (\<forall>c \<in> set ?cs. cp_route c = None))"
    by (cases ?cs) auto
  have ids: "fcard (fset_of_list (map cp_id ?cs)) \<noteq> length ?cs \<longleftrightarrow> \<not> distinct (map cp_id ?cs)"
    using fcard_fset_of_list [of "map cp_id ?cs"] by simp
  have blanks: "(\<exists>v |\<in>| V. blank v) \<longleftrightarrow> \<not> (\<forall>v |\<in>| V. \<not> blank v)" for V
    by auto
  have results: "Err InvalidMissionDefinition = (Err InvalidMissionDefinition :: mission_error + unit)"
    "Ok () = (Ok () :: mission_error + unit)"
    by simp_all
  show ?thesis
    unfolding definition_validate_def checks_pass_def Let_def validate_checkpoints_eq routed
      ids blanks length_filter_card [of "\<lambda>c. cp_status c = CpReady"]
      length_filter_card [of "\<lambda>c. cp_is_active (cp_status c)"] sup_bot.left_neutral add_0
    if_split [of "\<lambda>r. r = _"] if_split [of "\<lambda>r. _ = r"] using exclusive results by satx
qed

text \<open>The parts of the validation against the parts of the specification.\<close>

lemma executor_policy_pairs:
  "executor_policy_ok x policy \<longleftrightarrow> (x, policy) \<in>
     {(ExApplication, DeterministicEvidence), (ExRuntime, WorkProductPolicy), (ExEffectBroker, VerifiedEffect),
      (ExEffectBroker, EffectReadbackV2), (ExHuman, HumanConfirmation)}"
  by (cases x; cases policy) simp_all

lemma route_parts:
  assumes "\<forall>v |\<in>| md_oracle_ids d. \<not> blank v"
  shows "well_formed_route d r \<longleftrightarrow>
    is_ok (route_validate r) \<and> rt_capability_id r |\<in>| md_capability_ids d
    \<and> (\<forall>oracle |\<in>| rt_oracle_ids r. oracle |\<in>| md_oracle_ids d)"
proof -
  have "(\<exists>oracle |\<in>| rt_oracle_ids r. blank oracle) \<Longrightarrow> \<not> (\<forall>oracle |\<in>| rt_oracle_ids r. oracle |\<in>| md_oracle_ids d)"
    using assms by auto
  then show ?thesis
    by (cases "rt_completion_policy r")
      (auto simp: well_formed_route_def route_validate_def executor_policy_pairs [symmetric] fsubset_iff
        simp del: insert_iff)
qed

lemma contracted_route:
  assumes "well_formed_route d r"
  shows "is_contracted r \<longleftrightarrow> rt_completion_policy r \<noteq> None" "is_contracted r \<longleftrightarrow> rt_oracle_ids r \<noteq> {||}"
  using assms by (auto simp: well_formed_route_def is_contracted_def split: option.splits)

lemma sources_parts:
  assumes "rt_oracle_ids r \<noteq> {||}"
  shows "evidence_sources_ok r e \<longleftrightarrow>
    (\<forall>s |\<in>| ae_sources e. well_formed_source s) \<and>
    (\<Union>s \<in> fset (ae_sources e). fset (os_oracle_ids s)) = fset (rt_oracle_ids r)"
    (is "_ \<longleftrightarrow> _ \<and> ?union")
proof -
  have union: "ffUnion (os_oracle_ids |`| ae_sources e) = rt_oracle_ids r \<longleftrightarrow> ?union"
    unfolding fset_inject [symmetric] ffUnion.rep_eq fimage.rep_eq image_image ..
  show ?thesis
  proof (cases ?union)
    case True
    have "fset (rt_oracle_ids r) \<noteq> {}"
      using assms by (metis bot_fset.rep_eq fset_inject)
    then have "ae_sources e \<noteq> {||}"
      using True by auto
    moreover have "\<forall>s |\<in>| ae_sources e. os_oracle_ids s |\<subseteq>| rt_oracle_ids r"
      unfolding less_eq_fset.rep_eq True [symmetric] by blast
    ultimately show ?thesis
      unfolding evidence_sources_ok_def well_formed_source_def union by (simp add: True word_gt_0)
  next
    case False
    then show ?thesis
      unfolding evidence_sources_ok_def union by simp
  qed
qed

lemma next_revision:
  fixes a b :: u64
  shows "checked_add a 1 = Some b \<longleftrightarrow> unat b = Suc (unat a)"
proof
  assume succ: "unat b = Suc (unat a)"
  then have "unat a + 1 < 2 ^ 64"
    using unsigned_less [of b, where ?'a = nat] by simp
  then have "unat (a + 1) = unat b"
    using succ by (simp add: unat_word_ariths)
  with \<open>unat a + 1 < 2 ^ 64\<close> show "checked_add a 1 = Some b"
    by (simp add: checked_add_def word_unat_eq_iff)
qed (use checked_add_SomeD(1) in fastforce)

lemma evidence_parts:
  assumes "rt_oracle_ids r \<noteq> {||}"
  shows "valid_persisted_application_checkpoint_evidence X d c r k \<longleftrightarrow>
    (rt_executor r = ExApplication \<longleftrightarrow> cc_application_evidence k \<noteq> None) \<and>
    (\<forall>e. cc_application_evidence k = Some e \<longrightarrow> well_formed_evidence X d c r k e)"
proof -
  have one: "1 \<le> n \<longleftrightarrow> 0 < n" for n :: u64
    by (simp add: word_le_nat_alt word_less_nat_alt Suc_le_eq)
  show ?thesis
    unfolding valid_persisted_application_checkpoint_evidence_def well_formed_evidence_def
      sources_parts [OF assms] next_revision evidence_digest_def one
    by (cases "cc_application_evidence k"; cases "rt_executor r = ExApplication") auto
qed

lemma completion_parts:
  assumes "\<forall>r. cp_route c = Some r \<longrightarrow> well_formed_route d r"
  shows "completion_is_valid X d c k \<longleftrightarrow> well_formed_completion X d c k"
proof (cases "cp_route c")
  case None
  then show ?thesis
    by (auto simp: completion_is_valid_def well_formed_completion_def is_some_and_iff fsubset_iff)
next
  case (Some r)
  show ?thesis
  proof (cases "cc_oracle_ids k \<noteq> {||} \<and> cc_oracle_ids k = rt_oracle_ids r")
    case True
    then have "is_contracted r" "rt_oracle_ids r \<noteq> {||}"
      using assms Some contracted_route(2) by auto
    with Some evidence_parts [of r X d c k] show ?thesis
      unfolding completion_is_valid_def well_formed_completion_def is_some_and_iff is_none_or_iff fsubset_iff
      by simp blast
  next
    case False
    then show ?thesis
      using Some unfolding completion_is_valid_def well_formed_completion_def by auto
  qed
qed

lemma seen_ids:
  assumes "i < length cs"
  shows "p |\<in>| fset_of_list (map cp_id (take i cs)) \<longleftrightarrow> (\<exists>j < i. cp_id (cs ! j) = p)"
proof -
  have "set (take i cs) = (!) cs ` {..< i}"
    using assms by (simp add: nth_image lessThan_atLeast0)
  then show ?thesis
    by (auto simp: fset_of_list_elem)
qed

lemma status_parts:
  "status_shape (cp_status c) (cp_started_at c) (cp_block c \<noteq> None) (cp_completion c \<noteq> None) \<longleftrightarrow>
     \<not> ((cp_status c = CpPending \<and> (cp_started_at c \<noteq> None \<or> cp_block c \<noteq> None \<or> cp_completion c \<noteq> None))
      \<or> (cp_status c = CpReady \<and> (cp_block c \<noteq> None \<or> cp_completion c \<noteq> None))
      \<or> (cp_status c = CpCompleted \<and> cp_completion c = None)
      \<or> (cp_status c \<noteq> CpCompleted \<and> cp_completion c \<noteq> None)
      \<or> (cp_status c \<in> {CpBlocked, CpWaitingUser, CpWaitingApproval}) \<noteq> (cp_block c \<noteq> None))"
  by (cases "cp_status c") auto

lemma checkpoint_parts:
  assumes "distinct (map cp_id (md_checkpoints d))" and "\<forall>v |\<in>| md_oracle_ids d. \<not> blank v"
    and "i < length (md_checkpoints d)"
  shows "checkpoint_is_valid X d (md_checkpoints d ! i) (fset_of_list (map cp_id (take i (md_checkpoints d)))) \<longleftrightarrow>
    well_formed_checkpoint X d i"
proof -
  define c where "c = md_checkpoints d ! i"
  have "cp_id (md_checkpoints d ! j) \<noteq> cp_id c" if "j < i" for j
    using nth_eq_iff_index_eq [OF assms(1), of j i] that assms(3) by (simp add: c_def)
  then have depends: "cp_id c |\<notin>| cp_depends_on c" if "\<forall>p |\<in>| cp_depends_on c. \<exists>j < i. cp_id (md_checkpoints d ! j) = p"
    using that by blast
  have routes: "(\<forall>r. cp_route c = Some r \<longrightarrow> well_formed_route d r) \<longleftrightarrow>
    \<not> is_some_and (\<lambda>route. is_err (route_validate route) \<or> rt_capability_id route |\<notin>| md_capability_ids d
      \<or> \<not> (\<forall>oracle |\<in>| rt_oracle_ids route. oracle |\<in>| md_oracle_ids d)) (cp_route c)"
    unfolding is_some_and_iff route_parts [OF assms(2)] by blast
  have completions: "(\<forall>k. cp_completion c = Some k \<longrightarrow> completion_is_valid X d c k) \<longleftrightarrow>
      (\<forall>k. cp_completion c = Some k \<longrightarrow> well_formed_completion X d c k)"
    if "\<forall>r. cp_route c = Some r \<longrightarrow> well_formed_route d r"
    by (simp add: completion_parts [OF that])
  show ?thesis
    unfolding checkpoint_is_valid_def well_formed_checkpoint_def Let_def c_def [symmetric] seen_ids [OF assms(3)]
      status_parts if_bool_eq_conj is_none_or_iff
    using routes depends completions by satx
qed

lemma set_map_filter_Some: "set (List.map_filter f xs) = {y. \<exists>x \<in> set xs. f x = Some y}"
  by (induction xs) (auto simp: List.map_filter_simps split: option.splits)

lemma routes_parts:
  assumes "\<forall>r \<in> routes_of d. well_formed_route d r" and "\<forall>c \<in> set (md_checkpoints d). cp_route c \<noteq> None"
    and "md_checkpoints d \<noteq> []"
  shows "routes_ok d \<longleftrightarrow> rt_capability_id ` routes_of d = fset (md_capability_ids d) \<and>
    ((\<forall>r \<in> routes_of d. rt_completion_policy r = None) \<or>
     (\<forall>r \<in> routes_of d. rt_completion_policy r \<noteq> None) \<and>
     (\<Union>r \<in> routes_of d. fset (rt_oracle_ids r)) = fset (md_oracle_ids d))"
proof -
  define routes where "routes = List.map_filter cp_route (md_checkpoints d)"
  have set: "set routes = routes_of d"
    by (simp add: routes_def routes_of_def set_map_filter_Some)
  have "routes_of d \<noteq> {}"
    using assms(2,3) by (cases "md_checkpoints d") (auto simp: routes_of_def)
  then have nonempty: "routes \<noteq> []"
    using set by auto
  have capabilities: "fset_of_list (map rt_capability_id routes) = md_capability_ids d \<longleftrightarrow>
      rt_capability_id ` routes_of d = fset (md_capability_ids d)"
    unfolding fset_inject [symmetric] fset_of_list.rep_eq set_map set ..
  have oracles: "ffUnion (rt_oracle_ids |`| fset_of_list routes) = md_oracle_ids d \<longleftrightarrow>
      (\<Union>r \<in> routes_of d. fset (rt_oracle_ids r)) = fset (md_oracle_ids d)"
    unfolding fset_inject [symmetric] ffUnion.rep_eq fimage.rep_eq fset_of_list.rep_eq set image_image ..
  have contracted: "\<forall>r \<in> routes_of d. is_contracted r \<longleftrightarrow> rt_completion_policy r \<noteq> None"
    using assms(1) contracted_route(1) by blast
  have "length (filter is_contracted routes) = 0 \<longleftrightarrow> (\<forall>r \<in> routes_of d. rt_completion_policy r = None)"
    "length (filter is_contracted routes) = length routes \<longleftrightarrow> (\<forall>r \<in> routes_of d. rt_completion_policy r \<noteq> None)"
    using contracted by (simp_all only: filter_length_all filter_length_none set) blast+
  then show ?thesis
    using nonempty unfolding routes_ok_def Let_def routes_def [symmetric] capabilities oracles by auto
qed

text \<open>
  C37: The validation of a definition is exact: it accepts precisely the definitions whose identity
  is complete and names nothing blank, whose checkpoint ids are distinct, which route all of
  their checkpoints or none, with routes whose capabilities are exactly those of the definition and
  which are all contracted, then covering exactly its oracles, or none; in which every
  checkpoint depends only on checkpoints before it, carries what its state requires and,
  when completed, a completion by the oracles of its route with evidence bound to it; and of which at
  most one is ready and at most one active. Every other definition gets the one error
  there is for it.
\<close>
theorem definition_validate_exact:
  "definition_validate X d =
     (if well_formed_definition X d then Ok () else Err InvalidMissionDefinition)"
proof -
  let ?cs = "md_checkpoints d"
  have checkpoints: "(\<forall>i < length ?cs. checkpoint_is_valid X d (?cs ! i) (fset_of_list (map cp_id (take i ?cs)))) \<longleftrightarrow>
      (\<forall>i < length ?cs. well_formed_checkpoint X d i)"
    if "distinct (map cp_id ?cs)" "\<forall>v |\<in>| md_oracle_ids d. \<not> blank v"
    using checkpoint_parts [OF that, of _ X] by simp
  have wf: "\<forall>r \<in> routes_of d. well_formed_route d r" if "\<forall>i < length ?cs. well_formed_checkpoint X d i"
    using that by (auto simp: routes_of_def well_formed_checkpoint_def Let_def in_set_conv_nth)
  have routes: "(\<forall>c \<in> set ?cs. cp_route c = None) \<or> (\<forall>c \<in> set ?cs. cp_route c \<noteq> None) \<and> routes_ok d \<longleftrightarrow>
      well_routed d" if "\<forall>i < length ?cs. well_formed_checkpoint X d i" "?cs \<noteq> []"
    using routes_parts [OF wf [OF that(1)] _ that(2)] unfolding well_routed_def by satx
  have names: "(\<forall>v |\<in>| md_capability_ids d |\<union>| md_required_artifact_types d |\<union>| md_oracle_ids d. \<not> blank v) \<longleftrightarrow>
      (\<forall>v |\<in>| md_capability_ids d. \<not> blank v) \<and> (\<forall>v |\<in>| md_required_artifact_types d. \<not> blank v) \<and>
      (\<forall>v |\<in>| md_oracle_ids d. \<not> blank v)"
    by auto
  have three: "(\<forall>V \<in> {A, B, C}. P V) \<longleftrightarrow> P A \<and> P B \<and> P C" for A B C :: "string fset" and P
    by simp
  have "checks_pass X d \<longleftrightarrow> well_formed_definition X d"
    unfolding checks_pass_def well_formed_definition_def names cp_is_active_def three
    using checkpoints routes by satx
  then show ?thesis
    by (simp only: definition_validate_eq)
qed

section \<open>Application evidence\<close>

lemma executor_round_trip: "executor_try_from (checkpoint_executor_name x) = Ok x"
  by (cases x) (simp_all add: executor_try_from_def)

lemma completion_policy_round_trip: "completion_policy_try_from (checkpoint_completion_policy_name x) = Ok x"
  by (cases x) (simp_all add: completion_policy_try_from_def)

lemma executor_name_inject: "checkpoint_executor_name x = checkpoint_executor_name y \<longleftrightarrow> x = y"
  by (metis executor_round_trip sum.inject(2))

lemma policy_name_inject: "checkpoint_completion_policy_name x = checkpoint_completion_policy_name y \<longleftrightarrow> x = y"
  by (metis completion_policy_round_trip sum.inject(2))

lemma dec_u32_inject: "dec_u32 m = dec_u32 n \<longleftrightarrow> m = n"
  by (simp add: dec_u32_def word_unat_eq_iff)

lemma length_sorted_list_of_fset: "length (sorted_list_of_fset A) = fcard A"
  by (simp add: sorted_list_of_fset.rep_eq fcard.rep_eq)

text \<open>A source starts with the number of its oracles, so that one source is read off unambiguously.\<close>

lemma source_fields_append:
  assumes "source_fields s @ xs = source_fields t @ ys"
  shows "s = t \<and> xs = ys"
proof -
  have parts: "os_source_kind s = os_source_kind t" "os_source_id s = os_source_id t"
    "os_source_revision s = os_source_revision t" "os_projection_digest s = os_projection_digest t"
    "fcard (os_oracle_ids s) = fcard (os_oracle_ids t)"
    "sorted_list_of_fset (os_oracle_ids s) @ xs = sorted_list_of_fset (os_oracle_ids t) @ ys"
    using assms by (simp_all add: source_fields_def)
  then have "sorted_list_of_fset (os_oracle_ids s) = sorted_list_of_fset (os_oracle_ids t) \<and> xs = ys"
    by (simp add: length_sorted_list_of_fset)
  with parts show ?thesis
    by (cases s; cases t) (simp add: sorted_list_of_fset_inject)
qed

lemma sources_append:
  assumes "concat (map source_fields ss) @ xs = concat (map source_fields ts) @ ys" and "length ss = length ts"
  shows "ss = ts \<and> xs = ys"
  using assms(2,1)
proof (induction rule: list_induct2)
  case (Cons s ss t ts)
  then show ?case
    using source_fields_append [of s "concat (map source_fields ss) @ xs" t "concat (map source_fields ts) @ ys"]
    by simp
qed simp

lemma evidence_fields_inject:
  assumes "evidence_fields X e = evidence_fields X e'" and "inj (rfc3339 X)"
  shows "e = e'"
proof -
  have n: "fcard (ae_sources e) = fcard (ae_sources e')"
    and rest: "concat (map source_fields (sorted_list_of_fset (ae_sources e))) @ [rfc3339 X (ae_observed_at e)] =
      concat (map source_fields (sorted_list_of_fset (ae_sources e'))) @ [rfc3339 X (ae_observed_at e')]"
    using assms(1) by (simp_all add: evidence_fields_def)
  have "sorted_list_of_fset (ae_sources e) = sorted_list_of_fset (ae_sources e') \<and>
      [rfc3339 X (ae_observed_at e)] = [rfc3339 X (ae_observed_at e')]"
    using sources_append [OF rest] n by (simp add: length_sorted_list_of_fset)
  then have "ae_sources e = ae_sources e'" "ae_observed_at e = ae_observed_at e'"
    using assms(2) by (simp_all add: sorted_list_of_fset_inject inj_eq)
  then show ?thesis
    using assms(1)
    by (cases e; cases e') (simp add: evidence_fields_def dec_u32_inject executor_name_inject policy_name_inject)
qed

text \<open>
  C38: A checkpoint completion is bound to one piece of evidence: two application proofs have the
  same digest only if they are equal in every field, the set of their sources and each source's
  set of oracles included, short of a SHA-256 collision between their two texts.
\<close>
theorem evidence_digest_binds:
  assumes "inj (rfc3339 X)"
    and "\<forall>v \<in> set (evidence_fields X e) \<union> set (evidence_fields X e'). length v < 2 ^ 64"
    and "inj_on (sha256 X) {hash_stream (evidence_fields X e), hash_stream (evidence_fields X e')}"
  shows "evidence_digest X e = evidence_digest X e' \<longleftrightarrow> e = e'"
proof
  assume "evidence_digest X e = evidence_digest X e'"
  then have "hash_stream (evidence_fields X e) = hash_stream (evidence_fields X e')"
    using assms(3) by (simp add: evidence_digest_def inj_on_eq_iff)
  then have "evidence_fields X e = evidence_fields X e'"
    using assms(2) by (intro hash_stream_inject) auto
  then show "e = e'"
    using evidence_fields_inject assms(1) by blast
qed simp

definition sample_source :: "string fset \<Rightarrow> mission_checkpoint_oracle_source" where
  "sample_source oracles = OracleSource ''m'' ''t'' 1 sample_digest oracles"

definition sample_proof :: "mission_checkpoint_oracle_source fset \<Rightarrow> mission_checkpoint_application_evidence" where
  "sample_proof sources = \<lparr>ae_schema_version = 1, ae_handler_id = ''h'', ae_tenant_id = ''t'', ae_project_id = ''p'',
     ae_mission_id = ''m1'', ae_manifest_id = ''m'', ae_manifest_version = 1, ae_catalog_digest = sample_digest,
     ae_cycle = 1, ae_checkpoint_id = ''c'', ae_dispatch_mission_revision = 1,
     ae_dispatch_checkpoint_revision = 1, ae_verification_mission_revision = 2,
     ae_verification_checkpoint_revision = 2, ae_capability_id = ''c'', ae_executor = ExApplication,
     ae_completion_policy = DeterministicEvidence, ae_sources = sources, ae_observed_at = 7\<rparr>"

theorem evidence_digest_binds_witness:
  "evidence_digest (sample_ext\<lparr>sha256 := (\<lambda>m. m)\<rparr>) (sample_proof {|sample_source {|''a''|}|}) \<noteq>
   evidence_digest (sample_ext\<lparr>sha256 := (\<lambda>m. m)\<rparr>) (sample_proof {|sample_source {|''b''|}|})"
proof -
  let ?X = "sample_ext\<lparr>sha256 := (\<lambda>m. m)\<rparr>"
  have small: "length (dec (Suc 0)) = 1" "length (dec 2) = 1" "length (dec_i64 7) = 1" "length sample_digest = 64"
    by (simp_all add: dec.simps dec_i64_def sample_digest_def)
  have "\<forall>v \<in> set (evidence_fields ?X (sample_proof {|sample_source {|x|}|})). length v < 2 ^ 64"
    if "x = ''a'' \<or> x = ''b''" for x
    using that by (auto simp: evidence_fields_def sample_proof_def source_fields_def sample_source_def
        dec_u32_def dec_u64_def small sample_ext_def fcard.rep_eq)
  moreover have "inj (rfc3339 ?X)"
    by (simp add: sample_ext_def inj_def)
  ultimately show ?thesis
    using evidence_digest_binds [of ?X "sample_proof {|sample_source {|''a''|}|}" "sample_proof {|sample_source {|''b''|}|}"]
    by (auto simp: sample_proof_def sample_source_def)
qed

end
