(* ===== verification/Conversation.thy ===== *)
theory Conversation
  imports Checkpoint Interfaces
begin

text \<open>
  \<open>domain-kernel/src/mission_conversation.rs\<close>: the conversation of a catalog mission with its owner.
  Messages are only ever appended, in sequence, and carry an idempotency key: a request that is
  sent again returns the message it appended the first time. An append works on the receiver and
  restores it when the result is not valid, so that a conversation is unchanged on every error.
\<close>

section \<open>Data\<close>

definition max_message_bytes :: nat where
  "max_message_bytes = 1048576"

definition max_idempotency_key_bytes :: nat where
  "max_idempotency_key_bytes = 512"

datatype mission_conversation_role = RoleUser | RoleAssistant | RoleSystem

datatype mission_conversation_message_kind =
    MsgGoal | MsgSteering | MsgCorrection | MsgClarification | MsgCheckpointConfirmation
  | MsgRuntimeDraft | MsgSystemNotice

record mission_conversation_message =
  cm_id :: string
  cm_sequence :: u64
  cm_role :: mission_conversation_role
  cm_kind :: mission_conversation_message_kind
  cm_body :: string
  cm_content_digest :: string
  cm_idempotency_key :: string
  cm_mission_revision :: u64
  cm_checkpoint_id :: "string option"
  cm_work_product_id :: "string option"
  cm_recorded_at :: time

record mission_conversation =
  mc_id :: string
  mc_tenant_id :: string
  mc_project_id :: string
  mc_mission_id :: string
  mc_messages :: "mission_conversation_message list"
  mc_revision :: u64
  mc_created_at :: time
  mc_updated_at :: time

datatype mission_conversation_error =
    InvalidConversation
  | InvalidMessage
  | MissionNotConversable
  | IdempotencyConflict
  | ConversationRevisionOverflow

section \<open>Validation\<close>

fun kind_matches_role :: "mission_conversation_role \<Rightarrow> mission_conversation_message_kind \<Rightarrow> bool" where
  "kind_matches_role RoleUser kind \<longleftrightarrow>
     kind \<in> {MsgGoal, MsgSteering, MsgCorrection, MsgClarification, MsgCheckpointConfirmation}"
| "kind_matches_role RoleAssistant kind \<longleftrightarrow> kind = MsgRuntimeDraft"
| "kind_matches_role RoleSystem kind \<longleftrightarrow> kind = MsgSystemNotice"

definition work_product_matches :: "mission \<Rightarrow> mission_conversation_message \<Rightarrow> bool" where
  "work_product_matches m msg =
     (case cm_work_product_id msg of
        Some wid \<Rightarrow> cm_role msg = RoleAssistant \<and> cm_kind msg = MsgRuntimeDraft
          \<and> list_ex (\<lambda>w. wp_id w = wid) (ms_work_products m)
      | None \<Rightarrow> cm_role msg \<in> {RoleUser, RoleSystem})"

definition checkpoint_matches :: "mission \<Rightarrow> string option \<Rightarrow> bool" where
  "checkpoint_matches m checkpoint_id =
     (case (checkpoint_id, ms_definition m) of
        (Some cid, Some d) \<Rightarrow> list_ex (\<lambda>c. cp_id c = cid) (md_checkpoints d)
      | (None, None) \<Rightarrow> True
      | _ \<Rightarrow> False)"

definition message_validate_for ::
  "'x ext_scheme \<Rightarrow> mission_conversation_message \<Rightarrow> mission \<Rightarrow> u64 \<Rightarrow> time \<Rightarrow> time
     \<Rightarrow> mission_conversation_error + unit" where
  "message_validate_for X msg m expected_sequence previous_at now =
     (if blank (cm_id msg)
         \<or> cm_sequence msg \<noteq> expected_sequence
         \<or> \<not> kind_matches_role (cm_role msg) (cm_kind msg)
         \<or> blank (cm_body msg)
         \<or> max_message_bytes < length (cm_body msg)
         \<or> cm_content_digest msg \<noteq> sha256 X (cm_body msg)
         \<or> blank (cm_idempotency_key msg)
         \<or> max_idempotency_key_bytes < length (cm_idempotency_key msg)
         \<or> cm_mission_revision msg = 0
         \<or> ms_revision m < cm_mission_revision msg
         \<or> \<not> checkpoint_matches m (cm_checkpoint_id msg)
         \<or> \<not> work_product_matches m msg
         \<or> cm_recorded_at msg < previous_at
         \<or> now < cm_recorded_at msg
      then Err InvalidMessage else Ok ())"

text \<open>The loop over the messages; it returns the time of the last one.\<close>

fun validate_messages ::
  "'x ext_scheme \<Rightarrow> mission \<Rightarrow> time \<Rightarrow> nat \<Rightarrow> string fset \<Rightarrow> string fset \<Rightarrow> time
     \<Rightarrow> mission_conversation_message list \<Rightarrow> mission_conversation_error + time" where
  "validate_messages X m now index ids keys previous_at [] = Ok previous_at"
| "validate_messages X m now index ids keys previous_at (msg # msgs) =
     and_then (ok_or ConversationRevisionOverflow
       (Option.bind (usize_to_u64 index) (\<lambda>value. checked_add value 1))) (\<lambda>sequence.
     and_then (message_validate_for X msg m sequence previous_at now) (\<lambda>_.
       if cm_id msg |\<in>| ids \<or> cm_idempotency_key msg |\<in>| keys then Err InvalidConversation
       else validate_messages X m now (Suc index) (finsert (cm_id msg) ids)
         (finsert (cm_idempotency_key msg) keys) (cm_recorded_at msg) msgs))"

definition conversation_validate_for ::
  "'x ext_scheme \<Rightarrow> mission_conversation \<Rightarrow> mission \<Rightarrow> time \<Rightarrow> mission_conversation_error + unit" where
  "conversation_validate_for X c m now =
     (if blank (mc_id c)
         \<or> mc_tenant_id c \<noteq> ms_tenant_id m
         \<or> mc_project_id c \<noteq> ms_project_id m
         \<or> mc_mission_id c \<noteq> ms_id m
         \<or> mc_messages c = []
         \<or> mc_revision c \<noteq> (case usize_to_u64 (length (mc_messages c)) of Some n \<Rightarrow> n | None \<Rightarrow> - 1)
         \<or> mc_created_at c < ms_created_at m
         \<or> mc_updated_at c < mc_created_at c
         \<or> now < mc_updated_at c
         \<or> is_none_or (\<lambda>msg. cm_role msg \<noteq> RoleUser \<or> cm_kind msg \<noteq> MsgGoal)
             (case mc_messages c of [] \<Rightarrow> None | msg # _ \<Rightarrow> Some msg)
      then Err InvalidConversation
      else and_then (validate_messages X m now 0 {||} {||} (mc_created_at c) (mc_messages c)) (\<lambda>last_at.
        if mc_updated_at c \<noteq> last_at then Err InvalidConversation else Ok ()))"

definition conversation_follows :: "mission_conversation \<Rightarrow> mission_conversation \<Rightarrow> bool" where
  "conversation_follows c previous \<longleftrightarrow>
     mc_id c = mc_id previous
     \<and> mc_tenant_id c = mc_tenant_id previous
     \<and> mc_project_id c = mc_project_id previous
     \<and> mc_mission_id c = mc_mission_id previous
     \<and> mc_created_at c = mc_created_at previous
     \<and> checked_add (mc_revision previous) 1 = Some (mc_revision c)
     \<and> length (mc_messages c) = length (mc_messages previous) + 1
     \<and> prefix (mc_messages previous) (mc_messages c)
     \<and> mc_updated_at previous \<le> mc_updated_at c"

section \<open>Operations\<close>

definition current_checkpoint_id :: "mission \<Rightarrow> string option" where
  "current_checkpoint_id m =
     Option.bind (Option.bind (ms_definition m) current_checkpoint) (\<lambda>c.
       if cp_status c \<noteq> CpSkipped \<and> cp_status c \<noteq> CpCompleted then Some (cp_id c) else None)"

definition conversation_start ::
  "'x ext_scheme \<Rightarrow> string \<Rightarrow> string \<Rightarrow> mission \<Rightarrow> string \<Rightarrow> string \<Rightarrow> time
     \<Rightarrow> mission_conversation_error + mission_conversation" where
  "conversation_start X cid message_id m goal idempotency_key now =
     (if ms_definition m = None \<or> now < ms_created_at m then Err MissionNotConversable
      else
        let body = trim goal;
            msg = \<lparr>cm_id = message_id, cm_sequence = 1, cm_role = RoleUser, cm_kind = MsgGoal,
              cm_body = body, cm_content_digest = sha256 X body,
              cm_idempotency_key = trim idempotency_key, cm_mission_revision = ms_revision m,
              cm_checkpoint_id = current_checkpoint_id m, cm_work_product_id = None,
              cm_recorded_at = now\<rparr>;
            c = \<lparr>mc_id = cid, mc_tenant_id = ms_tenant_id m, mc_project_id = ms_project_id m,
              mc_mission_id = ms_id m, mc_messages = [msg], mc_revision = 1, mc_created_at = now,
              mc_updated_at = now\<rparr>
        in and_then (conversation_validate_for X c m now) (\<lambda>_. Ok c))"

text \<open>
  The common end of the two appends. The source writes the receiver, validates it and puts the old
  value back if that fails.
\<close>

definition append_message ::
  "'x ext_scheme \<Rightarrow> mission_conversation_message \<Rightarrow> u64 \<Rightarrow> mission \<Rightarrow> time \<Rightarrow> mission_conversation
     \<Rightarrow> (mission_conversation_error + mission_conversation_message \<times> bool) \<times> mission_conversation" where
  "append_message X msg sequence m now c =
     attempt (message_validate_for X msg m sequence (mc_updated_at c) now) c (\<lambda>_.
     let c' = c\<lparr>mc_messages := mc_messages c @ [msg], mc_revision := sequence, mc_updated_at := now\<rparr> in
     if is_err (conversation_validate_for X c' m now) \<or> \<not> conversation_follows c' c
     then (Err InvalidConversation, c)
     else (Ok (msg, True), c'))"

definition with_key :: "string \<Rightarrow> mission_conversation \<Rightarrow> mission_conversation_message option" where
  "with_key key c = find (\<lambda>msg. cm_idempotency_key msg = key) (mc_messages c)"

definition confirmation_allowed :: "mission \<Rightarrow> bool" where
  "confirmation_allowed m \<longleftrightarrow>
     is_some_and (\<lambda>d. is_some_and (\<lambda>c. is_some_and (\<lambda>route.
         rt_executor route = ExHuman \<and> rt_completion_policy route = Some HumanConfirmation) (cp_route c))
       (current_checkpoint d)) (ms_definition m)"

definition append_user_message ::
  "'x ext_scheme \<Rightarrow> string \<Rightarrow> mission_conversation_message_kind \<Rightarrow> string \<Rightarrow> string \<Rightarrow> mission \<Rightarrow> time
     \<Rightarrow> mission_conversation
     \<Rightarrow> (mission_conversation_error + mission_conversation_message \<times> bool) \<times> mission_conversation" where
  "append_user_message X mid kind body idempotency_key m now c =
     attempt (conversation_validate_for X c m now) c (\<lambda>_.
     if ms_stage m \<notin> {StageRunning, StageBlocked, StageWaitingUser, StageWaitingApproval, StageScheduled,
          StageCycleReviewed}
        \<or> kind \<notin> {MsgSteering, MsgCorrection, MsgClarification, MsgCheckpointConfirmation}
     then (Err MissionNotConversable, c)
     else if kind = MsgCheckpointConfirmation \<and> \<not> confirmation_allowed m
     then (Err MissionNotConversable, c)
     else
       let body = trim body; key = trim idempotency_key in
       case with_key key c of
         Some existing \<Rightarrow>
           if cm_id existing = mid \<and> cm_role existing = RoleUser \<and> cm_kind existing = kind
              \<and> cm_body existing = body
           then (Ok (existing, False), c) else (Err IdempotencyConflict, c)
       | None \<Rightarrow>
           attempt (ok_or ConversationRevisionOverflow (checked_add (mc_revision c) 1)) c (\<lambda>sequence.
           append_message X
             \<lparr>cm_id = mid, cm_sequence = sequence, cm_role = RoleUser, cm_kind = kind, cm_body = body,
              cm_content_digest = sha256 X body, cm_idempotency_key = key,
              cm_mission_revision = ms_revision m, cm_checkpoint_id = current_checkpoint_id m,
              cm_work_product_id = None, cm_recorded_at = now\<rparr> sequence m now c))"

definition append_runtime_draft ::
  "'x ext_scheme \<Rightarrow> string \<Rightarrow> string \<Rightarrow> string \<Rightarrow> string \<Rightarrow> mission \<Rightarrow> time \<Rightarrow> mission_conversation
     \<Rightarrow> (mission_conversation_error + mission_conversation_message \<times> bool) \<times> mission_conversation" where
  "append_runtime_draft X mid body work_product_id idempotency_key m now c =
     attempt (conversation_validate_for X c m now) c (\<lambda>_.
     let body = trim body; key = trim idempotency_key in
     case with_key key c of
       Some existing \<Rightarrow>
         if cm_id existing = mid \<and> cm_kind existing = MsgRuntimeDraft \<and> cm_body existing = body
            \<and> cm_work_product_id existing = Some work_product_id
         then (Ok (existing, False), c) else (Err IdempotencyConflict, c)
     | None \<Rightarrow>
         attempt (ok_or ConversationRevisionOverflow (checked_add (mc_revision c) 1)) c (\<lambda>sequence.
         append_message X
           \<lparr>cm_id = mid, cm_sequence = sequence, cm_role = RoleAssistant, cm_kind = MsgRuntimeDraft,
            cm_body = body, cm_content_digest = sha256 X body, cm_idempotency_key = key,
            cm_mission_revision = ms_revision m, cm_checkpoint_id = current_checkpoint_id m,
            cm_work_product_id = Some work_product_id, cm_recorded_at = now\<rparr> sequence m now c))"

section \<open>Append-only histories\<close>

datatype conversation_call =
    AppendUser string mission_conversation_message_kind string string mission time
  | AppendDraft string string string string mission time

fun converse ::
  "'x ext_scheme \<Rightarrow> conversation_call \<Rightarrow> mission_conversation
     \<Rightarrow> (mission_conversation_error + mission_conversation_message \<times> bool) \<times> mission_conversation" where
  "converse X (AppendUser mid kind body key m now) c = append_user_message X mid kind body key m now c"
| "converse X (AppendDraft mid body wid key m now) c = append_runtime_draft X mid body wid key m now c"

fun call_key :: "conversation_call \<Rightarrow> string" where
  "call_key (AppendUser mid kind body key m now) = trim key"
| "call_key (AppendDraft mid body wid key m now) = trim key"

definition conversation_next :: "'x ext_scheme \<Rightarrow> mission_conversation \<Rightarrow> mission_conversation \<Rightarrow> bool" where
  "conversation_next X c c' \<longleftrightarrow> (\<exists>call. c' = snd (converse X call c))"

lemma append_message_cases:
  assumes "append_message X msg sequence m now c = (r, c')"
  shows "(\<exists>e. r = Err e \<and> c' = c) \<or>
    (r = Ok (msg, True) \<and> mc_messages c' = mc_messages c @ [msg] \<and> conversation_follows c' c \<and>
     conversation_validate_for X c' m now = Ok ())"
proof (cases "message_validate_for X msg m sequence (mc_updated_at c) now")
  case (Inl e)
  then show ?thesis
    using assms by (auto simp: append_message_def)
next
  case (Inr u)
  then show ?thesis
    using assms by (auto simp: append_message_def Let_def is_ok_iff split: if_splits)
qed

text \<open>What a call can do: fail, find the message with its key, or append one.\<close>

lemma converse_results:
  assumes "converse X call c = (r, c')"
  shows "(\<exists>e. r = Err e \<and> c' = c) \<or>
    (\<exists>msg. r = Ok (msg, False) \<and> c' = c \<and> with_key (call_key call) c = Some msg) \<or>
    (\<exists>msg. r = Ok (msg, True) \<and> mc_messages c' = mc_messages c @ [msg] \<and> conversation_follows c' c \<and>
       cm_idempotency_key msg = call_key call \<and> with_key (call_key call) c = None \<and>
       (\<exists>m now. conversation_validate_for X c' m now = Ok ()))"
proof (cases call)
  case (AppendUser mid kind body key m now)
  show ?thesis
  proof (cases "with_key (trim key) c")
    case None
    then show ?thesis
      using assms AppendUser
      by (cases "checked_add (mc_revision c) 1"; cases "conversation_validate_for X c m now")
        (auto simp: append_user_message_def Let_def split: if_splits dest!: append_message_cases)
  next
    case (Some msg)
    then show ?thesis
      using assms AppendUser
      by (cases "conversation_validate_for X c m now")
        (auto simp: append_user_message_def Let_def split: if_splits)
  qed
next
  case (AppendDraft mid body wid key m now)
  show ?thesis
  proof (cases "with_key (trim key) c")
    case None
    then show ?thesis
      using assms AppendDraft
      by (cases "checked_add (mc_revision c) 1"; cases "conversation_validate_for X c m now")
        (auto simp: append_runtime_draft_def Let_def dest!: append_message_cases)
  next
    case (Some msg)
    then show ?thesis
      using assms AppendDraft
      by (cases "conversation_validate_for X c m now")
        (auto simp: append_runtime_draft_def Let_def split: if_splits)
  qed
qed

lemma converse_cases:
  assumes "converse X call c = (r, c')"
  obtains (failed) e where "r = Err e" "c' = c"
  | (found) msg where "r = Ok (msg, False)" "c' = c" "with_key (call_key call) c = Some msg"
  | (appended) msg where "r = Ok (msg, True)" "mc_messages c' = mc_messages c @ [msg]" "conversation_follows c' c"
    "cm_idempotency_key msg = call_key call" "with_key (call_key call) c = None"
    "\<exists>m now. conversation_validate_for X c' m now = Ok ()"
  using converse_results [OF assms] that by blast

lemma with_key_append: "with_key key c = Some msg \<Longrightarrow> mc_messages c' = mc_messages c @ [new] \<Longrightarrow> with_key key c' = Some msg"
  by (auto simp: with_key_def find_append)

lemma conversation_next_cases:
  assumes "conversation_next X c c'"
  obtains (same) "c' = c"
  | (longer) msg m now where "mc_messages c' = mc_messages c @ [msg]" "conversation_follows c' c"
    "conversation_validate_for X c' m now = Ok ()"
proof -
  obtain call where "c' = snd (converse X call c)"
    using assms by (auto simp: conversation_next_def)
  then have "converse X call c = (fst (converse X call c), c')"
    by simp
  then show thesis
    by (cases rule: converse_cases) (use that in auto)
qed

interpretation history: stable "conversation_next X"
    "\<lambda>c. with_key key c = Some msg \<and> prefix base (mc_messages c)"
  for X :: "'x ext_scheme" and key msg base
proof unfold_locales
  fix c c'
  assume "conversation_next X c c'" and kept: "with_key key c = Some msg \<and> prefix base (mc_messages c)"
  from this(1) show "with_key key c' = Some msg \<and> prefix base (mc_messages c')"
  proof (cases rule: conversation_next_cases)
    case same
    then show ?thesis
      using kept by simp
  next
    case (longer new)
    then show ?thesis
      using kept with_key_append [of key c msg c' new] by simp
  qed
qed

lemma converse_key:
  assumes "converse X call c = (Ok (msg, new), c')"
  shows "with_key (call_key call) c' = Some msg"
  using assms
proof (cases rule: converse_cases)
  case (appended msg')
  then show ?thesis
    by (simp add: with_key_def find_append)
qed simp_all

section \<open>Well-told conversations\<close>

text \<open>
  What the validation of an aggregate establishes whatever the mission: the messages are numbered
  from one without gaps, in the order of their times, the revision counts them, no identity and no
  idempotency key occurs twice, every digest is that of its body, and the first message is the goal.
\<close>

definition well_told :: "'x ext_scheme \<Rightarrow> mission_conversation \<Rightarrow> bool" where
  "well_told X c \<longleftrightarrow>
     map (unat \<circ> cm_sequence) (mc_messages c) = [1 ..< Suc (length (mc_messages c))]
     \<and> unat (mc_revision c) = length (mc_messages c)
     \<and> distinct (map cm_id (mc_messages c))
     \<and> distinct (map cm_idempotency_key (mc_messages c))
     \<and> sorted (map cm_recorded_at (mc_messages c))
     \<and> list_all (\<lambda>msg. cm_content_digest msg = sha256 X (cm_body msg)) (mc_messages c)
     \<and> (\<exists>goal rest. mc_messages c = goal # rest \<and> cm_role goal = RoleUser \<and> cm_kind goal = MsgGoal)"

lemma message_validates:
  assumes "message_validate_for X msg m sequence previous_at now = Ok u"
  shows "cm_sequence msg = sequence" "cm_content_digest msg = sha256 X (cm_body msg)" "previous_at \<le> cm_recorded_at msg"
  using assms by (auto simp: message_validate_for_def split: if_splits)

lemma index_sequence:
  assumes "Option.bind (usize_to_u64 index) (\<lambda>value. checked_add value 1) = Some sequence"
  shows "unat sequence = Suc index"
proof -
  obtain i where "usize_to_u64 index = Some i" "checked_add i 1 = Some sequence"
    using assms by (auto simp: bind_eq_Some_conv)
  then show ?thesis
    using usize_to_u64_SomeD checked_add_SomeD(1) by fastforce
qed

lemma validate_messages_told:
  assumes "validate_messages X m now index ids keys previous_at msgs = Ok last_at"
  shows "map (unat \<circ> cm_sequence) msgs = [Suc index ..< Suc index + length msgs]
    \<and> distinct (map cm_id msgs) \<and> set (map cm_id msgs) \<inter> fset ids = {}
    \<and> distinct (map cm_idempotency_key msgs) \<and> set (map cm_idempotency_key msgs) \<inter> fset keys = {}
    \<and> sorted (previous_at # map cm_recorded_at msgs)
    \<and> list_all (\<lambda>msg. cm_content_digest msg = sha256 X (cm_body msg)) msgs"
  using assms
proof (induction msgs arbitrary: index ids keys previous_at)
  case (Cons msg msgs)
  obtain sequence where seq: "Option.bind (usize_to_u64 index) (\<lambda>value. checked_add value 1) = Some sequence"
    and valid: "message_validate_for X msg m sequence previous_at now = Ok ()"
    and fresh: "cm_id msg |\<notin>| ids" "cm_idempotency_key msg |\<notin>| keys"
    and rest: "validate_messages X m now (Suc index) (finsert (cm_id msg) ids)
      (finsert (cm_idempotency_key msg) keys) (cm_recorded_at msg) msgs = Ok last_at"
    using Cons.prems by (auto split: if_splits)
  have "unat (cm_sequence msg) = Suc index"
    using index_sequence [OF seq] message_validates(1) [OF valid] by simp
  then show ?case
    using Cons.IH [OF rest] fresh message_validates(2,3) [OF valid] by (auto simp: upt_rec)
qed simp

lemma validated_is_told:
  assumes "conversation_validate_for X c m now = Ok ()"
  shows "well_told X c"
proof -
  obtain last_at where "validate_messages X m now 0 {||} {||} (mc_created_at c) (mc_messages c) = Ok last_at"
    and revision: "mc_revision c = (case usize_to_u64 (length (mc_messages c)) of Some n \<Rightarrow> n | None \<Rightarrow> - 1)"
    and goal: "\<exists>goal rest. mc_messages c = goal # rest \<and> cm_role goal = RoleUser \<and> cm_kind goal = MsgGoal"
    using assms by (auto simp: conversation_validate_for_def is_none_or_def neq_Nil_conv split: if_splits)
  note told = validate_messages_told [OF this(1)]
  have "length (mc_messages c) < 2 ^ 64"
  proof -
    have "length (mc_messages c) \<in> set (map (unat \<circ> cm_sequence) (mc_messages c))"
      using told goal by auto
    then show ?thesis
      using unsigned_less [where ?'b = 64 and ?'a = nat] by auto
  qed
  then have "unat (mc_revision c) = length (mc_messages c)"
    using revision by (simp add: usize_to_u64_def unat_of_nat)
  then show ?thesis
    using told goal by (simp add: well_told_def)
qed

interpretation telling: stable "conversation_next X" "\<lambda>c. well_told X c \<and> prefix base (mc_messages c)"
  for X :: "'x ext_scheme" and base
proof unfold_locales
  fix c c'
  assume "conversation_next X c c'" and kept: "well_told X c \<and> prefix base (mc_messages c)"
  from this(1) show "well_told X c' \<and> prefix base (mc_messages c')"
  proof (cases rule: conversation_next_cases)
    case (longer msg m now)
    then show ?thesis
      using kept validated_is_told by simp
  qed (use kept in simp)
qed

text \<open>
  C12: A message is appended once: when a request has succeeded, every later request with the same
  idempotency key that succeeds, whatever was said in between, returns that very message, appends
  nothing and leaves the conversation as it is; and nothing that was in the conversation is ever
  removed, changed or moved.
\<close>
theorem conversation_message_once:
  assumes "converse X call c = (Ok (msg, new), c')" and "(conversation_next X)\<^sup>*\<^sup>* c' c2"
    and "converse X call' c2 = (Ok (msg', new'), c3)" and "call_key call' = call_key call"
  shows "msg' = msg \<and> \<not> new' \<and> c3 = c2 \<and> prefix (mc_messages c') (mc_messages c2)"
proof -
  have "with_key (call_key call) c2 = Some msg \<and> prefix (mc_messages c') (mc_messages c2)"
    using history.run_keeps [OF assms(2), of "call_key call" msg "mc_messages c'"] converse_key [OF assms(1)]
    by simp
  note kept = this
  from assms(3) show ?thesis
    by (cases rule: converse_cases) (use kept assms(4) in auto)
qed

text \<open>
  C13: A conversation is started with a goal and then only grows: after any appends, on whatever
  missions and at whatever times, its messages still begin with that goal, are numbered from one
  without gaps in the order of their times, have distinct identities and idempotency keys and the
  digests of their bodies, and the revision is their number.
\<close>
theorem conversation_well_told:
  assumes "conversation_start X cid mid m goal key now = Ok c0" and "(conversation_next X)\<^sup>*\<^sup>* c0 c"
  shows "well_told X c \<and> prefix (mc_messages c0) (mc_messages c) \<and> cm_body (hd (mc_messages c)) = trim goal"
proof -
  have c0: "conversation_validate_for X c0 m now = Ok ()" "\<exists>msg. mc_messages c0 = [msg] \<and> cm_body msg = trim goal"
    using assms(1) by (auto simp: conversation_start_def Let_def split: if_splits)
  then have "well_told X c \<and> prefix (mc_messages c0) (mc_messages c)"
    using telling.run_keeps [OF assms(2)] validated_is_told by blast
  then show ?thesis
    using c0(2) by (auto simp: prefix_def)
qed

section \<open>A sample conversation\<close>

definition sample_line :: mission_definition where
  "sample_line = \<lparr>md_manifest_id = ''m'', md_manifest_version = 1, md_catalog_digest = sample_digest,
     md_operating_mode = ContinuousOperator, md_capability_ids = {|''c''|},
     md_required_artifact_types = {|''a''|}, md_oracle_ids = {|''g''|},
     md_checkpoints = chain_checkpoints None [(''p'', None), (''s'', None)], md_cycle = 1\<rparr>"

definition sample_talk :: mission where
  "sample_talk = sample_mission\<lparr>ms_stage := StageRunning, ms_definition := Some sample_line\<rparr>"

definition sample_message :: "string \<Rightarrow> mission_conversation_message_kind \<Rightarrow> u64 \<Rightarrow> mission_conversation_message" where
  "sample_message i kind n =
     \<lparr>cm_id = i, cm_sequence = n, cm_role = RoleUser, cm_kind = kind, cm_body = ''b'',
      cm_content_digest = replicate 64 (CHR ''0''), cm_idempotency_key = i, cm_mission_revision = 7,
      cm_checkpoint_id = Some ''p'', cm_work_product_id = None, cm_recorded_at = seconds 4000\<rparr>"

definition sample_conversation :: "mission_conversation_message list \<Rightarrow> u64 \<Rightarrow> mission_conversation" where
  "sample_conversation msgs n =
     \<lparr>mc_id = ''v'', mc_tenant_id = ''t'', mc_project_id = ''p'', mc_mission_id = ''m1'', mc_messages = msgs,
      mc_revision = n, mc_created_at = seconds 4000, mc_updated_at = seconds 4000\<rparr>"

definition talk_1 :: mission_conversation where
  "talk_1 = sample_conversation [sample_message ''g'' MsgGoal 1] 1"

definition talk_2 :: mission_conversation where
  "talk_2 = sample_conversation [sample_message ''g'' MsgGoal 1, sample_message ''s'' MsgSteering 2] 2"

lemma sample_talk_texts:
  "\<not> blank ''g''" "\<not> blank ''s''" "\<not> blank ''b''" "\<not> blank ''v''"
  "trim ''g'' = ''g''" "trim ''b'' = ''b''" "trim ''s'' = ''s''"
  by code_simp+

lemma sample_talk_simps:
  "ms_definition sample_talk = Some sample_line" "ms_stage sample_talk = StageRunning"
  "ms_revision sample_talk = 7" "ms_tenant_id sample_talk = ''t''" "ms_project_id sample_talk = ''p''"
  "ms_id sample_talk = ''m1''" "ms_created_at sample_talk = 0" "\<not> seconds 4000 < (0 :: time)"
  "current_checkpoint_id sample_talk = Some ''p''" "checkpoint_matches sample_talk (Some ''p'')"
  "sha256 sample_ext b = replicate 64 (CHR ''0'')"
  by (simp_all add: sample_talk_def sample_mission_def sample_line_def current_checkpoint_id_def
      current_checkpoint_def active_checkpoint_def cp_is_active_def checkpoint_matches_def sample_ext_def
      seconds_def nanos_per_second_def)

lemma sample_message_valid:
  assumes "\<not> blank i" "length i = 1" "kind \<in> {MsgGoal, MsgSteering}"
  shows "message_validate_for sample_ext (sample_message i kind n) sample_talk n (seconds 4000) (seconds 4000) = Ok ()"
  using assms
  by (auto simp: message_validate_for_def sample_message_def sample_talk_simps sample_talk_texts
      max_message_bytes_def max_idempotency_key_bytes_def work_product_matches_def)

lemma talk_valid:
  "conversation_validate_for sample_ext talk_1 sample_talk (seconds 4000) = Ok ()"
  "conversation_validate_for sample_ext talk_2 sample_talk (seconds 4000) = Ok ()"
proof -
  have "cm_id (sample_message i k n) = i" "cm_idempotency_key (sample_message i k n) = i"
    "cm_recorded_at (sample_message i k n) = seconds 4000" "cm_role (sample_message i k n) = RoleUser"
    "cm_kind (sample_message i k n) = k" for i k n
    by (simp_all add: sample_message_def)
  note [simp] = this sample_message_valid sample_talk_simps sample_talk_texts
  show "conversation_validate_for sample_ext talk_1 sample_talk (seconds 4000) = Ok ()"
    "conversation_validate_for sample_ext talk_2 sample_talk (seconds 4000) = Ok ()"
    by (simp_all add: conversation_validate_for_def talk_1_def talk_2_def sample_conversation_def
        usize_to_u64_def checked_add_def is_none_or_def)
qed

lemma talk_start: "conversation_start sample_ext ''v'' ''g'' sample_talk ''b'' ''g'' (seconds 4000) = Ok talk_1"
proof -
  have "talk_1 = \<lparr>mc_id = ''v'', mc_tenant_id = ''t'', mc_project_id = ''p'', mc_mission_id = ''m1'',
    mc_messages = [sample_message ''g'' MsgGoal 1], mc_revision = 1, mc_created_at = seconds 4000,
    mc_updated_at = seconds 4000\<rparr>"
    by (simp add: talk_1_def sample_conversation_def)
  then show ?thesis
    using talk_valid(1)
    by (simp add: conversation_start_def sample_talk_simps sample_talk_texts sample_message_def Let_def not_less)
qed

lemma talk_append:
  "append_user_message sample_ext ''s'' MsgSteering ''b'' ''s'' sample_talk (seconds 4000) talk_1 =
     (Ok (sample_message ''s'' MsgSteering 2, True), talk_2)"
  "append_user_message sample_ext ''s'' MsgSteering ''b'' ''s'' sample_talk (seconds 4000) talk_2 =
     (Ok (sample_message ''s'' MsgSteering 2, False), talk_2)"
proof -
  have key: "with_key ''s'' talk_1 = None" "with_key ''s'' talk_2 = Some (sample_message ''s'' MsgSteering 2)"
    by (simp_all add: with_key_def talk_1_def talk_2_def sample_conversation_def sample_message_def)
  have step: "talk_1\<lparr>mc_messages := mc_messages talk_1 @ [sample_message ''s'' MsgSteering 2], mc_revision := 2,
      mc_updated_at := seconds 4000\<rparr> = talk_2" "mc_updated_at talk_1 = seconds 4000" "mc_revision talk_1 = 1"
    by (simp_all add: talk_1_def talk_2_def sample_conversation_def)
  have "conversation_follows talk_2 talk_1"
    by (simp add: conversation_follows_def talk_1_def talk_2_def sample_conversation_def checked_add_def)
  then have "append_message sample_ext (sample_message ''s'' MsgSteering 2) 2 sample_talk (seconds 4000) talk_1 =
      (Ok (sample_message ''s'' MsgSteering 2, True), talk_2)"
    using step by (simp add: append_message_def sample_message_valid sample_talk_texts talk_valid Let_def)
  then show "append_user_message sample_ext ''s'' MsgSteering ''b'' ''s'' sample_talk (seconds 4000) talk_1 =
      (Ok (sample_message ''s'' MsgSteering 2, True), talk_2)"
    by (simp add: append_user_message_def talk_valid sample_talk_simps sample_talk_texts key step
        checked_add_def sample_message_def Let_def)
  show "append_user_message sample_ext ''s'' MsgSteering ''b'' ''s'' sample_talk (seconds 4000) talk_2 =
      (Ok (sample_message ''s'' MsgSteering 2, False), talk_2)"
    by (simp add: append_user_message_def talk_valid sample_talk_simps sample_talk_texts key
        sample_message_def Let_def)
qed

theorem conversation_message_once_witness:
  "append_user_message sample_ext ''s'' MsgSteering ''b'' ''s'' sample_talk (seconds 4000) talk_1 =
     (Ok (sample_message ''s'' MsgSteering 2, True), talk_2) \<and>
   fst (append_user_message sample_ext ''s'' MsgSteering ''b'' ''s'' sample_talk (seconds 4000) talk_2) =
     Ok (sample_message ''s'' MsgSteering 2, False) \<and> prefix (mc_messages talk_2) (mc_messages talk_2)"
  using conversation_message_once [of sample_ext "AppendUser ''s'' MsgSteering ''b'' ''s'' sample_talk (seconds 4000)"
      talk_1 "sample_message ''s'' MsgSteering 2" True talk_2 talk_2
      "AppendUser ''s'' MsgSteering ''b'' ''s'' sample_talk (seconds 4000)"] talk_append
  by simp

theorem conversation_well_told_witness:
  "conversation_start sample_ext ''v'' ''g'' sample_talk ''b'' ''g'' (seconds 4000) = Ok talk_1 \<and>
   (conversation_next sample_ext)\<^sup>*\<^sup>* talk_1 talk_2 \<and> well_told sample_ext talk_2 \<and>
   prefix (mc_messages talk_1) (mc_messages talk_2) \<and> cm_body (hd (mc_messages talk_2)) = ''b''"
proof -
  have "talk_2 = snd (converse sample_ext (AppendUser ''s'' MsgSteering ''b'' ''s'' sample_talk (seconds 4000)) talk_1)"
    by (simp add: talk_append)
  then have "conversation_next sample_ext talk_1 talk_2"
    unfolding conversation_next_def by (rule exI)
  then show ?thesis
    using conversation_well_told [OF talk_start, of talk_2] talk_start sample_talk_texts by auto
qed

section \<open>Missions between two cycles\<close>

text \<open>
  A message must name a checkpoint of the definition, and it names the current one: while a catalog
  mission has no current checkpoint, as in every stage that follows an outcome, nothing can be said.
\<close>

lemma append_needs_checkpoint:
  assumes "ms_definition m = Some d" and "cm_checkpoint_id msg = None"
  shows "append_message X msg sequence m now c = (Err InvalidMessage, c)"
proof -
  have "\<not> checkpoint_matches m (cm_checkpoint_id msg)"
    using assms by (simp add: checkpoint_matches_def)
  then show ?thesis
    by (simp add: append_message_def message_validate_for_def)
qed

lemma nothing_said_between_cycles:
  assumes "ms_definition m = Some d" and "list_all (\<lambda>c. cp_is_terminal (cp_status c)) (md_checkpoints d)"
  shows "fst (append_user_message X mid kind body key m now c) \<noteq> Ok (msg, True)"
proof -
  have "find (\<lambda>c. cp_is_active (cp_status c)) (md_checkpoints d) = None"
    "find (\<lambda>c. cp_status c = CpReady) (md_checkpoints d) = None"
    using assms(2) by (auto simp: find_None_iff list_all_iff cp_is_terminal_def cp_is_active_def)
  then have "current_checkpoint_id m = None"
    using assms(1) by (simp add: current_checkpoint_id_def current_checkpoint_def active_checkpoint_def)
  then show ?thesis
    by (cases "conversation_validate_for X c m now"; cases "with_key (trim key) c";
        cases "checked_add (mc_revision c) 1")
      (simp_all add: append_user_message_def append_needs_checkpoint [OF assms(1)] Let_def)
qed

end
