(* ===== verification/Spec2Isabelle.thy ===== *)
theory Spec2Isabelle
  imports Project Work_Product Schedule_Store Schedule_Retry Scheduler_Props Loop_Props Mission_Props Checkpoint_Order Checkpoint_Props
    Conversation
begin

text \<open>
  Verification of the mission core of the desktop operator: the domain kernel
  (\<open>src/hartevo-rs/domain-kernel/src\<close>), the tables that persist missions and schedules
  (\<open>src/hartevo-rs/storage/src\<close>), and the application services that run missions on them
  (\<open>src/hartevo-rs/application/src/lib.rs\<close>).

  \<^bold>\<open>The program.\<close> A \<^emph>\<open>project\<close> owns \<^emph>\<open>missions\<close>. A mission is compiled from an \<^emph>\<open>operating contract\<close>
  (\<open>mission.rs\<close>, \<open>OperatingContract\<close>) and, for catalog missions, from a \<^emph>\<open>definition\<close> with a graph of
  checkpoints. Its commands record evidence and work products, move checkpoints, and take
  \<^emph>\<open>effects\<close> on the outside world through proposal, approval, dispatch, receipt and verification.
  An outcome ends a cycle; if the contract has a cadence the mission waits, and a
  \<^emph>\<open>schedule\<close> (\<open>mission_schedule.rs\<close>) is the only authority to start its next cycle. Schedules
  are claimed under expiring leases by workers that race for them. The \<^emph>\<open>mission loop\<close>
  (\<open>mission_loop/\<close>) coordinates several agents on the todos of one workspace. The store changes a
  record only on the revision it was read at, and a mission and its schedule in one transaction;
  the services of the application crate load records, run kernel commands and commit the results.

  \<^bold>\<open>Conventions of the model.\<close> \<open>Result<T, E>\<close> is \<open>'e + 'a\<close> with \<open>Err\<close> and \<open>Ok\<close>; \<open>r?\<close> is
  \<open>and_then\<close>. A method with \<open>&mut self\<close> returns its result and the receiver it leaves behind, also
  when it fails (\<open>attempt\<close>, \<open>then_with\<close>), so that writes made before an early return are visible. A
  panic is an error value. \<open>u64\<close>, \<open>u32\<close> are words with checked or saturating addition as written in
  the source; \<open>i64\<close> is \<open>int\<close> with explicit range checks. Instants and durations are integer
  nanoseconds. Strings are byte lists, \<open>BTreeMap\<close> and \<open>BTreeSet\<close> are finite maps and sets
  iterated in key order. Structs are records, enums are datatypes with the constructors of the
  source. What the sources call but do not contain is a field of a record of parameters: SHA-256,
  the timestamp text, checked date arithmetic and the range of durations (\<open>ext\<close>), the JSON names
  hashed into an approval (\<open>effect_ext\<close>), the JSON encoders of the loop (\<open>loop_ext\<close>), and the
  constraints of the SQL schema on child rows (\<open>store_ext\<close>). What is relied upon is stated as
  named hypotheses: \<open>chrono_exact\<close>, \<open>chrono_total\<close>, \<open>sha256_hex\<close>, \<open>json_names\<close>; each is
  instantiated by a concrete function in the witnesses. Of SHA-256 the two digest properties assume
  that the two texts at hand do not collide, and nothing more.

  \<^bold>\<open>Theories and what they model.\<close>
  \<^item> \<open>Prelude\<close>, \<open>Rust_Text\<close>, \<open>Rust_Collections\<close>: results, checked arithmetic, the text and collection
    functions of the standard library, the external parameters. \<open>Interfaces\<close>: the locales
    \<open>versioned\<close>, \<open>revisioned\<close>, \<open>revisioned_clock\<close> and \<open>stable\<close> (an invariant of a step relation),
    interpreted on every aggregate below.
  \<^item> \<open>Money\<close> (\<open>money.rs\<close>), \<open>Project\<close> (\<open>project.rs\<close>), \<open>Contract\<close> (contracts and cadences of
    \<open>mission.rs\<close>), \<open>Mission_Types\<close> (its data), \<open>Work_Product\<close> (\<open>impl WorkProduct\<close>), \<open>Approval\<close>
    (\<open>Effect::approval_digest\<close> and the scope checks), \<open>Checkpoint\<close> (\<open>impl MissionDefinition\<close>),
    \<open>Mission_Terminal\<close> (typed terminals of catalog missions, and the records of \<open>outcome.rs\<close> they
    are bound to), \<open>Mission\<close> (every command of \<open>impl Mission\<close>), \<open>Conversation\<close>
    (\<open>mission_conversation.rs\<close>).
  \<^item> \<open>Schedule\<close> (\<open>mission_schedule.rs\<close>), \<open>Loop_Types\<close>, \<open>Loop_Decision\<close>, \<open>Loop_Transition\<close> (\<open>mod.rs\<close>,
    \<open>decision.rs\<close> and \<open>transition.rs\<close> of the mission loop).
  \<^item> \<open>Schedule_Store\<close> and \<open>Mission_Store\<close> (\<open>mission_schedule_store.rs\<close>, \<open>normalized.rs\<close>,
    \<open>aggregate.rs\<close>, \<open>load_mission\<close>): the tables as finite maps, the event and outbox tables as lists,
    a transaction as a function that returns the new store or an error. SELECT ... ORDER BY is a
    stable sort of the rows that pass the WHERE clause.
  \<^item> \<open>Scheduler\<close>, \<open>Checkpoint_Service\<close> (\<open>application/src/lib.rs\<close>): \<open>record_outcome\<close>, \<open>signal_\<close>,
    \<open>claim_due_\<close>, \<open>heartbeat_mission_schedule\<close>, \<open>start_claimed_mission_cycle\<close>,
    \<open>record_mission_schedule_failure\<close>, \<open>reconcile_mission_schedules_on_startup\<close>,
    \<open>run_due_mission_scheduler_once\<close>, and \<open>begin_\<close>, \<open>begin_..._verification\<close> and
    \<open>complete_mission_checkpoint\<close>. A service returns its result and the store it leaves.

  \<^bold>\<open>What is shown.\<close>
  \<^item> Effects: \<open>Effect_Spec\<close> is the life of one effect as a step relation; \<open>Mission_Frame\<close>
    and \<open>Mission_Refine\<close> show that every command, succeeding or failing, implements it. Hence
    no effect executes without a matching unexpired approval, none is dispatched twice,
    content and decision never change, and an approval covers exactly one content.
  \<^item> Missions (\<open>Mission_Run\<close>, \<open>Mission_Props\<close>, \<open>Checkpoint_Order\<close>, \<open>Checkpoint_Props\<close>): revisions
    identify states, outcomes are append-only, records stay consistent, terminal
    missions take no new work, checkpoints are worked off in order, the
    validation loop of definitions is exact, application evidence is bound by its digest.
  \<^item> Conversations: a message is appended once per idempotency key and never removed, changed or
    moved; the messages stay numbered, in the order of their times, and distinct.
  \<^item> Schedules (\<open>Schedule_Inv\<close>, \<open>Schedule_Retry\<close>): the invariant of every reachable schedule and its
    failure bound, fencing of superseded leases, no takeover before a lease ends, final
    states, claimability of due schedules, an end of all retries, the first
    tick after an instant.
  \<^item> Loop: \<open>Loop_Spec\<close> is an abstract core with seven kinds of step, \<open>Loop_Refine\<close> the refinement;
    exclusive write scopes, limits, quota, acyclic dependencies, revocation of claims, quality and
    claimability of suggestions, monitors, gates, compare and swap.
  \<^item> Store and services: the store accepts every domain step, selects claimable rows and
    compares and swaps. \<open>Scheduler_Tx\<close> refines every service to the four transactions of
    \<open>pair_tx\<close>; over any sequence of calls a mission waits exactly when one open schedule will wake
    it, no cycle starts twice, and reconciliation closes what has ended.
  \<^item> Money is exact or refused, the data cell of a project is fixed, work product
    histories move forwards.
  \<^item> \<open>Mission_Sample\<close>, \<open>Loop_Sample\<close> and \<open>Scheduler_Sample\<close> are runs of the model on concrete data, on
    which the properties are instantiated.

  \<^bold>\<open>Termination.\<close> Every function of the model is total; the loops of the sources are folds over
  finite collections and no fuel is used.

  \<^bold>\<open>Simplifications.\<close> JSON payloads of events, row ids and the texts of some errors are left
  out. Reading a stored row gives back what was written, since the columns are decoded by the
  inverses of their encoders; the checks the code makes on both ways are modelled. Missions stored
  only as a legacy snapshot are not modelled. Transactions are atomic and run one after
  the other, as SQLite runs them.
  In the runs of the services, the services that are not modelled are represented by arbitrary
  changes of the store that touch neither a schedule nor a mission that waits
  (\<open>Scheduler_Props\<close>, \<open>elsewhere\<close>).

  \<^bold>\<open>Not modelled.\<close> The other aggregates of the kernel (identity and consent registry, outcome
  measurement, relationships, creator workflows, context packs, credentials, deletion, market
  evidence, runtime processes): they are separate records with their own stores, and nothing above
  calls them except where their data types occur in effects. The transaction that signals a
  schedule together with a conversation, and the conversation tables it writes. The
  remaining services of the application crate, the effect broker, connectors, provider plugins,
  adapters, the plugin runtime, cloud storage and the agent bridge: their behaviour is that of
  external services and processes. The user interface. Randomness (identifiers, key
  material), encryption of the database, schema migrations and the delivery of the outbox.
\<close>

end
